(* ===== verification/Go_Prelude.thy ===== *)
theory Go_Prelude
  imports Main "HOL-Library.AList"
begin

text \<open>
  The part of Go the operator is written in, shared by every component:
  \<^item> computations that return, panic or never return (\<open>outcome\<close>, \<open>go\<close>), their sequencing
    \<open>gbind\<close> and the loop \<open>rangeE\<close> (a \<^verbatim>\<open>for ... range\<close> whose body may \<^verbatim>\<open>return err\<close>);
  \<^item> Go maps as association lists with distinct keys (\<open>gomap\<close>), Go's \<^verbatim>\<open>(value, error)\<close> results,
    and errors, of which the code distinguishes only the API server's NotFound;
  \<^item> the ghost request log that every computation threads (\<open>st\<close>): the mutating API requests sent
    so far, next to the abstract rest of the world;
  \<^item> two predicates about computations: \<open>safe\<close> (which requests are sent, which panics are possible,
    what is returned; it speaks of every environment) and \<open>wp\<close> (a weakest precondition on states,
    used where a law of the environment is assumed), with their rules in the collections
    \<open>safe_rules\<close> and \<open>wp_simps\<close>.
\<close>

section \<open>Collections\<close>

named_theorems const_defs \<open>definitions of the string constants of the program\<close>
named_theorems safe_rules \<open>introduction rules for safe\<close>
named_theorems wp_simps \<open>rewrite rules for wp\<close>

section \<open>Errors and maps\<close>

datatype err =
    ErrNotFound string \<comment> \<open>an API status error with reason NotFound\<close>
  | Errorf string \<comment> \<open>every other error, with its message\<close>

fun isNotFound :: "err \<Rightarrow> bool" where
  "isNotFound (ErrNotFound _) = True"
| "isNotFound (Errorf _) = False"

text \<open>A Go map with string keys. Reading a nil map is reading an empty one.\<close>

type_synonym 'v gomap = "(string \<times> 'v) list"

abbreviation mlookup :: "'v gomap \<Rightarrow> string \<Rightarrow> 'v option" where
  "mlookup \<equiv> map_of"

abbreviation mset_key :: "string \<Rightarrow> 'v \<Rightarrow> 'v gomap \<Rightarrow> 'v gomap" where
  "mset_key \<equiv> AList.update"

abbreviation mdelete :: "string \<Rightarrow> 'v gomap \<Rightarrow> 'v gomap" where
  "mdelete \<equiv> AList.delete"

definition keys :: "'v gomap \<Rightarrow> string list" where
  "keys m = List.map fst m"

definition wf_map :: "'v gomap \<Rightarrow> bool" where
  "wf_map m \<longleftrightarrow> distinct (keys m)"

lemma set_keys [simp]: "set (keys m) = dom (mlookup m)"
  by (simp add: keys_def dom_map_of_conv_image_fst)

lemma wf_map_Nil [simp]: "wf_map []"
  by (simp add: wf_map_def keys_def)

lemma wf_map_update [simp, intro]: "wf_map m \<Longrightarrow> wf_map (mset_key k v m)"
  by (simp add: wf_map_def keys_def distinct_update)

lemma wf_map_delete [simp, intro]: "wf_map m \<Longrightarrow> wf_map (mdelete k m)"
  by (simp add: wf_map_def keys_def distinct_delete)

lemma mlookup_update [simp]: "mlookup (mset_key k v m) = (mlookup m)(k \<mapsto> v)"
  by (simp add: update_conv')

lemma mlookup_delete [simp]: "mlookup (mdelete k m) = (mlookup m)(k := None)"
  by (simp add: delete_conv')

lemma length_wf_map: "wf_map m \<Longrightarrow> length m = card (dom (mlookup m))"
  by (metis distinct_card keys_def length_map set_keys wf_map_def)

section \<open>Computations\<close>

text \<open>
  A computation takes a state and returns, panics, or is still waiting when the bound on the rounds
  of a timer loop is reached (\<open>Hang\<close>). A panic ends the process: nothing after it runs.
\<close>

datatype panic = NilDeref | IndexOutOfRange | SliceBounds | FatalExit string

datatype 'a outcome = Ret 'a | Panic panic | Hang

type_synonym ('s, 'a) go = "'s \<Rightarrow> 'a outcome \<times> 's"

definition gret :: "'a \<Rightarrow> ('s, 'a) go" where
  "gret a s = (Ret a, s)"

definition gpanic :: "panic \<Rightarrow> ('s, 'a) go" where
  "gpanic p s = (Panic p, s)"

definition ghang :: "('s, 'a) go" where
  "ghang s = (Hang, s)"

definition gbind :: "('s, 'a) go \<Rightarrow> ('a \<Rightarrow> ('s, 'b) go) \<Rightarrow> ('s, 'b) go" where
  "gbind m f s =
     (case m s of
        (Ret a, s') \<Rightarrow> f a s'
      | (Panic p, s') \<Rightarrow> (Panic p, s')
      | (Hang, s') \<Rightarrow> (Hang, s'))"

abbreviation gseq :: "('s, unit) go \<Rightarrow> ('s, 'b) go \<Rightarrow> ('s, 'b) go" where
  "gseq m n \<equiv> gbind m (\<lambda>_. n)"

text \<open>Dereferencing a pointer: nil panics.\<close>

definition deref :: "'a option \<Rightarrow> ('a \<Rightarrow> ('s, 'b) go) \<Rightarrow> ('s, 'b) go" where
  "deref p f = (case p of None \<Rightarrow> gpanic NilDeref | Some a \<Rightarrow> f a)"

text \<open>\<^verbatim>\<open>for _, x := range xs { ...; if err != nil { return err } }; return nil\<close>\<close>

fun rangeE :: "('x \<Rightarrow> ('s, err option) go) \<Rightarrow> 'x list \<Rightarrow> ('s, err option) go" where
  "rangeE f [] = gret None"
| "rangeE f (x # xs) =
     gbind (f x) (\<lambda>e. case e of None \<Rightarrow> rangeE f xs | Some e' \<Rightarrow> gret (Some e'))"

text \<open>A loop that carries a value and never returns early.\<close>

fun rangeFold :: "('x \<Rightarrow> 'a \<Rightarrow> ('s, 'a) go) \<Rightarrow> 'x list \<Rightarrow> 'a \<Rightarrow> ('s, 'a) go" where
  "rangeFold f [] a = gret a"
| "rangeFold f (x # xs) a = gbind (f x a) (rangeFold f xs)"

lemma gbind_gret [simp]: "gbind (gret a) f = f a"
  by (rule ext) (simp add: gbind_def gret_def)

lemma gbind_right [simp]: "gbind m gret = m"
  by (rule ext) (simp add: gbind_def gret_def split: prod.split outcome.split)

lemma gbind_assoc: "gbind (gbind m f) g = gbind m (\<lambda>a. gbind (f a) g)"
  by (rule ext) (simp add: gbind_def split: prod.split outcome.split)

lemma gbind_gpanic [simp]: "gbind (gpanic p) f = gpanic p"
  by (rule ext) (simp add: gbind_def gpanic_def)

lemma gbind_Ret: "m s = (Ret a, s') \<Longrightarrow> gbind m f s = f a s'"
  by (simp add: gbind_def)

lemma deref_simps [simp]: "deref (Some a) f = f a" "deref None f = gpanic NilDeref"
  by (simp_all add: deref_def)

lemma rangeE_cong [fundef_cong]:
  "xs = ys \<Longrightarrow> (\<And>x. x \<in> set ys \<Longrightarrow> f x = g x) \<Longrightarrow> rangeE f xs = rangeE g ys"
proof (induction ys arbitrary: xs)
  case (Cons y ys)
  have "rangeE f ys = rangeE g ys" by (rule Cons.IH) (use Cons.prems in auto)
  with Cons.prems show ?case by simp
qed simp

lemma rangeE_append:
  "rangeE f (xs @ ys) =
   gbind (rangeE f xs) (\<lambda>e. case e of None \<Rightarrow> rangeE f ys | Some e' \<Rightarrow> gret (Some e'))"
  by (induction xs)
    (auto simp: gbind_assoc intro!: arg_cong [where f = "gbind _"] split: option.split)

text \<open>A loop that ends without an error has run its body without one for every element.\<close>

lemma rangeE_Ret_None:
  "rangeE f xs s = (Ret None, s') \<Longrightarrow> x \<in> set xs \<Longrightarrow> \<exists>s1 s2. f x s1 = (Ret None, s2)"
proof (induction xs arbitrary: s)
  case (Cons y ys)
  obtain r s1 where y: "f y s = (r, s1)" by fastforce
  with Cons.prems(1) have r: "r = Ret None" and rest: "rangeE f ys s1 = (Ret None, s')"
    by (auto simp: gbind_def gret_def split: outcome.splits option.splits)
  show ?case
  proof (cases "x = y")
    case True
    with y r show ?thesis by blast
  next
    case False
    with Cons.prems(2) Cons.IH [OF rest] show ?thesis by simp
  qed
qed simp

section \<open>State: the request log and the rest of the world\<close>

text \<open>
  \<open>'ev\<close> is the type of mutating API requests. The log is a ghost: no operation reads it.
\<close>

record ('ev, 'w) st =
  sent :: "'ev list"
  world :: 'w

definition glift :: "('w \<Rightarrow> 'a \<times> 'w) \<Rightarrow> (('ev, 'w) st, 'a) go" where
  "glift f s = (case f (world s) of (a, w) \<Rightarrow> (Ret a, s\<lparr>world := w\<rparr>))"

definition gsend :: "'ev \<Rightarrow> ('w \<Rightarrow> 'a \<times> 'w) \<Rightarrow> (('ev, 'w) st, 'a) go" where
  "gsend e f s = (case f (world s) of (a, w) \<Rightarrow> (Ret a, s\<lparr>sent := sent s @ [e], world := w\<rparr>))"

definition requests :: "(('ev, 'w) st, 'a) go \<Rightarrow> ('ev, 'w) st \<Rightarrow> 'ev list" where
  "requests m s = drop (length (sent s)) (sent (snd (m s)))"

section \<open>What a computation can do in any environment\<close>

text \<open>
  \<open>safe A X m Q\<close>: whatever the environment answers, \<open>m\<close> sends only requests satisfying \<open>A\<close> and
  forgets none, panics only in ways \<open>X\<close> allows, and returns only values satisfying \<open>Q\<close>.
\<close>

abbreviation noPanic :: "panic \<Rightarrow> bool" where
  "noPanic \<equiv> \<lambda>_. False"

abbreviation anyResult :: "'a \<Rightarrow> bool" where
  "anyResult \<equiv> \<lambda>_. True"

definition safe ::
  "('ev \<Rightarrow> bool) \<Rightarrow> (panic \<Rightarrow> bool) \<Rightarrow> (('ev, 'w) st, 'a) go \<Rightarrow> ('a \<Rightarrow> bool) \<Rightarrow> bool" where
  "safe A X m Q \<longleftrightarrow>
     (\<forall>s. (\<exists>l. sent (snd (m s)) = sent s @ l \<and> (\<forall>e \<in> set l. A e)) \<and>
          (case fst (m s) of Ret a \<Rightarrow> Q a | Panic p \<Rightarrow> X p | Hang \<Rightarrow> True))"

lemma safe_requests: "safe A X m Q \<Longrightarrow> e \<in> set (requests m s) \<Longrightarrow> A e"
proof -
  assume a: "safe A X m Q" and e: "e \<in> set (requests m s)"
  from a obtain l where "sent (snd (m s)) = sent s @ l" and l: "\<forall>e \<in> set l. A e"
    unfolding safe_def by blast
  then have "requests m s = l" by (simp add: requests_def)
  with e l show "A e" by simp
qed

lemma safe_outcome:
  "safe A X m Q \<Longrightarrow> case fst (m s) of Ret a \<Rightarrow> Q a | Panic p \<Rightarrow> X p | Hang \<Rightarrow> True"
  unfolding safe_def by blast

lemma safe_panic: "safe A X m Q \<Longrightarrow> m s = (Panic p, s') \<Longrightarrow> X p"
  using safe_outcome [of A X m Q s] by simp

lemma safe_no_panic: "safe A (\<lambda>_. False) m Q \<Longrightarrow> m s \<noteq> (Panic p, s')"
  using safe_panic [of A "\<lambda>_. False" m Q s p s'] by blast

lemma safe_result: "safe A X m Q \<Longrightarrow> m s = (Ret a, s') \<Longrightarrow> Q a"
  using safe_outcome [of A X m Q s] by simp

lemma safe_mono:
  assumes "safe A X m Q"
    and "\<And>e. A e \<Longrightarrow> A' e" "\<And>p. X p \<Longrightarrow> X' p" "\<And>a. Q a \<Longrightarrow> Q' a"
  shows "safe A' X' m Q'"
  unfolding safe_def
proof
  fix s
  have l: "\<exists>l. sent (snd (m s)) = sent s @ l \<and> (\<forall>e \<in> set l. A' e)"
    using assms(1) assms(2) unfolding safe_def by blast
  have r: "case fst (m s) of Ret a \<Rightarrow> Q a | Panic p \<Rightarrow> X p | Hang \<Rightarrow> True"
    using assms(1) unfolding safe_def by blast
  show "(\<exists>l. sent (snd (m s)) = sent s @ l \<and> (\<forall>e \<in> set l. A' e)) \<and>
      (case fst (m s) of Ret a \<Rightarrow> Q' a | Panic p \<Rightarrow> X' p | Hang \<Rightarrow> True)"
    using l r assms(3,4) by (auto split: outcome.splits)
qed

lemma safe_post: "safe A X m Q \<Longrightarrow> (\<And>a. Q a \<Longrightarrow> Q' a) \<Longrightarrow> safe A X m Q'"
  by (rule safe_mono)

lemma safe_gret [safe_rules]: "Q a \<Longrightarrow> safe A X (gret a) Q"
  by (simp add: safe_def gret_def)

lemma safe_gpanic [safe_rules]: "X p \<Longrightarrow> safe A X (gpanic p) Q"
  by (simp add: safe_def gpanic_def)

lemma safe_ghang [safe_rules]: "safe A X ghang Q"
  by (simp add: safe_def ghang_def)

lemma safe_glift [safe_rules]: "(\<And>a. Q a) \<Longrightarrow> safe A X (glift f) Q"
  by (simp add: safe_def glift_def split: prod.split)

lemma safe_glift_fst: "(\<And>w. Q (fst (f w))) \<Longrightarrow> safe A X (glift f) Q"
  by (simp add: safe_def glift_def split: prod.split) (metis fst_conv)

lemma safe_gsend [safe_rules]: "A e \<Longrightarrow> (\<And>a. Q a) \<Longrightarrow> safe A X (gsend e f) Q"
  by (simp add: safe_def gsend_def split: prod.split)

lemma safe_gbind [safe_rules]:
  assumes "safe A X m (\<lambda>a. safe A X (f a) Q)"
  shows "safe A X (gbind m f) Q"
  unfolding safe_def
proof
  fix s
  obtain r s' where m: "m s = (r, s')" by (cases "m s")
  obtain l where l: "sent s' = sent s @ l" "\<forall>e \<in> set l. A e"
    using assms m unfolding safe_def by (metis snd_conv)
  show "(\<exists>l. sent (snd (gbind m f s)) = sent s @ l \<and> (\<forall>e \<in> set l. A e)) \<and>
      (case fst (gbind m f s) of Ret a \<Rightarrow> Q a | Panic p \<Rightarrow> X p | Hang \<Rightarrow> True)"
  proof (cases r)
    case (Ret a)
    have "safe A X (f a) Q" using assms m Ret by (metis safe_result)
    then obtain l' where "sent (snd (f a s')) = sent s' @ l'" "\<forall>e \<in> set l'. A e"
      and "case fst (f a s') of Ret a \<Rightarrow> Q a | Panic p \<Rightarrow> X p | Hang \<Rightarrow> True"
      unfolding safe_def by blast
    with l Ret m show ?thesis
      by (auto simp: gbind_def intro!: exI [where x = "l @ l'"])
  next
    case (Panic p)
    have "X p" using assms m Panic by (metis safe_panic)
    with l Panic m show ?thesis by (auto simp: gbind_def)
  next
    case Hang
    with l m show ?thesis by (auto simp: gbind_def)
  qed
qed

lemma safe_if [safe_rules]:
  "(b \<Longrightarrow> safe A X m Q) \<Longrightarrow> (\<not> b \<Longrightarrow> safe A X n Q) \<Longrightarrow> safe A X (if b then m else n) Q"
  by simp

lemma safe_case_option [safe_rules]:
  "(x = None \<Longrightarrow> safe A X m Q) \<Longrightarrow> (\<And>a. x = Some a \<Longrightarrow> safe A X (f a) Q) \<Longrightarrow>
   safe A X (case x of None \<Rightarrow> m | Some a \<Rightarrow> f a) Q"
  by (cases x) auto

lemma safe_case_prod [safe_rules]:
  "(\<And>a b. x = (a, b) \<Longrightarrow> safe A X (f a b) Q) \<Longrightarrow> safe A X (case x of (a, b) \<Rightarrow> f a b) Q"
  by (cases x) auto

lemma safe_Let [safe_rules]: "(\<And>a. a = t \<Longrightarrow> safe A X (f a) Q) \<Longrightarrow> safe A X (Let t f) Q"
  by simp

lemma safe_deref [safe_rules]:
  "(p = None \<Longrightarrow> X NilDeref) \<Longrightarrow> (\<And>a. p = Some a \<Longrightarrow> safe A X (f a) Q) \<Longrightarrow>
   safe A X (deref p f) Q"
  by (cases p) (auto intro: safe_gpanic)

lemma safe_rangeE [safe_rules]:
  assumes "\<And>x. x \<in> set xs \<Longrightarrow> safe A X (f x) (\<lambda>e. e \<noteq> None \<longrightarrow> Q e)" and "Q None"
  shows "safe A X (rangeE f xs) Q"
  using assms
proof (induction xs)
  case (Cons x xs)
  have tail: "safe A X (rangeE f xs) Q" using Cons by simp
  have "safe A X (f x) (\<lambda>e. e \<noteq> None \<longrightarrow> Q e)" using Cons.prems by simp
  then show ?case
    by (auto intro!: safe_gbind safe_gret tail elim!: safe_post split: option.split)
qed (simp add: safe_gret)

lemma safe_rangeFold:
  assumes "\<And>x a. x \<in> set xs \<Longrightarrow> I a \<Longrightarrow> safe A X (f x a) I" and "I a"
  shows "safe A X (rangeFold f xs a) I"
  using assms
proof (induction xs arbitrary: a)
  case (Cons x xs)
  have "safe A X (f x a) I" using Cons.prems by simp
  moreover have "safe A X (rangeFold f xs b) I" if "I b" for b
    by (rule Cons.IH) (use Cons.prems that in auto)
  ultimately have "safe A X (f x a) (\<lambda>b. safe A X (rangeFold f xs b) I)"
    by (rule safe_post)
  then show ?case by (simp add: safe_gbind)
qed (simp add: safe_gret)

section \<open>Weakest preconditions\<close>

text \<open>
  \<open>wp m Q s\<close>: if \<open>m\<close> returns from \<open>s\<close>, the value and the state it returns satisfy \<open>Q\<close>.
  \<open>wpt m Q s\<close>: it does return, and they do.
\<close>

definition wp :: "('s, 'a) go \<Rightarrow> ('a \<Rightarrow> 's \<Rightarrow> bool) \<Rightarrow> 's \<Rightarrow> bool" where
  "wp m Q s = (case m s of (Ret a, s') \<Rightarrow> Q a s' | _ \<Rightarrow> True)"

definition wpt :: "('s, 'a) go \<Rightarrow> ('a \<Rightarrow> 's \<Rightarrow> bool) \<Rightarrow> 's \<Rightarrow> bool" where
  "wpt m Q s = (case m s of (Ret a, s') \<Rightarrow> Q a s' | _ \<Rightarrow> False)"

lemma wp_gret [wp_simps]: "wp (gret a) Q s = Q a s"
  by (simp add: wp_def gret_def)

lemma wp_gpanic [wp_simps]: "wp (gpanic p) Q s"
  by (simp add: wp_def gpanic_def)

lemma wp_gbind [wp_simps]: "wp (gbind m f) Q s = wp m (\<lambda>a. wp (f a) Q) s"
  by (simp add: wp_def gbind_def split: prod.split outcome.split)

lemma wp_glift [wp_simps]:
  "wp (glift f) Q s = (case f (world s) of (a, w) \<Rightarrow> Q a (s\<lparr>world := w\<rparr>))"
  by (simp add: wp_def glift_def split: prod.split)

lemma wp_gsend [wp_simps]:
  "wp (gsend e f) Q s =
   (case f (world s) of (a, w) \<Rightarrow> Q a (s\<lparr>sent := sent s @ [e], world := w\<rparr>))"
  by (simp add: wp_def gsend_def split: prod.split)

lemma wp_mono: "wp m Q s \<Longrightarrow> (\<And>a s'. Q a s' \<Longrightarrow> Q' a s') \<Longrightarrow> wp m Q' s"
  by (auto simp: wp_def split: prod.splits outcome.splits)

lemma wpD: "wp m Q s \<Longrightarrow> m s = (Ret a, s') \<Longrightarrow> Q a s'"
  by (simp add: wp_def)

lemma wpt_gret [wp_simps]: "wpt (gret a) Q s = Q a s"
  by (simp add: wpt_def gret_def)

lemma wpt_gbind [wp_simps]: "wpt (gbind m f) Q s = wpt m (\<lambda>a. wpt (f a) Q) s"
  by (simp add: wpt_def gbind_def split: prod.split outcome.split)

lemma wpt_glift [wp_simps]:
  "wpt (glift f) Q s = (case f (world s) of (a, w) \<Rightarrow> Q a (s\<lparr>world := w\<rparr>))"
  by (simp add: wpt_def glift_def split: prod.split)

lemma wpt_gsend [wp_simps]:
  "wpt (gsend e f) Q s =
   (case f (world s) of (a, w) \<Rightarrow> Q a (s\<lparr>sent := sent s @ [e], world := w\<rparr>))"
  by (simp add: wpt_def gsend_def split: prod.split)

lemma wpt_mono: "wpt m Q s \<Longrightarrow> (\<And>a s'. Q a s' \<Longrightarrow> Q' a s') \<Longrightarrow> wpt m Q' s"
  by (auto simp: wpt_def split: prod.splits outcome.splits)

lemma wptD: "wpt m Q s \<Longrightarrow> \<exists>a s'. m s = (Ret a, s') \<and> Q a s'"
  by (auto simp: wpt_def split: prod.splits outcome.splits)

lemma wpt_imp_wp: "wpt m Q s \<Longrightarrow> wp m Q s"
  by (auto simp: wpt_def wp_def split: prod.splits outcome.splits)

text \<open>
  A loop that establishes \<open>J x\<close> for each element it passes, keeps what it established and an
  invariant \<open>I\<close>, ends with everything established when it returns no error.
\<close>

lemma wpt_rangeE:
  assumes "\<And>x s ys. x \<in> set xs \<Longrightarrow> I ys s \<Longrightarrow>
             wpt (f x) (\<lambda>e s'. e = None \<and> I (ys @ [x]) s') s"
    and "I ys s"
  shows "wpt (rangeE f xs) (\<lambda>e s'. e = None \<and> I (ys @ xs) s') s"
  using assms
proof (induction xs arbitrary: ys s)
  case (Cons x xs)
  have "wpt (f x) (\<lambda>e s'. e = None \<and> I (ys @ [x]) s') s" using Cons.prems by simp
  then have "wpt (f x) (\<lambda>e. wpt
      (case e of None \<Rightarrow> rangeE f xs | Some e' \<Rightarrow> gret (Some e'))
      (\<lambda>e s'. e = None \<and> I (ys @ x # xs) s')) s"
  proof (rule wpt_mono)
    fix e :: "err option" and s' assume e: "e = None \<and> I (ys @ [x]) s'"
    have "wpt (rangeE f xs) (\<lambda>e s'. e = None \<and> I ((ys @ [x]) @ xs) s') s'"
      by (rule Cons.IH) (use Cons.prems e in auto)
    with e show "wpt (case e of None \<Rightarrow> rangeE f xs | Some e' \<Rightarrow> gret (Some e'))
      (\<lambda>e s'. e = None \<and> I (ys @ x # xs) s') s'" by simp
  qed
  then show ?case by (simp add: wpt_gbind)
qed (simp add: wpt_gret)

end
