(* ===== verification/Kube.thy ===== *)
theory Kube
  imports Go_Prelude "HOL-Library.Word"
begin

text \<open>
  What the operator uses of the Kubernetes client libraries, none of which are in the repository:
  the API object types, restricted to the fields the operator reads or writes, and the interfaces
  it calls objects through. The interfaces are records of functions over an abstract world \<open>'w\<close>,
  and are parameters of every definition that talks to a cluster: a typed client (\<open>rclient\<close>) and
  an informer's lister (\<open>lister\<close>) per kind, the \<^verbatim>\<open>kubernetes.Interface\<close> that groups the clients
  (\<open>Clientset\<close>), the connection to a managed cluster of pkg/util/utils.go and the Go runtime
  (\<open>runtime\<close>: map iteration order, timers, randomness, environment variables, \<^verbatim>\<open>diff.Diff\<close>).
  Every answer may be an error, a value, both or neither, and every call may move the world on.

  Struct embedding of \<^verbatim>\<open>metav1.ObjectMeta\<close> is record extension, so \<open>Name\<close>, \<open>Namespace\<close> and \<open>Labels\<close>
  apply to every kind. A nil byte slice is \<open>None\<close>. Requests that change a cluster go through the
  \<open>client...\<close> wrappers, which add them to the log.
\<close>

section \<open>API objects\<close>

record ObjectMeta =
  Name :: string
  Namespace :: string
  Labels :: "string gomap"
  ResourceVersion :: string
  UID :: string
  OwnerReferences :: "string list"
  Finalizers :: "string list"
  DeletionTimestamp :: "string option"

text \<open>The zero value of \<^verbatim>\<open>metav1.ObjectMeta\<close>, for composite literals.\<close>

definition noMeta :: ObjectMeta where
  "noMeta = \<lparr>Name = [], Namespace = [], Labels = [], ResourceVersion = [], UID = [],
     OwnerReferences = [], Finalizers = [], DeletionTimestamp = None\<rparr>"

type_synonym bytes = "string option"

record NamespaceObj = ObjectMeta +
  nsSpecFinalizers :: "string list"

record ServiceAccount = ObjectMeta +
  saImagePullSecrets :: "string list"

record Secret = ObjectMeta +
  secretData :: "bytes gomap"
  secretType :: string

record ConfigMap = ObjectMeta +
  cmData :: "string gomap option" \<comment> \<open>\<open>None\<close> is nil, which \<^verbatim>\<open>reflect.DeepEqual\<close> tells from empty\<close>

record PolicyRule =
  APIGroups :: "string list"
  Resources :: "string list"
  Verbs :: "string list"
  ResourceNames :: "string list"
  NonResourceURLs :: "string list"

record ClusterRole = ObjectMeta +
  Rules :: "PolicyRule list"

record Subject =
  subjectKind :: string
  subjectName :: string
  subjectNamespace :: string

record RoleRef =
  refAPIGroup :: string
  refKind :: string
  refName :: string

record ClusterRoleBinding = ObjectMeta +
  Subjects :: "Subject list"
  roleRef :: RoleRef

text \<open>The operator never looks into the specification of a Deployment it passes on.\<close>

record Deployment = ObjectMeta +
  deploymentSpec :: string

record ServicePort =
  spName :: string
  spPort :: int
  spTargetPort :: int
  spProtocol :: string

record Service = ObjectMeta +
  svcPorts :: "ServicePort list"
  svcSelector :: "string gomap"
  svcType :: string

record Volume =
  volName :: string
  volHostPath :: string

record VolumeMount =
  vmName :: string
  vmReadOnly :: bool
  vmMountPath :: string

record ContainerPort =
  cpName :: string
  cpContainerPort :: int
  cpHostPort :: int
  cpProtocol :: string

text \<open>A quantity is kept as the text that \<^verbatim>\<open>resource.MustParse\<close> is given.\<close>

record Container =
  ctName :: string
  ctImage :: string
  ctArgs :: "string list"
  ctPorts :: "ContainerPort list"
  ctLimits :: "string gomap"
  ctRequests :: "string gomap"
  ctVolumeMounts :: "VolumeMount list"
  ctImagePullPolicy :: string

record Toleration =
  tolEffect :: string
  tolOperator :: string

record PodSpec =
  psVolumes :: "Volume list"
  psContainers :: "Container list"
  psRestartPolicy :: string
  psDNSPolicy :: string
  psServiceAccountName :: string
  psHostNetwork :: bool
  psHostPID :: bool
  psNodeSelector :: "string gomap"
  psRunAsUser :: int
  psTolerations :: "Toleration list"

record DaemonSet = ObjectMeta +
  dsSelector :: "string gomap"
  dsUpdateStrategy :: string
  dsTemplateLabels :: "string gomap"
  dsTemplateAnnotations :: "string gomap"
  dsTemplateSpec :: PodSpec

record Storage =
  Size :: string
  PvcNames :: "string list"

record Grafana =
  grafanaEnabled :: bool
  grafanaStorage :: Storage
  grafanaDashboardsConfigMap :: string
  grafanaRequestMemory :: string

record Prometheus =
  prometheusEnabled :: bool
  prometheusStorage :: Storage
  prometheusRequestMemory :: string

record ElasticsearchNode =
  esReplicas :: "32 word"
  esNodeRequestMemory :: string

record Elasticsearch =
  esEnabled :: bool
  esStorage :: Storage
  esIngestNode :: ElasticsearchNode
  esMasterNode :: ElasticsearchNode
  esDataNode :: ElasticsearchNode

record Kibana =
  kibanaEnabled :: bool
  kibanaRequestMemory :: string

record VMI = ObjectMeta +
  vmiURI :: string
  vmiAutoSecret :: bool
  vmiSecretsName :: string
  vmiCascadingDelete :: bool
  vmiGrafana :: Grafana
  vmiIngressTargetDNSName :: string
  vmiPrometheus :: Prometheus
  vmiElasticsearch :: Elasticsearch
  vmiKibana :: Kibana
  vmiServiceType :: string

datatype kobj =
    KNamespace NamespaceObj
  | KServiceAccount ServiceAccount
  | KSecret Secret
  | KConfigMap ConfigMap
  | KClusterRole ClusterRole
  | KClusterRoleBinding ClusterRoleBinding
  | KDeployment Deployment
  | KService Service
  | KDaemonSet DaemonSet
  | KVMI VMI

datatype kind =
    NamespaceKind | ServiceAccountKind | SecretKind | ConfigMapKind | ClusterRoleKind
  | ClusterRoleBindingKind | DeploymentKind | ServiceKind | DaemonSetKind | VMIKind

fun kindOf :: "kobj \<Rightarrow> kind" where
  "kindOf (KNamespace _) = NamespaceKind"
| "kindOf (KServiceAccount _) = ServiceAccountKind"
| "kindOf (KSecret _) = SecretKind"
| "kindOf (KConfigMap _) = ConfigMapKind"
| "kindOf (KClusterRole _) = ClusterRoleKind"
| "kindOf (KClusterRoleBinding _) = ClusterRoleBindingKind"
| "kindOf (KDeployment _) = DeploymentKind"
| "kindOf (KService _) = ServiceKind"
| "kindOf (KDaemonSet _) = DaemonSetKind"
| "kindOf (KVMI _) = VMIKind"

section \<open>Client interfaces\<close>

type_synonym 'a result = "'a option \<times> err option" \<comment> \<open>Go's pointer and error\<close>

type_synonym selector = "string gomap" \<comment> \<open>\<^verbatim>\<open>labels.SelectorFromSet\<close> of a set\<close>

text \<open>\<^verbatim>\<open>Matches\<close> of such a selector: every label it names has the value it names.\<close>

definition matches :: "selector \<Rightarrow> string gomap \<Rightarrow> bool" where
  "matches sel ls \<longleftrightarrow> list_all (\<lambda>(k, v). mlookup ls k = Some v) sel"

text \<open>Operations take the namespace first; cluster-scoped kinds pass the empty one.\<close>

record ('o, 'w) rclient =
  rcGet :: "string \<Rightarrow> string \<Rightarrow> 'w \<Rightarrow> 'o result \<times> 'w"
  rcList :: "string \<Rightarrow> 'w \<Rightarrow> ('o list \<times> err option) \<times> 'w"
  rcCreate :: "string \<Rightarrow> 'o \<Rightarrow> 'w \<Rightarrow> 'o result \<times> 'w"
  rcUpdate :: "string \<Rightarrow> 'o \<Rightarrow> 'w \<Rightarrow> 'o result \<times> 'w"
  rcDelete :: "string \<Rightarrow> string \<Rightarrow> 'w \<Rightarrow> err option \<times> 'w"

record ('o, 'w) lister =
  lsGet :: "string \<Rightarrow> string \<Rightarrow> 'w \<Rightarrow> 'o result \<times> 'w"
  lsList :: "string \<Rightarrow> selector \<Rightarrow> 'w \<Rightarrow> ('o list \<times> err option) \<times> 'w"
  lsWrite :: "string \<Rightarrow> string \<Rightarrow> 'o \<Rightarrow> 'w \<Rightarrow> unit \<times> 'w"
    \<comment> \<open>an assignment through the pointer \<open>lsGet\<close> returned: a cache hands out its own objects\<close>

text \<open>
  \<open>clientName\<close> tells one client from another in the request log. \<open>csNodes\<close> is the call
  \<^verbatim>\<open>Nodes().List\<close>: the container runtime version of each node, or a nil list.
\<close>

record 'w Clientset =
  clientName :: string
  csNamespaces :: "(NamespaceObj, 'w) rclient"
  csServiceAccounts :: "(ServiceAccount, 'w) rclient"
  csSecrets :: "(Secret, 'w) rclient"
  csConfigMaps :: "(ConfigMap, 'w) rclient"
  csClusterRoles :: "(ClusterRole, 'w) rclient"
  csClusterRoleBindings :: "(ClusterRoleBinding, 'w) rclient"
  csDeployments :: "(Deployment, 'w) rclient"
  csServices :: "(Service, 'w) rclient"
  csDaemonSets :: "(DaemonSet, 'w) rclient"
  csVMIs :: "(VMI, 'w) rclient"
  csNodes :: "'w \<Rightarrow> string list result \<times> 'w"

record 'w runtime =
  rangeOrder :: "string list \<Rightarrow> 'w \<Rightarrow> string list \<times> 'w"
    \<comment> \<open>the order in which one \<^verbatim>\<open>range\<close> visits the keys of a map\<close>
  selectTimeout :: "nat \<Rightarrow> nat \<Rightarrow> 'w \<Rightarrow> bool \<times> 'w"
    \<comment> \<open>one \<^verbatim>\<open>select\<close> on a timeout and a ticker of these periods in seconds: is it the timeout?\<close>
  waitFuel :: nat \<comment> \<open>bound on the rounds of one wait loop\<close>
  Diff :: "kobj \<Rightarrow> kobj \<Rightarrow> string" \<comment> \<open>\<^verbatim>\<open>diff.Diff\<close> of github.com/verrazzano/pkg\<close>
  GetEnvFunc :: "string \<Rightarrow> string"
  LookupEnvFunc :: "string \<Rightarrow> string \<times> bool"
  randIntn :: "nat \<Rightarrow> 'w \<Rightarrow> nat \<times> 'w"
  NodeListSize :: "string list option \<Rightarrow> nat"
    \<comment> \<open>\<^verbatim>\<open>Size\<close> of a node list, generated code of the Kubernetes API: bytes of its encoding\<close>

section \<open>The request log\<close>

text \<open>One entry per mutating request, whether or not it succeeds: the client it is sent with,
  the namespace it is addressed to, and the object or its name.\<close>

datatype request =
    ReqCreate string string kobj
  | ReqUpdate string string kobj
  | ReqDelete string kind string string

fun reqClient :: "request \<Rightarrow> string" where
  "reqClient (ReqCreate c _ _) = c"
| "reqClient (ReqUpdate c _ _) = c"
| "reqClient (ReqDelete c _ _ _) = c"

fun reqKind :: "request \<Rightarrow> kind" where
  "reqKind (ReqCreate _ _ obj) = kindOf obj"
| "reqKind (ReqUpdate _ _ obj) = kindOf obj"
| "reqKind (ReqDelete _ k _ _) = k"

fun isDelete :: "request \<Rightarrow> bool" where
  "isDelete (ReqDelete _ _ _ _) = True"
| "isDelete _ = False"

type_synonym 'w state = "(request, 'w) st"
type_synonym ('w, 'a) prog = "('w state, 'a) go"

definition clientGet :: "('o, 'w) rclient \<Rightarrow> string \<Rightarrow> string \<Rightarrow> ('w, 'o result) prog" where
  "clientGet rc ns name = glift (rcGet rc ns name)"

definition clientList :: "('o, 'w) rclient \<Rightarrow> string \<Rightarrow> ('w, 'o list \<times> err option) prog" where
  "clientList rc ns = glift (rcList rc ns)"

definition clientCreate ::
  "string \<Rightarrow> ('o \<Rightarrow> kobj) \<Rightarrow> ('o, 'w) rclient \<Rightarrow> string \<Rightarrow> 'o \<Rightarrow> ('w, 'o result) prog" where
  "clientCreate c wrap rc ns obj = gsend (ReqCreate c ns (wrap obj)) (rcCreate rc ns obj)"

definition clientUpdate ::
  "string \<Rightarrow> ('o \<Rightarrow> kobj) \<Rightarrow> ('o, 'w) rclient \<Rightarrow> string \<Rightarrow> 'o \<Rightarrow> ('w, 'o result) prog" where
  "clientUpdate c wrap rc ns obj = gsend (ReqUpdate c ns (wrap obj)) (rcUpdate rc ns obj)"

definition clientDelete ::
  "string \<Rightarrow> kind \<Rightarrow> ('o, 'w) rclient \<Rightarrow> string \<Rightarrow> string \<Rightarrow> ('w, err option) prog" where
  "clientDelete c k rc ns name = gsend (ReqDelete c k ns name) (rcDelete rc ns name)"

definition listerGet :: "('o, 'w) lister \<Rightarrow> string \<Rightarrow> string \<Rightarrow> ('w, 'o result) prog" where
  "listerGet ls ns name = glift (lsGet ls ns name)"

definition listerList ::
  "('o, 'w) lister \<Rightarrow> string \<Rightarrow> selector \<Rightarrow> ('w, 'o list \<times> err option) prog" where
  "listerList ls ns sel = glift (lsList ls ns sel)"

lemma safe_clientGet [safe_rules]: "(\<And>a. Q a) \<Longrightarrow> safe A X (clientGet rc ns n) Q"
  unfolding clientGet_def by (rule safe_glift)

lemma safe_clientList [safe_rules]: "(\<And>a. Q a) \<Longrightarrow> safe A X (clientList rc ns) Q"
  unfolding clientList_def by (rule safe_glift)

lemma safe_clientCreate [safe_rules]:
  "A (ReqCreate c ns (wrap obj)) \<Longrightarrow> (\<And>a. Q a) \<Longrightarrow> safe A X (clientCreate c wrap rc ns obj) Q"
  unfolding clientCreate_def by (rule safe_gsend)

lemma safe_clientUpdate [safe_rules]:
  "A (ReqUpdate c ns (wrap obj)) \<Longrightarrow> (\<And>a. Q a) \<Longrightarrow> safe A X (clientUpdate c wrap rc ns obj) Q"
  unfolding clientUpdate_def by (rule safe_gsend)

lemma safe_clientDelete [safe_rules]:
  "A (ReqDelete c k ns n) \<Longrightarrow> (\<And>a. Q a) \<Longrightarrow> safe A X (clientDelete c k rc ns n) Q"
  unfolding clientDelete_def by (rule safe_gsend)

lemma safe_listerGet [safe_rules]: "(\<And>a. Q a) \<Longrightarrow> safe A X (listerGet ls ns n) Q"
  unfolding listerGet_def by (rule safe_glift)

lemma safe_listerList [safe_rules]: "(\<And>a. Q a) \<Longrightarrow> safe A X (listerList ls ns sel) Q"
  unfolding listerList_def by (rule safe_glift)

lemmas call_defs = clientGet_def clientList_def clientCreate_def clientUpdate_def clientDelete_def
  listerGet_def listerList_def

section \<open>Ranging over maps\<close>

text \<open>
  \<^verbatim>\<open>for k, v := range m\<close>: the runtime picks an order of the keys; a key that is not in the map is
  not visited. \<open>fairOrder\<close> is what the language promises of that order: each key once.
\<close>

definition rangeMap ::
  "'w runtime \<Rightarrow> 'v gomap \<Rightarrow> (string \<Rightarrow> 'v \<Rightarrow> ('w, err option) prog) \<Rightarrow> ('w, err option) prog" where
  "rangeMap R m f =
     gbind (glift (rangeOrder R (keys m)))
       (rangeE (\<lambda>k. case mlookup m k of None \<Rightarrow> gret None | Some v \<Rightarrow> f k v))"

definition fairOrder :: "'w runtime \<Rightarrow> bool" where
  "fairOrder R \<longleftrightarrow> (\<forall>ks w. set (fst (rangeOrder R ks w)) = set ks \<and>
     (distinct ks \<longrightarrow> distinct (fst (rangeOrder R ks w))))"

lemma safe_rangeMap [safe_rules]:
  assumes "\<And>k v. mlookup m k = Some v \<Longrightarrow> safe A X (f k v) (\<lambda>e. e \<noteq> None \<longrightarrow> Q e)" and "Q None"
  shows "safe A X (rangeMap R m f) Q"
  unfolding rangeMap_def using assms
  by (auto intro!: safe_gbind safe_glift safe_rangeE safe_gret split: option.split)

section \<open>Loops the operator's reconcilers share\<close>

text \<open>
  \<^verbatim>\<open>
  existing, err := lister.Get(name)
  if existing != nil {
      if diff.Diff(existing, new) != "" { _, err = client.Update(new) }
  } else {
      _, err = client.Create(new)
  }
  \<close>
  The value is \<^verbatim>\<open>err\<close> after it.
\<close>

definition createOrUpdate ::
  "'w runtime \<Rightarrow> string \<Rightarrow> ('o \<Rightarrow> kobj) \<Rightarrow> ('o, 'w) lister \<Rightarrow> ('o, 'w) rclient \<Rightarrow>
   string \<Rightarrow> string \<Rightarrow> 'o \<Rightarrow> ('w, err option) prog" where
  "createOrUpdate R c wrap ls rc ns name new =
     gbind (listerGet ls ns name) (\<lambda>(existing, err).
       case existing of
         Some old \<Rightarrow>
           if Diff R (wrap old) (wrap new) \<noteq> [] then
             gbind (clientUpdate c wrap rc ns new) (\<lambda>(_, err). gret err)
           else gret err
       | None \<Rightarrow> gbind (clientCreate c wrap rc ns new) (\<lambda>(_, err). gret err))"

text \<open>
  \<^verbatim>\<open>
  list, err := lister.List(selector)
  if err != nil { return err }
  for _, obj := range list {
      if pick(obj) { err := client.Delete(obj.Namespace, obj.Name); if err != nil { return err } }
  }
  \<close>
  \<open>nsOf\<close> is \<open>Namespace\<close> for a namespaced kind and \<open>clusterScoped\<close> for the others.
\<close>

definition clusterScoped :: "'a \<Rightarrow> string" where
  "clusterScoped _ = []"

definition deleteListed ::
  "string \<Rightarrow> kind \<Rightarrow> ('a ObjectMeta_scheme, 'w) lister \<Rightarrow> ('a ObjectMeta_scheme, 'w) rclient \<Rightarrow>
   string \<Rightarrow> selector \<Rightarrow> ('a ObjectMeta_scheme \<Rightarrow> string) \<Rightarrow> ('a ObjectMeta_scheme \<Rightarrow> bool) \<Rightarrow>
   ('w, err option) prog" where
  "deleteListed c k ls rc ns sel nsOf pick =
     gbind (listerList ls ns sel) (\<lambda>(existing, err).
       case err of
         Some e \<Rightarrow> gret (Some e)
       | None \<Rightarrow>
           rangeE (\<lambda>obj. if pick obj then clientDelete c k rc (nsOf obj) (Name obj)
                        else gret None) existing)"

lemma safe_createOrUpdate [safe_rules]:
  assumes "A (ReqCreate c ns (wrap new))" "A (ReqUpdate c ns (wrap new))" "\<And>e. Q e"
  shows "safe A X (createOrUpdate R c wrap ls rc ns name new) Q"
  unfolding createOrUpdate_def using assms by (intro safe_rules) auto

text \<open>An object the lister lists at some time, in the namespace and for the selector.\<close>

definition listed :: "('o, 'w) lister \<Rightarrow> string \<Rightarrow> selector \<Rightarrow> 'o \<Rightarrow> bool" where
  "listed ls ns sel x \<longleftrightarrow> (\<exists>w. x \<in> set (fst (fst (lsList ls ns sel w))))"

lemma safe_listerList_listed:
  "(\<And>xs e. (\<And>x. x \<in> set xs \<Longrightarrow> listed ls ns sel x) \<Longrightarrow> Q (xs, e)) \<Longrightarrow> safe A X (listerList ls ns sel) Q"
  unfolding listerList_def by (rule safe_glift_fst) (metis listed_def prod.collapse)

lemma safe_deleteListed [safe_rules]:
  assumes "\<And>obj. listed ls ns sel obj \<Longrightarrow> pick obj \<Longrightarrow> A (ReqDelete c k (nsOf obj) (Name obj))" "\<And>e. Q e"
  shows "safe A X (deleteListed c k ls rc ns sel nsOf pick) Q"
  unfolding deleteListed_def
  by (intro safe_gbind safe_listerList_listed safe_case_prod)
    (use assms in \<open>auto intro!: safe_gret safe_rangeE safe_if safe_clientDelete split: option.split\<close>)

end
