(* ===== verification/Types.thy ===== *)
theory Types
  imports Kube
begin

text \<open>
  The data model: pkg/constants/constants.go (the string constants and dashboard lists) and
  pkg/types/types.go (the synthetic model, the binding and its placements, the managed cluster and
  the pair of model and binding the controller works on), and the connection to a managed cluster,
  \<^verbatim>\<open>ManagedClusterConnection\<close> of pkg/util/utils.go. Pointers that are never nil in the code are
  the values they point to; the locks are not modelled (the root theory says why).
\<close>

section \<open>Constants\<close>

definition VerrazzanoGroup :: string where
  [const_defs]: "VerrazzanoGroup = ''verrazzano.io''"

definition ResyncPeriod :: nat where \<comment> \<open>seconds\<close>
  "ResyncPeriod = 15"

definition DefaultNamespace :: string where
  [const_defs]: "DefaultNamespace = ''default''"

definition ServiceAppLabel :: string where
  [const_defs]: "ServiceAppLabel = ''app''"

definition K8SAppLabel :: string where
  [const_defs]: "K8SAppLabel = ''k8s-app''"

definition VerrazzanoBinding :: string where
  [const_defs]: "VerrazzanoBinding = ''verrazzano.binding''"

definition VerrazzanoCluster :: string where
  [const_defs]: "VerrazzanoCluster = ''verrazzano.cluster''"

definition VerrazzanoPrefix :: string where
  [const_defs]: "VerrazzanoPrefix = ''verrazzano''"

definition VerrazzanoSystem :: string where
  [const_defs]: "VerrazzanoSystem = ''verrazzano-system''"

definition VerrazzanoSystemAdmin :: string where
  [const_defs]: "VerrazzanoSystemAdmin = VerrazzanoSystem @ ''-admin''"

definition VerrazzanoNamespace :: string where
  [const_defs]: "VerrazzanoNamespace = VerrazzanoSystem"

definition VerrazzanoOperatorServiceAccount :: string where
  [const_defs]: "VerrazzanoOperatorServiceAccount = ''verrazzano-operator''"

definition IstioInjection :: string where
  [const_defs]: "IstioInjection = ''istio-injection''"

definition Enabled :: string where
  [const_defs]: "Enabled = ''enabled''"

definition ManifestFile :: string where
  [const_defs]: "ManifestFile = ''manifest.json''"

definition DefaultDashboards :: "string list" where
  "DefaultDashboards =
     [''dashboards/vmi_dashboard_provider.yml'',
      ''dashboards/weblogic/weblogic_dashboard.json'',
      ''dashboards/coherence/elastic-data-summary-dashboard.json'',
      ''dashboards/coherence/persistence-summary-dashboard.json'',
      ''dashboards/coherence/cache-details-dashboard.json'',
      ''dashboards/coherence/members-summary-dashboard.json'',
      ''dashboards/coherence/kubernetes-summary-dashboard.json'',
      ''dashboards/coherence/coherence-dashboard-main.json'',
      ''dashboards/coherence/caches-summary-dashboard.json'',
      ''dashboards/coherence/service-details-dashboard.json'',
      ''dashboards/coherence/proxy-servers-summary-dashboard.json'',
      ''dashboards/coherence/federation-details-dashboard.json'',
      ''dashboards/coherence/federation-summary-dashboard.json'',
      ''dashboards/coherence/services-summary-dashboard.json'',
      ''dashboards/coherence/http-servers-summary-dashboard.json'',
      ''dashboards/coherence/proxy-server-detail-dashboard.json'',
      ''dashboards/coherence/alerts-dashboard.json'',
      ''dashboards/coherence/member-details-dashboard.json'',
      ''dashboards/coherence/machines-summary-dashboard.json'',
      ''dashboards/helidon/helidon_dashboard.json'']"

definition SystemDashboards :: "string list" where
  "SystemDashboards =
     [''dashboards/vmi_dashboard_provider.yml'',
      ''dashboards/system/system_dashboard.json'']"

definition VmiSystemBindingName :: string where
  [const_defs]: "VmiSystemBindingName = ''system''"

definition VmiUsername :: string where
  [const_defs]: "VmiUsername = ''verrazzano''"

definition VmiSecretName :: string where
  [const_defs]: "VmiSecretName = ''verrazzano''"

definition AcmeDNSSecret :: string where
  [const_defs]: "AcmeDNSSecret = ''verrazzano-cert-manager-acme-dns''"

definition AcmeDNSSecretKey :: string where
  [const_defs]: "AcmeDNSSecretKey = ''acmedns.json''"

definition NodeExporterName :: string where
  [const_defs]: "NodeExporterName = ''node-exporter''"

definition MonitoringNamespace :: string where
  [const_defs]: "MonitoringNamespace = ''monitoring''"

definition ProductionProfile :: string where
  [const_defs]: "ProductionProfile = ''prod''"

definition DevelopmentProfile :: string where
  [const_defs]: "DevelopmentProfile = ''dev''"

section \<open>Models, bindings and managed clusters\<close>

record MatchRequest =
  matchURI :: "string gomap"
  matchPort :: int

record IngressDestination =
  destHost :: string
  destPort :: "32 word"
  destMatch :: "MatchRequest list"
  destDomainName :: string

record Ingress =
  ingressName :: string
  ingressDestination :: "IngressDestination list"

record RemoteRestConnection =
  rrName :: string
  rrRemoteNamespace :: string
  rrRemoteClusterName :: string
  rrLocalNamespace :: string
  rrPort :: "32 word"

record ManagedCluster =
  mcName :: string
  mcNamespaces :: "string list"
  mcSecrets :: "(string list) gomap"
  mcIngresses :: "(Ingress list) gomap"
  mcDeployments :: "Deployment list"
  mcServices :: "Service list"
  mcConfigMaps :: "ConfigMap list"
  mcRemoteRests :: "(RemoteRestConnection list) gomap"

record KubernetesNamespace =
  knName :: string

record ClusterPlacement =
  placementName :: string
  placementNamespaces :: "KubernetesNamespace list"

record ResourceLocationSpec =
  specDescription :: string
  specModelName :: string
  specPlacement :: "ClusterPlacement list"

record SyntheticBinding = ObjectMeta +
  bindingSpec :: ResourceLocationSpec

text \<open>The struct \<^verbatim>\<open>SyntheticModel\<close> has no field but its \<^verbatim>\<open>ObjectMeta\<close>.\<close>

type_synonym SyntheticModel = ObjectMeta

record SyntheticModelBinding =
  SynBinding :: SyntheticBinding
  SynModel :: SyntheticModel
  ManagedClusters :: "ManagedCluster gomap"
  mbVerrazzanoURI :: string
  mbImagePullSecrets :: "string list"

section \<open>Connections\<close>

text \<open>
  The informers are read only for \<^verbatim>\<open>HasSynced\<close>: \<open>hasSynced\<close> is the conjunction the controller waits
  for, and moves the world on until the caches are filled or the stop channel is closed.
\<close>

record 'w ManagedClusterConnection =
  KubeClient :: "'w Clientset"
  DeploymentLister :: "(Deployment, 'w) lister"
  ServiceAccountLister :: "(ServiceAccount, 'w) lister"
  NamespaceLister :: "(NamespaceObj, 'w) lister"
  SecretLister :: "(Secret, 'w) lister"
  ClusterRoleLister :: "(ClusterRole, 'w) lister"
  ClusterRoleBindingLister :: "(ClusterRoleBinding, 'w) lister"
  ConfigMapLister :: "(ConfigMap, 'w) lister"
  DaemonSetLister :: "(DaemonSet, 'w) lister"
  ServiceLister :: "(Service, 'w) lister"
  hasSynced :: "'w \<Rightarrow> bool \<times> 'w"

type_synonym 'w connections = "'w ManagedClusterConnection gomap"

abbreviation connName :: "'w ManagedClusterConnection \<Rightarrow> string" where
  "connName c \<equiv> clientName (KubeClient c)"

section \<open>Well-formed pairs\<close>

text \<open>
  What every pair the code builds satisfies: the map of clusters is a map, and each cluster is
  stored under its own name. A set of connections covers a map of clusters when it has one for
  each of them; the reconcilers dereference those connections without a check.
\<close>

definition wf_pair :: "SyntheticModelBinding \<Rightarrow> bool" where
  "wf_pair mb \<longleftrightarrow> wf_map (ManagedClusters mb) \<and>
     (\<forall>k mc. mlookup (ManagedClusters mb) k = Some mc \<longrightarrow> mcName mc = k)"

definition covers :: "'w connections \<Rightarrow> ManagedCluster gomap \<Rightarrow> bool" where
  "covers conns mcs \<longleftrightarrow> dom (mlookup mcs) \<subseteq> dom (mlookup conns)"

lemma wf_pair_name: "wf_pair mb \<Longrightarrow> mlookup (ManagedClusters mb) k = Some mc \<Longrightarrow> mcName mc = k"
  by (simp add: wf_pair_def)

lemma coversD:
  "covers conns mcs \<Longrightarrow> mlookup mcs k = Some mc \<Longrightarrow> \<exists>c. mlookup conns k = Some c"
  unfolding covers_def by (auto dest!: subsetD)

text \<open>
  The loop most reconcilers start with. \<^verbatim>\<open>Lock.RLock()\<close> dereferences the connection, so a cluster
  without one panics.
  \<^verbatim>\<open>
  for clusterName, mc := range vzSynMB.ManagedClusters {
      managedClusterConnection := connections[clusterName]
      managedClusterConnection.Lock.RLock()
      ...
  \<close>
\<close>

definition rangeClusters ::
  "'w runtime \<Rightarrow> ManagedCluster gomap \<Rightarrow> 'w connections \<Rightarrow>
   (string \<Rightarrow> ManagedCluster \<Rightarrow> 'w ManagedClusterConnection \<Rightarrow> ('w, err option) prog) \<Rightarrow>
   ('w, err option) prog" where
  "rangeClusters R mcs conns body =
     rangeMap R mcs (\<lambda>clusterName mc.
       deref (mlookup conns clusterName) (body clusterName mc))"

lemma safe_rangeClusters [safe_rules]:
  assumes "covers conns mcs"
    and "\<And>k mc c. mlookup mcs k = Some mc \<Longrightarrow> mlookup conns k = Some c \<Longrightarrow>
           safe A X (body k mc c) (\<lambda>e. e \<noteq> None \<longrightarrow> Q e)"
    and "Q None"
  shows "safe A X (rangeClusters R mcs conns body) Q"
  unfolding rangeClusters_def
proof (intro safe_rangeMap safe_deref)
  fix k mc assume "mlookup mcs k = Some mc" "mlookup conns k = None"
  with coversD [OF assms(1)] show "X NilDeref" by fastforce
qed (use assms in auto)

text \<open>Such a loop cannot end well: it stops at an error first or panics.\<close>

lemma rangeClusters_missing:
  assumes "fairOrder R" "mlookup mcs k = Some mc" "mlookup conns k = None"
  shows "rangeClusters R mcs conns body s \<noteq> (Ret None, s')"
proof
  let ?f = "\<lambda>k. case mlookup mcs k of None \<Rightarrow> gret None | Some v \<Rightarrow> deref (mlookup conns k) (body k v)"
  assume "rangeClusters R mcs conns body s = (Ret None, s')"
  then obtain ks w where o: "rangeOrder R (keys mcs) (world s) = (ks, w)"
    and r: "rangeE ?f ks (s\<lparr>world := w\<rparr>) = (Ret None, s')"
    by (auto simp: rangeClusters_def rangeMap_def gbind_def glift_def split: prod.splits)
  have "set ks = set (keys mcs)" using assms(1) o unfolding fairOrder_def by (metis fst_conv)
  with assms(2) have "k \<in> set ks" by (auto simp: dom_def)
  from rangeE_Ret_None [OF r this] assms(2,3) show False by (simp add: gpanic_def)
qed

section \<open>What reconcilers may send\<close>

text \<open>
  A create or update of an object, and a deletion of a name, that \<open>ok\<close> allows for the cluster it is
  sent to.
\<close>

definition writes ::
  "'w connections \<Rightarrow> (string \<Rightarrow> string \<Rightarrow> kobj \<Rightarrow> bool) \<Rightarrow> request \<Rightarrow> bool" where
  "writes conns ok e \<longleftrightarrow> (\<exists>k c ns obj. mlookup conns k = Some c \<and> ok k ns obj \<and>
     (e = ReqCreate (connName c) ns obj \<or> e = ReqUpdate (connName c) ns obj))"

definition deletes ::
  "kind \<Rightarrow> 'w connections \<Rightarrow> (string \<Rightarrow> string \<Rightarrow> bool) \<Rightarrow> request \<Rightarrow> bool" where
  "deletes K conns ok e \<longleftrightarrow> (\<exists>k c ns n. mlookup conns k = Some c \<and> ok k n \<and>
     e = ReqDelete (connName c) K ns n)"

lemma writes_create [intro]:
  "mlookup conns k = Some c \<Longrightarrow> ok k ns obj \<Longrightarrow> writes conns ok (ReqCreate (connName c) ns obj)"
  unfolding writes_def by blast

lemma writes_update [intro]:
  "mlookup conns k = Some c \<Longrightarrow> ok k ns obj \<Longrightarrow> writes conns ok (ReqUpdate (connName c) ns obj)"
  unfolding writes_def by blast

lemma deletes_intro [intro]:
  "mlookup conns k = Some c \<Longrightarrow> ok k n \<Longrightarrow>
   deletes K conns ok (ReqDelete (connName c) K ns n)"
  unfolding deletes_def by blast

lemma writes_mono:
  "writes conns ok e \<Longrightarrow> (\<And>k ns obj. ok k ns obj \<Longrightarrow> ok' k ns obj) \<Longrightarrow> writes conns ok' e"
  unfolding writes_def by blast

lemma deletes_mono:
  "deletes K conns ok e \<Longrightarrow> (\<And>k n. ok k n \<Longrightarrow> ok' k n) \<Longrightarrow> deletes K conns ok' e"
  unfolding deletes_def by blast

text \<open>The loop of every \<^verbatim>\<open>Create...\<close> over the objects wanted on one cluster.\<close>

lemma safe_createAll [safe_rules]:
  assumes "mlookup conns k = Some c" "\<And>x. x \<in> set xs \<Longrightarrow> ok k (nsOf x) (wrap x)" "\<And>e. Q e"
  shows "safe (writes conns ok) X
    (rangeE (\<lambda>x. createOrUpdate R (connName c) wrap ls rc (nsOf x) (name x) x) xs) Q"
  using assms by (intro safe_rangeE safe_createOrUpdate) auto

text \<open>The loop of every \<^verbatim>\<open>Delete...\<close> and \<^verbatim>\<open>CleanupOrphaned...\<close> over some connections.\<close>

lemma safe_deleteAll:
  assumes "\<And>k c. mlookup cs k = Some c \<Longrightarrow> mlookup conns k = Some c"
    and "\<And>k c obj. mlookup cs k = Some c \<Longrightarrow> pick k obj \<Longrightarrow> ok k (Name obj)" and "\<And>e. Q e"
  shows "safe (deletes K conns ok) X
    (rangeMap R cs (\<lambda>k c. deleteListed (connName c) K (ls c) (rc c) ns (sel k) nsOf (pick k))) Q"
  using assms by (intro safe_rangeMap safe_deleteListed) blast+

end
