(* ===== verification/Util.thy ===== *)
theory Util
  imports Types
begin

text \<open>
  pkg/util/utils.go and pkg/util/env.go: label sets and names derived from a binding, the split of
  the available managed clusters into those a pair refers to and the others, and the settings read
  from environment variables, with the parts of Go's \<^verbatim>\<open>strconv\<close> they use. The lemmas characterise
  the split for every iteration order, removal of duplicates, and the parsing of replica counts.
\<close>

section \<open>Labels and names\<close>

definition GetManagedBindingLabels :: "SyntheticBinding \<Rightarrow> string \<Rightarrow> string gomap" where
  "GetManagedBindingLabels binding managedClusterName =
     [(K8SAppLabel, VerrazzanoGroup), (VerrazzanoBinding, Name binding),
      (VerrazzanoCluster, managedClusterName), (IstioInjection, Enabled)]"

definition GetManagedLabelsNoBinding :: "string \<Rightarrow> string gomap" where
  "GetManagedLabelsNoBinding managedClusterName =
     [(K8SAppLabel, VerrazzanoGroup), (VerrazzanoCluster, managedClusterName)]"

definition GetManagedNamespaceForBinding :: "SyntheticBinding \<Rightarrow> string" where
  "GetManagedNamespaceForBinding binding = VerrazzanoPrefix @ ''-'' @ Name binding"

definition GetLocalBindingLabels :: "SyntheticBinding \<Rightarrow> string gomap" where
  "GetLocalBindingLabels binding =
     [(K8SAppLabel, VerrazzanoGroup), (VerrazzanoBinding, Name binding)]"

definition GetManagedClusterNamespaceForSystem :: string where
  [const_defs]: "GetManagedClusterNamespaceForSystem = VerrazzanoSystem"

definition GetVmiNameForBinding :: "string \<Rightarrow> string" where
  "GetVmiNameForBinding bindingName = bindingName"

definition GetVmiURI :: "string \<Rightarrow> string \<Rightarrow> string" where
  "GetVmiURI bindingName verrazzanoURI = ''vmi.'' @ bindingName @ ''.'' @ verrazzanoURI"

definition GetServiceAccountNameForSystem :: string where
  [const_defs]: "GetServiceAccountNameForSystem = VerrazzanoSystem"

fun Contains :: "string list \<Rightarrow> string \<Rightarrow> bool" where
  "Contains [] e = False"
| "Contains (a # s) e = (if a = e then True else Contains s e)"

definition IsSystemProfileBindingName :: "string \<Rightarrow> bool" where
  "IsSystemProfileBindingName bindingName \<longleftrightarrow> VmiSystemBindingName = bindingName"

lemma Contains_iff [simp]: "Contains s e \<longleftrightarrow> e \<in> set s"
  by (induction s) auto

section \<open>The managed clusters of a pair\<close>

text \<open>
  The loop of \<^verbatim>\<open>GetManagedClustersForVerrazzanoBinding\<close> over the keys in the order visited. On an
  error the map returned is nil, read as an empty one.
\<close>

fun matchClusters ::
  "SyntheticModelBinding \<Rightarrow> 'w connections \<Rightarrow> string list \<Rightarrow> 'w connections \<Rightarrow>
   'w connections \<times> err option" where
  "matchClusters mb avail [] filtered = (filtered, None)"
| "matchClusters mb avail (k # ks) filtered =
     (case mlookup (ManagedClusters mb) k of
        None \<Rightarrow> matchClusters mb avail ks filtered
      | Some mc \<Rightarrow>
          (case mlookup avail (mcName mc) of
             None \<Rightarrow> ([], Some (Errorf (''Failed, managed cluster '' @ mcName mc @
                       '' referenced in binding '' @ Name (SynBinding mb) @ '' not found'')))
           | Some c \<Rightarrow> matchClusters mb avail ks (mset_key (mcName mc) c filtered)))"

definition GetManagedClustersForVerrazzanoBinding ::
  "'w runtime \<Rightarrow> SyntheticModelBinding \<Rightarrow> 'w connections \<Rightarrow>
   ('w, 'w connections \<times> err option) prog" where
  "GetManagedClustersForVerrazzanoBinding R mb avail =
     gbind (glift (rangeOrder R (keys (ManagedClusters mb))))
       (\<lambda>ks. gret (matchClusters mb avail ks []))"

definition hasClusterNamed :: "SyntheticModelBinding \<Rightarrow> string \<Rightarrow> string list \<Rightarrow> bool" where
  "hasClusterNamed mb clusterName ks \<longleftrightarrow>
     list_ex (\<lambda>k. case mlookup (ManagedClusters mb) k of
                    None \<Rightarrow> False | Some mc \<Rightarrow> clusterName = mcName mc) ks"

definition GetManagedClustersNotForVerrazzanoBinding ::
  "'w runtime \<Rightarrow> SyntheticModelBinding \<Rightarrow> 'w connections \<Rightarrow> ('w, 'w connections) prog" where
  "GetManagedClustersNotForVerrazzanoBinding R mb avail =
     gbind (glift (rangeOrder R (keys avail)))
       (\<lambda>cs. rangeFold (\<lambda>clusterName filtered.
          gbind (glift (rangeOrder R (keys (ManagedClusters mb))))
            (\<lambda>ks. if hasClusterNamed mb clusterName ks then gret filtered
                  else case mlookup avail clusterName of
                         None \<Rightarrow> gret filtered
                       | Some c \<Rightarrow> gret (mset_key clusterName c filtered))) cs [])"

definition placedOn :: "string \<Rightarrow> SyntheticModelBinding \<Rightarrow> bool" where
  "placedOn clusterName mb \<longleftrightarrow>
     list_ex (\<lambda>p. placementName p = clusterName) (specPlacement (bindingSpec (SynBinding mb)))"

definition IsClusterInBinding ::
  "'w runtime \<Rightarrow> string \<Rightarrow> SyntheticModelBinding gomap \<Rightarrow> ('w, bool) prog" where
  "IsClusterInBinding R clusterName allvzSynMBs =
     gbind (glift (rangeOrder R (keys allvzSynMBs)))
       (\<lambda>ks. gret (list_ex (\<lambda>k. case mlookup allvzSynMBs k of
                                 None \<Rightarrow> False | Some mb \<Rightarrow> placedOn clusterName mb) ks))"

subsection \<open>What they return\<close>

definition clusterNames :: "SyntheticModelBinding \<Rightarrow> string set" where
  "clusterNames mb = mcName ` ran (mlookup (ManagedClusters mb))"

lemma clusterNames_iff:
  "n \<in> clusterNames mb \<longleftrightarrow> (\<exists>k mc. mlookup (ManagedClusters mb) k = Some mc \<and> mcName mc = n)"
  unfolding clusterNames_def ran_def by blast

lemma clusterNames_wf: "wf_pair mb \<Longrightarrow> clusterNames mb = dom (mlookup (ManagedClusters mb))"
  unfolding wf_pair_def by (auto simp: clusterNames_iff) (metis option.inject)

lemma matchClusters_spec:
  "matchClusters mb avail ks acc = (res, err) \<Longrightarrow>
   (case err of
      None \<Rightarrow> (\<forall>k \<in> set ks. \<forall>mc. mlookup (ManagedClusters mb) k = Some mc \<longrightarrow>
                  mlookup avail (mcName mc) \<noteq> None) \<and>
              mlookup res = (\<lambda>n. if \<exists>k \<in> set ks. \<exists>mc. mlookup (ManagedClusters mb) k = Some mc \<and>
                  mcName mc = n then mlookup avail n else mlookup acc n)
    | Some _ \<Rightarrow> res = [] \<and> (\<exists>k \<in> set ks. \<exists>mc. mlookup (ManagedClusters mb) k = Some mc \<and>
                  mlookup avail (mcName mc) = None))"
proof (induction ks arbitrary: acc)
  case (Cons k ks)
  show ?case
  proof (cases "mlookup (ManagedClusters mb) k")
    case None
    with Cons show ?thesis by (auto split: option.splits)
  next
    case (Some mc)
    show ?thesis
    proof (cases "mlookup avail (mcName mc)")
      case None
      with Some Cons.prems show ?thesis by auto
    next
      case (Some c)
      with \<open>mlookup (ManagedClusters mb) k = Some mc\<close> Cons.prems
      have "matchClusters mb avail ks (mset_key (mcName mc) c acc) = (res, err)" by simp
      from Cons.IH [OF this] Some \<open>mlookup (ManagedClusters mb) k = Some mc\<close>
      show ?thesis by (cases err) (auto simp: fun_eq_iff)
    qed
  qed
qed auto

text \<open>The result in terms of the pair alone, whatever the order of the iteration.\<close>

definition forSpec ::
  "SyntheticModelBinding \<Rightarrow> 'w connections \<Rightarrow> 'w connections \<times> err option \<Rightarrow> bool" where
  "forSpec mb avail res \<longleftrightarrow>
     (case res of
        (filtered, None) \<Rightarrow> clusterNames mb \<subseteq> dom (mlookup avail) \<and>
          mlookup filtered = mlookup avail |` clusterNames mb
      | (filtered, Some _) \<Rightarrow> \<not> clusterNames mb \<subseteq> dom (mlookup avail) \<and> filtered = [])"

lemma matchClusters_forSpec:
  assumes "set ks = set (keys (ManagedClusters mb))"
  shows "forSpec mb avail (matchClusters mb avail ks [])"
proof -
  obtain res err where r: "matchClusters mb avail ks [] = (res, err)" by fastforce
  have names: "n \<in> clusterNames mb \<longleftrightarrow>
      (\<exists>k \<in> set ks. \<exists>mc. mlookup (ManagedClusters mb) k = Some mc \<and> mcName mc = n)" for n
    using assms by (auto simp: clusterNames_iff)
  show ?thesis
  proof (cases err)
    case None
    with matchClusters_spec [OF r] show ?thesis
      by (auto simp: forSpec_def r names fun_eq_iff restrict_map_def)
  next
    case (Some e)
    with matchClusters_spec [OF r] show ?thesis
      by (auto simp: forSpec_def r names subset_iff)
  qed
qed

lemma safe_rangeOrder:
  assumes "fairOrder R" and "\<And>ks'. set ks' = set ks \<Longrightarrow> Q ks'"
  shows "safe A X (glift (rangeOrder R ks)) Q"
  using assms unfolding safe_def fairOrder_def glift_def
  by (auto split: prod.split) (metis fst_conv)

lemma safe_For [safe_rules]:
  assumes "fairOrder R" and "\<And>r. forSpec mb avail r \<Longrightarrow> Q r"
  shows "safe A X (GetManagedClustersForVerrazzanoBinding R mb avail) Q"
  unfolding GetManagedClustersForVerrazzanoBinding_def
  by (intro safe_gbind safe_rangeOrder safe_gret assms matchClusters_forSpec)

lemma hasClusterNamed_iff:
  "set ks = set (keys (ManagedClusters mb)) \<Longrightarrow> hasClusterNamed mb c ks \<longleftrightarrow> c \<in> clusterNames mb"
  by (auto simp: hasClusterNamed_def list_ex_iff clusterNames_iff split: option.splits)

text \<open>The fold rule with the visited prefix in the invariant.\<close>

lemma safe_rangeFold_upto:
  assumes "\<And>x ys a. x \<in> set xs \<Longrightarrow> I ys a \<Longrightarrow> safe A X (f x a) (I (ys @ [x]))"
    and "I ys a" and "\<And>a. I (ys @ xs) a \<Longrightarrow> Q a"
  shows "safe A X (rangeFold f xs a) Q"
  using assms
proof (induction xs arbitrary: ys a)
  case (Cons x xs)
  have "safe A X (f x a) (I (ys @ [x]))" using Cons.prems by simp
  moreover have "safe A X (rangeFold f xs b) Q" if "I (ys @ [x]) b" for b
    by (rule Cons.IH [where ys = "ys @ [x]"]) (use Cons.prems that in auto)
  ultimately have "safe A X (f x a) (\<lambda>b. safe A X (rangeFold f xs b) Q)" by (rule safe_post)
  then show ?case by (simp add: safe_gbind)
qed (simp add: safe_gret)

lemma safe_NotFor [safe_rules]:
  assumes fair: "fairOrder R"
    and Q: "\<And>r. mlookup r = mlookup avail |` (- clusterNames mb) \<Longrightarrow> Q r"
  shows "safe A X (GetManagedClustersNotForVerrazzanoBinding R mb avail) Q"
  unfolding GetManagedClustersNotForVerrazzanoBinding_def
proof (intro safe_gbind safe_rangeOrder [OF fair])
  fix cs assume cs: "set cs = set (keys avail)"
  let ?I = "\<lambda>ys r. mlookup r = mlookup avail |` (set ys - clusterNames mb)"
  show "safe A X (rangeFold (\<lambda>clusterName filtered.
          gbind (glift (rangeOrder R (keys (ManagedClusters mb))))
            (\<lambda>ks. if hasClusterNamed mb clusterName ks then gret filtered
                  else case mlookup avail clusterName of
                         None \<Rightarrow> gret filtered
                       | Some c \<Rightarrow> gret (mset_key clusterName c filtered))) cs []) Q"
  proof (rule safe_rangeFold_upto [where I = ?I and ys = "[]"])
    fix x ys r assume "?I ys r"
    then show "safe A X (gbind (glift (rangeOrder R (keys (ManagedClusters mb))))
            (\<lambda>ks. if hasClusterNamed mb x ks then gret r
                  else case mlookup avail x of
                         None \<Rightarrow> gret r | Some c \<Rightarrow> gret (mset_key x c r))) (?I (ys @ [x]))"
      by (intro safe_gbind safe_rangeOrder [OF fair])
        (auto intro!: safe_gret simp: hasClusterNamed_iff restrict_map_def fun_eq_iff
           split: option.splits)
  next
    fix r assume "?I ([] @ cs) r"
    then have "mlookup r = mlookup avail |` (- clusterNames mb)"
      using cs by (auto simp: restrict_map_def fun_eq_iff)
    then show "Q r" by (rule Q)
  qed (simp add: restrict_map_def fun_eq_iff)
qed

lemma safe_IsClusterInBinding [safe_rules]:
  assumes "fairOrder R"
    and "\<And>b. b \<longleftrightarrow> (\<exists>mb \<in> ran (mlookup all). placedOn c mb) \<Longrightarrow> Q b"
  shows "safe A X (IsClusterInBinding R c all) Q"
  unfolding IsClusterInBinding_def
proof (intro safe_gbind safe_rangeOrder [OF assms(1)] safe_gret assms(2))
  fix ks' assume "set ks' = set (keys all)"
  then show "list_ex (\<lambda>k. case mlookup all k of None \<Rightarrow> False | Some mb \<Rightarrow> placedOn c mb) ks' \<longleftrightarrow>
      (\<exists>mb \<in> ran (mlookup all). placedOn c mb)"
    by (auto simp: list_ex_iff ran_def split: option.splits)
qed

lemma forSpec_Some:
  "forSpec mb avail (filtered, None) \<Longrightarrow> mlookup filtered k = Some c \<Longrightarrow>
   mlookup avail k = Some c \<and> k \<in> clusterNames mb"
  by (auto simp: forSpec_def restrict_map_def split: if_splits)

text \<open>
  A cleanup of a well-formed pair panics nowhere: \<^verbatim>\<open>GetManagedClustersForVerrazzanoBinding\<close> returned a
  connection for each of its clusters.
\<close>

lemma forSpec_covers:
  "forSpec mb avail (filtered, None) \<Longrightarrow> wf_pair mb \<Longrightarrow> covers filtered (ManagedClusters mb)"
  by (auto simp: forSpec_def covers_def clusterNames_wf restrict_map_def dom_def)

lemma forSpec_ok:
  assumes "forSpec mb avail r" "wf_pair mb" "covers avail (ManagedClusters mb)"
  shows "\<exists>filtered. r = (filtered, None) \<and> covers filtered (ManagedClusters mb) \<and>
    (\<forall>k c. mlookup filtered k = Some c \<longrightarrow> mlookup avail k = Some c)"
proof -
  obtain filtered e where r: "r = (filtered, e)" by fastforce
  have "e = None"
    using assms by (auto simp: r forSpec_def covers_def clusterNames_wf split: option.splits)
  with r assms(1) have f: "forSpec mb avail (filtered, None)" by simp
  from forSpec_covers [OF f assms(2)] forSpec_Some [OF f] r \<open>e = None\<close> show ?thesis by blast
qed

lemma safe_cleanupMatched:
  assumes fs: "forSpec mb avail (filtered, None)" and wf: "wf_pair mb"
    and ok: "\<And>k mc n. mlookup (ManagedClusters mb) k = Some mc \<Longrightarrow> n \<notin> names mc \<Longrightarrow> ok k n"
    and Q: "\<And>e. Q e"
  shows "safe (deletes K avail ok) X
    (rangeClusters R (ManagedClusters mb) filtered (\<lambda>k mc c.
       deleteListed (connName c) K (ls c) (rc c) ns (sel k) nsOf (\<lambda>x. Name x \<notin> names mc))) Q"
proof (intro safe_rangeClusters [OF forSpec_covers [OF fs wf]] safe_deleteListed)
  fix k mc c and obj :: "'b ObjectMeta_scheme"
  assume "mlookup (ManagedClusters mb) k = Some mc" "mlookup filtered k = Some c"
    "Name obj \<notin> names mc"
  then show "deletes K avail ok (ReqDelete (connName c) K (nsOf obj) (Name obj))"
    using forSpec_Some [OF fs] by (intro deletes_intro ok) auto
qed (use Q in auto)

section \<open>Removing duplicates\<close>

fun dedupLoop :: "bool gomap \<Rightarrow> string list \<Rightarrow> string list \<Rightarrow> string list" where
  "dedupLoop seen out [] = out"
| "dedupLoop seen out (entry # es) =
     (if mlookup seen entry = None then dedupLoop (mset_key entry True seen) (out @ [entry]) es
      else dedupLoop seen out es)"

definition RemoveDuplicateValues :: "string list \<Rightarrow> string list" where
  "RemoveDuplicateValues stringSlice = dedupLoop [] [] stringSlice"

lemma remdups_drop_middle: "x \<in> set ys \<Longrightarrow> remdups (xs @ x # ys) = remdups (xs @ ys)"
  by (induction xs) auto

lemma dedupLoop_eq:
  "dom (mlookup seen) = set out \<Longrightarrow> distinct out \<Longrightarrow>
   dedupLoop seen out xs = rev (remdups (rev (out @ xs)))"
proof (induction xs arbitrary: seen out)
  case Nil
  then show ?case by (simp add: distinct_remdups_id)
next
  case (Cons x xs)
  show ?case
  proof (cases "x \<in> set out")
    case True
    with Cons.prems obtain b where "mlookup seen x = Some b" by (auto simp: dom_def)
    with Cons True show ?thesis by (simp add: remdups_drop_middle)
  next
    case False
    with Cons.prems have new: "mlookup seen x = None" by (auto simp: dom_def)
    have "dom (mlookup (mset_key x True seen)) = set (out @ [x])"
      using Cons.prems by (auto simp: dom_def)
    from Cons.IH [OF this] Cons.prems False new show ?thesis by simp
  qed
qed

section \<open>Environment variables\<close>

text \<open>\<^verbatim>\<open>strconv.ParseBool\<close>; \<open>None\<close> is a syntax error.\<close>

definition parseBool :: "string \<Rightarrow> bool option" where
  "parseBool s =
     (if s \<in> {''1'', ''t'', ''T'', ''true'', ''TRUE'', ''True''} then Some True
      else if s \<in> {''0'', ''f'', ''F'', ''false'', ''FALSE'', ''False''} then Some False
      else None)"

text \<open>\<^verbatim>\<open>strconv.ParseInt(s, 10, 32)\<close>; \<open>None\<close> is a syntax or range error.\<close>

fun decimalValue :: "nat \<Rightarrow> string \<Rightarrow> nat option" where
  "decimalValue acc [] = Some acc"
| "decimalValue acc (c # cs) =
     (let d = (of_char c :: nat)
      in if 48 \<le> d \<and> d \<le> 57 then decimalValue (10 * acc + (d - 48)) cs else None)"

definition splitSign :: "string \<Rightarrow> bool \<times> string" where
  "splitSign s =
     (case s of
        [] \<Rightarrow> (False, [])
      | c # cs \<Rightarrow> if c = CHR ''-'' then (True, cs)
                  else if c = CHR ''+'' then (False, cs) else (False, s))"

definition parseInt32 :: "string \<Rightarrow> int option" where
  "parseInt32 s =
     (case splitSign s of
        (neg, ds) \<Rightarrow>
          if ds = [] then None
          else case decimalValue 0 ds of
                 None \<Rightarrow> None
               | Some u \<Rightarrow>
                   if \<not> neg \<and> u \<ge> 2 ^ 31 then None
                   else if neg \<and> u > 2 ^ 31 then None
                   else Some (if neg then - int u else int u))"

definition getEnvReplicaCount :: "'w runtime \<Rightarrow> string \<Rightarrow> 32 word \<Rightarrow> 32 word" where
  "getEnvReplicaCount R envVarName defaultValue =
     (let v = GetEnvFunc R envVarName
      in if length v \<noteq> 0 then
           (case parseInt32 v of None \<Rightarrow> defaultValue | Some count \<Rightarrow> word_of_int count)
         else defaultValue)"

definition getBoolean :: "'w runtime \<Rightarrow> string \<Rightarrow> bool" where
  "getBoolean R varName =
     (case LookupEnvFunc R varName of
        (svalue, ok) \<Rightarrow>
          if ok then (case parseBool svalue of None \<Rightarrow> True | Some b \<Rightarrow> b) else True)"

text \<open>The variables, and the defaults of the replica counts.\<close>

named_theorems env_vars

definition nodeExporterImage :: string where
  [env_vars]: "nodeExporterImage = ''NODE_EXPORTER_IMAGE''"

definition esMasterNodeRequestMemory :: string where
  [env_vars]: "esMasterNodeRequestMemory = ''ES_MASTER_NODE_REQUEST_MEMORY''"

definition esIngestNodeRequestMemory :: string where
  [env_vars]: "esIngestNodeRequestMemory = ''ES_INGEST_NODE_REQUEST_MEMORY''"

definition esDataNodeRequestMemory :: string where
  [env_vars]: "esDataNodeRequestMemory = ''ES_DATA_NODE_REQUEST_MEMORY''"

definition grafanaEnabledVar :: string where
  [env_vars]: "grafanaEnabledVar = ''GRAFANA_ENABLED''"

definition grafanaRequestMemoryVar :: string where
  [env_vars]: "grafanaRequestMemoryVar = ''GRAFANA_REQUEST_MEMORY''"

definition grafanaDataStorageSize :: string where
  [env_vars]: "grafanaDataStorageSize = ''GRAFANA_DATA_STORAGE''"

definition promEnabled :: string where
  [env_vars]: "promEnabled = ''PROMETHEUS_ENABLED''"

definition prometheusRequestMemoryVar :: string where
  [env_vars]: "prometheusRequestMemoryVar = ''PROMETHEUS_REQUEST_MEMORY''"

definition prometheusDataStorageSize :: string where
  [env_vars]: "prometheusDataStorageSize = ''PROMETHEUS_DATA_STORAGE''"

definition kibanaEnabledVar :: string where
  [env_vars]: "kibanaEnabledVar = ''KIBANA_ENABLED''"

definition kibanaRequestMemoryVar :: string where
  [env_vars]: "kibanaRequestMemoryVar = ''KIBANA_REQUEST_MEMORY''"

definition esDataNodeReplicas :: string where
  [env_vars]: "esDataNodeReplicas = ''ES_DATA_NODE_REPLICAS''"

definition esIngestNodeReplicas :: string where
  [env_vars]: "esIngestNodeReplicas = ''ES_INGEST_NODE_REPLICAS''"

definition esIngestNodeReplicasDefault :: "32 word" where
  [env_vars]: "esIngestNodeReplicasDefault = 1"

definition esMasterNodeReplicas :: string where
  [env_vars]: "esMasterNodeReplicas = ''ES_MASTER_NODE_REPLICAS''"

definition esEnabledVar :: string where
  [env_vars]: "esEnabledVar = ''ES_ENABLED''"

definition esMasterNodeReplicasDefault :: "32 word" where
  [env_vars]: "esMasterNodeReplicasDefault = 3"

definition esDataStorageSize :: string where
  [env_vars]: "esDataStorageSize = ''ES_DATA_STORAGE''"

definition esDataNodeReplicasDefault :: "32 word" where
  [env_vars]: "esDataNodeReplicasDefault = 2"

definition accessControlAllowOrigin :: string where
  [env_vars]: "accessControlAllowOrigin = ''ACCESS_CONTROL_ALLOW_ORIGIN''"

definition sharedVMIDefault :: string where
  [env_vars]: "sharedVMIDefault = ''USE_SYSTEM_VMI''"

definition SharedVMIDefault :: "'w runtime \<Rightarrow> bool" where
  "SharedVMIDefault R =
     (case LookupEnvFunc R sharedVMIDefault of
        (envValue, present) \<Rightarrow>
          if present then (case parseBool envValue of None \<Rightarrow> False | Some v \<Rightarrow> v) else False)"

definition GetProfileBindingName :: "'w runtime \<Rightarrow> string \<Rightarrow> string" where
  "GetProfileBindingName R bindingName =
     (if SharedVMIDefault R then VmiSystemBindingName else bindingName)"

definition GetPrometheusEnabled :: "'w runtime \<Rightarrow> bool" where
  "GetPrometheusEnabled R = getBoolean R promEnabled"

definition GetNodeExporterImage :: "'w runtime \<Rightarrow> string" where
  "GetNodeExporterImage R = GetEnvFunc R nodeExporterImage"

definition GetTestWlsFrontendImage :: string where
  "GetTestWlsFrontendImage = ''container-registry.oracle.com/verrazzano/wl-frontend:324813''"

definition GetElasticsearchEnabled :: "'w runtime \<Rightarrow> bool" where
  "GetElasticsearchEnabled R = getBoolean R esEnabledVar"

definition GetElasticsearchMasterNodeRequestMemory :: "'w runtime \<Rightarrow> string" where
  "GetElasticsearchMasterNodeRequestMemory R = GetEnvFunc R esMasterNodeRequestMemory"

definition GetElasticsearchIngestNodeRequestMemory :: "'w runtime \<Rightarrow> string" where
  "GetElasticsearchIngestNodeRequestMemory R = GetEnvFunc R esIngestNodeRequestMemory"

definition GetElasticsearchDataNodeRequestMemory :: "'w runtime \<Rightarrow> string" where
  "GetElasticsearchDataNodeRequestMemory R = GetEnvFunc R esDataNodeRequestMemory"

definition GetElasticsearchDataStorageSize :: "'w runtime \<Rightarrow> string" where
  "GetElasticsearchDataStorageSize R = GetEnvFunc R esDataStorageSize"

definition GetGrafanaEnabled :: "'w runtime \<Rightarrow> bool" where
  "GetGrafanaEnabled R = getBoolean R grafanaEnabledVar"

definition GetGrafanaRequestMemory :: "'w runtime \<Rightarrow> string" where
  "GetGrafanaRequestMemory R = GetEnvFunc R grafanaRequestMemoryVar"

definition GetGrafanaDataStorageSize :: "'w runtime \<Rightarrow> string" where
  "GetGrafanaDataStorageSize R = GetEnvFunc R grafanaDataStorageSize"

definition GetPrometheusRequestMemory :: "'w runtime \<Rightarrow> string" where
  "GetPrometheusRequestMemory R = GetEnvFunc R prometheusRequestMemoryVar"

definition GetPrometheusDataStorageSize :: "'w runtime \<Rightarrow> string" where
  "GetPrometheusDataStorageSize R = GetEnvFunc R prometheusDataStorageSize"

definition GetKibanaRequestMemory :: "'w runtime \<Rightarrow> string" where
  "GetKibanaRequestMemory R = GetEnvFunc R kibanaRequestMemoryVar"

definition GetKibanaEnabled :: "'w runtime \<Rightarrow> bool" where
  "GetKibanaEnabled R = getBoolean R kibanaEnabledVar"

definition GetElasticsearchMasterNodeReplicas :: "'w runtime \<Rightarrow> 32 word" where
  "GetElasticsearchMasterNodeReplicas R = getEnvReplicaCount R esMasterNodeReplicas esMasterNodeReplicasDefault"

definition GetElasticsearchDataNodeReplicas :: "'w runtime \<Rightarrow> 32 word" where
  "GetElasticsearchDataNodeReplicas R = getEnvReplicaCount R esDataNodeReplicas esDataNodeReplicasDefault"

definition GetElasticsearchIngestNodeReplicas :: "'w runtime \<Rightarrow> 32 word" where
  "GetElasticsearchIngestNodeReplicas R = getEnvReplicaCount R esIngestNodeReplicas esIngestNodeReplicasDefault"

definition GetAccessControlAllowOrigin :: "'w runtime \<Rightarrow> string" where
  "GetAccessControlAllowOrigin R = GetEnvFunc R accessControlAllowOrigin"

end
