(* ===== verification/Environment.thy ===== *)
theory Environment
  imports Util
begin

text \<open>
  A concrete environment at which the development's theorems are instantiated: maps are visited in
  the order of their keys, every wait times out at once, \<^verbatim>\<open>diff.Diff\<close> tells any two objects apart, and
  an API server that accepts every request and holds the objects a client is made with.
\<close>

definition plainRuntime :: "'w runtime" where
  "plainRuntime =
     \<lparr>rangeOrder = (\<lambda>ks w. (ks, w)), selectTimeout = (\<lambda>_ _ w. (True, w)), waitFuel = 1,
      Diff = (\<lambda>_ _. ''differs''), GetEnvFunc = (\<lambda>_. []), LookupEnvFunc = (\<lambda>_. ([], False)),
      randIntn = (\<lambda>_ w. (0, w)),
      NodeListSize = (\<lambda>ns. case ns of None \<Rightarrow> 0 | Some l \<Rightarrow> length l)\<rparr>"

definition plainClient :: "('o, 'w) rclient" where
  "plainClient =
     \<lparr>rcGet = (\<lambda>_ n w. ((None, Some (ErrNotFound n)), w)), rcList = (\<lambda>_ w. (([], None), w)),
      rcCreate = (\<lambda>_ x w. ((Some x, None), w)), rcUpdate = (\<lambda>_ x w. ((Some x, None), w)),
      rcDelete = (\<lambda>_ _ w. (None, w))\<rparr>"

definition plainLister :: "'a ObjectMeta_scheme list \<Rightarrow> ('a ObjectMeta_scheme, 'w) lister" where
  "plainLister objs =
     \<lparr>lsGet = (\<lambda>ns n w.
        (case find (\<lambda>x. Namespace x = ns \<and> Name x = n) objs of
           Some x \<Rightarrow> (Some x, None) | None \<Rightarrow> (None, Some (ErrNotFound n)), w)),
      lsList = (\<lambda>ns sel w.
        ((filter (\<lambda>x. (ns = [] \<or> Namespace x = ns) \<and> matches sel (Labels x)) objs, None), w)),
      lsWrite = (\<lambda>_ _ _ w. ((), w))\<rparr>"

definition plainClientset :: "string \<Rightarrow> 'w Clientset" where
  "plainClientset name =
     \<lparr>clientName = name, csNamespaces = plainClient, csServiceAccounts = plainClient,
      csSecrets = plainClient, csConfigMaps = plainClient, csClusterRoles = plainClient,
      csClusterRoleBindings = plainClient, csDeployments = plainClient, csServices = plainClient,
      csDaemonSets = plainClient, csVMIs = plainClient, csNodes = (\<lambda>w. ((None, None), w))\<rparr>"

definition plainConnection :: "string \<Rightarrow> 'w ManagedClusterConnection" where
  "plainConnection name =
     \<lparr>KubeClient = plainClientset name, DeploymentLister = plainLister [],
      ServiceAccountLister = plainLister [], NamespaceLister = plainLister [],
      SecretLister = plainLister [], ClusterRoleLister = plainLister [],
      ClusterRoleBindingLister = plainLister [], ConfigMapLister = plainLister [],
      DaemonSetLister = plainLister [], ServiceLister = plainLister [],
      hasSynced = (\<lambda>w. (True, w))\<rparr>"

definition plainConnections :: "'w connections" where
  "plainConnections = [(''local'', plainConnection ''local''), (''other'', plainConnection ''other'')]"

definition plainBinding :: SyntheticBinding where
  "plainBinding = ObjectMeta.extend (noMeta\<lparr>Name := ''b''\<rparr>)
     (SyntheticBinding.fields
        \<lparr>specDescription = [], specModelName = ''m'',
         specPlacement = [\<lparr>placementName = ''local'', placementNamespaces = []\<rparr>]\<rparr>)"

definition plainCluster :: ManagedCluster where
  "plainCluster =
     \<lparr>mcName = ''local'', mcNamespaces = [VerrazzanoSystem, ''app''], mcSecrets = [], mcIngresses = [],
      mcDeployments = [], mcServices = [], mcConfigMaps = [], mcRemoteRests = []\<rparr>"

definition plainPair :: SyntheticModelBinding where
  "plainPair = \<lparr>SynBinding = plainBinding, SynModel = noMeta, ManagedClusters = [(''local'', plainCluster)],
     mbVerrazzanoURI = ''uri'', mbImagePullSecrets = []\<rparr>"

lemma keys_simps [simp]: "keys [] = []" "keys ((k, v) # m) = k # keys m"
  by (simp_all add: keys_def)

lemma plain_fair [simp]: "fairOrder plainRuntime"
  by (simp add: fairOrder_def plainRuntime_def)

lemma plain_wf [simp]: "wf_pair plainPair"
  by (simp add: wf_pair_def plainPair_def plainCluster_def wf_map_def keys_def)

lemma plain_covers [simp]: "covers plainConnections (ManagedClusters plainPair)"
  by (auto simp: covers_def plainPair_def plainConnections_def)

lemma plain_names [simp]: "clusterNames plainPair = {''local''}"
  by (auto simp: clusterNames_def plainPair_def plainCluster_def)

lemma plain_keys [simp]: "keys (ManagedClusters plainPair) = [''local'']"
  by (simp add: keys_def plainPair_def)

lemma plain_connections [simp]:
  "mlookup plainConnections ''local'' = Some (plainConnection ''local'')"
  "mlookup plainConnections ''other'' = Some (plainConnection ''other'')"
  by (simp_all add: plainConnections_def)

lemma plain_clusters [simp]: "mlookup (ManagedClusters plainPair) ''local'' = Some plainCluster"
  by (simp add: plainPair_def)

lemma plain_binding [simp]: "SynBinding plainPair = plainBinding" "Name plainBinding = ''b''"
  by (simp_all add: plainPair_def plainBinding_def ObjectMeta.defs SyntheticBinding.defs noMeta_def)

text \<open>What a run at a concrete state has sent.\<close>

lemma safe_list_all: "safe A X m Q \<Longrightarrow> (\<And>e. A e \<Longrightarrow> P e) \<Longrightarrow> list_all P (requests m s)"
  using safe_requests [of A X m Q _ s] by (auto simp: list_all_iff)

section \<open>Namespaces\<close>

text \<open>A namespace with the labels of the binding, and one of the platform.\<close>

definition plainNamespace :: "string \<Rightarrow> NamespaceObj" where
  "plainNamespace n = ObjectMeta.extend
     (noMeta\<lparr>Name := n, Labels := GetManagedBindingLabels plainBinding ''local''\<rparr>) (NamespaceObj.fields [])"

lemma plainNamespace_simps [simp]:
  "Name (plainNamespace n) = n" "Namespace (plainNamespace n) = []"
  "Labels (plainNamespace n) = GetManagedBindingLabels plainBinding ''local''"
  by (simp_all add: plainNamespace_def ObjectMeta.defs NamespaceObj.defs noMeta_def)

definition namespacesConnection :: "'w ManagedClusterConnection" where
  "namespacesConnection = (plainConnection ''local'')
     \<lparr>NamespaceLister := plainLister [plainNamespace VerrazzanoSystem, plainNamespace ''old'']\<rparr>"

end
