(* ===== verification/Location.thy ===== *)
theory Location
  imports Util
begin

text \<open>
  pkg/controller/verrazzano_location.go: the pair of a model and a binding, with one managed cluster
  per placement of the binding. The pair's write lock is taken by the builder on a lock it has just
  made and by \<^verbatim>\<open>UpdateSyntheticModelBinding\<close> around one assignment; neither can block in the
  single goroutine that handles events, and the locks are not modelled.
\<close>

definition getPlacements :: "SyntheticBinding \<Rightarrow> ClusterPlacement list" where
  "getPlacements binding = specPlacement (bindingSpec binding)"

fun findNamespace :: "string list \<Rightarrow> string \<Rightarrow> bool" where
  "findNamespace [] namespace = False"
| "findNamespace (ns # Ns) namespace = (if ns = namespace then True else findNamespace Ns namespace)"

definition appendNamespace :: "string list \<Rightarrow> string \<Rightarrow> string list" where
  "appendNamespace Namespaces namespace =
     (let nsFound = findNamespace Namespaces namespace
      in if \<not> nsFound then Namespaces @ [namespace] else Namespaces)"

text \<open>The composite literal \<^verbatim>\<open>&types.ManagedCluster{Name: name, ...}\<close> with empty maps.\<close>

definition newManagedCluster :: "string \<Rightarrow> ManagedCluster" where
  "newManagedCluster name =
     \<lparr>mcName = name, mcNamespaces = [], mcSecrets = [], mcIngresses = [], mcDeployments = [],
      mcServices = [], mcConfigMaps = [], mcRemoteRests = []\<rparr>"

text \<open>One round of the loop over the placements; the cluster is updated through its pointer.\<close>

definition addPlacement :: "ManagedCluster gomap \<Rightarrow> ClusterPlacement \<Rightarrow> ManagedCluster gomap" where
  "addPlacement mcs placement =
     (let mc = (case mlookup mcs (placementName placement) of
                  Some mc \<Rightarrow> mc
                | None \<Rightarrow> newManagedCluster (placementName placement));
          managedNamespace = GetManagedClusterNamespaceForSystem
      in mset_key (placementName placement)
           (mc\<lparr>mcNamespaces := appendNamespace (mcNamespaces mc) managedNamespace\<rparr>) mcs)"

definition buildSyntheticModelBinding :: "SyntheticModelBinding \<Rightarrow> SyntheticModelBinding" where
  "buildSyntheticModelBinding vzSynMB =
     vzSynMB\<lparr>ManagedClusters :=
       foldl addPlacement (ManagedClusters vzSynMB) (getPlacements (SynBinding vzSynMB))\<rparr>"

definition CreateSyntheticModelBinding ::
  "SyntheticModel \<Rightarrow> SyntheticBinding \<Rightarrow> string \<Rightarrow> string list \<Rightarrow> SyntheticModelBinding" where
  "CreateSyntheticModelBinding model binding VerrazzanoURI imagePullSecrets =
     buildSyntheticModelBinding
       \<lparr>SynBinding = binding, SynModel = model, ManagedClusters = [],
        mbVerrazzanoURI = VerrazzanoURI, mbImagePullSecrets = imagePullSecrets\<rparr>"

text \<open>The new contents of \<^verbatim>\<open>*vzSynMB\<close>: all of the old ones are overwritten.\<close>

definition UpdateSyntheticModelBinding ::
  "SyntheticModelBinding \<Rightarrow> SyntheticModel \<Rightarrow> SyntheticBinding \<Rightarrow> string \<Rightarrow> string list \<Rightarrow>
   SyntheticModelBinding" where
  "UpdateSyntheticModelBinding vzSynMB model binding VerrazzanoURI imagePullSecrets =
     CreateSyntheticModelBinding model binding VerrazzanoURI imagePullSecrets"

section \<open>The clusters of a pair\<close>

lemma findNamespace_iff [simp]: "findNamespace Ns n \<longleftrightarrow> n \<in> set Ns"
  by (induction Ns) auto

lemma appendNamespace_set: "set (appendNamespace Ns n) = insert n (set Ns)"
  by (auto simp: appendNamespace_def Let_def)

lemma appendNamespace_distinct: "distinct Ns \<Longrightarrow> distinct (appendNamespace Ns n)"
  by (simp add: appendNamespace_def Let_def)

lemma appendNamespace_idem: "appendNamespace (appendNamespace Ns n) n = appendNamespace Ns n"
  by (simp add: appendNamespace_def Let_def)

text \<open>The cluster every placement ends up with.\<close>

definition placedCluster :: "string \<Rightarrow> ManagedCluster" where
  "placedCluster name = (newManagedCluster name)\<lparr>mcNamespaces := [VerrazzanoSystem]\<rparr>"

lemma addPlacement_wf: "wf_map mcs \<Longrightarrow> wf_map (addPlacement mcs p)"
  by (simp add: addPlacement_def Let_def)

lemma foldl_addPlacement_wf: "wf_map mcs \<Longrightarrow> wf_map (foldl addPlacement mcs ps)"
  by (induction ps arbitrary: mcs) (auto simp: addPlacement_wf)

lemma addPlacement_lookup:
  assumes "mlookup mcs = (\<lambda>k. if k \<in> K then Some (placedCluster k) else None)"
  shows "mlookup (addPlacement mcs p) =
    (\<lambda>k. if k \<in> insert (placementName p) K then Some (placedCluster k) else None)"
  using assms
  by (auto simp: addPlacement_def Let_def placedCluster_def newManagedCluster_def
      appendNamespace_def const_defs fun_eq_iff)

lemma foldl_addPlacement_lookup:
  "mlookup mcs = (\<lambda>k. if k \<in> K then Some (placedCluster k) else None) \<Longrightarrow>
   mlookup (foldl addPlacement mcs ps) =
     (\<lambda>k. if k \<in> K \<union> placementName ` set ps then Some (placedCluster k) else None)"
proof (induction ps arbitrary: mcs K)
  case (Cons p ps)
  from Cons.IH [OF addPlacement_lookup [OF Cons.prems]] show ?case by (simp add: Un_commute)
qed simp

lemma CreatePair_simps [simp]:
  "SynBinding (CreateSyntheticModelBinding m b u s) = b"
  "SynModel (CreateSyntheticModelBinding m b u s) = m"
  "mbVerrazzanoURI (CreateSyntheticModelBinding m b u s) = u"
  "mbImagePullSecrets (CreateSyntheticModelBinding m b u s) = s"
  by (simp_all add: CreateSyntheticModelBinding_def buildSyntheticModelBinding_def)

lemma CreatePair_clusters:
  "mlookup (ManagedClusters (CreateSyntheticModelBinding m b u s)) =
     (\<lambda>k. if k \<in> placementName ` set (getPlacements b) then Some (placedCluster k) else None)"
  using foldl_addPlacement_lookup [where mcs = "[]" and K = "{}" and ps = "getPlacements b"]
  by (simp add: CreateSyntheticModelBinding_def buildSyntheticModelBinding_def)

lemma CreatePair_wf: "wf_pair (CreateSyntheticModelBinding m b u s)"
  unfolding wf_pair_def CreatePair_clusters
  by (auto simp: CreateSyntheticModelBinding_def buildSyntheticModelBinding_def
      placedCluster_def newManagedCluster_def intro: foldl_addPlacement_wf)

end
