(* ===== verification/Props_Clusters.thy ===== *)
theory Props_Clusters
  imports Environment Location
begin

text \<open>
  Properties of the data model: the split of the connections by a pair, the pair itself, removal of
  duplicates and the settings read from the environment.
\<close>

section \<open>The split of the connections\<close>

text \<open>C6: \<^verbatim>\<open>GetManagedClustersForVerrazzanoBinding\<close>, for every order in which Go may visit the map, sends
  nothing and does not panic; it returns the connections of exactly the pair's clusters when each of
  them has one, and otherwise an error and no connection.\<close>

theorem clusters_for_binding:
  assumes "fairOrder R"
  shows "safe (\<lambda>_. False) (\<lambda>_. False) (GetManagedClustersForVerrazzanoBinding R mb avail)
    (forSpec mb avail)"
  by (rule safe_For [OF assms])

text \<open>The connections \<^verbatim>\<open>GetManagedClustersNotForVerrazzanoBinding\<close> returns are the other ones: with
  those of \<^verbatim>\<open>GetManagedClustersForVerrazzanoBinding\<close> they make up all the available ones, and no
  cluster is among both.\<close>

theorem clusters_partition:
  assumes "fairOrder R"
    and "GetManagedClustersForVerrazzanoBinding R mb avail s = (Ret (matched, None), s1)"
    and "GetManagedClustersNotForVerrazzanoBinding R mb avail s' = (Ret unmatched, s1')"
  shows "dom (mlookup matched) \<inter> dom (mlookup unmatched) = {} \<and>
    mlookup matched ++ mlookup unmatched = mlookup avail"
proof -
  have "forSpec mb avail (matched, None)"
    by (rule safe_result [OF safe_For [OF assms(1), of mb avail "forSpec mb avail"] assms(2)])
  then have m: "mlookup matched = mlookup avail |` clusterNames mb" by (simp add: forSpec_def)
  have u: "mlookup unmatched = mlookup avail |` (- clusterNames mb)"
    by (rule safe_result [OF safe_NotFor [OF assms(1),
            of avail mb "\<lambda>r. mlookup r = mlookup avail |` (- clusterNames mb)"] assms(3)])
  show ?thesis
    unfolding m u
    by (auto simp: restrict_map_def map_add_def fun_eq_iff split: option.split if_splits)
qed

text \<open>At the concrete pair, whose cluster is one of two that are available.\<close>

lemma clusters_for_binding_witness:
  "forSpec plainPair plainConnections
     ([(''local'', plainConnection ''local'' :: unit ManagedClusterConnection)], None)"
proof -
  have "GetManagedClustersForVerrazzanoBinding plainRuntime plainPair plainConnections s =
      (Ret ([(''local'', plainConnection ''local'' :: unit ManagedClusterConnection)], None), s)" for s
    by (simp add: GetManagedClustersForVerrazzanoBinding_def plainRuntime_def gbind_def glift_def
        gret_def plainCluster_def)
  from safe_result [OF clusters_for_binding [OF plain_fair] this] show ?thesis .
qed

lemma clusters_partition_witness:
  "mlookup [(''local'', plainConnection ''local'' :: unit ManagedClusterConnection)] ++
     mlookup [(''other'', plainConnection ''other'')] = mlookup plainConnections"
proof -
  have m: "GetManagedClustersForVerrazzanoBinding plainRuntime plainPair plainConnections s =
      (Ret ([(''local'', plainConnection ''local'' :: unit ManagedClusterConnection)], None), s)" for s
    by (simp add: GetManagedClustersForVerrazzanoBinding_def plainRuntime_def gbind_def glift_def
        gret_def plainCluster_def)
  have u: "GetManagedClustersNotForVerrazzanoBinding plainRuntime plainPair plainConnections s =
      (Ret [(''other'', plainConnection ''other'' :: unit ManagedClusterConnection)], s)" for s
    by (simp add: GetManagedClustersNotForVerrazzanoBinding_def plainRuntime_def gbind_def glift_def
        gret_def plainCluster_def hasClusterNamed_def plainConnections_def keys_def plainPair_def)
  from clusters_partition [OF plain_fair m u] show ?thesis by simp
qed

section \<open>The pair\<close>

text \<open>C35: a new pair has one managed cluster per placement of the binding, stored under the
  placement's name and bearing it, whose only namespace is the system namespace however often the
  placement is repeated.\<close>

theorem pair_of_placements:
  "wf_pair (CreateSyntheticModelBinding model binding uri secs) \<and>
   dom (mlookup (ManagedClusters (CreateSyntheticModelBinding model binding uri secs))) =
     placementName ` set (getPlacements binding) \<and>
   list_all (\<lambda>p. map_option mcNamespaces (mlookup (ManagedClusters
       (CreateSyntheticModelBinding model binding uri secs)) (placementName p)) =
     Some [VerrazzanoSystem]) (getPlacements binding)"
  by (auto simp: CreatePair_wf CreatePair_clusters placedCluster_def list_all_iff dom_def)

section \<open>Removing duplicates\<close>

text \<open>\<^verbatim>\<open>RemoveDuplicateValues\<close> keeps the first occurrence of every value, in order: appending a value
  to the input appends it to the output exactly if it is new.\<close>

theorem remove_duplicates:
  "RemoveDuplicateValues [] = [] \<and>
   RemoveDuplicateValues (xs @ [x]) =
     (if x \<in> set xs then RemoveDuplicateValues xs else RemoveDuplicateValues xs @ [x]) \<and>
   distinct (RemoveDuplicateValues xs) \<and> set (RemoveDuplicateValues xs) = set xs"
  by (simp add: RemoveDuplicateValues_def dedupLoop_eq)

section \<open>Settings\<close>

text \<open>Decimal digits, as \<^verbatim>\<open>strconv.Itoa\<close> prints them.\<close>

fun showNat :: "nat \<Rightarrow> string" where
  "showNat n = (if n < 10 then [char_of (48 + n)] else showNat (n div 10) @ [char_of (48 + n mod 10)])"

declare showNat.simps [simp del]

definition showInt :: "int \<Rightarrow> string" where
  "showInt i = (if i < 0 then CHR ''-'' # showNat (nat (- i)) else showNat (nat i))"

lemma decimalValue_append:
  "decimalValue acc (xs @ ys) = (case decimalValue acc xs of None \<Rightarrow> None | Some a \<Rightarrow> decimalValue a ys)"
  by (induction xs arbitrary: acc) (auto simp: Let_def)

lemma decimalValue_digit: "d < 10 \<Longrightarrow> decimalValue acc [char_of (48 + d)] = Some (10 * acc + d)"
  by (simp add: Let_def)

lemma decimalValue_showNat: "\<exists>k. decimalValue acc (showNat n) = Some (10 ^ k * acc + n)"
proof (induction n arbitrary: acc rule: showNat.induct)
  case (1 n)
  show ?case
  proof (cases "n < 10")
    case True
    then show ?thesis
      by (subst showNat.simps) (auto simp: decimalValue_digit simp del: decimalValue.simps intro: exI [of _ 1])
  next
    case False
    from 1 [OF this] obtain k where "decimalValue acc (showNat (n div 10)) = Some (10 ^ k * acc + n div 10)"
      by blast
    then have "decimalValue acc (showNat n) = Some (10 ^ Suc k * acc + n)"
      using False by (subst showNat.simps) (simp add: decimalValue_append decimalValue_digit del: decimalValue.simps)
    then show ?thesis by blast
  qed
qed

lemma decimalValue_show: "decimalValue 0 (showNat n) = Some n"
  using decimalValue_showNat [of 0 n] by simp

lemma showNat_ne: "showNat n \<noteq> []"
  by (subst showNat.simps) simp

lemma digit_not_sign:
  assumes "d < 10"
  shows "char_of (48 + d :: nat) \<noteq> CHR ''-''" "char_of (48 + d :: nat) \<noteq> CHR ''+''"
proof -
  have "char_of (48 + d :: nat) \<noteq> c" if "of_char c < (48 :: nat)" for c :: char
    using arg_cong [of "char_of (48 + d)" c "of_char :: char \<Rightarrow> nat"] assms that by auto
  then show "char_of (48 + d :: nat) \<noteq> CHR ''-''" "char_of (48 + d :: nat) \<noteq> CHR ''+''"
    by simp_all
qed

lemma showNat_sign: "splitSign (showNat n) = (False, showNat n)"
proof (induction n rule: showNat.induct)
  case (1 n)
  show ?case
  proof (cases "n < 10")
    case True
    then show ?thesis by (subst (1 2) showNat.simps) (simp add: splitSign_def digit_not_sign)
  next
    case False
    then have eq: "showNat n = showNat (n div 10) @ [char_of (48 + n mod 10)]"
      by (subst showNat.simps) simp
    from 1 [OF False] showNat_ne [of "n div 10"] show ?thesis
      unfolding eq by (cases "showNat (n div 10)") (auto simp: splitSign_def split: if_splits)
  qed
qed

text \<open>Parsing the decimal form of an integer gives it back, and fails outside the 32-bit range.\<close>

lemma parse_show:
  "parseInt32 (showInt i) = (if - (2 ^ 31) \<le> i \<and> i < 2 ^ 31 then Some i else None)"
proof (cases "i < 0")
  case True
  then show ?thesis
    by (auto simp: showInt_def parseInt32_def splitSign_def decimalValue_show showNat_ne nat_le_eq_zle
        split: if_splits)
next
  case False
  then show ?thesis
    by (auto simp: showInt_def parseInt32_def showNat_sign decimalValue_show showNat_ne nat_le_iff
        split: if_splits)
qed

text \<open>C40: a replica count set in the environment to the decimal form of an integer is that integer if it
  fits in 32 bits, and the default otherwise: no count wraps around.\<close>

theorem replica_count:
  assumes "GetEnvFunc R v = showInt i"
  shows "sint (getEnvReplicaCount R v d) = (if - (2 ^ 31) \<le> i \<and> i < 2 ^ 31 then i else sint d)"
proof -
  have "showInt i \<noteq> []" by (simp add: showInt_def showNat_ne)
  moreover have "sint (word_of_int i :: 32 word) = i" if "- (2 ^ 31) \<le> i" "i < 2 ^ 31"
    using that by (simp add: sint_sbintrunc' signed_take_bit_int_eq_self)
  ultimately show ?thesis
    using assms by (auto simp: getEnvReplicaCount_def parse_show Let_def)
qed

lemma replica_count_witness:
  "sint (getEnvReplicaCount (plainRuntime\<lparr>GetEnvFunc := (\<lambda>_. ''-7'')\<rparr>) ''ES_DATA_NODE_REPLICAS'' 2) = - 7"
proof -
  have "GetEnvFunc (plainRuntime\<lparr>GetEnvFunc := (\<lambda>_. ''-7'')\<rparr>) ''ES_DATA_NODE_REPLICAS'' = showInt (- 7)"
    by (simp add: showInt_def showNat.simps [of 7] char_of_def bit_Suc_0_iff)
  from replica_count [OF this, of 2] show ?thesis by simp
qed

text \<open>Every component of a monitoring instance is enabled unless the environment says otherwise: a
  setting that is absent or does not parse counts as true.\<close>

theorem enabled_by_default:
  "getBoolean R v = (\<not> (snd (LookupEnvFunc R v) \<and> parseBool (fst (LookupEnvFunc R v)) = Some False))"
  by (auto simp: getBoolean_def split: prod.split option.split)

end
