(* ===== verification/Namespaces.thy ===== *)
theory Namespaces
  imports Util
begin

text \<open>
  pkg/managed/namespace.go: creation of a pair's namespaces, the cleanup of orphaned ones, their
  deletion, and the wait for a deletion to take effect.
\<close>

section \<open>The code\<close>

text \<open>The durations \<^verbatim>\<open>2*time.Minute\<close> and \<^verbatim>\<open>1*time.Second\<close> of every wait, in seconds.\<close>

definition nsDeletionTimeout :: nat where "nsDeletionTimeout = 120"
definition nsDeletionTick :: nat where "nsDeletionTick = 1"

text \<open>The labels given to a new namespace: the anonymous function of \<^verbatim>\<open>newNamespaces\<close>.\<close>

definition namespaceLabels :: "SyntheticBinding \<Rightarrow> ManagedCluster \<Rightarrow> string \<Rightarrow> string gomap" where
  "namespaceLabels binding managedCluster namespace =
     (let bindingLabels =
            (if GetManagedClusterNamespaceForSystem = namespace
             then GetManagedLabelsNoBinding (mcName managedCluster)
             else GetManagedBindingLabels binding (mcName managedCluster))
      in if GetManagedClusterNamespaceForSystem \<noteq> namespace \<and> namespace \<noteq> MonitoringNamespace
         then mset_key ''istio-injection'' ''enabled'' bindingLabels
         else bindingLabels)"

definition newNamespaces :: "SyntheticBinding \<Rightarrow> ManagedCluster \<Rightarrow> NamespaceObj list" where
  "newNamespaces binding managedCluster =
     map (\<lambda>namespace.
            ObjectMeta.extend
              (noMeta\<lparr>Name := namespace, Labels := namespaceLabels binding managedCluster namespace\<rparr>)
              (NamespaceObj.fields [''kubernetes'']))
         (mcNamespaces managedCluster)"

definition createNamespace ::
  "SyntheticBinding \<Rightarrow> 'w ManagedClusterConnection \<Rightarrow> NamespaceObj list \<Rightarrow> string \<Rightarrow>
   ('w, err option) prog" where
  "createNamespace binding conn news clusterName =
     rangeE (\<lambda>newNamespace.
       gbind (listerGet (NamespaceLister conn) [] (Name newNamespace)) (\<lambda>(existing, err).
         case existing of
           Some _ \<Rightarrow> gret err
         | None \<Rightarrow>
             gbind (clientCreate (connName conn) KNamespace (csNamespaces (KubeClient conn)) []
                      newNamespace)
               (\<lambda>(_, err). gret err))) news"

definition CreateNamespaces ::
  "'w runtime \<Rightarrow> SyntheticModelBinding \<Rightarrow> 'w connections \<Rightarrow> ('w, err option) prog" where
  "CreateNamespaces R vzSynMB filteredConnections =
     rangeClusters R (ManagedClusters vzSynMB) filteredConnections (\<lambda>clusterName managedClusterObj conn.
       createNamespace (SynBinding vzSynMB) conn
         (newNamespaces (SynBinding vzSynMB) managedClusterObj) clusterName)"

text \<open>
  The rounds of \<^verbatim>\<open>waitForNSDeletion\<close>: each selects the timeout or a tick, and on a tick asks the API
  server for the namespace.
\<close>

fun waitNSLoop ::
  "nat \<Rightarrow> 'w runtime \<Rightarrow> 'w ManagedClusterConnection \<Rightarrow> string \<Rightarrow> string \<Rightarrow> nat \<Rightarrow> nat \<Rightarrow>
   ('w, err option) prog" where
  "waitNSLoop 0 R mc namespace cluster timeout tick = ghang"
| "waitNSLoop (Suc fuel) R mc namespace cluster timeout tick =
     gbind (glift (selectTimeout R timeout tick)) (\<lambda>timedOut.
       if timedOut then
         gret (Some (Errorf (''Failed, timed out waiting for namespace '' @ namespace @
                 '' to be removed in  managed cluster '' @ cluster)))
       else
         gbind (clientGet (csNamespaces (KubeClient mc)) [] namespace) (\<lambda>(_, err).
           case err of
             Some e \<Rightarrow>
               if isNotFound e then gret None
               else gret (Some (Errorf (''Failed removing namespace '' @ namespace @
                      '' in managed cluster '' @ cluster)))
           | None \<Rightarrow> waitNSLoop fuel R mc namespace cluster timeout tick))"

definition waitForNSDeletion ::
  "'w runtime \<Rightarrow> 'w ManagedClusterConnection \<Rightarrow> string \<Rightarrow> string \<Rightarrow> nat \<Rightarrow> nat \<Rightarrow>
   ('w, err option) prog" where
  "waitForNSDeletion R mc namespace cluster timeoutDuration tickDuration =
     waitNSLoop (waitFuel R) R mc namespace cluster timeoutDuration tickDuration"

text \<open>
  The loop body both \<^verbatim>\<open>CleanupOrphanedNamespaces\<close> and \<^verbatim>\<open>DeleteNamespaces\<close> repeat: list, and delete
  every namespace that is not to be skipped, waiting for each to go.
\<close>

definition deleteNamespacesAndWait ::
  "'w runtime \<Rightarrow> string \<Rightarrow> 'w ManagedClusterConnection \<Rightarrow> selector \<Rightarrow> (string \<Rightarrow> bool) \<Rightarrow>
   ('w, err option) prog" where
  "deleteNamespacesAndWait R clusterName conn sel skip =
     gbind (listerList (NamespaceLister conn) [] sel) (\<lambda>(existing, err).
       case err of
         Some e \<Rightarrow> gret (Some e)
       | None \<Rightarrow>
           rangeE (\<lambda>ns.
             if \<not> skip (Name ns) then
               gbind (clientDelete (connName conn) NamespaceKind (csNamespaces (KubeClient conn)) []
                        (Name ns)) (\<lambda>err.
                 case err of
                   Some e \<Rightarrow> gret (Some e)
                 | None \<Rightarrow>
                     waitForNSDeletion R conn (Name ns) clusterName nsDeletionTimeout nsDeletionTick)
             else gret None) existing)"

definition CleanupOrphanedNamespaces ::
  "'w runtime \<Rightarrow> SyntheticModelBinding \<Rightarrow> 'w connections \<Rightarrow> SyntheticModelBinding gomap \<Rightarrow>
   ('w, err option) prog" where
  "CleanupOrphanedNamespaces R vzSynMB avail allvzSynMBs =
     gbind (GetManagedClustersForVerrazzanoBinding R vzSynMB avail) (\<lambda>(matchedClusters, err).
       case err of
         Some _ \<Rightarrow> gret None
       | None \<Rightarrow>
           gbind (rangeClusters R (ManagedClusters vzSynMB) matchedClusters (\<lambda>clusterName mc conn.
               if mcNamespaces mc \<noteq> [] then
                 deleteListed (connName conn) NamespaceKind (NamespaceLister conn)
                   (csNamespaces (KubeClient conn)) []
                   [(VerrazzanoBinding, Name (SynBinding vzSynMB)), (VerrazzanoCluster, clusterName)]
                   clusterScoped (\<lambda>ns. \<not> Contains (mcNamespaces mc) (Name ns))
               else gret None)) (\<lambda>err.
           case err of
             Some e \<Rightarrow> gret (Some e)
           | None \<Rightarrow>
               gbind (GetManagedClustersNotForVerrazzanoBinding R vzSynMB avail) (\<lambda>unmatched.
                 rangeMap R unmatched (\<lambda>clusterName conn.
                   gbind (deleteNamespacesAndWait R clusterName conn
                            [(VerrazzanoBinding, Name (SynBinding vzSynMB)),
                             (VerrazzanoCluster, clusterName)]
                            (\<lambda>n. n = MonitoringNamespace)) (\<lambda>err.
                     case err of
                       Some e \<Rightarrow> gret (Some e)
                     | None \<Rightarrow>
                         gbind (IsClusterInBinding R clusterName allvzSynMBs) (\<lambda>used.
                           if \<not> used then
                             deleteNamespacesAndWait R clusterName conn
                               (GetManagedLabelsNoBinding clusterName)
                               (\<lambda>n. n = MonitoringNamespace \<or> n = VerrazzanoNamespace)
                           else gret None))))))"

definition DeleteNamespaces ::
  "'w runtime \<Rightarrow> SyntheticModelBinding \<Rightarrow> 'w connections \<Rightarrow> bool \<Rightarrow> ('w, err option) prog" where
  "DeleteNamespaces R vzSynMB avail bindingLabel =
     gbind (GetManagedClustersForVerrazzanoBinding R vzSynMB avail) (\<lambda>(managedClusters, err).
       case err of
         Some _ \<Rightarrow> gret None
       | None \<Rightarrow>
           rangeMap R managedClusters (\<lambda>clusterName conn.
             let selector =
               (if bindingLabel then [(VerrazzanoBinding, Name (SynBinding vzSynMB))]
                else GetManagedLabelsNoBinding clusterName)
             in deleteNamespacesAndWait R clusterName conn selector
                  (\<lambda>n. n = MonitoringNamespace \<or> n = VerrazzanoNamespace)))"

section \<open>Namespaces created\<close>

lemma newNamespaces_names: "map Name (newNamespaces b mc) = mcNamespaces mc"
  by (simp add: newNamespaces_def ObjectMeta.defs NamespaceObj.defs noMeta_def comp_def)

lemma newNamespaces_labels:
  "n \<in> set (newNamespaces b mc) \<Longrightarrow> Labels n = namespaceLabels b mc (Name n)"
  by (auto simp: newNamespaces_def ObjectMeta.defs NamespaceObj.defs noMeta_def)

text \<open>What the loop sends and when it can panic.\<close>

lemma safe_createNamespace [safe_rules]:
  assumes "\<And>n. n \<in> set news \<Longrightarrow> A (ReqCreate (connName conn) [] (KNamespace n))" "\<And>e. Q e"
  shows "safe A X (createNamespace b conn news cl) Q"
  unfolding createNamespace_def using assms by (intro safe_rules) auto

lemma safe_CreateNamespaces [safe_rules]:
  assumes "covers conns (ManagedClusters mb)" "\<And>e. Q e"
    and "\<And>k mc n. mlookup (ManagedClusters mb) k = Some mc \<Longrightarrow>
           n \<in> set (newNamespaces (SynBinding mb) mc) \<Longrightarrow> ok k [] (KNamespace n)"
  shows "safe (writes conns ok) X (CreateNamespaces R mb conns) Q"
  unfolding CreateNamespaces_def
  by (intro safe_rangeClusters safe_createNamespace writes_create) (use assms in auto)

section \<open>Waiting\<close>

lemma safe_waitNSLoop [safe_rules]:
  "(\<And>e. Q e) \<Longrightarrow> safe A X (waitNSLoop fuel R mc ns cl t d) Q"
proof (induction fuel)
  case (Suc fuel)
  then show ?case by (simp only: waitNSLoop.simps) (intro safe_rules, auto)
qed (simp add: safe_ghang)

lemma safe_waitForNSDeletion [safe_rules]:
  "(\<And>e. Q e) \<Longrightarrow> safe A X (waitForNSDeletion R mc ns cl t d) Q"
  unfolding waitForNSDeletion_def by (rule safe_waitNSLoop)

lemma safe_deleteNamespacesAndWait [safe_rules]:
  assumes "\<And>n. \<not> skip n \<Longrightarrow> A (ReqDelete (connName conn) NamespaceKind [] n)" "\<And>e. Q e"
  shows "safe A X (deleteNamespacesAndWait R cl conn sel skip) Q"
  unfolding deleteNamespacesAndWait_def using assms by (intro safe_rules) auto

lemma safe_CleanupOrphanedNamespaces [safe_rules]:
  assumes "fairOrder R" "wf_pair mb" "\<And>e. Q e"
    and "\<And>k mc n. mlookup (ManagedClusters mb) k = Some mc \<Longrightarrow> n \<notin> set (mcNamespaces mc) \<Longrightarrow> ok k n"
    and "\<And>k n. k \<notin> clusterNames mb \<Longrightarrow> n \<noteq> MonitoringNamespace \<Longrightarrow> ok k n"
  shows "safe (deletes NamespaceKind avail ok) X (CleanupOrphanedNamespaces R mb avail all) Q"
proof -
  have matched: "safe (deletes NamespaceKind avail ok) X
      (rangeClusters R (ManagedClusters mb) filtered (\<lambda>clusterName mc conn.
        if mcNamespaces mc \<noteq> [] then
          deleteListed (connName conn) NamespaceKind (NamespaceLister conn)
            (csNamespaces (KubeClient conn)) [] (sel clusterName) clusterScoped
            (\<lambda>ns. \<not> Contains (mcNamespaces mc) (Name ns))
        else gret None)) Q'"
    if "forSpec mb avail (filtered, None)" "\<And>e. Q' e" for filtered sel Q'
    by (intro safe_rangeClusters forSpec_covers [OF that(1) assms(2)] safe_if safe_deleteListed safe_gret)
      (use that(2) forSpec_Some [OF that(1)] assms(4) in \<open>fastforce+\<close>)
  have unmatched: "safe (deletes NamespaceKind avail ok) X
      (deleteNamespacesAndWait R cl conn sel skip) Q'"
    if "mlookup avail cl = Some conn" "cl \<notin> clusterNames mb" "\<And>e. Q' e"
      "skip MonitoringNamespace" for cl conn sel skip Q'
  proof (intro safe_deleteNamespacesAndWait that)
    fix n assume "\<not> skip n"
    with that(4) have "n \<noteq> MonitoringNamespace" by auto
    with that assms(5) show "deletes NamespaceKind avail ok (ReqDelete (connName conn) NamespaceKind [] n)"
      by (intro deletes_intro) auto
  qed
  show ?thesis
    unfolding CleanupOrphanedNamespaces_def
    by (intro safe_gbind safe_For safe_NotFor safe_case_prod safe_case_option safe_gret
        safe_rangeMap matched unmatched safe_IsClusterInBinding safe_if assms(1,3))
      (use assms(3) in \<open>auto simp: restrict_map_def split: if_splits\<close>)
qed

lemma safe_DeleteNamespaces [safe_rules]:
  assumes "fairOrder R" "\<And>e. Q e"
    and "\<And>k n. k \<in> clusterNames mb \<Longrightarrow> n \<noteq> MonitoringNamespace \<Longrightarrow> n \<noteq> VerrazzanoNamespace \<Longrightarrow> ok k n"
  shows "safe (deletes NamespaceKind avail ok) X (DeleteNamespaces R mb avail b) Q"
  unfolding DeleteNamespaces_def Let_def
  by (intro safe_gbind safe_For safe_case_prod safe_case_option safe_gret safe_rangeMap
      safe_deleteNamespacesAndWait)
    (use assms forSpec_Some in fastforce)+

end
