(* ===== verification/Monitoring.thy ===== *)
theory Monitoring
  imports Util
begin

text \<open>
  pkg/monitoring/utils.go, clusterroles.go, clusterrolebinding.go and daemonsets.go: the objects of
  the node exporter, the only monitoring component the operator deploys to managed clusters.
  The error results of the two constructors are always nil in the code and are dropped.
\<close>

definition GetNodeExporterLabels :: "string \<Rightarrow> string gomap" where
  "GetNodeExporterLabels managedClusterName =
     [(ServiceAppLabel, NodeExporterName), (VerrazzanoBinding, VmiSystemBindingName),
      (VerrazzanoCluster, managedClusterName)]"

text \<open>nil, read as the empty map, for an unknown component.\<close>

definition GetMonitoringComponentLabels :: "string \<Rightarrow> string \<Rightarrow> string gomap" where
  "GetMonitoringComponentLabels managedClusterName componentName =
     (if componentName = NodeExporterName then GetNodeExporterLabels managedClusterName else [])"

definition GetMonitoringNamespace :: "string \<Rightarrow> string" where
  "GetMonitoringNamespace componentName =
     (if componentName = NodeExporterName then MonitoringNamespace else [])"

definition GetMonitoringComponents :: "string list" where
  "GetMonitoringComponents = [] @ [NodeExporterName]"

record ClusterInfo =
  ContainerRuntime :: string
  ManagedClusterName :: string
  ElasticsearchURL :: string
  ElasticsearchUsername :: string
  ElasticsearchPassword :: string
  ElasticsearchCABundle :: bytes

definition isManagedCluster :: "ClusterInfo \<Rightarrow> bool" where
  "isManagedCluster clusterInfo = (if ManagedClusterName clusterInfo \<noteq> [] then True else False)"

definition createMonitoringClusterRoles :: "string \<Rightarrow> string gomap \<Rightarrow> ClusterRole" where
  "createMonitoringClusterRoles name ls =
     ObjectMeta.extend (noMeta\<lparr>Name := name, Labels := ls\<rparr>)
       (ClusterRole.fields
          [\<lparr>APIGroups = [''extensions''], Resources = [''podsecuritypolicies''],
            Verbs = [''use''], ResourceNames = [''system-node-exporter''],
            NonResourceURLs = []\<rparr>])"

definition GetSystemClusterRoles :: "string \<Rightarrow> ClusterRole list" where
  "GetSystemClusterRoles managedClusterName =
     (let nodeExporterLabels = GetNodeExporterLabels managedClusterName
      in [createMonitoringClusterRoles NodeExporterName nodeExporterLabels])"

definition createSystemClusterRoleBinding ::
  "string \<Rightarrow> string \<Rightarrow> string gomap \<Rightarrow> ClusterRoleBinding" where
  "createSystemClusterRoleBinding namespace name ls =
     ObjectMeta.extend (noMeta\<lparr>Name := name, Labels := ls\<rparr>)
       (ClusterRoleBinding.fields
          [\<lparr>subjectKind = ''ServiceAccount'', subjectName = name,
            subjectNamespace = namespace\<rparr>]
          \<lparr>refAPIGroup = ''rbac.authorization.k8s.io'', refKind = ''ClusterRole'',
           refName = name\<rparr>)"

definition GetSystemClusterRoleBindings :: "string \<Rightarrow> ClusterRoleBinding list" where
  "GetSystemClusterRoleBindings managedClusterName =
     (let nodeExporterLabels = GetNodeExporterLabels managedClusterName
      in [createSystemClusterRoleBinding MonitoringNamespace NodeExporterName nodeExporterLabels])"

definition createNodeExporterDaemonSet ::
  "'w runtime \<Rightarrow> string \<Rightarrow> string \<Rightarrow> string gomap \<Rightarrow> DaemonSet" where
  "createNodeExporterDaemonSet R namespace name ls =
     (let applabel = [(ServiceAppLabel, NodeExporterName)];
          podSpec =
            \<lparr>psVolumes =
               [\<lparr>volName = ''proc'', volHostPath = ''/proc''\<rparr>,
                \<lparr>volName = ''sys'', volHostPath = ''/sys''\<rparr>,
                \<lparr>volName = ''root'', volHostPath = ''/''\<rparr>],
             psContainers =
               [\<lparr>ctName = name,
                 ctImage = GetNodeExporterImage R,
                 ctArgs =
                   [''--web.listen-address=0.0.0.0:9100'',
                    ''--path.procfs=/host/proc'',
                    ''--path.sysfs=/host/sys'',
                    ''--path.rootfs=/host/root'',
                    ''--collector.filesystem.ignored-mount-points=^/(dev|proc|sys|var/lib/docker/.+)($|/)'',
                    ''--collector.filesystem.ignored-fs-types=^(autofs|binfmt_misc|cgroup|configfs|debugfs|devpts|devtmpfs|fusectl|hugetlbfs|mqueue|overlay|proc|procfs|pstore|rpc_pipefs|securityfs|sysfs|tracefs)$''],
                 ctPorts =
                   [\<lparr>cpName = ''metrics'', cpContainerPort = 9100, cpHostPort = 9100,
                     cpProtocol = ''TCP''\<rparr>],
                 ctLimits = [(''cpu'', ''250m''), (''memory'', ''180Mi'')],
                 ctRequests = [(''cpu'', ''102m''), (''memory'', ''180Mi'')],
                 ctVolumeMounts =
                   [\<lparr>vmName = ''proc'', vmReadOnly = True, vmMountPath = ''/host/proc''\<rparr>,
                    \<lparr>vmName = ''sys'', vmReadOnly = True, vmMountPath = ''/host/sys''\<rparr>,
                    \<lparr>vmName = ''root'', vmReadOnly = True, vmMountPath = ''/host/root''\<rparr>],
                 ctImagePullPolicy = ''IfNotPresent''\<rparr>],
             psRestartPolicy = ''Always'',
             psDNSPolicy = ''ClusterFirst'',
             psServiceAccountName = name,
             psHostNetwork = True,
             psHostPID = True,
             psNodeSelector = [(''beta.kubernetes.io/os'', ''linux'')],
             psRunAsUser = 65534,
             psTolerations = [\<lparr>tolEffect = ''NoSchedule'', tolOperator = ''Exists''\<rparr>]\<rparr>
      in ObjectMeta.extend (noMeta\<lparr>Name := name, Namespace := namespace, Labels := ls\<rparr>)
           (DaemonSet.fields applabel ''RollingUpdate'' ls
              [(''prometheus.io/scrape'', ''true''), (''prometheus.io/port'', ''9100'')]
              podSpec))"

definition SystemDaemonSets ::
  "'w runtime \<Rightarrow> string \<Rightarrow> string \<Rightarrow> ClusterInfo \<Rightarrow> DaemonSet list" where
  "SystemDaemonSets R managedClusterName verrazzanoURI clusterInfo =
     (let nodeExporterLabels = GetNodeExporterLabels managedClusterName
      in [createNodeExporterDaemonSet R MonitoringNamespace NodeExporterName nodeExporterLabels])"

lemma ClusterRole_meta [simp]:
  "Name (createMonitoringClusterRoles n ls) = n"
  "Labels (createMonitoringClusterRoles n ls) = ls"
  by (simp_all add: createMonitoringClusterRoles_def ObjectMeta.defs ClusterRole.defs noMeta_def)

lemma ClusterRoleBinding_meta [simp]:
  "Name (createSystemClusterRoleBinding ns n ls) = n"
  "Labels (createSystemClusterRoleBinding ns n ls) = ls"
  by (simp_all add: createSystemClusterRoleBinding_def ObjectMeta.defs ClusterRoleBinding.defs
      noMeta_def)

lemma DaemonSet_meta [simp]:
  "Name (createNodeExporterDaemonSet R ns n ls) = n"
  "Namespace (createNodeExporterDaemonSet R ns n ls) = ns"
  "Labels (createNodeExporterDaemonSet R ns n ls) = ls"
  by (simp_all add: createNodeExporterDaemonSet_def ObjectMeta.defs DaemonSet.defs noMeta_def)

end
