(* ===== verification/Managed_Rbac.thy ===== *)
theory Managed_Rbac
  imports Monitoring
begin

text \<open>
  pkg/managed/clusterroles.go and clusterrolebinding.go: the cluster roles and cluster role bindings
  of a pair. Both kinds are cluster-scoped, so clients and listers are called with the empty
  namespace. A creation ranges over the clusters of the pair; a deletion over the connections of
  those clusters, and nothing if one of them has no connection; a cleanup over the connections of
  all the other clusters.
\<close>

section \<open>Cluster roles\<close>

definition policyRules :: "PolicyRule list" where
  "policyRules =
     [\<lparr>APIGroups = [''''], Resources = [''pods/log'', ''serviceaccounts'', ''pods/portforward'', ''nodes''],
       Verbs = [''get'', ''list'', ''watch'', ''create'', ''update'', ''delete'', ''deletecollection'', ''patch''],
       ResourceNames = [], NonResourceURLs = []\<rparr>,
      \<lparr>APIGroups = [''''],
       Resources = [''pods'', ''pods/exec'', ''configmaps'', ''endpoints'', ''events'', ''namespaces'',
         ''persistentvolumeclaims'', ''secrets'', ''services''],
       Verbs = [''*''], ResourceNames = [], NonResourceURLs = []\<rparr>,
      \<lparr>APIGroups = [], Resources = [], Verbs = [''get''], ResourceNames = [],
       NonResourceURLs = [''/version/*'']\<rparr>,
      \<lparr>APIGroups = [''apps''],
       Resources = [''deployments'', ''daemonsets'', ''replicasets'', ''statefulsets''],
       Verbs = [''*''], ResourceNames = [], NonResourceURLs = []\<rparr>,
      \<lparr>APIGroups = [''apps''], Resources = [''deployments/finalizers''], Verbs = [''update''],
       ResourceNames = [], NonResourceURLs = []\<rparr>,
      \<lparr>APIGroups = [''extensions''],
       Resources = [''daemonsets'', ''replicasets'', ''statefulsets'', ''podsecuritypolicies''],
       Verbs = [''get'', ''list'', ''watch'', ''create'', ''update'', ''delete''],
       ResourceNames = [], NonResourceURLs = []\<rparr>,
      \<lparr>APIGroups = [''policy''], Resources = [''podsecuritypolicies''], Verbs = [''get''],
       ResourceNames = [], NonResourceURLs = []\<rparr>,
      \<lparr>APIGroups = [''batch''], Resources = [''jobs''],
       Verbs = [''get'', ''list'', ''watch'', ''create'', ''update'', ''delete'', ''patch'', ''deletecollection''],
       ResourceNames = [], NonResourceURLs = []\<rparr>,
      \<lparr>APIGroups = [''authentication.k8s.io''], Resources = [''tokenreviews''], Verbs = [''create''],
       ResourceNames = [], NonResourceURLs = []\<rparr>,
      \<lparr>APIGroups = [''authorization.k8s.io''], Resources = [''subjectaccessreviews''],
       Verbs = [''create''], ResourceNames = [], NonResourceURLs = []\<rparr>,
      \<lparr>APIGroups = [''apiextensions.k8s.io''], Resources = [''customresourcedefinitions''],
       Verbs = [''*''], ResourceNames = [], NonResourceURLs = []\<rparr>,
      \<lparr>APIGroups = [''monitoring.coreos.com''], Resources = [''servicemonitors''],
       Verbs = [''get'', ''create''], ResourceNames = [], NonResourceURLs = []\<rparr>,
      \<lparr>APIGroups = [''verrazzano.io''], Resources = [''*''],
       Verbs = [''get'', ''list'', ''watch'', ''create'', ''update'', ''delete''],
       ResourceNames = [], NonResourceURLs = []\<rparr>,
      \<lparr>APIGroups = [''rbac.authorization.k8s.io''], Resources = [''clusterroles'', ''roles''],
       Verbs = [''get'', ''list'', ''watch'', ''create'', ''update'', ''delete''],
       ResourceNames = [], NonResourceURLs = []\<rparr>,
      \<lparr>APIGroups = [''rbac.authorization.k8s.io''],
       Resources = [''clusterrolebindings'', ''rolebindings''],
       Verbs = [''get'', ''list'', ''watch'', ''create'', ''update'', ''delete'', ''patch''],
       ResourceNames = [], NonResourceURLs = []\<rparr>]"

definition newClusterRoles :: "SyntheticBinding \<Rightarrow> string \<Rightarrow> ClusterRole list" where
  "newClusterRoles binding clusterName =
     (let roleLabels = GetManagedLabelsNoBinding clusterName
      in if Name binding = VmiSystemBindingName then GetSystemClusterRoles clusterName
         else [ObjectMeta.extend
                 (noMeta\<lparr>Name := GetServiceAccountNameForSystem, Labels := roleLabels\<rparr>)
                 (ClusterRole.fields policyRules)])"

definition CreateClusterRoles ::
  "'w runtime \<Rightarrow> SyntheticModelBinding \<Rightarrow> 'w connections \<Rightarrow> ('w, err option) prog" where
  "CreateClusterRoles R vzSynMB filteredConnections =
     rangeClusters R (ManagedClusters vzSynMB) filteredConnections (\<lambda>clusterName _ conn.
       rangeE (\<lambda>newClusterRole.
           createOrUpdate R (connName conn) KClusterRole (ClusterRoleLister conn)
             (csClusterRoles (KubeClient conn)) [] (Name newClusterRole) newClusterRole)
         (newClusterRoles (SynBinding vzSynMB) clusterName))"

definition CleanupOrphanedClusterRoles ::
  "'w runtime \<Rightarrow> SyntheticModelBinding \<Rightarrow> 'w connections \<Rightarrow> ('w, err option) prog" where
  "CleanupOrphanedClusterRoles R vzSynMB avail =
     gbind (GetManagedClustersNotForVerrazzanoBinding R vzSynMB avail) (\<lambda>unmatchedClusters.
       rangeMap R unmatchedClusters (\<lambda>clusterName conn.
         deleteListed (connName conn) ClusterRoleKind (ClusterRoleLister conn)
           (csClusterRoles (KubeClient conn)) []
           [(VerrazzanoBinding, Name (SynBinding vzSynMB)), (VerrazzanoCluster, clusterName)]
           clusterScoped (\<lambda>_. True)))"

definition DeleteClusterRoles ::
  "'w runtime \<Rightarrow> SyntheticModelBinding \<Rightarrow> 'w connections \<Rightarrow> bool \<Rightarrow> ('w, err option) prog" where
  "DeleteClusterRoles R vzSynMB avail bindingLabel =
     gbind (GetManagedClustersForVerrazzanoBinding R vzSynMB avail) (\<lambda>(filteredConnections, err).
       case err of
         Some _ \<Rightarrow> gret None
       | None \<Rightarrow>
           rangeMap R filteredConnections (\<lambda>clusterName conn.
             let selector =
               (if bindingLabel then [(VerrazzanoBinding, Name (SynBinding vzSynMB))]
                else GetManagedLabelsNoBinding clusterName)
             in deleteListed (connName conn) ClusterRoleKind (ClusterRoleLister conn)
                  (csClusterRoles (KubeClient conn)) [] selector clusterScoped
                  (\<lambda>r. Name r \<noteq> VerrazzanoSystem \<and> Name r \<noteq> VerrazzanoSystemAdmin)))"

section \<open>Cluster role bindings\<close>

definition getManagedClusterRoleBinding :: "string \<Rightarrow> ClusterRoleBinding" where
  "getManagedClusterRoleBinding managedClusterName =
     ObjectMeta.extend
       (noMeta\<lparr>Name := GetServiceAccountNameForSystem,
               Labels := GetManagedLabelsNoBinding managedClusterName\<rparr>)
       (ClusterRoleBinding.fields
          [\<lparr>subjectKind = ''ServiceAccount'', subjectName = GetServiceAccountNameForSystem,
            subjectNamespace = GetManagedClusterNamespaceForSystem\<rparr>]
          \<lparr>refAPIGroup = ''rbac.authorization.k8s.io'', refKind = ''ClusterRole'',
           refName = GetServiceAccountNameForSystem\<rparr>)"

definition newClusterRoleBindings :: "SyntheticBinding \<Rightarrow> string \<Rightarrow> ClusterRoleBinding list" where
  "newClusterRoleBindings binding managedClusterName =
     (if Name binding = VmiSystemBindingName then GetSystemClusterRoleBindings managedClusterName
      else [getManagedClusterRoleBinding managedClusterName])"

definition CreateClusterRoleBindings ::
  "'w runtime \<Rightarrow> SyntheticModelBinding \<Rightarrow> 'w connections \<Rightarrow> ('w, err option) prog" where
  "CreateClusterRoleBindings R vzSynMB filteredConnections =
     rangeClusters R (ManagedClusters vzSynMB) filteredConnections (\<lambda>clusterName _ conn.
       rangeE (\<lambda>clusterRoleBinding.
           createOrUpdate R (connName conn) KClusterRoleBinding (ClusterRoleBindingLister conn)
             (csClusterRoleBindings (KubeClient conn)) [] (Name clusterRoleBinding)
             clusterRoleBinding)
         (newClusterRoleBindings (SynBinding vzSynMB) clusterName))"

definition CleanupOrphanedClusterRoleBindings ::
  "'w runtime \<Rightarrow> SyntheticModelBinding \<Rightarrow> 'w connections \<Rightarrow> ('w, err option) prog" where
  "CleanupOrphanedClusterRoleBindings R vzSynMB avail =
     gbind (GetManagedClustersNotForVerrazzanoBinding R vzSynMB avail) (\<lambda>unmatchedClusters.
       rangeMap R unmatchedClusters (\<lambda>clusterName conn.
         deleteListed (connName conn) ClusterRoleBindingKind (ClusterRoleBindingLister conn)
           (csClusterRoleBindings (KubeClient conn)) []
           [(VerrazzanoBinding, Name (SynBinding vzSynMB)), (VerrazzanoCluster, clusterName)]
           clusterScoped (\<lambda>_. True)))"

definition DeleteClusterRoleBindings ::
  "'w runtime \<Rightarrow> SyntheticModelBinding \<Rightarrow> 'w connections \<Rightarrow> bool \<Rightarrow> ('w, err option) prog" where
  "DeleteClusterRoleBindings R vzSynMB avail bindingLabel =
     gbind (GetManagedClustersForVerrazzanoBinding R vzSynMB avail) (\<lambda>(filteredConnections, err).
       case err of
         Some _ \<Rightarrow> gret None
       | None \<Rightarrow>
           rangeMap R filteredConnections (\<lambda>clusterName conn.
             let selector =
               (if bindingLabel then [(VerrazzanoBinding, Name (SynBinding vzSynMB))]
                else GetManagedLabelsNoBinding clusterName)
             in deleteListed (connName conn) ClusterRoleBindingKind (ClusterRoleBindingLister conn)
                  (csClusterRoleBindings (KubeClient conn)) [] selector clusterScoped
                  (\<lambda>r. Name r \<noteq> VerrazzanoSystem \<and> Name r \<noteq> VerrazzanoSystemAdmin)))"

section \<open>What they send\<close>

lemma safe_CreateClusterRoles [safe_rules]:
  assumes "covers conns (ManagedClusters mb)" "\<And>e. Q e"
    and "\<And>k r. k \<in> dom (mlookup (ManagedClusters mb)) \<Longrightarrow>
           r \<in> set (newClusterRoles (SynBinding mb) k) \<Longrightarrow> ok k [] (KClusterRole r)"
  shows "safe (writes conns ok) X (CreateClusterRoles R mb conns) Q"
  unfolding CreateClusterRoles_def
  by (intro safe_rangeClusters safe_createAll) (use assms in auto)

lemma safe_CreateClusterRoleBindings [safe_rules]:
  assumes "covers conns (ManagedClusters mb)" "\<And>e. Q e"
    and "\<And>k r. k \<in> dom (mlookup (ManagedClusters mb)) \<Longrightarrow>
           r \<in> set (newClusterRoleBindings (SynBinding mb) k) \<Longrightarrow> ok k [] (KClusterRoleBinding r)"
  shows "safe (writes conns ok) X (CreateClusterRoleBindings R mb conns) Q"
  unfolding CreateClusterRoleBindings_def
  by (intro safe_rangeClusters safe_createAll) (use assms in auto)

lemma safe_CleanupOrphanedClusterRoles [safe_rules]:
  assumes "fairOrder R" "\<And>e. Q e"
    and "\<And>k n. k \<notin> clusterNames mb \<Longrightarrow> ok k n"
  shows "safe (deletes ClusterRoleKind avail ok) X (CleanupOrphanedClusterRoles R mb avail) Q"
  unfolding CleanupOrphanedClusterRoles_def
  by (intro safe_gbind safe_NotFor safe_deleteAll) (use assms in \<open>auto simp: restrict_map_def split: if_splits\<close>)

lemma safe_CleanupOrphanedClusterRoleBindings [safe_rules]:
  assumes "fairOrder R" "\<And>e. Q e"
    and "\<And>k n. k \<notin> clusterNames mb \<Longrightarrow> ok k n"
  shows "safe (deletes ClusterRoleBindingKind avail ok) X
    (CleanupOrphanedClusterRoleBindings R mb avail) Q"
  unfolding CleanupOrphanedClusterRoleBindings_def
  by (intro safe_gbind safe_NotFor safe_deleteAll) (use assms in \<open>auto simp: restrict_map_def split: if_splits\<close>)

lemma safe_DeleteClusterRoles [safe_rules]:
  assumes "fairOrder R" "\<And>e. Q e"
    and "\<And>k n. k \<in> clusterNames mb \<Longrightarrow> n \<noteq> VerrazzanoSystem \<Longrightarrow> n \<noteq> VerrazzanoSystemAdmin \<Longrightarrow> ok k n"
  shows "safe (deletes ClusterRoleKind avail ok) X (DeleteClusterRoles R mb avail b) Q"
  unfolding DeleteClusterRoles_def Let_def
  by (intro safe_gbind safe_For safe_case_prod safe_case_option safe_gret safe_deleteAll)
    (use assms forSpec_Some in fastforce)+

lemma safe_DeleteClusterRoleBindings [safe_rules]:
  assumes "fairOrder R" "\<And>e. Q e"
    and "\<And>k n. k \<in> clusterNames mb \<Longrightarrow> n \<noteq> VerrazzanoSystem \<Longrightarrow> n \<noteq> VerrazzanoSystemAdmin \<Longrightarrow> ok k n"
  shows "safe (deletes ClusterRoleBindingKind avail ok) X
    (DeleteClusterRoleBindings R mb avail b) Q"
  unfolding DeleteClusterRoleBindings_def Let_def
  by (intro safe_gbind safe_For safe_case_prod safe_case_option safe_gret safe_deleteAll)
    (use assms forSpec_Some in fastforce)+

end
