(* ===== verification/Managed_Accounts.thy ===== *)
theory Managed_Accounts
  imports Monitoring
begin

text \<open>
  pkg/managed/serviceaccount.go and configmaps.go: the service accounts and config maps of the
  managed clusters. A system binding gets one account per monitoring component, in the component's
  namespace; any other binding one system account per namespace of the cluster.
\<close>

section \<open>Service accounts\<close>

definition newServiceAccount ::
  "string \<Rightarrow> string \<Rightarrow> string gomap \<Rightarrow> string list \<Rightarrow> ServiceAccount" where
  "newServiceAccount name namespace ls imagePullSecrets =
     ObjectMeta.extend (noMeta\<lparr>Name := name, Namespace := namespace, Labels := ls\<rparr>)
       (ServiceAccount.fields imagePullSecrets)"

text \<open>The loop over the namespaces of the cluster; for the system binding it breaks after one.\<close>

fun newServiceAccountsLoop ::
  "string \<Rightarrow> string \<Rightarrow> string gomap \<Rightarrow> string \<Rightarrow> string list \<Rightarrow> string list \<Rightarrow>
   ServiceAccount list" where
  "newServiceAccountsLoop bindingName name ls namespaceName secs [] = []"
| "newServiceAccountsLoop bindingName name ls namespaceName secs (namespace # rest) =
     newServiceAccount name
       (if bindingName = VmiSystemBindingName then namespaceName else namespace) ls secs
     # (if bindingName = VmiSystemBindingName then []
        else newServiceAccountsLoop bindingName name ls namespaceName secs rest)"

definition newServiceAccounts ::
  "string \<Rightarrow> ManagedCluster \<Rightarrow> string \<Rightarrow> string gomap \<Rightarrow> string \<Rightarrow> string list \<Rightarrow>
   ServiceAccount list" where
  "newServiceAccounts bindingName managedCluster name ls namespaceName imagePullSecrets =
     newServiceAccountsLoop bindingName name ls namespaceName imagePullSecrets
       (mcNamespaces managedCluster)"

definition createServiceAccount ::
  "'w runtime \<Rightarrow> 'w ManagedClusterConnection \<Rightarrow> ServiceAccount list \<Rightarrow> string \<Rightarrow>
   ('w, err option) prog" where
  "createServiceAccount R conn news clusterName =
     rangeE (\<lambda>newSA.
       createOrUpdate R (connName conn) KServiceAccount (ServiceAccountLister conn)
         (csServiceAccounts (KubeClient conn)) (Namespace newSA) (Name newSA) newSA) news"

text \<open>The accounts wanted on one cluster: the first half of the loop body.\<close>

definition wantedServiceAccounts ::
  "string \<Rightarrow> string list \<Rightarrow> string \<Rightarrow> ManagedCluster \<Rightarrow> ServiceAccount list" where
  "wantedServiceAccounts bindingName imagePullSecrets clusterName managedClusterObj =
     (if bindingName = VmiSystemBindingName then
        concat (map (\<lambda>serviceAccountName.
          newServiceAccounts bindingName managedClusterObj serviceAccountName
            (GetMonitoringComponentLabels clusterName serviceAccountName)
            (GetMonitoringNamespace serviceAccountName) imagePullSecrets) GetMonitoringComponents)
      else newServiceAccounts bindingName managedClusterObj GetServiceAccountNameForSystem
             (GetManagedLabelsNoBinding clusterName) [] imagePullSecrets)"

definition CreateServiceAccounts ::
  "'w runtime \<Rightarrow> string \<Rightarrow> string list \<Rightarrow> ManagedCluster gomap \<Rightarrow> 'w connections \<Rightarrow>
   ('w, err option) prog" where
  "CreateServiceAccounts R bindingName imagePullSecrets managedClusters filteredConnections =
     rangeClusters R managedClusters filteredConnections (\<lambda>clusterName managedClusterObj conn.
       createServiceAccount R conn
         (wantedServiceAccounts bindingName imagePullSecrets clusterName managedClusterObj)
         clusterName)"

section \<open>Config maps\<close>

definition createUpdateConfigMaps ::
  "'w runtime \<Rightarrow> 'w ManagedClusterConnection \<Rightarrow> ConfigMap \<Rightarrow> string \<Rightarrow> ('w, err option) prog" where
  "createUpdateConfigMaps R conn newConfigMap clusterName =
     createOrUpdate R (connName conn) KConfigMap (ConfigMapLister conn)
       (csConfigMaps (KubeClient conn)) (Namespace newConfigMap) (Name newConfigMap) newConfigMap"

definition CreateConfigMaps ::
  "'w runtime \<Rightarrow> SyntheticModelBinding \<Rightarrow> 'w connections \<Rightarrow> ClusterInfo \<Rightarrow>
   ('w, err option) prog" where
  "CreateConfigMaps R vzSynMB filteredConnections clusterInfo =
     rangeClusters R (ManagedClusters vzSynMB) filteredConnections
       (\<lambda>clusterName managedClusterObj conn.
         if Name (SynBinding vzSynMB) \<noteq> VmiSystemBindingName then
           rangeE (\<lambda>newConfigMap. createUpdateConfigMaps R conn newConfigMap clusterName)
             (mcConfigMaps managedClusterObj)
         else gret None)"

definition CleanupOrphanedConfigMaps ::
  "'w runtime \<Rightarrow> SyntheticModelBinding \<Rightarrow> 'w connections \<Rightarrow> ('w, err option) prog" where
  "CleanupOrphanedConfigMaps R vzSynMB avail =
     gbind (GetManagedClustersNotForVerrazzanoBinding R vzSynMB avail) (\<lambda>unmatchedClusters.
       rangeMap R unmatchedClusters (\<lambda>clusterName conn.
         deleteListed (connName conn) ConfigMapKind (ConfigMapLister conn)
           (csConfigMaps (KubeClient conn)) []
           [(VerrazzanoBinding, Name (SynBinding vzSynMB)), (VerrazzanoCluster, clusterName)]
           Namespace (\<lambda>_. True)))"

section \<open>The accounts wanted\<close>

lemma newServiceAccount_simps [simp]:
  "Name (newServiceAccount n ns ls s) = n"
  "Namespace (newServiceAccount n ns ls s) = ns"
  "Labels (newServiceAccount n ns ls s) = ls"
  "saImagePullSecrets (newServiceAccount n ns ls s) = s"
  by (simp_all add: newServiceAccount_def ObjectMeta.defs ServiceAccount.defs noMeta_def)

lemma newServiceAccountsLoop_eq:
  "newServiceAccountsLoop b n ls nsn s nss =
   (if b = VmiSystemBindingName then (if nss = [] then [] else [newServiceAccount n nsn ls s])
    else map (\<lambda>ns. newServiceAccount n ns ls s) nss)"
  by (induction nss) auto

lemma wantedServiceAccounts_system:
  "mcNamespaces mc \<noteq> [] \<Longrightarrow>
   wantedServiceAccounts VmiSystemBindingName s cl mc =
     [newServiceAccount NodeExporterName MonitoringNamespace (GetNodeExporterLabels cl) s]"
  by (simp add: wantedServiceAccounts_def newServiceAccounts_def newServiceAccountsLoop_eq
      GetMonitoringComponents_def GetMonitoringComponentLabels_def GetMonitoringNamespace_def)

lemma wantedServiceAccounts_binding:
  "b \<noteq> VmiSystemBindingName \<Longrightarrow>
   wantedServiceAccounts b s cl mc =
     map (\<lambda>ns. newServiceAccount VerrazzanoSystem ns (GetManagedLabelsNoBinding cl) s)
       (mcNamespaces mc)"
  by (simp add: wantedServiceAccounts_def newServiceAccounts_def newServiceAccountsLoop_eq
      GetServiceAccountNameForSystem_def)

section \<open>What they send\<close>

lemma safe_CreateServiceAccounts [safe_rules]:
  assumes "covers conns mcs" "\<And>e. Q e"
    and "\<And>k mc a. mlookup mcs k = Some mc \<Longrightarrow> a \<in> set (wantedServiceAccounts b s k mc) \<Longrightarrow>
           ok k (Namespace a) (KServiceAccount a)"
  shows "safe (writes conns ok) X (CreateServiceAccounts R b s mcs conns) Q"
  unfolding CreateServiceAccounts_def createServiceAccount_def
  by (intro safe_rangeClusters safe_createAll) (use assms in auto)

lemma safe_CreateConfigMaps [safe_rules]:
  assumes "covers conns (ManagedClusters mb)" "\<And>e. Q e"
    and "\<And>k mc cm. Name (SynBinding mb) \<noteq> VmiSystemBindingName \<Longrightarrow>
           mlookup (ManagedClusters mb) k = Some mc \<Longrightarrow> cm \<in> set (mcConfigMaps mc) \<Longrightarrow>
           ok k (Namespace cm) (KConfigMap cm)"
  shows "safe (writes conns ok) X (CreateConfigMaps R mb conns ci) Q"
  unfolding CreateConfigMaps_def createUpdateConfigMaps_def
  by (intro safe_rangeClusters safe_if safe_createAll safe_gret) (use assms in auto)

lemma safe_CleanupOrphanedConfigMaps [safe_rules]:
  assumes "fairOrder R" "\<And>e. Q e"
    and "\<And>k n. k \<notin> clusterNames mb \<Longrightarrow> ok k n"
  shows "safe (deletes ConfigMapKind avail ok) X (CleanupOrphanedConfigMaps R mb avail) Q"
  unfolding CleanupOrphanedConfigMaps_def
  by (intro safe_gbind safe_NotFor safe_deleteAll)
    (use assms in \<open>auto simp: restrict_map_def split: if_splits\<close>)

end
