(* ===== verification/Managed_Workloads.thy ===== *)
theory Managed_Workloads
  imports Monitoring
begin

text \<open>
  pkg/managed/deployment.go, services.go and daemonsets.go: the deployments, services and daemon
  sets of the managed clusters. The cleanups of deployments and services first delete, on the
  clusters of the pair, what the pair does not want, then everything of the binding elsewhere.
\<close>

section \<open>Deployments\<close>

definition CreateDeployments ::
  "'w runtime \<Rightarrow> SyntheticModelBinding \<Rightarrow> 'w connections \<Rightarrow> string \<Rightarrow> ('w, err option) prog" where
  "CreateDeployments R vzSynMB filteredConnections verrazzanoURI =
     rangeClusters R (ManagedClusters vzSynMB) filteredConnections
       (\<lambda>clusterName managedClusterObj conn.
         rangeE (\<lambda>newDeployment.
             createOrUpdate R (connName conn) KDeployment (DeploymentLister conn)
               (csDeployments (KubeClient conn)) (Namespace newDeployment) (Name newDeployment)
               newDeployment)
           (mcDeployments managedClusterObj))"

definition DeleteDeployments ::
  "'w runtime \<Rightarrow> SyntheticModelBinding \<Rightarrow> 'w connections \<Rightarrow> ('w, err option) prog" where
  "DeleteDeployments R vzSynMB filteredConnections =
     rangeMap R filteredConnections (\<lambda>clusterName conn.
       deleteListed (connName conn) DeploymentKind (DeploymentLister conn)
         (csDeployments (KubeClient conn)) []
         (GetManagedBindingLabels (SynBinding vzSynMB) clusterName) Namespace (\<lambda>_. True))"

definition CleanupOrphanedDeployments ::
  "'w runtime \<Rightarrow> SyntheticModelBinding \<Rightarrow> 'w connections \<Rightarrow> ('w, err option) prog" where
  "CleanupOrphanedDeployments R vzSynMB avail =
     gbind (GetManagedClustersForVerrazzanoBinding R vzSynMB avail) (\<lambda>(matchedClusters, err).
       case err of
         Some _ \<Rightarrow> gret None
       | None \<Rightarrow>
           gbind (rangeClusters R (ManagedClusters vzSynMB) matchedClusters (\<lambda>clusterName mc conn.
               deleteListed (connName conn) DeploymentKind (DeploymentLister conn)
                 (csDeployments (KubeClient conn)) []
                 [(VerrazzanoBinding, Name (SynBinding vzSynMB)), (VerrazzanoCluster, clusterName)]
                 Namespace (\<lambda>d. \<not> Contains (map Name (mcDeployments mc)) (Name d)))) (\<lambda>err.
           case err of
             Some e \<Rightarrow> gret (Some e)
           | None \<Rightarrow>
               gbind (GetManagedClustersNotForVerrazzanoBinding R vzSynMB avail) (\<lambda>unmatched.
                 rangeMap R unmatched (\<lambda>clusterName conn.
                   deleteListed (connName conn) DeploymentKind (DeploymentLister conn)
                     (csDeployments (KubeClient conn)) []
                     [(VerrazzanoBinding, Name (SynBinding vzSynMB)),
                      (VerrazzanoCluster, clusterName)]
                     Namespace (\<lambda>_. True)))))"

section \<open>Services\<close>

definition newServices :: "string \<Rightarrow> Service list" where
  "newServices managedClusterName =
     (let roleLabels = GetNodeExporterLabels managedClusterName;
          ls = [(ServiceAppLabel, NodeExporterName)]
      in [ObjectMeta.extend
            (noMeta\<lparr>Name := NodeExporterName, Labels := roleLabels, Namespace := MonitoringNamespace\<rparr>)
            (Service.fields
               [\<lparr>spName = ''metrics'', spPort = 9100, spTargetPort = 9100, spProtocol = ''TCP''\<rparr>]
               ls ''ClusterIP'')])"

definition wantedServices :: "SyntheticModelBinding \<Rightarrow> string \<Rightarrow> ManagedCluster \<Rightarrow> Service list" where
  "wantedServices vzSynMB clusterName mc =
     (if Name (SynBinding vzSynMB) = VmiSystemBindingName then newServices clusterName
      else mcServices mc)"

definition CreateServices ::
  "'w runtime \<Rightarrow> SyntheticModelBinding \<Rightarrow> 'w connections \<Rightarrow> ('w, err option) prog" where
  "CreateServices R vzSynMB filteredConnections =
     rangeClusters R (ManagedClusters vzSynMB) filteredConnections (\<lambda>clusterName mc conn.
       rangeE (\<lambda>service.
           createOrUpdate R (connName conn) KService (ServiceLister conn)
             (csServices (KubeClient conn)) (Namespace service) (Name service) service)
         (wantedServices vzSynMB clusterName mc))"

definition DeleteServices ::
  "'w runtime \<Rightarrow> SyntheticModelBinding \<Rightarrow> 'w connections \<Rightarrow> ('w, err option) prog" where
  "DeleteServices R vzSynMB filteredConnections =
     rangeMap R filteredConnections (\<lambda>clusterName conn.
       deleteListed (connName conn) ServiceKind (ServiceLister conn)
         (csServices (KubeClient conn)) []
         (GetManagedBindingLabels (SynBinding vzSynMB) clusterName) Namespace (\<lambda>_. True))"

definition CleanupOrphanedServices ::
  "'w runtime \<Rightarrow> SyntheticModelBinding \<Rightarrow> 'w connections \<Rightarrow> ('w, err option) prog" where
  "CleanupOrphanedServices R vzSynMB avail =
     gbind (GetManagedClustersForVerrazzanoBinding R vzSynMB avail) (\<lambda>(matchedClusters, err).
       case err of
         Some _ \<Rightarrow> gret None
       | None \<Rightarrow>
           gbind (rangeClusters R (ManagedClusters vzSynMB) matchedClusters (\<lambda>clusterName mc conn.
               deleteListed (connName conn) ServiceKind (ServiceLister conn)
                 (csServices (KubeClient conn)) []
                 [(VerrazzanoBinding, Name (SynBinding vzSynMB)), (VerrazzanoCluster, clusterName)]
                 Namespace (\<lambda>s. \<not> Contains (map Name (mcServices mc)) (Name s)))) (\<lambda>err.
           case err of
             Some e \<Rightarrow> gret (Some e)
           | None \<Rightarrow>
               gbind (GetManagedClustersNotForVerrazzanoBinding R vzSynMB avail) (\<lambda>unmatched.
                 rangeMap R unmatched (\<lambda>clusterName conn.
                   deleteListed (connName conn) ServiceKind (ServiceLister conn)
                     (csServices (KubeClient conn)) []
                     [(VerrazzanoBinding, Name (SynBinding vzSynMB)),
                      (VerrazzanoCluster, clusterName)]
                     Namespace (\<lambda>_. True)))))"

section \<open>Daemon sets\<close>

text \<open>The error of \<^verbatim>\<open>newDaemonSet\<close> is always nil.\<close>

definition newDaemonSet :: "'w runtime \<Rightarrow> string \<Rightarrow> string \<Rightarrow> ClusterInfo \<Rightarrow> DaemonSet list" where
  "newDaemonSet R managedClusterName verrazzanoURI clusterInfo =
     SystemDaemonSets R managedClusterName verrazzanoURI clusterInfo"

definition CreateDaemonSets ::
  "'w runtime \<Rightarrow> SyntheticModelBinding \<Rightarrow> 'w connections \<Rightarrow> string \<Rightarrow> ClusterInfo \<Rightarrow>
   ('w, err option) prog" where
  "CreateDaemonSets R vzSynMB filteredConnections verrazzanoURI clusterInfo =
     (if Name (SynBinding vzSynMB) \<noteq> VmiSystemBindingName then gret None
      else
        rangeClusters R (ManagedClusters vzSynMB) filteredConnections (\<lambda>clusterName _ conn.
          rangeE (\<lambda>newDS.
              createOrUpdate R (connName conn) KDaemonSet (DaemonSetLister conn)
                (csDaemonSets (KubeClient conn)) (Namespace newDS) (Name newDS) newDS)
            (newDaemonSet R clusterName verrazzanoURI clusterInfo)))"

section \<open>What they send\<close>

lemma safe_CreateDeployments [safe_rules]:
  assumes "covers conns (ManagedClusters mb)" "\<And>e. Q e"
    and "\<And>k mc d. mlookup (ManagedClusters mb) k = Some mc \<Longrightarrow> d \<in> set (mcDeployments mc) \<Longrightarrow>
           ok k (Namespace d) (KDeployment d)"
  shows "safe (writes conns ok) X (CreateDeployments R mb conns u) Q"
  unfolding CreateDeployments_def
  by (intro safe_rangeClusters safe_createAll) (use assms in auto)

lemma safe_CreateServices [safe_rules]:
  assumes "covers conns (ManagedClusters mb)" "\<And>e. Q e"
    and "\<And>k mc s. mlookup (ManagedClusters mb) k = Some mc \<Longrightarrow>
           s \<in> set (wantedServices mb k mc) \<Longrightarrow> ok k (Namespace s) (KService s)"
  shows "safe (writes conns ok) X (CreateServices R mb conns) Q"
  unfolding CreateServices_def
  by (intro safe_rangeClusters safe_createAll) (use assms in auto)

lemma safe_CreateDaemonSets [safe_rules]:
  assumes "covers conns (ManagedClusters mb)" "\<And>e. Q e"
    and "\<And>k d. Name (SynBinding mb) = VmiSystemBindingName \<Longrightarrow>
           k \<in> dom (mlookup (ManagedClusters mb)) \<Longrightarrow> d \<in> set (newDaemonSet R k u ci) \<Longrightarrow>
           ok k (Namespace d) (KDaemonSet d)"
  shows "safe (writes conns ok) X (CreateDaemonSets R mb conns u ci) Q"
  unfolding CreateDaemonSets_def
  by (intro safe_if safe_gret safe_rangeClusters safe_createAll) (use assms in auto)

lemma safe_DeleteDeployments [safe_rules]:
  assumes "\<And>k n. k \<in> dom (mlookup conns) \<Longrightarrow> ok k n" "\<And>e. Q e"
  shows "safe (deletes DeploymentKind conns ok) X (DeleteDeployments R mb conns) Q"
  unfolding DeleteDeployments_def by (intro safe_deleteAll) (use assms in auto)

lemma safe_DeleteServices [safe_rules]:
  assumes "\<And>k n. k \<in> dom (mlookup conns) \<Longrightarrow> ok k n" "\<And>e. Q e"
  shows "safe (deletes ServiceKind conns ok) X (DeleteServices R mb conns) Q"
  unfolding DeleteServices_def by (intro safe_deleteAll) (use assms in auto)

lemma safe_CleanupOrphanedDeployments [safe_rules]:
  assumes "fairOrder R" "wf_pair mb" "\<And>e. Q e"
    and "\<And>k mc n. mlookup (ManagedClusters mb) k = Some mc \<Longrightarrow>
           n \<notin> Name ` set (mcDeployments mc) \<Longrightarrow> ok k n"
    and "\<And>k n. k \<notin> clusterNames mb \<Longrightarrow> ok k n"
  shows "safe (deletes DeploymentKind avail ok) X (CleanupOrphanedDeployments R mb avail) Q"
  unfolding CleanupOrphanedDeployments_def Contains_iff set_map
  by (intro safe_gbind safe_For safe_NotFor safe_case_prod safe_case_option safe_gret
      safe_deleteAll safe_cleanupMatched)
    (use assms in \<open>auto simp: restrict_map_def split: if_splits\<close>)

lemma safe_CleanupOrphanedServices [safe_rules]:
  assumes "fairOrder R" "wf_pair mb" "\<And>e. Q e"
    and "\<And>k mc n. mlookup (ManagedClusters mb) k = Some mc \<Longrightarrow>
           n \<notin> Name ` set (mcServices mc) \<Longrightarrow> ok k n"
    and "\<And>k n. k \<notin> clusterNames mb \<Longrightarrow> ok k n"
  shows "safe (deletes ServiceKind avail ok) X (CleanupOrphanedServices R mb avail) Q"
  unfolding CleanupOrphanedServices_def Contains_iff set_map
  by (intro safe_gbind safe_For safe_NotFor safe_case_prod safe_case_option safe_gret
      safe_deleteAll safe_cleanupMatched)
    (use assms in \<open>auto simp: restrict_map_def split: if_splits\<close>)

end
