(* ===== verification/Utf8.thy ===== *)
theory Utf8
  imports Go_Prelude
begin

text \<open>
  The part of the standard library's packages unicode/utf8 and unicode/utf16 that encoding/json uses: a
  rune is a number, text a list of bytes. \<^verbatim>\<open>DecodeRune\<close> reads one rune and says how many bytes it has
  taken, \<^verbatim>\<open>RuneError\<close> and one byte where the bytes are not UTF-8; \<^verbatim>\<open>EncodeRune\<close> writes one, \<^verbatim>\<open>RuneError\<close> for
  a number that is no rune. What is well-formed is read back as it was written, and conversely.
\<close>

abbreviation byte :: "char \<Rightarrow> nat" where
  "byte c \<equiv> of_char c"

abbreviation utf8 :: "string \<Rightarrow> nat list" where
  "utf8 s \<equiv> map byte s"

abbreviation text_of :: "nat list \<Rightarrow> string" where
  "text_of bs \<equiv> map char_of bs"

definition RuneError :: nat where
  "RuneError = 0xFFFD"

section \<open>Decoding and encoding a rune\<close>

text \<open>The bytes that may follow: the second is restricted after E0, ED, F0 and F4, which excludes overlong
  forms, surrogates and what is beyond the last rune.\<close>

definition accepts :: "nat \<Rightarrow> nat \<Rightarrow> bool" where
  "accepts x y \<longleftrightarrow> (if x = 0xE0 then 0xA0 else if x = 0xF0 then 0x90 else 0x80) \<le> y \<and>
     y \<le> (if x = 0xED then 0x9F else if x = 0xF4 then 0x8F else 0xBF)"

definition continues :: "nat \<Rightarrow> bool" where
  "continues y \<longleftrightarrow> 0x80 \<le> y \<and> y \<le> 0xBF"

fun decodeRune :: "nat list \<Rightarrow> nat \<times> nat" where
  "decodeRune [] = (RuneError, 0)"
| "decodeRune (x # xs) =
     (if x < 0x80 then (x, 1)
      else if x < 0xC2 \<or> 0xF4 < x then (RuneError, 1)
      else if x < 0xE0 then
        (case xs of
           y # _ \<Rightarrow> if accepts x y then (x mod 32 * 64 + y mod 64, 2) else (RuneError, 1)
         | _ \<Rightarrow> (RuneError, 1))
      else if x < 0xF0 then
        (case xs of
           y # z # _ \<Rightarrow> if accepts x y \<and> continues z then (x mod 16 * 4096 + y mod 64 * 64 + z mod 64, 3)
                          else (RuneError, 1)
         | _ \<Rightarrow> (RuneError, 1))
      else
        (case xs of
           y # z # u # _ \<Rightarrow> if accepts x y \<and> continues z \<and> continues u
             then (x mod 8 * 262144 + y mod 64 * 4096 + z mod 64 * 64 + u mod 64, 4) else (RuneError, 1)
         | _ \<Rightarrow> (RuneError, 1)))"

definition isSurrogate :: "nat \<Rightarrow> bool" where
  "isSurrogate r \<longleftrightarrow> 0xD800 \<le> r \<and> r < 0xE000"

definition encodeRune :: "nat \<Rightarrow> nat list" where
  "encodeRune r =
     (if r < 0x80 then [r]
      else if r < 0x800 then [0xC0 + r div 64, 0x80 + r mod 64]
      else if isSurrogate r \<or> 0x10FFFF < r then [0xEF, 0xBF, 0xBD]
      else if r < 0x10000 then [0xE0 + r div 4096, 0x80 + r div 64 mod 64, 0x80 + r mod 64]
      else [0xF0 + r div 262144, 0x80 + r div 4096 mod 64, 0x80 + r div 64 mod 64, 0x80 + r mod 64])"

text \<open>\<^verbatim>\<open>utf16.DecodeRune\<close>: the rune of a surrogate pair.\<close>

definition decodePair :: "nat \<Rightarrow> nat \<Rightarrow> nat" where
  "decodePair r1 r2 =
     (if 0xD800 \<le> r1 \<and> r1 < 0xDC00 \<and> 0xDC00 \<le> r2 \<and> r2 < 0xE000
      then (r1 - 0xD800) * 1024 + (r2 - 0xDC00) + 0x10000 else RuneError)"

section \<open>Well-formed text\<close>

fun validUTF8 :: "nat list \<Rightarrow> bool" where
  "validUTF8 [] \<longleftrightarrow> True"
| "validUTF8 (b # bs) \<longleftrightarrow>
     (case decodeRune (b # bs) of (r, n) \<Rightarrow> \<not> (r = RuneError \<and> n = 1) \<and> validUTF8 (drop (n - 1) bs))"

text \<open>A rune that was decoded is encoded as the bytes it was decoded from.\<close>

lemma mod_of_range:
  fixes x :: nat
  shows "0xC2 \<le> x \<Longrightarrow> x < 0xE0 \<Longrightarrow> x mod 32 = x - 0xC0"
    and "0xE0 \<le> x \<Longrightarrow> x < 0xF0 \<Longrightarrow> x mod 16 = x - 0xE0"
    and "0xF0 \<le> x \<Longrightarrow> x \<le> 0xF4 \<Longrightarrow> x mod 8 = x - 0xF0"
    and "0x80 \<le> x \<Longrightarrow> x \<le> 0xBF \<Longrightarrow> x mod 64 = x - 0x80"
  by (simp_all add: mod_nat_eqI)

lemma accepts_range: "accepts x y \<Longrightarrow> 0x80 \<le> y \<and> y \<le> 0xBF"
  by (auto simp: accepts_def split: if_splits)

lemma digit64:
  fixes c :: nat
  assumes "c < 64"
  shows "(n * 64 + c) div 64 = n" "(n * 64 + c) mod 64 = c"
  using assms by simp_all

lemma encode2: "0xC2 \<le> x \<Longrightarrow> x < 0xE0 \<Longrightarrow> 0x80 \<le> y \<Longrightarrow> y \<le> 0xBF \<Longrightarrow>
    encodeRune (x mod 32 * 64 + y mod 64) = [x, y]"
proof -
  assume x: "0xC2 \<le> x" "x < 0xE0" and y: "0x80 \<le> y" "y \<le> 0xBF"
  define a b where "a = x - 0xC0" and "b = y - 0x80"
  from x y have e: "x = 0xC0 + a" "y = 0x80 + b" and r: "b < 64" "2 \<le> a" "a < 32" by (auto simp: a_def b_def)
  from mod_of_range(1) [OF x] mod_of_range(4) [OF y] have "x mod 32 = a" "y mod 64 = b"
    by (simp_all add: a_def b_def)
  with e r show ?thesis by (simp add: encodeRune_def)
qed

lemma encode3:
  assumes "0xE0 \<le> x" "x < 0xF0" "accepts x y" "continues z"
  shows "encodeRune (x mod 16 * 4096 + y mod 64 * 64 + z mod 64) = [x, y, z]"
proof -
  define a b c where "a = x - 0xE0" and "b = y - 0x80" and "c = z - 0x80"
  from assms accepts_range [OF assms(3)] have e: "x = 0xE0 + a" "y = 0x80 + b" "z = 0x80 + c"
    and r: "a < 16" "b < 64" "c < 64" by (auto simp: a_def b_def c_def continues_def)
  from assms(3) e r have s: "a = 0 \<Longrightarrow> 32 \<le> b" "a = 13 \<Longrightarrow> b < 32"
    by (auto simp: accepts_def)
  let ?r = "a * 4096 + b * 64 + c"
  have n: "?r = (a * 64 + b) * 64 + c" by simp
  have d: "?r div 4096 = a" "?r div 64 mod 64 = b" "?r mod 64 = c"
    using r by simp (simp_all only: n digit64 r)
  have "\<not> ?r < 0x800" using s(1) by (cases a) auto
  moreover have "a \<le> 12 \<or> a = 13 \<or> 14 \<le> a" by linarith
  then have "\<not> isSurrogate ?r" using s(2) r by (elim disjE) (simp_all add: isSurrogate_def)
  moreover have "?r < 0x10000" using r by simp
  ultimately have "encodeRune ?r = [0xE0 + a, 0x80 + b, 0x80 + c]" using d by (simp add: encodeRune_def)
  moreover have "x mod 16 = a" "y mod 64 = b" "z mod 64 = c" using e r mod_of_range(2,4) by simp_all
  ultimately show ?thesis using e by simp
qed

lemma encode4:
  assumes "0xF0 \<le> x" "x \<le> 0xF4" "accepts x y" "continues z" "continues u"
  shows "encodeRune (x mod 8 * 262144 + y mod 64 * 4096 + z mod 64 * 64 + u mod 64) = [x, y, z, u]"
proof -
  define a b c d where "a = x - 0xF0" and "b = y - 0x80" and "c = z - 0x80" and "d = u - 0x80"
  from assms accepts_range [OF assms(3)] have e: "x = 0xF0 + a" "y = 0x80 + b" "z = 0x80 + c" "u = 0x80 + d"
    and r: "a < 5" "b < 64" "c < 64" "d < 64" by (auto simp: a_def b_def c_def d_def continues_def)
  from assms(3) e r have s: "a = 0 \<Longrightarrow> 16 \<le> b" "a = 4 \<Longrightarrow> b < 16"
    by (auto simp: accepts_def)
  let ?r = "a * 262144 + b * 4096 + c * 64 + d"
  have n: "?r = ((a * 64 + b) * 64 + c) * 64 + d" by simp
  have q: "m div 4096 = m div 64 div 64" for m :: nat by (simp add: div_mult2_eq [symmetric])
  have d: "?r div 262144 = a" "?r div 4096 mod 64 = b" "?r div 64 mod 64 = c" "?r mod 64 = d"
    using r by simp (simp_all only: n q digit64 r)
  have "\<not> ?r < 0x10000" using s(1) by (cases a) auto
  moreover have "?r \<le> 0x10FFFF" using s(2) r by (cases "a = 4") auto
  ultimately have "encodeRune ?r = [0xF0 + a, 0x80 + b, 0x80 + c, 0x80 + d]"
    using d by (simp add: encodeRune_def isSurrogate_def)
  moreover have "x mod 8 = a" "y mod 64 = b" "z mod 64 = c" "u mod 64 = d" using e r mod_of_range(3,4) by simp_all
  ultimately show ?thesis using e by simp
qed

text \<open>So what \<open>decodeRune\<close> reads without an error, whatever comes after it, is what \<open>encodeRune\<close> writes.\<close>

lemma decode_encode:
  assumes "decodeRune (b # bs) = (r, n)" "\<not> (r = RuneError \<and> n = 1)"
  shows "encodeRune r = take n (b # bs) \<and> 0 < n \<and> n \<le> length (b # bs) \<and>
    (\<forall>xs. decodeRune (take n (b # bs) @ xs) = (r, n))"
proof -
  have one: ?thesis if "b < 0x80" using that assms(1) by (auto simp: encodeRune_def)
  have two: ?thesis if "0xC2 \<le> b" "b < 0xE0"
    using that assms encode2 [OF that] accepts_range by (cases bs) (auto split: if_splits)
  have three: ?thesis if "0xE0 \<le> b" "b < 0xF0"
    using that assms encode3 [OF that] by (auto split: if_splits list.splits)
  have four: ?thesis if "0xF0 \<le> b" "b \<le> 0xF4"
    using that assms encode4 [OF that] by (auto split: if_splits list.splits)
  have "b < 0x80 \<or> 0xC2 \<le> b \<and> b < 0xE0 \<or> 0xE0 \<le> b \<and> b < 0xF0 \<or> 0xF0 \<le> b \<and> b \<le> 0xF4"
    using assms by (auto split: if_splits)
  then show ?thesis using one two three four by blast
qed

text \<open>Conversely, what is written is read, \<open>RuneError\<close> in place of what is no rune.\<close>

lemma base64_digits:
  fixes r :: nat
  shows "r = r div 64 * 64 + r mod 64" "r = r div 4096 * 4096 + r div 64 mod 64 * 64 + r mod 64"
    and "r = r div 262144 * 262144 + r div 4096 mod 64 * 4096 + r div 64 mod 64 * 64 + r mod 64"
proof -
  have q: "m = m div 64 * 64 + m mod 64" for m :: nat by simp
  show 1: "r = r div 64 * 64 + r mod 64" by (rule q)
  have d: "r div 4096 = r div 64 div 64" "r div 262144 = r div 64 div 64 div 64"
    by (simp_all add: div_mult2_eq [symmetric])
  show 2: "r = r div 4096 * 4096 + r div 64 mod 64 * 64 + r mod 64"
    using 1 q [of "r div 64"] unfolding d by linarith
  show "r = r div 262144 * 262144 + r div 4096 mod 64 * 4096 + r div 64 mod 64 * 64 + r mod 64"
    using 2 q [of "r div 64 div 64"] unfolding d by linarith
qed

lemma encode_decode:
  "decodeRune (encodeRune r @ xs) =
     ((if isSurrogate r \<or> 0x10FFFF < r then RuneError else r), length (encodeRune r))"
proof -
  let ?b = "r div 64 mod 64" and ?c = "r mod 64"
  have m: "(0x80 + y) mod 64 = y" if "y < 64" for y :: nat using that by (simp add: mod_of_range)
  have c: "continues (0x80 + y)" if "y < 64" for y using that by (simp add: continues_def)
  have one: ?thesis if "r < 0x80" using that by (simp add: encodeRune_def isSurrogate_def)
  have two: ?thesis if "0x80 \<le> r" "r < 0x800"
  proof -
    define q where "q = r div 64"
    have q: "2 \<le> q" "q < 32" and c: "?c \<le> 63" using that by (simp_all add: q_def)
    have r: "r = q * 64 + ?c" unfolding q_def by (rule base64_digits)
    have e: "encodeRune r = [0xC0 + q, 0x80 + ?c]" and n: "\<not> isSurrogate r" "\<not> 0x10FFFF < r"
      using that by (simp_all add: encodeRune_def isSurrogate_def q_def)
    have "accepts (0xC0 + q) (0x80 + ?c)" "(0xC0 + q) mod 32 = q"
      using q c mod_of_range(1) [of "0xC0 + q"] by (simp_all add: accepts_def)
    then have "decodeRune ([0xC0 + q, 0x80 + ?c] @ xs) = (q * 64 + ?c, 2)" using q by (simp add: m)
    with e n r show ?thesis by simp
  qed
  have three: ?thesis if "0x800 \<le> r" "r < 0x10000" "\<not> isSurrogate r"
  proof -
    obtain x y z where d: "x = r div 4096" "y = ?b" "z = ?c" by blast
    have r: "r = x * 4096 + y * 64 + z" unfolding d by (rule base64_digits)
    have l: "x < 16" "y < 64" "z < 64" using that by (simp_all add: d)
    have e: "encodeRune r = [0xE0 + x, 0x80 + y, 0x80 + z]" using that by (simp add: encodeRune_def d)
    have "x = 0 \<Longrightarrow> 32 \<le> y" using r that(1) l by linarith
    moreover have "x = 13 \<Longrightarrow> y < 32" using r l that(3) unfolding isSurrogate_def by linarith
    ultimately have "accepts (0xE0 + x) (0x80 + y)" using l by (auto simp: accepts_def)
    then show ?thesis unfolding e using that l r by (simp add: c m mod_of_range)
  qed
  have four: ?thesis if "0x10000 \<le> r" "r \<le> 0x10FFFF"
  proof -
    obtain w x y z where d: "w = r div 262144" "x = r div 4096 mod 64" "y = ?b" "z = ?c" by blast
    have r: "r = w * 262144 + x * 4096 + y * 64 + z" unfolding d by (rule base64_digits)
    have l: "w < 5" "x < 64" "y < 64" "z < 64" using that by (simp_all add: d)
    have e: "encodeRune r = [0xF0 + w, 0x80 + x, 0x80 + y, 0x80 + z]" "\<not> isSurrogate r"
      using that by (simp_all add: encodeRune_def isSurrogate_def d)
    have "w = 0 \<Longrightarrow> 16 \<le> x" "w = 4 \<Longrightarrow> x < 16" using r that l by linarith+
    then have "accepts (0xF0 + w) (0x80 + x)" using l by (auto simp: accepts_def)
    then show ?thesis using e that l r by (simp add: c m mod_of_range)
  qed
  have none: ?thesis if "isSurrogate r \<or> 0x10FFFF < r"
    using that by (auto simp: encodeRune_def isSurrogate_def RuneError_def accepts_def continues_def)
  have "r < 0x80 \<or> (0x80 \<le> r \<and> r < 0x800) \<or> (0x800 \<le> r \<and> r < 0x10000 \<and> \<not> isSurrogate r) \<or>
    (0x10000 \<le> r \<and> r \<le> 0x10FFFF) \<or> isSurrogate r \<or> 0x10FFFF < r" by linarith
  with one two three four none show ?thesis by blast
qed

lemma encodeRune_nonempty: "encodeRune r \<noteq> []"
  by (simp add: encodeRune_def)

lemma validUTF8_encode: "validUTF8 (encodeRune r @ xs) \<longleftrightarrow> validUTF8 xs"
proof -
  obtain b bs where e: "encodeRune r = b # bs" using encodeRune_nonempty [of r] by (cases "encodeRune r") auto
  have "length (encodeRune r) = 1 \<Longrightarrow> r < 0x80" by (auto simp: encodeRune_def split: if_splits)
  then show ?thesis using encode_decode [of r xs] e by (auto simp: RuneError_def isSurrogate_def)
qed

lemma validUTF8_append: "validUTF8 xs \<Longrightarrow> validUTF8 ys \<Longrightarrow> validUTF8 (xs @ ys)"
proof (induction xs rule: validUTF8.induct)
  case (2 b bs)
  obtain r n where d: "decodeRune (b # bs) = (r, n)" by (cases "decodeRune (b # bs)")
  with 2(2) have ok: "\<not> (r = RuneError \<and> n = 1)" and v: "validUTF8 (drop (n - 1) bs)" by auto
  from decode_encode [OF d ok] have e: "b # bs = encodeRune r @ drop (n - 1) bs"
    by (cases n) simp_all
  have "validUTF8 (drop (n - 1) bs @ ys)" using 2(1) [OF d [symmetric]] v 2(3) ok by simp
  then have "validUTF8 (encodeRune r @ drop (n - 1) bs @ ys)" by (simp only: validUTF8_encode)
  with e show ?case by (metis append_assoc)
qed simp

text \<open>Bytes fit into a character.\<close>

lemma encodeRune_bytes: "b \<in> set (encodeRune r) \<Longrightarrow> b < 256"
  by (auto simp: encodeRune_def isSurrogate_def split: if_splits)

lemma utf8_text_of [simp]: "map (byte \<circ> char_of) (encodeRune r) = encodeRune r"
  using encodeRune_bytes by (auto intro!: map_idI)

lemma text_of_utf8 [simp]: "text_of (utf8 s) = s"
  by (simp add: o_def)

end
