(* ===== verification/Json.thy ===== *)
theory Json
  imports Utf8
begin

text \<open>
  The part of encoding/json (Go 1.13, which src/Dockerfile installs) that \<^verbatim>\<open>UpdateAcmeDNSSecret\<close> uses,
  short of the type it decodes into: how text is escaped and read back, how the bytes are split into
  tokens, and the states and the stack of the scanner, which build the value here. A string literal
  keeps its escapes until it is stored (\<open>unquote\<close>), as in the library.
\<close>

abbreviation quotation :: char where
  "quotation \<equiv> CHR 0x22"

abbreviation backslash :: char where
  "backslash \<equiv> CHR 0x5C"

section \<open>Writing text\<close>

definition hexDigit :: "nat \<Rightarrow> char" where
  "hexDigit d = char_of (if d < 10 then 48 + d else 87 + d)"

definition htmlSafe :: "char \<Rightarrow> bool" where
  "htmlSafe c \<longleftrightarrow> 0x20 \<le> byte c \<and> c \<notin> {quotation, backslash, CHR ''<'', CHR ''>'', CHR ''&''}"

definition escapeASCII :: "char \<Rightarrow> string" where
  "escapeASCII c =
     (if htmlSafe c then [c]
      else if c = backslash \<or> c = quotation then [backslash, c]
      else if c = CHR 0x0A then [backslash, CHR ''n'']
      else if c = CHR 0x0D then [backslash, CHR ''r'']
      else if c = CHR 0x09 then [backslash, CHR ''t'']
      else backslash # ''u00'' @ [hexDigit (byte c div 16), hexDigit (byte c mod 16)])"

text \<open>\<^verbatim>\<open>encodeState.string\<close> without the quotation marks.\<close>

fun escape :: "string \<Rightarrow> string" where
  "escape [] = []"
| "escape (c # s) =
     (if byte c < 0x80 then escapeASCII c @ escape s
      else case decodeRune (utf8 (c # s)) of (r, n) \<Rightarrow>
        (if r = RuneError \<and> n = 1 then backslash # ''ufffd''
         else if r = 0x2028 \<or> r = 0x2029 then backslash # ''u202'' @ [hexDigit (r mod 16)]
         else take n (c # s)) @ escape (drop (n - 1) s))"

section \<open>Reading text\<close>

definition hexVal :: "char \<Rightarrow> nat option" where
  "hexVal c =
     (let b = byte c
      in if 48 \<le> b \<and> b \<le> 57 then Some (b - 48)
         else if 97 \<le> b \<and> b \<le> 102 then Some (b - 87)
         else if 65 \<le> b \<and> b \<le> 70 then Some (b - 55)
         else None)"

text \<open>\<^verbatim>\<open>getu4\<close>: the number of an escaped rune with which the text begins.\<close>

fun getu4 :: "string \<Rightarrow> nat option" where
  "getu4 (a # b # h1 # h2 # h3 # h4 # _) =
     (if a = backslash \<and> b = CHR ''u''
      then (case (hexVal h1, hexVal h2, hexVal h3, hexVal h4) of
              (Some d1, Some d2, Some d3, Some d4) \<Rightarrow> Some (((d1 * 16 + d2) * 16 + d3) * 16 + d4)
            | _ \<Rightarrow> None)
      else None)"
| "getu4 _ = None"

definition simpleEscapes :: "char \<rightharpoonup> char" where
  "simpleEscapes = map_of [(quotation, quotation), (backslash, backslash), (CHR ''/'', CHR ''/''),
     (CHR 0x27, CHR 0x27), (CHR ''b'', CHR 0x08), (CHR ''f'', CHR 0x0C), (CHR ''n'', CHR 0x0A),
     (CHR ''r'', CHR 0x0D), (CHR ''t'', CHR 0x09)]"

abbreviation prepend :: "nat \<Rightarrow> string option \<Rightarrow> string option" where
  "prepend r \<equiv> map_option ((@) (text_of (encodeRune r)))"

text \<open>\<^verbatim>\<open>unquoteBytes\<close> of what is between the quotation marks.\<close>

fun unquote :: "string \<Rightarrow> string option" where
  "unquote [] = Some []"
| "unquote (c # s) =
     (if c = backslash then
        (case s of
           [] \<Rightarrow> None
         | e # s' \<Rightarrow>
             (case simpleEscapes e of
                Some x \<Rightarrow> map_option ((#) x) (unquote s')
              | None \<Rightarrow>
                  (case getu4 (c # s) of
                     None \<Rightarrow> None
                   | Some rr \<Rightarrow>
                       if isSurrogate rr then
                         (case getu4 (drop 5 s) of
                            Some rr1 \<Rightarrow>
                              if decodePair rr rr1 \<noteq> RuneError
                              then prepend (decodePair rr rr1) (unquote (drop 11 s))
                              else prepend RuneError (unquote (drop 5 s))
                          | None \<Rightarrow> prepend RuneError (unquote (drop 5 s)))
                       else prepend rr (unquote (drop 5 s)))))
      else if c = quotation \<or> byte c < 0x20 then None
      else if byte c < 0x80 then map_option ((#) c) (unquote s)
      else (case decodeRune (utf8 (c # s)) of (rr, n) \<Rightarrow> prepend rr (unquote (drop (n - 1) s))))"

section \<open>What is written is read\<close>

text \<open>Two numbers of a byte, and back.\<close>

lemma hexVal_hexDigit: "d < 16 \<Longrightarrow> hexVal (hexDigit d) = Some d"
  by (simp add: hexVal_def hexDigit_def Let_def)

lemma getu4_byte:
  "d1 < 16 \<Longrightarrow> d2 < 16 \<Longrightarrow>
   getu4 (backslash # CHR ''u'' # CHR ''0'' # CHR ''0'' # hexDigit d1 # hexDigit d2 # s) = Some (d1 * 16 + d2)"
  by (simp add: hexVal_hexDigit) (simp add: hexVal_def)

lemma unquote_escapeASCII:
  assumes "byte c < 0x80"
  shows "unquote (escapeASCII c @ s) = map_option ((#) c) (unquote s)"
proof -
  let ?u = "backslash # ''u00'' @ [hexDigit (byte c div 16), hexDigit (byte c mod 16)]"
  have "unquote (?u @ s) = prepend (byte c) (unquote s)"
    using assms by (simp add: getu4_byte simpleEscapes_def isSurrogate_def del: getu4.simps)
  moreover have "text_of (encodeRune (byte c)) = [c]" using assms by (simp add: encodeRune_def)
  ultimately have u: "unquote (?u @ s) = map_option ((#) c) (unquote s)"
    by (cases "unquote s") (simp_all only: option.map append.simps)
  show ?thesis
  proof (cases "escapeASCII c = ?u")
    case True
    with u show ?thesis by (simp only:)
  next
    case False
    with assms show ?thesis by (auto simp: escapeASCII_def htmlSafe_def simpleEscapes_def split: if_splits)
  qed
qed

lemma unquote_rune:
  assumes "decodeRune (utf8 (c # s)) = (r, n)" "\<not> (r = RuneError \<and> n = 1)" "\<not> byte c < 0x80"
  shows "unquote (take n (c # s) @ t) = map_option ((@) (take n (c # s))) (unquote t)"
    and "text_of (encodeRune r) = take n (c # s)"
proof -
  have e: "encodeRune r = take n (utf8 (c # s))" "0 < n" "n \<le> length (c # s)"
    "decodeRune (take n (utf8 (c # s)) @ utf8 t) = (r, n)"
    using decode_encode [of "byte c" "utf8 s" r n] assms by auto
  show x: "text_of (encodeRune r) = take n (c # s)" unfolding e(1) by (simp flip: take_map)
  obtain m where m: "n = Suc m" using e(2) by (cases n) auto
  have "c \<noteq> backslash" "c \<noteq> quotation" using assms(3) by auto
  then show "unquote (take n (c # s) @ t) = map_option ((@) (take n (c # s))) (unquote t)"
    using assms(3) e(3,4) x m by (simp add: take_map)
qed

lemma map_option_append [simp]:
  "map_option ((@) []) x = x"
  "map_option ((@) xs) (map_option ((@) ys) x) = map_option ((@) (xs @ ys)) x"
  by (cases x, simp_all)+

lemma unquote_escape:
  "validUTF8 (utf8 s) \<Longrightarrow> unquote (escape s @ t) = map_option ((@) s) (unquote t)"
proof (induction s rule: escape.induct)
  case (2 c s)
  show ?case
  proof (cases "byte c < 0x80")
    case True
    with 2 have "unquote (escape s @ t) = map_option ((@) s) (unquote t)" by simp
    with True show ?thesis
      by (cases "unquote t") (simp_all add: unquote_escapeASCII del: unquote.simps)
  next
    case False
    obtain r n where d: "decodeRune (utf8 (c # s)) = (r, n)" by (cases "decodeRune (utf8 (c # s))")
    with 2(3) have ok: "\<not> (r = RuneError \<and> n = 1)" and v: "validUTF8 (utf8 (drop (n - 1) s))"
      by (auto simp: drop_map)
    have n: "0 < n" using decode_encode [of "byte c" "utf8 s" r n] d ok by simp
    have IH: "unquote (escape (drop (n - 1) s) @ t) = map_option ((@) (drop (n - 1) s)) (unquote t)"
      using 2(2) [OF False d [symmetric]] v by simp
    have e: "take n (c # s) @ drop (n - 1) s = c # s"
      using n by (cases n) simp_all
    define w where "w = (if r = 0x2028 \<or> r = 0x2029 then backslash # ''u202'' @ [hexDigit (r mod 16)] else take n (c # s))"
    have "escape (c # s) = w @ escape (drop (n - 1) s)"
      using False d ok by (simp add: w_def RuneError_def del: decodeRune.simps)
    moreover have "unquote (w @ x) = map_option ((@) (take n (c # s))) (unquote x)" for x
    proof (cases "r = 0x2028 \<or> r = 0x2029")
      case True
      then have "unquote (w @ x) = prepend r (unquote x)"
        by (elim disjE) (simp_all add: w_def hexVal_def hexDigit_def simpleEscapes_def isSurrogate_def)
      with unquote_rune(2) [OF d ok False] show ?thesis by simp
    qed (simp only: w_def if_False unquote_rune(1) [OF d ok False])
    ultimately show ?thesis using IH e by (cases "unquote t") (simp_all del: unquote.simps escape.simps)
  qed
qed simp

text \<open>What is read is well-formed, whatever it was read from.\<close>

lemma unquote_valid: "unquote s = Some t \<Longrightarrow> validUTF8 (utf8 t)"
proof (induction s arbitrary: t rule: unquote.induct)
  case (2 c s)
  have one: "validUTF8 (utf8 (x # y))" if "byte x < 0x80" "validUTF8 (utf8 y)" for x y
    using that by (simp add: RuneError_def)
  have simple: "byte x < 0x80" if "simpleEscapes e = Some x" for e x
    using that by (auto simp: simpleEscapes_def split: if_splits)
  show ?case
    using 2 one simple
    by (auto simp: validUTF8_encode simp del: decodeRune.simps getu4.simps validUTF8.simps
      split: if_splits list.splits option.splits prod.splits)
qed simp

section \<open>Tokens\<close>

datatype strState = InString | InStringEsc | InStringEscU nat

text \<open>\<^verbatim>\<open>stateInString\<close> and the states after a backslash: the literal up to its quotation mark, and the rest.\<close>

fun scanString :: "strState \<Rightarrow> string \<Rightarrow> (string \<times> string) option" where
  "scanString _ [] = None"
| "scanString InString (c # s) =
     (if c = quotation then Some ([], s)
      else if byte c < 0x20 then None
      else map_option (map_prod ((#) c) id)
        (scanString (if c = backslash then InStringEsc else InString) s))"
| "scanString InStringEsc (c # s) =
     (if c \<in> set ''bfnrt/'' \<union> {backslash, quotation}
      then map_option (map_prod ((#) c) id) (scanString InString s)
      else if c = CHR ''u'' then map_option (map_prod ((#) c) id) (scanString (InStringEscU 3) s)
      else None)"
| "scanString (InStringEscU n) (c # s) =
     (if hexVal c = None then None
      else map_option (map_prod ((#) c) id)
        (scanString (if n = 0 then InString else InStringEscU (n - 1)) s))"

datatype numState = Neg | Digit0 | Digit1 | Dot | Dot0 | Exp | ExpSign | Exp0

definition isDigit :: "char \<Rightarrow> bool" where
  "isDigit c \<longleftrightarrow> 48 \<le> byte c \<and> byte c \<le> 57"

text \<open>\<^verbatim>\<open>stateNeg\<close>, \<^verbatim>\<open>state0\<close>, \<^verbatim>\<open>state1\<close>, \<^verbatim>\<open>stateDot\<close> and the others of a number.\<close>

fun numStep :: "numState \<Rightarrow> char \<Rightarrow> numState option" where
  "numStep Neg c = (if c = CHR ''0'' then Some Digit0 else if isDigit c then Some Digit1 else None)"
| "numStep Digit0 c = (if c = CHR ''.'' then Some Dot else if c \<in> set ''eE'' then Some Exp else None)"
| "numStep Digit1 c = (if isDigit c then Some Digit1 else if c = CHR ''.'' then Some Dot
     else if c \<in> set ''eE'' then Some Exp else None)"
| "numStep Dot c = (if isDigit c then Some Dot0 else None)"
| "numStep Dot0 c = (if isDigit c then Some Dot0 else if c \<in> set ''eE'' then Some Exp else None)"
| "numStep Exp c = (if c \<in> set ''+-'' then Some ExpSign else if isDigit c then Some Exp0 else None)"
| "numStep ExpSign c = (if isDigit c then Some Exp0 else None)"
| "numStep Exp0 c = (if isDigit c then Some Exp0 else None)"

fun scanNumber :: "numState \<Rightarrow> string \<Rightarrow> (string \<times> string) option" where
  "scanNumber st [] = (if st \<in> {Digit0, Digit1, Dot0, Exp0} then Some ([], []) else None)"
| "scanNumber st (c # s) =
     (case numStep st c of
        Some st' \<Rightarrow> map_option (map_prod ((#) c) id) (scanNumber st' s)
      | None \<Rightarrow> if st \<in> {Digit0, Digit1, Dot0, Exp0} then Some ([], c # s) else None)"

datatype token = LBrace | RBrace | LBracket | RBracket | Comma | Colon
  | TNull | TBool bool | TNumber string | TString string

lemma scanString_shorter [termination_simp]:
  "scanString st s = Some (x, y) \<Longrightarrow> length y < length s"
  by (induction st s arbitrary: x y rule: scanString.induct) (auto split: if_splits)

lemma scanNumber_shorter [termination_simp]:
  "scanNumber st s = Some (x, y) \<Longrightarrow> length y \<le> length s"
proof (induction s arbitrary: st x)
  case (Cons c s)
  then show ?case by (cases "numStep st c") (auto simp: le_SucI split: if_splits)
qed (simp split: if_splits)

definition punctuation :: "char \<rightharpoonup> token" where
  "punctuation = map_of [(CHR ''{'', LBrace), (CHR ''}'', RBrace), (CHR ''['', LBracket),
     (CHR '']'', RBracket), (CHR '','', Comma), (CHR '':'', Colon)]"

fun nextToken :: "char \<Rightarrow> string \<Rightarrow> (token \<times> string) option" where
  "nextToken c s =
     (case punctuation c of
        Some t \<Rightarrow> Some (t, s)
      | None \<Rightarrow>
          if c = quotation then map_option (map_prod TString id) (scanString InString s)
          else if c = CHR ''n'' \<and> take 3 s = ''ull'' then Some (TNull, drop 3 s)
          else if c = CHR ''t'' \<and> take 3 s = ''rue'' then Some (TBool True, drop 3 s)
          else if c = CHR ''f'' \<and> take 4 s = ''alse'' then Some (TBool False, drop 4 s)
          else if c = CHR ''-'' \<or> isDigit c then
            map_option (map_prod (\<lambda>x. TNumber (c # x)) id)
              (scanNumber (if c = CHR ''-'' then Neg else if c = CHR ''0'' then Digit0 else Digit1) s)
          else None)"

lemma nextToken_shorter [termination_simp]: "nextToken c s = Some (t, y) \<Longrightarrow> length y \<le> length s"
  by (auto simp: order.strict_implies_order [OF scanString_shorter] scanNumber_shorter
      split: option.splits if_splits)

definition isSpace :: "char \<Rightarrow> bool" where
  "isSpace c \<longleftrightarrow> c \<in> {CHR '' '', CHR 0x09, CHR 0x0D, CHR 0x0A}"

fun tokens :: "string \<Rightarrow> token list option" where
  "tokens [] = Some []"
| "tokens (c # s) =
     (if isSpace c then tokens s
      else case nextToken c s of
        Some (t, y) \<Rightarrow> map_option ((#) t) (tokens y)
      | None \<Rightarrow> None)"

text \<open>An escaped text is one literal, whatever the text.\<close>

definition scans :: "string \<Rightarrow> bool" where
  "scans w \<longleftrightarrow> (\<forall>t. scanString InString (w @ t) = map_option (map_prod ((@) w) id) (scanString InString t))"

lemma scans_append: "scans v \<Longrightarrow> scans w \<Longrightarrow> scans (v @ w)"
  by (auto simp: scans_def option.map_comp o_def prod.map_comp intro!: option.map_cong)

lemma map_option_cons [simp]: "map_option (map_prod ((#) c) id) (map_option (map_prod ((@) w) id) x) =
    map_option (map_prod ((@) (c # w)) id) x"
  by (cases x) auto

lemma scans_Cons: "c \<notin> {quotation, backslash} \<Longrightarrow> 0x20 \<le> byte c \<Longrightarrow> scans w \<Longrightarrow> scans (c # w)"
  by (simp add: scans_def)

lemma scans_Nil: "scans []"
  unfolding scans_def
proof
  show "scanString InString ([] @ t) = map_option (map_prod ((@) []) id) (scanString InString t)" for t
    by (cases "scanString InString t") auto
qed

lemma scans_plain: "list_all (\<lambda>c. 0x80 \<le> byte c) w \<Longrightarrow> scans w"
  by (induction w) (auto intro!: scans_Nil scans_Cons)

text \<open>The escapes.\<close>

lemma scans_simple: "c \<in> set ''bfnrt/'' \<union> {backslash, quotation} \<Longrightarrow> scans [backslash, c]"
  unfolding scans_def
proof
  fix t assume "c \<in> set ''bfnrt/'' \<union> {backslash, quotation}"
  then show "scanString InString ([backslash, c] @ t) =
      map_option (map_prod ((@) [backslash, c]) id) (scanString InString t)"
    by (cases "scanString InString t") auto
qed

lemma scans_u4:
  assumes "list_all (\<lambda>h. hexVal h \<noteq> None) [h1, h2, h3, h4]"
  shows "scans [backslash, CHR ''u'', h1, h2, h3, h4]"
  unfolding scans_def
proof
  fix t from assms show "scanString InString ([backslash, CHR ''u'', h1, h2, h3, h4] @ t) =
      map_option (map_prod ((@) [backslash, CHR ''u'', h1, h2, h3, h4]) id) (scanString InString t)"
    by (cases "scanString InString t") auto
qed

lemma scans_escapeASCII: "scans (escapeASCII c)"
proof -
  have "hexVal (hexDigit (byte c div 16)) \<noteq> None" "hexVal (hexDigit (byte c mod 16)) \<noteq> None"
    using hexVal_hexDigit [of "byte c div 16"] hexVal_hexDigit [of "byte c mod 16"]
      nat_of_char_less_256 [of c] by (simp_all add: less_mult_imp_div_less)
  then have "scans (backslash # ''u00'' @ [hexDigit (byte c div 16), hexDigit (byte c mod 16)])"
    by (simp add: scans_u4 hexVal_def)
  moreover have "scans [c]" if "htmlSafe c"
    using that by (auto simp: htmlSafe_def intro!: scans_Cons scans_Nil)
  ultimately show ?thesis unfolding escapeASCII_def by (auto intro: scans_simple)
qed

lemma scans_escape: "scans (escape s)"
proof (induction s rule: escape.induct)
  case 1
  show ?case by (simp add: scans_Nil)
next
  case (2 c s)
  show ?case
  proof (cases "byte c < 0x80")
    case True
    with 2(1) show ?thesis by (simp add: scans_append [OF scans_escapeASCII])
  next
    case False
    obtain r n where d: "decodeRune (utf8 (c # s)) = (r, n)" by (cases "decodeRune (utf8 (c # s))")
    have "scans (take n (c # s))" if "\<not> (r = RuneError \<and> n = 1)"
    proof -
      have e: "encodeRune r = take n (utf8 (c # s))" "0 < n"
        using decode_encode [of "byte c" "utf8 s" r n] d that by auto
      then have "hd (encodeRune r) = byte c" by (cases n) auto
      with False have "\<not> r < 0x80" by (auto simp: encodeRune_def)
      then have "list_all (\<lambda>b. 0x80 \<le> b) (utf8 (take n (c # s)))"
        unfolding take_map [symmetric] e(1) [symmetric] by (simp add: encodeRune_def)
      then show ?thesis by (intro scans_plain) (simp only: list.pred_map o_def)
    qed
    moreover have "scans (backslash # ''ufffd'')" "scans (backslash # ''u202'' @ [hexDigit 8])"
      "scans (backslash # ''u202'' @ [hexDigit 9])"
      by (simp_all add: scans_u4 hexVal_def hexDigit_def)
    ultimately have "scans (if r = RuneError \<and> n = 1 then backslash # ''ufffd''
        else if r = 0x2028 \<or> r = 0x2029 then backslash # ''u202'' @ [hexDigit (r mod 16)] else take n (c # s))"
      by auto
    from scans_append [OF this 2(2) [OF False d [symmetric]]] show ?thesis
      using False d by (simp del: decodeRune.simps)
  qed
qed

lemma scanString_escape: "scanString InString (escape s @ quotation # t) = Some (escape s, t)"
  using scans_escape [of s] by (simp add: scans_def)

section \<open>Values\<close>

datatype json = JNull | JBool bool | JNumber string | JString string
  | JArray "json list" | JObject "(string \<times> json) list"

text \<open>The states of the scanner between tokens, and its stack: an array with the values so far, an object
  with its members so far, one that has a key and waits for the value.\<close>

datatype scanState = BeginValue | BeginValueOrEmpty | BeginStringOrEmpty | BeginString
  | EndKey string | EndValue json

datatype frame = InArray "json list" | InObject "(string \<times> json) list"
  | InMember "(string \<times> json) list" string

fun beginValue :: "token \<Rightarrow> frame list \<Rightarrow> (scanState \<times> frame list) option" where
  "beginValue LBrace st = Some (BeginStringOrEmpty, InObject [] # st)"
| "beginValue LBracket st = Some (BeginValueOrEmpty, InArray [] # st)"
| "beginValue TNull st = Some (EndValue JNull, st)"
| "beginValue (TBool b) st = Some (EndValue (JBool b), st)"
| "beginValue (TNumber n) st = Some (EndValue (JNumber n), st)"
| "beginValue (TString s) st = Some (EndValue (JString s), st)"
| "beginValue _ _ = None"

fun scanStep :: "scanState \<Rightarrow> frame list \<Rightarrow> token \<Rightarrow> (scanState \<times> frame list) option" where
  "scanStep BeginValue st t = beginValue t st"
| "scanStep BeginValueOrEmpty (InArray vs # st) RBracket = Some (EndValue (JArray vs), st)"
| "scanStep BeginValueOrEmpty st t = beginValue t st"
| "scanStep BeginStringOrEmpty (InObject ms # st) RBrace = Some (EndValue (JObject ms), st)"
| "scanStep BeginStringOrEmpty st (TString s) = Some (EndKey s, st)"
| "scanStep BeginString st (TString s) = Some (EndKey s, st)"
| "scanStep (EndKey k) (InObject ms # st) Colon = Some (BeginValue, InMember ms k # st)"
| "scanStep (EndValue v) (InArray vs # st) Comma = Some (BeginValue, InArray (vs @ [v]) # st)"
| "scanStep (EndValue v) (InArray vs # st) RBracket = Some (EndValue (JArray (vs @ [v])), st)"
| "scanStep (EndValue v) (InMember ms k # st) Comma = Some (BeginString, InObject (ms @ [(k, v)]) # st)"
| "scanStep (EndValue v) (InMember ms k # st) RBrace = Some (EndValue (JObject (ms @ [(k, v)])), st)"
| "scanStep _ _ _ = None"

text \<open>At the end of the bytes one value must be complete and nothing open.\<close>

primrec scan :: "token list \<Rightarrow> scanState \<Rightarrow> frame list \<Rightarrow> json option" where
  "scan [] p st = (case p of EndValue v \<Rightarrow> if st = [] then Some v else None | _ \<Rightarrow> None)"
| "scan (t # ts) p st = (case scanStep p st t of Some (p', st') \<Rightarrow> scan ts p' st' | None \<Rightarrow> None)"

definition parse :: "string \<Rightarrow> json option" where
  "parse data = (case tokens data of Some ts \<Rightarrow> scan ts BeginValue [] | None \<Rightarrow> None)"

text \<open>The tokens of a value, which the scanner puts together again.\<close>

fun separated :: "'a \<Rightarrow> 'a list list \<Rightarrow> 'a list" where
  "separated c [] = []"
| "separated c [x] = x"
| "separated c (x # y # ys) = x @ c # separated c (y # ys)"

fun tokensOf :: "json \<Rightarrow> token list" where
  "tokensOf JNull = [TNull]"
| "tokensOf (JBool b) = [TBool b]"
| "tokensOf (JNumber n) = [TNumber n]"
| "tokensOf (JString s) = [TString s]"
| "tokensOf (JArray vs) = LBracket # separated Comma (map tokensOf vs) @ [RBracket]"
| "tokensOf (JObject ms) =
     LBrace # separated Comma (map (\<lambda>(k, v). TString k # Colon # tokensOf v) ms) @ [RBrace]"

lemma separated_Cons: "ys \<noteq> [] \<Longrightarrow> separated c (x # ys) = x @ c # separated c ys"
  by (cases ys) auto

text \<open>An array after its first value, an object after its first member.\<close>

lemma scan_elements:
  assumes "\<And>v ts st. v \<in> set vs \<Longrightarrow> scan (tokensOf v @ ts) BeginValue st = scan ts (EndValue v) st"
    and "vs \<noteq> []"
  shows "scan (separated Comma (map tokensOf vs) @ RBracket # ts) BeginValue (InArray us # st) =
    scan ts (EndValue (JArray (us @ vs))) st"
  using assms
proof (induction vs arbitrary: us)
  case (Cons v vs)
  then show ?case by (cases "vs = []") (simp_all add: separated_Cons)
qed simp

lemma scan_members:
  assumes "\<And>k v ts st. (k, v) \<in> set ms \<Longrightarrow> scan (tokensOf v @ ts) BeginValue st = scan ts (EndValue v) st"
    and "ms \<noteq> []" "p \<in> {BeginString, BeginStringOrEmpty}"
  shows "scan (separated Comma (map (\<lambda>(k, v). TString k # Colon # tokensOf v) ms) @ RBrace # ts) p
      (InObject us # st) = scan ts (EndValue (JObject (us @ ms))) st"
  using assms
proof (induction ms arbitrary: us p)
  case (Cons m ms)
  obtain k v where m: "m = (k, v)" by (cases m)
  from Cons.prems(3) have "scanStep p (InObject us # st) (TString k) = Some (EndKey k, InObject us # st)"
    by auto
  moreover have "scan (separated Comma (map (\<lambda>(k, v). TString k # Colon # tokensOf v) ms) @ RBrace # ts)
      BeginString (InObject (us @ [(k, v)]) # st) = scan ts (EndValue (JObject ((us @ [(k, v)]) @ ms))) st"
    if "ms \<noteq> []"
    by (rule Cons.IH) (use Cons.prems(1) that in auto)
  ultimately show ?case
    using Cons.prems(1) [of k v] m by (cases "ms = []") (simp_all add: separated_Cons)
qed simp

lemma scan_tokensOf: "scan (tokensOf v @ ts) BeginValue st = scan ts (EndValue v) st"
proof (induction v arbitrary: ts st rule: tokensOf.induct)
  case (5 vs)
  show ?case
  proof (cases vs)
    case (Cons u us)
    have "scan (tokensOf (JArray vs) @ ts) BeginValue st =
        scan (separated Comma (map tokensOf vs) @ RBracket # ts) BeginValue (InArray [] # st)"
    proof -
      obtain t ts' where "tokensOf u = t # ts'" "t \<noteq> RBracket" by (cases u) auto
      then have "\<exists>ts'. separated Comma (map tokensOf vs) = t # ts'"
        using Cons by (cases us) auto
      with \<open>t \<noteq> RBracket\<close> show ?thesis by (cases t) auto
    qed
    also have "\<dots> = scan ts (EndValue (JArray ([] @ vs))) st"
      by (rule scan_elements) (use 5 Cons in auto)
    finally show ?thesis by simp
  qed simp
next
  case (6 ms)
  show ?case
  proof (cases "ms = []")
    case False
    have "scan (separated Comma (map (\<lambda>(k, v). TString k # Colon # tokensOf v) ms) @ RBrace # ts)
        BeginStringOrEmpty (InObject [] # st) = scan ts (EndValue (JObject ([] @ ms))) st"
      by (rule scan_members) (use 6 False in auto)
    then show ?thesis by simp
  qed simp
qed simp_all

lemma parse_tokensOf: "tokens data = Some (tokensOf v) \<Longrightarrow> parse data = Some v"
  using scan_tokensOf [of v "[]"] by (simp add: parse_def)

end
