(* ===== verification/Acme_Json.thy ===== *)
theory Acme_Json
  imports Json Kube "HOL-Library.Char_ord" "HOL-Library.List_Lexorder"
begin

text \<open>
  The credentials of pkg/local/secrets.go (\<^verbatim>\<open>acmeDNS\<close>, with the names its tags give the fields) and their
  JSON form: \<^verbatim>\<open>json.Marshal\<close> and \<^verbatim>\<open>json.Unmarshal\<close> at the type \<^verbatim>\<open>map[string]acmeDNS\<close>. What was
  marshalled is unmarshalled as it was, and what is unmarshalled is a map of well-formed texts.
\<close>

text \<open>The encoding tells a nil slice from an empty one, so the slice is optional here.\<close>

record acmeDNS =
  AllowFrom :: "string list option"
  Fulldomain :: string
  acmePassword :: string
  Subdomain :: string
  acmeUsername :: string

text \<open>The zero value, which reading an absent key of a map of structs gives.\<close>

definition noAcmeDNS :: acmeDNS where
  "noAcmeDNS = \<lparr>AllowFrom = None, Fulldomain = [], acmePassword = [], Subdomain = [], acmeUsername = []\<rparr>"

section \<open>Marshal\<close>

definition encodeString :: "string \<Rightarrow> string" where
  "encodeString s = quotation # escape s @ [quotation]"

definition encodeStrings :: "string list option \<Rightarrow> string" where
  "encodeStrings xs =
     (case xs of
        None \<Rightarrow> ''null''
      | Some xs \<Rightarrow> ''['' @ separated (CHR '','') (map encodeString xs) @ '']'')"

definition encodeField :: "string \<Rightarrow> string \<Rightarrow> string" where
  "encodeField name value = encodeString name @ '':'' @ value"

text \<open>The fields in the order of the struct, under the names of their tags.\<close>

definition encodeAcmeDNS :: "acmeDNS \<Rightarrow> string" where
  "encodeAcmeDNS c =
     ''{'' @ separated (CHR '','')
       [encodeField ''allowfrom'' (encodeStrings (AllowFrom c)),
        encodeField ''fulldomain'' (encodeString (Fulldomain c)),
        encodeField ''password'' (encodeString (acmePassword c)),
        encodeField ''subdomain'' (encodeString (Subdomain c)),
        encodeField ''username'' (encodeString (acmeUsername c))] @ ''}''"

text \<open>A map that is not nil, by its keys in the order of their bytes.\<close>

definition acmeMarshal :: "acmeDNS gomap \<Rightarrow> string" where
  "acmeMarshal m =
     ''{'' @ separated (CHR '','') (map (\<lambda>(k, c). encodeField k (encodeAcmeDNS c)) (sort_key fst m)) @ ''}''"

section \<open>Unmarshal\<close>

text \<open>Storing a value gives what is stored and whether the types agree. Where they do not the library goes
  on, and reports the first such error at the end.\<close>

definition storeString :: "json \<Rightarrow> string \<Rightarrow> string \<times> bool" where
  "storeString v old =
     (case v of
        JString s \<Rightarrow> (case unquote s of Some t \<Rightarrow> (t, True) | None \<Rightarrow> (old, False))
      | JNull \<Rightarrow> (old, True)
      | _ \<Rightarrow> (old, False))"

text \<open>The elements of an array, over those of the slice that was there.\<close>

fun storeElements :: "json list \<Rightarrow> string list \<Rightarrow> string list \<times> bool" where
  "storeElements [] old = ([], True)"
| "storeElements (v # vs) old =
     (case (storeString v (case old of [] \<Rightarrow> [] | x # _ \<Rightarrow> x), storeElements vs (tl old)) of
        ((x, ok), (xs, oks)) \<Rightarrow> (x # xs, ok \<and> oks))"

text \<open>A field of a slice keeps its array, of which the slice is a beginning. (A field that is named twice is
  stored twice.)\<close>

definition storeStrings :: "json \<Rightarrow> string list \<times> string list option \<Rightarrow> (string list \<times> string list option) \<times> bool" where
  "storeStrings v old =
     (case v of
        JArray vs \<Rightarrow>
          (case storeElements vs (fst old) of
             (xs, ok) \<Rightarrow> ((if vs = [] then [] else xs @ drop (length xs) (fst old), Some xs), ok))
      | JNull \<Rightarrow> (([], None), True)
      | _ \<Rightarrow> (old, False))"

text \<open>\<^verbatim>\<open>equalFoldRight\<close>: the name of a field and a key that is the same but for the case of its letters; the
  long s is one more s.\<close>

fun equalFold :: "string \<Rightarrow> string \<Rightarrow> bool" where
  "equalFold [] t \<longleftrightarrow> t = []"
| "equalFold (c # s) [] \<longleftrightarrow> False"
| "equalFold (c # s) (d # t) \<longleftrightarrow>
     (if byte d < 0x80 then
        (d = c \<or> 97 \<le> byte c \<and> byte c \<le> 122 \<and> byte d + 32 = byte c) \<and> equalFold s t
      else c = CHR ''s'' \<and> decodeRune (utf8 (d # t)) = (0x17F, 2) \<and> equalFold s (tl t))"

definition fieldNames :: "string list" where
  "fieldNames = [''allowfrom'', ''fulldomain'', ''password'', ''subdomain'', ''username'']"

definition fieldOf :: "string \<Rightarrow> string option" where
  "fieldOf key = (if key \<in> set fieldNames then Some key else find (\<lambda>f. equalFold f key) fieldNames)"

text \<open>A member of an object stored into the struct \<open>fst c\<close>, whose slice has the array \<open>snd c\<close>.\<close>

definition storeField :: "string \<Rightarrow> json \<Rightarrow> acmeDNS \<times> string list \<Rightarrow> (acmeDNS \<times> string list) \<times> bool" where
  "storeField key v c =
     (case c of (d, array) \<Rightarrow>
        (case fieldOf key of
           None \<Rightarrow> (c, True)
         | Some f \<Rightarrow>
             if f = ''allowfrom'' then
               (case storeStrings v (array, AllowFrom d) of
                  ((array', xs), ok) \<Rightarrow> ((d\<lparr>AllowFrom := xs\<rparr>, array'), ok))
             else if f = ''fulldomain'' then
               (case storeString v (Fulldomain d) of (x, ok) \<Rightarrow> ((d\<lparr>Fulldomain := x\<rparr>, array), ok))
             else if f = ''password'' then
               (case storeString v (acmePassword d) of (x, ok) \<Rightarrow> ((d\<lparr>acmePassword := x\<rparr>, array), ok))
             else if f = ''subdomain'' then
               (case storeString v (Subdomain d) of (x, ok) \<Rightarrow> ((d\<lparr>Subdomain := x\<rparr>, array), ok))
             else
               (case storeString v (acmeUsername d) of (x, ok) \<Rightarrow> ((d\<lparr>acmeUsername := x\<rparr>, array), ok))))"

fun storeFields :: "(string \<times> json) list \<Rightarrow> acmeDNS \<times> string list \<Rightarrow> acmeDNS \<times> bool" where
  "storeFields [] c = (fst c, True)"
| "storeFields ((k, v) # ms) c =
     (case unquote k of
        None \<Rightarrow> (fst c, False)
      | Some key \<Rightarrow>
          (case storeField key v c of (c', ok) \<Rightarrow>
             (case storeFields ms c' of (d, oks) \<Rightarrow> (d, ok \<and> oks))))"

text \<open>The value of a key begins as the zero value.\<close>

definition storeAcmeDNS :: "json \<Rightarrow> acmeDNS \<times> bool" where
  "storeAcmeDNS v =
     (case v of
        JObject ms \<Rightarrow> storeFields ms (noAcmeDNS, [])
      | JNull \<Rightarrow> (noAcmeDNS, True)
      | _ \<Rightarrow> (noAcmeDNS, False))"

fun storeEntries :: "(string \<times> json) list \<Rightarrow> acmeDNS gomap \<Rightarrow> acmeDNS gomap \<times> bool" where
  "storeEntries [] m = (m, True)"
| "storeEntries ((k, v) # ms) m =
     (case unquote k of
        None \<Rightarrow> (m, False)
      | Some key \<Rightarrow>
          (case storeAcmeDNS v of (c, ok) \<Rightarrow>
             (case storeEntries ms (mset_key key c m) of (m', oks) \<Rightarrow> (m', ok \<and> oks))))"

text \<open>A nil slice of bytes has no value in it; \<^verbatim>\<open>null\<close> is the nil map.\<close>

definition acmeUnmarshal :: "bytes \<Rightarrow> err + acmeDNS gomap" where
  "acmeUnmarshal data =
     (case parse (case data of None \<Rightarrow> [] | Some d \<Rightarrow> d) of
        None \<Rightarrow> Inl (Errorf ''syntax error in JSON'')
      | Some v \<Rightarrow>
          (case (case v of JObject ms \<Rightarrow> storeEntries ms [] | JNull \<Rightarrow> ([], True) | _ \<Rightarrow> ([], False)) of
             (m, True) \<Rightarrow> Inr m
           | (_, False) \<Rightarrow> Inl (Errorf ''json: cannot unmarshal'')))"

section \<open>The text that Marshal writes\<close>

text \<open>A piece of text that is these tokens wherever it stands.\<close>

definition lexes :: "string \<Rightarrow> token list \<Rightarrow> bool" where
  "lexes w ts \<longleftrightarrow> (\<forall>t. tokens (w @ t) = map_option ((@) ts) (tokens t))"

named_theorems lexes_rules

lemma append_singleton [simp]: "(@) [x] = (#) x"
  by auto

lemma lexesD: "lexes w ts \<Longrightarrow> tokens w = Some ts"
  unfolding lexes_def by (drule spec [of _ "[]"]) simp

lemma lexes_append: "lexes v ts \<Longrightarrow> lexes w us \<Longrightarrow> lexes (v @ w) (ts @ us)"
  by (simp add: lexes_def)

lemma lexes_punctuation: "punctuation c = Some t \<Longrightarrow> lexes w ts \<Longrightarrow> lexes (c # w) (t # ts)"
proof -
  assume p: "punctuation c = Some t" and w: "lexes w ts"
  have "\<not> isSpace c" using p by (auto simp: punctuation_def isSpace_def split: if_splits)
  with p w show ?thesis by (auto simp: lexes_def option.map_comp o_def intro!: option.map_cong)
qed

lemma lexes_Nil [lexes_rules]: "lexes [] []"
  by (simp add: lexes_def)

lemma lexes_marks [lexes_rules]:
  "lexes w ts \<Longrightarrow> lexes (CHR ''{'' # w) (LBrace # ts)" "lexes w ts \<Longrightarrow> lexes (CHR ''}'' # w) (RBrace # ts)"
  "lexes w ts \<Longrightarrow> lexes (CHR ''['' # w) (LBracket # ts)" "lexes w ts \<Longrightarrow> lexes (CHR '']'' # w) (RBracket # ts)"
  "lexes w ts \<Longrightarrow> lexes (CHR '','' # w) (Comma # ts)" "lexes w ts \<Longrightarrow> lexes (CHR '':'' # w) (Colon # ts)"
  by (simp_all add: lexes_punctuation punctuation_def)

lemma lexes_encodeString [lexes_rules]: "lexes (encodeString s) [TString (escape s)]"
  unfolding lexes_def encodeString_def
proof
  fix t
  have "nextToken quotation (escape s @ quotation # t) = Some (TString (escape s), t)"
    by (simp add: scanString_escape punctuation_def)
  then show "tokens ((quotation # escape s @ [quotation]) @ t) = map_option ((@) [TString (escape s)]) (tokens t)"
    by (simp add: isSpace_def del: nextToken.simps)
qed

lemma lexes_separated:
  assumes "list_all (\<lambda>x. lexes (f x) (g x)) xs"
  shows "lexes (separated (CHR '','') (map f xs)) (separated Comma (map g xs))"
  using assms
proof (induction xs)
  case (Cons x xs)
  then show ?case
    by (cases "xs = []") (simp_all add: separated_Cons lexes_append lexes_rules)
qed (simp add: lexes_rules)

section \<open>What was marshalled is unmarshalled\<close>

text \<open>The value that is written.\<close>

definition jsonString :: "string \<Rightarrow> json" where
  "jsonString s = JString (escape s)"

definition jsonStrings :: "string list option \<Rightarrow> json" where
  "jsonStrings xs = (case xs of None \<Rightarrow> JNull | Some xs \<Rightarrow> JArray (map jsonString xs))"

definition jsonAcmeDNS :: "acmeDNS \<Rightarrow> json" where
  "jsonAcmeDNS c = JObject
     [(escape ''allowfrom'', jsonStrings (AllowFrom c)), (escape ''fulldomain'', jsonString (Fulldomain c)),
      (escape ''password'', jsonString (acmePassword c)), (escape ''subdomain'', jsonString (Subdomain c)),
      (escape ''username'', jsonString (acmeUsername c))]"

definition jsonEntries :: "acmeDNS gomap \<Rightarrow> (string \<times> json) list" where
  "jsonEntries m = map (\<lambda>(k, c). (escape k, jsonAcmeDNS c)) m"

lemma lexes_jsonString: "lexes (encodeString s) (tokensOf (jsonString s))"
  by (simp add: jsonString_def lexes_rules)

lemma lexes_jsonStrings: "lexes (encodeStrings xs) (tokensOf (jsonStrings xs))"
proof (cases xs)
  case None
  have "lexes ''null'' [TNull]"
    by (simp add: lexes_def isSpace_def punctuation_def)
  with None show ?thesis by (simp add: encodeStrings_def jsonStrings_def)
next
  case (Some ys)
  have "lexes (separated (CHR '','') (map encodeString ys)) (separated Comma (map (\<lambda>s. tokensOf (jsonString s)) ys))"
    by (rule lexes_separated) (simp add: list_all_iff lexes_jsonString)
  with Some show ?thesis
    by (simp add: encodeStrings_def jsonStrings_def lexes_append lexes_rules o_def)
qed

lemma lexes_encodeField:
  "lexes v ts \<Longrightarrow> lexes (encodeField k v) (TString (escape k) # Colon # ts)"
  unfolding encodeField_def using lexes_append [OF lexes_encodeString lexes_marks(6)] by simp

lemma lexes_jsonAcmeDNS: "lexes (encodeAcmeDNS c) (tokensOf (jsonAcmeDNS c))"
proof -
  let ?fs = "[(''allowfrom'', encodeStrings (AllowFrom c), jsonStrings (AllowFrom c)),
    (''fulldomain'', encodeString (Fulldomain c), jsonString (Fulldomain c)),
    (''password'', encodeString (acmePassword c), jsonString (acmePassword c)),
    (''subdomain'', encodeString (Subdomain c), jsonString (Subdomain c)),
    (''username'', encodeString (acmeUsername c), jsonString (acmeUsername c))]"
  have "lexes (separated (CHR '','') (map (\<lambda>(k, w, v). encodeField k w) ?fs))
      (separated Comma (map (\<lambda>(k, w, v). TString (escape k) # Colon # tokensOf v) ?fs))"
    by (rule lexes_separated) (simp add: lexes_encodeField lexes_jsonString lexes_jsonStrings del: escape.simps)
  then have "lexes (''{'' @ separated (CHR '','') (map (\<lambda>(k, w, v). encodeField k w) ?fs) @ ''}'')
      (LBrace # separated Comma (map (\<lambda>(k, w, v). TString (escape k) # Colon # tokensOf v) ?fs) @ [RBrace])"
    by (simp only: append.simps lexes_marks lexes_append lexes_rules)
  then show ?thesis by (simp add: encodeAcmeDNS_def jsonAcmeDNS_def del: escape.simps)
qed

lemma lexes_acmeMarshal: "lexes (acmeMarshal m) (tokensOf (JObject (jsonEntries (sort_key fst m))))"
proof -
  let ?f = "\<lambda>(k, c). encodeField k (encodeAcmeDNS c)"
    and ?g = "\<lambda>(k, c). TString (escape k) # Colon # tokensOf (jsonAcmeDNS c)"
  have "lexes (separated (CHR '','') (map ?f (sort_key fst m))) (separated Comma (map ?g (sort_key fst m)))"
    by (rule lexes_separated) (auto simp: list_all_iff lexes_jsonAcmeDNS lexes_encodeField)
  then show ?thesis
    by (simp add: acmeMarshal_def jsonEntries_def lexes_append lexes_rules o_def case_prod_unfold)
qed

text \<open>Texts that are UTF-8, as the names of Kubernetes are.\<close>

abbreviation valid :: "string \<Rightarrow> bool" where
  "valid s \<equiv> validUTF8 (utf8 s)"

lemma valid_ascii: "list_all (\<lambda>c. byte c < 0x80) s \<Longrightarrow> valid s"
  by (induction s) (simp_all add: RuneError_def)

definition elements :: "string list option \<Rightarrow> string list" where
  "elements xs = (case xs of None \<Rightarrow> [] | Some ys \<Rightarrow> ys)"

definition validAcmeDNS :: "acmeDNS \<Rightarrow> bool" where
  "validAcmeDNS c \<longleftrightarrow> list_all valid (elements (AllowFrom c)) \<and> valid (Fulldomain c) \<and>
     valid (acmePassword c) \<and> valid (Subdomain c) \<and> valid (acmeUsername c)"

definition validEntries :: "acmeDNS gomap \<Rightarrow> bool" where
  "validEntries m \<longleftrightarrow> list_all (\<lambda>(k, c). valid k \<and> validAcmeDNS c) m"

lemma unquote_escaped: "valid s \<Longrightarrow> unquote (escape s) = Some s"
  using unquote_escape [of s "[]"] by simp

lemma storeString_json: "valid s \<Longrightarrow> storeString (jsonString s) old = (s, True)"
  by (simp add: storeString_def jsonString_def unquote_escaped)

lemma storeElements_json: "list_all valid xs \<Longrightarrow> storeElements (map jsonString xs) old = (xs, True)"
  by (induction xs arbitrary: old) (simp_all add: storeString_json)

lemma storeStrings_json:
  "list_all valid (elements xs) \<Longrightarrow>
   \<exists>array. storeStrings (jsonStrings xs) ([], None) = ((array, xs), True)"
  by (simp add: elements_def storeStrings_def jsonStrings_def storeElements_json split: option.splits)

lemma field_names:
  "f \<in> set fieldNames \<Longrightarrow> unquote (escape f) = Some f"
  "f \<in> set fieldNames \<Longrightarrow> fieldOf f = Some f"
  by (auto simp: fieldNames_def fieldOf_def intro!: unquote_escaped valid_ascii)

lemma storeAcmeDNS_json: "validAcmeDNS c \<Longrightarrow> storeAcmeDNS (jsonAcmeDNS c) = (c, True)"
proof -
  assume c: "validAcmeDNS c"
  then obtain array where "storeStrings (jsonStrings (AllowFrom c)) ([], None) = ((array, AllowFrom c), True)"
    using storeStrings_json [of "AllowFrom c"] by (auto simp: validAcmeDNS_def)
  moreover have "unquote (escape f) = Some f \<and> fieldOf f = Some f" if "f \<in> set fieldNames" for f
    using field_names that by blast
  note this [simplified fieldNames_def]
  ultimately show ?thesis using c
    by (simp add: storeAcmeDNS_def jsonAcmeDNS_def noAcmeDNS_def storeField_def storeString_json validAcmeDNS_def
        del: escape.simps)
qed

lemma storeEntries_json:
  "wf_map (m @ es) \<Longrightarrow> validEntries es \<Longrightarrow> storeEntries (jsonEntries es) m = (m @ es, True)"
proof (induction es arbitrary: m)
  case (Cons e es)
  obtain k c where e: "e = (k, c)" by (cases e)
  with Cons.prems have "k \<notin> fst ` set m" by (auto simp: wf_map_def keys_def)
  then have "mset_key k c m = m @ [(k, c)]" by (induction m) auto
  with Cons e show ?case
    by (simp add: jsonEntries_def validEntries_def unquote_escaped storeAcmeDNS_json)
qed (simp add: jsonEntries_def)

lemma acme_roundtrip:
  assumes "wf_map m" "validEntries m"
  shows "acmeUnmarshal (Some (acmeMarshal m)) = Inr (sort_key fst m)"
proof -
  have "parse (acmeMarshal m) = Some (JObject (jsonEntries (sort_key fst m)))"
    by (rule parse_tokensOf [OF lexesD [OF lexes_acmeMarshal]])
  moreover have "storeEntries (jsonEntries (sort_key fst m)) [] = (sort_key fst m, True)"
    using assms storeEntries_json [of "[]" "sort_key fst m"]
    by (auto simp: wf_map_def keys_def validEntries_def list_all_iff distinct_map)
  ultimately show ?thesis by (simp add: acmeUnmarshal_def)
qed

lemma mlookup_sort_key: "wf_map m \<Longrightarrow> mlookup (sort_key fst m) = mlookup m"
  by (rule map_of_inject_set [THEN iffD2]) (auto simp: wf_map_def keys_def distinct_map)

section \<open>What is unmarshalled\<close>

text \<open>A map of texts that are UTF-8, whatever the bytes.\<close>

lemma storeString_valid: "storeString v old = (x, ok) \<Longrightarrow> valid old \<Longrightarrow> valid x"
  by (auto simp: storeString_def unquote_valid split: json.splits option.splits)

lemma storeElements_valid: "storeElements vs old = (xs, ok) \<Longrightarrow> list_all valid old \<Longrightarrow> list_all valid xs"
proof (induction vs arbitrary: old xs ok)
  case (Cons v vs)
  let ?old = "case old of [] \<Rightarrow> [] | x # _ \<Rightarrow> x"
  obtain x ok1 ys ok2 where e: "storeString v ?old = (x, ok1)" "storeElements vs (tl old) = (ys, ok2)" "xs = x # ys"
    using Cons.prems(1) by (auto split: prod.splits)
  have "valid ?old" "list_all valid (tl old)" using Cons.prems(2) by (cases old; simp)+
  with e storeString_valid Cons.IH show ?case by auto
qed simp

lemma storeStrings_valid:
  assumes "storeStrings v (array, xs) = ((array', xs'), ok)"
    and "list_all valid array" "list_all valid (elements xs)"
  shows "list_all valid array'" "list_all valid (elements xs')"
proof -
  obtain ys ok' where e: "storeElements (case v of JArray vs \<Rightarrow> vs | _ \<Rightarrow> []) array = (ys, ok')"
    by (cases "storeElements (case v of JArray vs \<Rightarrow> vs | _ \<Rightarrow> []) array")
  have "list_all valid ys" by (rule storeElements_valid [OF e assms(2)])
  moreover have "list_all valid (drop n array)" for n using assms(2) by (metis in_set_dropD list_all_iff)
  ultimately show "list_all valid array'" "list_all valid (elements xs')"
    using assms e by (cases v; auto simp: storeStrings_def elements_def split: if_splits)+
qed

definition validStruct :: "acmeDNS \<times> string list \<Rightarrow> bool" where
  "validStruct c \<longleftrightarrow> validAcmeDNS (fst c) \<and> list_all valid (snd c)"

lemma storeField_valid: "storeField key v c = (c', ok) \<Longrightarrow> validStruct c \<Longrightarrow> validStruct c'"
proof -
  assume e: "storeField key v c = (c', ok)" and c: "validStruct c"
  obtain d array where d: "c = (d, array)" by (cases c)
  have s: "valid (fst (storeString v old))" if "valid old" for old
    using storeString_valid [OF surjective_pairing that] by simp
  obtain array' xs ok' where x: "storeStrings v (array, AllowFrom d) = ((array', xs), ok')"
    by (metis surj_pair)
  have "list_all valid array'" "list_all valid (elements xs)"
    using storeStrings_valid [OF x] c d by (simp_all add: validStruct_def validAcmeDNS_def)
  then have "validStruct (fst (storeField key v c))"
    using c s x unfolding d
    by (simp add: storeField_def validStruct_def validAcmeDNS_def split_beta split: option.split)
  with e show "validStruct c'" by simp
qed

lemma storeFields_valid: "storeFields ms c = (d, ok) \<Longrightarrow> validStruct c \<Longrightarrow> validAcmeDNS d"
proof (induction ms arbitrary: c d ok)
  case Nil
  then show ?case by (auto simp: validStruct_def)
next
  case (Cons m ms)
  obtain k v where m: "m = (k, v)" by (cases m)
  show ?case
  proof (cases "unquote k")
    case None
    with Cons.prems m show ?thesis by (auto simp: validStruct_def)
  next
    case (Some key)
    obtain c' ok' where c': "storeField key v c = (c', ok')" by (cases "storeField key v c")
    with Cons.prems m Some obtain oks where "storeFields ms c' = (d, oks)" by (auto split: prod.splits)
    with Cons.IH storeField_valid [OF c' Cons.prems(2)] show ?thesis by blast
  qed
qed

lemma validStruct_zero: "validStruct (noAcmeDNS, [])"
  by (simp add: validStruct_def validAcmeDNS_def noAcmeDNS_def elements_def)

lemma storeAcmeDNS_valid: "validAcmeDNS (fst (storeAcmeDNS v))"
proof (cases v)
  case (JObject ms)
  then show ?thesis
    using storeFields_valid [OF surjective_pairing validStruct_zero, of ms] by (simp add: storeAcmeDNS_def)
qed (use validStruct_zero in \<open>auto simp: storeAcmeDNS_def validStruct_def\<close>)

lemma validEntries_update: "validEntries m \<Longrightarrow> valid k \<Longrightarrow> validAcmeDNS c \<Longrightarrow> validEntries (mset_key k c m)"
  by (induction m) (auto simp: validEntries_def)

lemma storeEntries_valid:
  "storeEntries ms m = (m', ok) \<Longrightarrow> wf_map m \<Longrightarrow> validEntries m \<Longrightarrow> wf_map m' \<and> validEntries m'"
proof (induction ms m arbitrary: m' ok rule: storeEntries.induct)
  case (2 k v ms m)
  show ?case
  proof (cases "unquote k")
    case (Some key)
    obtain c ok' where c: "storeAcmeDNS v = (c, ok')" by (cases "storeAcmeDNS v")
    obtain oks where "storeEntries ms (mset_key key c m) = (m', oks)"
      using 2(2) Some c by (auto split: prod.splits)
    then show ?thesis
      using 2(1) [OF Some c [symmetric]] 2(3,4) storeAcmeDNS_valid [of v] c unquote_valid [OF Some]
      by (simp add: validEntries_update)
  qed (use 2 in simp)
qed simp

lemma acmeUnmarshal_valid: "acmeUnmarshal data = Inr m \<Longrightarrow> wf_map m \<and> validEntries m"
  using storeEntries_valid [of _ "[]"]
  by (auto simp: acmeUnmarshal_def validEntries_def split: option.splits json.splits prod.splits bool.splits)

end
