(* ===== verification/Local_Secrets.thy ===== *)
theory Local_Secrets
  imports Util Acme_Json
begin

text \<open>
  pkg/local/secrets.go: the secrets of the management cluster. The JSON form of the DNS credentials is
  that of \<open>Acme_Json\<close>.
\<close>

definition DeleteSecrets ::
  "SyntheticBinding \<Rightarrow> 'w Clientset \<Rightarrow> (Secret, 'w) lister \<Rightarrow> ('w, err option) prog" where
  "DeleteSecrets binding kubeClientSet secretLister =
     deleteListed (clientName kubeClientSet) SecretKind secretLister (csSecrets kubeClientSet) []
       [(VerrazzanoBinding, Name binding)] Namespace (\<lambda>_. True)"

definition CreateGenericSecret :: "Secret \<Rightarrow> 'w Clientset \<Rightarrow> ('w, err option) prog" where
  "CreateGenericSecret newSecret kubeClientSet =
     gbind (clientCreate (clientName kubeClientSet) KSecret (csSecrets kubeClientSet)
              (Namespace newSecret) newSecret) (\<lambda>(_, err). gret err)"

definition GetSecret :: "string \<Rightarrow> string \<Rightarrow> 'w Clientset \<Rightarrow> ('w, Secret result) prog" where
  "GetSecret name namespace kubeClientSet =
     gbind (clientGet (csSecrets kubeClientSet) namespace name) (\<lambda>(secret, err).
       case err of Some e \<Rightarrow> gret (None, Some e) | None \<Rightarrow> gret (secret, None))"

text \<open>The result has the extra \<^verbatim>\<open>found\<close> of the code's three results.\<close>

definition GetSecretByUID ::
  "'w Clientset \<Rightarrow> string \<Rightarrow> string \<Rightarrow> ('w, Secret option \<times> bool \<times> err option) prog" where
  "GetSecretByUID kubeClientSet ns uid =
     gbind (clientList (csSecrets kubeClientSet) ns) (\<lambda>(items, err).
       case err of
         Some e \<Rightarrow> gret (None, False, Some e)
       | None \<Rightarrow>
           (case find (\<lambda>secret. UID secret = uid) items of
              Some secret \<Rightarrow> gret (Some secret, True, None)
            | None \<Rightarrow> gret (None, False, None)))"

definition DeleteSecret :: "'w Clientset \<Rightarrow> Secret \<Rightarrow> ('w, err option) prog" where
  "DeleteSecret kubeClientSet secret =
     clientDelete (clientName kubeClientSet) SecretKind (csSecrets kubeClientSet)
       (Namespace secret) (Name secret)"

definition UpdateSecret :: "'w Clientset \<Rightarrow> Secret \<Rightarrow> ('w, err option) prog" where
  "UpdateSecret kubeClientSet secret =
     gbind (clientUpdate (clientName kubeClientSet) KSecret (csSecrets kubeClientSet)
              (Namespace secret) secret) (\<lambda>(_, err). gret err)"

section \<open>The DNS credentials\<close>

text \<open>\<^verbatim>\<open>if _, found = creds[name]; !found { creds[name] = cred; updated = true }\<close>\<close>

definition addCredential ::
  "acmeDNS \<Rightarrow> string \<Rightarrow> acmeDNS gomap \<times> bool \<Rightarrow> acmeDNS gomap \<times> bool" where
  "addCredential cred dnsName = (\<lambda>(creds, updated).
     case mlookup creds dnsName of
       None \<Rightarrow> (mset_key dnsName cred creds, True)
     | Some _ \<Rightarrow> (creds, updated))"

definition bindingDNSName :: "SyntheticBinding \<Rightarrow> string \<Rightarrow> string" where
  "bindingDNSName binding verrazzanoURI = ''vmi.'' @ Name binding @ ''.'' @ verrazzanoURI"

definition addBindingCredentials ::
  "SyntheticBinding \<Rightarrow> string \<Rightarrow> acmeDNS gomap \<Rightarrow> acmeDNS gomap \<times> bool" where
  "addBindingCredentials binding verrazzanoURI creds =
     (let dnsCred = (case mlookup creds verrazzanoURI of None \<Rightarrow> noAcmeDNS | Some c \<Rightarrow> c)
      in addCredential dnsCred (''*.'' @ bindingDNSName binding verrazzanoURI)
           (addCredential dnsCred (bindingDNSName binding verrazzanoURI) (creds, False)))"

text \<open>Marshalling a map of such structs cannot fail, so that error has no branch.\<close>

definition UpdateAcmeDNSSecret ::
  "SyntheticBinding \<Rightarrow> 'w Clientset \<Rightarrow> (Secret, 'w) lister \<Rightarrow> string \<Rightarrow> string \<Rightarrow>
   ('w, err option) prog" where
  "UpdateAcmeDNSSecret binding kubeClientSet secretLister name verrazzanoURI =
     gbind (listerGet secretLister VerrazzanoNamespace name) (\<lambda>(secret, err).
       case err of
         Some e \<Rightarrow>
           if isNotFound e then gret None
           else gret (Some (Errorf (''Failed to get secret '' @ name @ '' in namespace '' @
                  VerrazzanoNamespace @ '' failed with error '')))
       | None \<Rightarrow>
           deref secret (\<lambda>secret.
             case mlookup (secretData secret) AcmeDNSSecretKey of
               None \<Rightarrow> gret (Some (Errorf (''Failed, the data in secret '' @ name @
                         '' in namespace '' @ VerrazzanoNamespace @ '' does not contain the key '' @
                         AcmeDNSSecretKey)))
             | Some acmeDNSData \<Rightarrow>
                 (case acmeUnmarshal acmeDNSData of
                    Inl e \<Rightarrow> gret (Some (Errorf (''Failed to unmarshal key '' @ AcmeDNSSecretKey @
                               '' from secret '' @ name @ '' in namespace '' @ VerrazzanoNamespace)))
                  | Inr dnsCredentials \<Rightarrow>
                      if length dnsCredentials = 0 then
                        gret (Some (Errorf (''Failed, the key '' @ AcmeDNSSecretKey @ '' in secret '' @
                                name @ '' in namespace '' @ VerrazzanoNamespace @
                                '' does not contain any data'')))
                      else
                        (case addBindingCredentials binding verrazzanoURI dnsCredentials of
                           (creds, updated) \<Rightarrow>
                             if updated then
                               let secret' = secret\<lparr>secretData :=
                                     mset_key AcmeDNSSecretKey (Some (acmeMarshal creds)) (secretData secret)\<rparr>
                               in gbind (glift (lsWrite secretLister VerrazzanoNamespace name secret'))
                                   (\<lambda>_. gbind (clientUpdate (clientName kubeClientSet) KSecret
                                          (csSecrets kubeClientSet) VerrazzanoNamespace secret')
                                     (\<lambda>(_, err). gret err))
                             else gret None))))"

subsection \<open>What they contain\<close>

lemma mlookup_addCredential:
  "mlookup (fst (addCredential cred n (creds, u))) =
     (\<lambda>k. if k = n \<and> mlookup creds k = None then Some cred else mlookup creds k)"
  by (auto simp: addCredential_def fun_eq_iff split: option.split)

lemma snd_addCredential: "snd (addCredential cred n (creds, u)) \<longleftrightarrow> u \<or> mlookup creds n = None"
  by (simp add: addCredential_def split: option.split)

lemma addBindingCredentials_lookup:
  "mlookup (fst (addBindingCredentials b u creds)) =
     (\<lambda>k. if k \<in> {bindingDNSName b u, ''*.'' @ bindingDNSName b u} \<and> mlookup creds k = None
          then Some (case mlookup creds u of None \<Rightarrow> noAcmeDNS | Some c \<Rightarrow> c) else mlookup creds k)"
  unfolding addBindingCredentials_def Let_def
  by (rule prod.exhaust [of "addCredential (case mlookup creds u of None \<Rightarrow> noAcmeDNS | Some c \<Rightarrow> c)
        (bindingDNSName b u) (creds, False)"])
    (auto simp: addCredential_def fun_eq_iff split: option.splits if_splits)

lemma addBindingCredentials_updated:
  "snd (addBindingCredentials b u creds) \<longleftrightarrow>
     mlookup creds (bindingDNSName b u) = None \<or> mlookup creds (''*.'' @ bindingDNSName b u) = None"
  unfolding addBindingCredentials_def Let_def
  by (auto simp: addCredential_def split: option.splits)

text \<open>Once added, nothing is left to add.\<close>

lemma addBindingCredentials_idem:
  "addBindingCredentials b u creds = (creds', upd) \<Longrightarrow> addBindingCredentials b u creds' = (creds', False)"
  unfolding addBindingCredentials_def Let_def
  by (auto simp: addCredential_def split: option.splits if_splits)

lemma addBindingCredentials_present:
  "mlookup creds (bindingDNSName b u) \<noteq> None \<Longrightarrow> mlookup creds (''*.'' @ bindingDNSName b u) \<noteq> None \<Longrightarrow>
   addBindingCredentials b u creds = (creds, False)"
  by (auto simp: addBindingCredentials_def addCredential_def Let_def)

text \<open>The new entries are texts if the names of the binding and the address are, so what is written is
  read back, and then nothing is left to add.\<close>

lemma valid_bindingDNSName: "valid (Name b) \<Longrightarrow> valid u \<Longrightarrow> valid (bindingDNSName b u)"
  unfolding bindingDNSName_def map_append
  by (intro validUTF8_append) (simp_all add: RuneError_def)

lemma addCredential_valid:
  assumes "wf_map (fst c)" "validEntries (fst c)" "valid n" "validAcmeDNS cred"
  shows "wf_map (fst (addCredential cred n c)) \<and> validEntries (fst (addCredential cred n c))"
  using assms by (cases c) (auto simp: addCredential_def validEntries_update split: option.split)

lemma addBindingCredentials_valid:
  assumes "wf_map creds" "validEntries creds" "valid (Name b)" "valid u"
  shows "wf_map (fst (addBindingCredentials b u creds)) \<and> validEntries (fst (addBindingCredentials b u creds))"
proof -
  let ?cred = "case mlookup creds u of None \<Rightarrow> noAcmeDNS | Some c \<Rightarrow> c"
  have cred: "validAcmeDNS ?cred"
    using assms(2) validStruct_zero
    by (auto simp: validEntries_def list_all_iff validStruct_def split: option.split dest!: map_of_SomeD)
  have name: "valid (bindingDNSName b u)" by (rule valid_bindingDNSName [OF assms(3,4)])
  have star: "valid (''*.'' @ bindingDNSName b u)"
    unfolding map_append by (intro validUTF8_append name) (rule valid_ascii, simp)
  have "wf_map (fst (addCredential ?cred (bindingDNSName b u) (creds, False))) \<and>
      validEntries (fst (addCredential ?cred (bindingDNSName b u) (creds, False)))"
    by (rule addCredential_valid) (use assms name cred in simp_all)
  with addCredential_valid [OF _ _ star cred] show ?thesis
    unfolding addBindingCredentials_def Let_def by blast
qed

lemma credentials_reread:
  assumes "acmeUnmarshal data = Inr creds" "valid (Name b)" "valid u"
  obtains creds' where "acmeUnmarshal (Some (acmeMarshal (fst (addBindingCredentials b u creds)))) = Inr creds'"
    and "mlookup creds' = mlookup (fst (addBindingCredentials b u creds))"
    and "addBindingCredentials b u creds' = (creds', False)" "creds' \<noteq> []"
proof
  let ?c = "fst (addBindingCredentials b u creds)" and ?c' = "sort_key fst (fst (addBindingCredentials b u creds))"
  have v: "wf_map ?c \<and> validEntries ?c"
    using addBindingCredentials_valid [OF _ _ assms(2,3)] acmeUnmarshal_valid [OF assms(1)] by blast
  then show "acmeUnmarshal (Some (acmeMarshal ?c)) = Inr ?c'" by (simp add: acme_roundtrip)
  show same: "mlookup ?c' = mlookup ?c" using v by (simp add: mlookup_sort_key)
  have there: "mlookup ?c n \<noteq> None" if "n \<in> {bindingDNSName b u, ''*.'' @ bindingDNSName b u}" for n
    using that unfolding addBindingCredentials_lookup by auto
  then show "addBindingCredentials b u ?c' = (?c', False)"
    by (intro addBindingCredentials_present) (simp_all add: same)
  show "?c' \<noteq> []" using there [of "bindingDNSName b u"] unfolding same [symmetric] by auto
qed

lemma safe_DeleteSecrets [safe_rules]:
  assumes "\<And>ns n. A (ReqDelete (clientName cs) SecretKind ns n)" "\<And>e. Q e"
  shows "safe A X (DeleteSecrets b cs ls) Q"
  unfolding DeleteSecrets_def using assms by (intro safe_rules) auto

lemma safe_GetSecret [safe_rules]:
  "(\<And>s. Q (Some s, None)) \<Longrightarrow> Q (None, None) \<Longrightarrow> (\<And>e. Q (None, Some e)) \<Longrightarrow>
   safe A X (GetSecret n ns cs) Q"
  unfolding GetSecret_def
  by (intro safe_rules) (metis option.exhaust)+

text \<open>A lister that returns an object or an error, never neither, makes the update safe.\<close>

definition listerTotal :: "('o, 'w) lister \<Rightarrow> bool" where
  "listerTotal ls \<longleftrightarrow> (\<forall>ns n w. fst (lsGet ls ns n w) \<noteq> (None, None))"

lemma safe_listerGet_total:
  assumes "listerTotal ls" "\<And>a. a \<noteq> (None, None) \<Longrightarrow> Q a"
  shows "safe A X (listerGet ls ns n) Q"
  unfolding listerGet_def by (rule safe_glift_fst) (use assms in \<open>simp add: listerTotal_def\<close>)

lemma safe_UpdateAcmeDNSSecret [safe_rules]:
  assumes "listerTotal ls" "\<And>e. Q e"
    and "\<And>s. A (ReqUpdate (clientName cs) VerrazzanoNamespace (KSecret s))"
  shows "safe A X (UpdateAcmeDNSSecret b cs ls n u) Q"
  unfolding UpdateAcmeDNSSecret_def Let_def
  by (intro safe_gbind safe_listerGet_total [OF assms(1)])
    (auto intro!: safe_rules assms split: option.split sum.split prod.split)

end
