(* ===== verification/Vmi_Secrets.thy ===== *)
theory Vmi_Secrets
  imports Util
begin

text \<open>
  pkg/monitoring/secrets.go: the interface \<^verbatim>\<open>Secrets\<close> and its clients, which keep the secret with the
  credentials of the monitoring instances. Two contracts of the interface are locales: \<open>secrets_ops\<close>,
  which requests each operation may send, and \<open>secrets_store\<close>, that the operations read and write a
  store of secrets. The theory \<open>Secrets_Impl\<close> interprets them on the repository's implementations.
\<close>

section \<open>The interface\<close>

record 'w Secrets =
  secGet :: "string \<Rightarrow> ('w, Secret result) prog"
  secCreate :: "Secret \<Rightarrow> ('w, Secret result) prog"
  secUpdate :: "Secret \<Rightarrow> ('w, Secret result) prog"
  secList :: "string \<Rightarrow> selector \<Rightarrow> ('w, Secret list \<times> err option) prog"
  secDelete :: "string \<Rightarrow> string \<Rightarrow> ('w, err option) prog"

text \<open>\<^verbatim>\<open>sec.Data[key]\<close>: an absent key reads as nil.\<close>

definition dataAt :: "bytes gomap \<Rightarrow> string \<Rightarrow> bytes" where
  "dataAt d key = (case mlookup d key of None \<Rightarrow> None | Some b \<Rightarrow> b)"

section \<open>Passwords\<close>

definition passwordChars :: string where
  "passwordChars = ''0123456789abcdefghijklmnopqrstuvwxyzABCDEFGHIJKLMNOPQRSTUVWXYZ''"

text \<open>
  Seeding the generator is part of the world \<open>randIntn\<close> reads. \<open>fairRand\<close> is the documented range of
  \<^verbatim>\<open>rand.Intn(n)\<close>.
\<close>

definition fairRand :: "'w runtime \<Rightarrow> bool" where
  "fairRand R \<longleftrightarrow> (\<forall>n w. 0 < n \<longrightarrow> fst (randIntn R n w) < n)"

definition index :: "'a list \<Rightarrow> nat \<Rightarrow> ('s, 'a) go" where
  "index xs i = (if i < length xs then gret (xs ! i) else gpanic IndexOutOfRange)"

fun genPassword :: "'w runtime \<Rightarrow> nat \<Rightarrow> ('w, string) prog" where
  "genPassword R 0 = gret []"
| "genPassword R (Suc passSize) =
     gbind (glift (randIntn R (length passwordChars))) (\<lambda>i.
       gbind (index passwordChars i) (\<lambda>c.
         gbind (genPassword R passSize) (\<lambda>cs. gret (c # cs))))"

definition NewVmiSecret :: "'w runtime \<Rightarrow> SyntheticBinding \<Rightarrow> ('w, Secret) prog" where
  "NewVmiSecret R binding =
     (let bindingLabels = GetLocalBindingLabels binding
      in gbind (genPassword R 16) (\<lambda>pw.
           gret (ObjectMeta.extend
             (noMeta\<lparr>Name := VmiSecretName, Namespace := VerrazzanoNamespace, Labels := bindingLabels\<rparr>)
             (Secret.fields
                [(''username'', Some VmiUsername), (''password'', Some pw)] []))))"

definition GetVmiPassword :: "'w Secrets \<Rightarrow> ('w, string \<times> err option) prog" where
  "GetVmiPassword secrets =
     gbind (secGet secrets VmiSecretName) (\<lambda>(sec, err).
       case sec of
         None \<Rightarrow> gret ([], err)
       | Some sec \<Rightarrow>
           (case dataAt (secretData sec) ''password'' of
              Some bytes \<Rightarrow> gret (bytes, err)
            | None \<Rightarrow> gret ([], Some (Errorf (''Failed to retrieve '' @ VmiUsername @ '' password'')))))"

text \<open>The first half of \<^verbatim>\<open>CreateVmiSecrets\<close>, up to the deletion of other secrets.\<close>

definition ensureVmiSecret ::
  "'w runtime \<Rightarrow> SyntheticBinding \<Rightarrow> 'w Secrets \<Rightarrow> ('w, err option) prog" where
  "ensureVmiSecret R binding secrets =
     gbind (secGet secrets VmiSecretName) (\<lambda>(vmiSecret, _).
       case vmiSecret of
         None \<Rightarrow>
           gbind (NewVmiSecret R binding) (\<lambda>vmiSecret.
             gbind (secCreate secrets vmiSecret) (\<lambda>(_, err). gret err))
       | Some vmiSecret \<Rightarrow>
           if dataAt (secretData vmiSecret) ''username'' = None \<or>
              dataAt (secretData vmiSecret) ''password'' = None then
             gbind (NewVmiSecret R binding) (\<lambda>vmiSecret.
               gbind (secUpdate secrets vmiSecret) (\<lambda>(_, err). gret err))
           else gret None)"

definition CreateVmiSecrets ::
  "'w runtime \<Rightarrow> SyntheticBinding \<Rightarrow> 'w Secrets \<Rightarrow> ('w, err option) prog" where
  "CreateVmiSecrets R binding secrets =
     gbind (ensureVmiSecret R binding secrets) (\<lambda>err.
       case err of
         Some e \<Rightarrow> gret (Some e)
       | None \<Rightarrow>
           let secretNames = [VmiUsername, GetVmiNameForBinding (Name binding)];
               selector = [(VerrazzanoBinding, Name binding)]
           in gbind (secList secrets [] selector) (\<lambda>(existing, err).
               case err of
                 Some e \<Rightarrow> gret (Some e)
               | None \<Rightarrow>
                   rangeE (\<lambda>existingSecret.
                     if \<not> Contains secretNames (Name existingSecret) then
                       secDelete secrets (Namespace existingSecret) (Name existingSecret)
                     else gret None) existing))"

section \<open>The password and the secret\<close>

lemma safe_index [safe_rules]:
  "(i < length xs \<Longrightarrow> Q (xs ! i)) \<Longrightarrow> (\<not> i < length xs \<Longrightarrow> X IndexOutOfRange) \<Longrightarrow> safe A X (index xs i) Q"
  by (simp add: index_def safe_gret safe_gpanic)

lemma safe_randIntn:
  assumes "fairRand R" "0 < n" "\<And>i. i < n \<Longrightarrow> Q i"
  shows "safe A X (glift (randIntn R n)) Q"
  by (rule safe_glift_fst) (use assms in \<open>simp add: fairRand_def\<close>)

lemma safe_genPassword:
  assumes "fairRand R" "\<And>pw. length pw = n \<Longrightarrow> set pw \<subseteq> set passwordChars \<Longrightarrow> Q pw"
  shows "safe A X (genPassword R n) Q"
  using assms(2)
proof (induction n arbitrary: Q)
  case 0
  then show ?case by (auto intro: safe_gret)
next
  case (Suc n)
  have len: "0 < length passwordChars" by (simp add: passwordChars_def)
  show ?case
    unfolding genPassword.simps
    by (intro safe_gbind safe_randIntn [OF assms(1) len] safe_index Suc.IH safe_gret Suc.prems)
      auto
qed

text \<open>Drawing a number changes nothing an observation \<open>view\<close> of the world sees.\<close>

definition randKeeps :: "('w \<Rightarrow> 'v) \<Rightarrow> 'w runtime \<Rightarrow> bool" where
  "randKeeps view R \<longleftrightarrow> fairRand R \<and> (\<forall>n w. view (snd (randIntn R n w)) = view w)"

lemma wpt_genPassword:
  assumes "randKeeps view R"
  shows "wpt (genPassword R n) (\<lambda>pw s'. length pw = n \<and> set pw \<subseteq> set passwordChars \<and>
     view (world s') = view (world s)) s"
proof (induction n arbitrary: s)
  case (Suc n)
  obtain i w where r: "randIntn R (length passwordChars) (world s) = (i, w)" by fastforce
  with assms have i: "i < length passwordChars" and w: "view w = view (world s)"
    unfolding randKeeps_def fairRand_def by (metis fst_conv length_greater_0_conv less_nat_zero_code
        list.size(3) passwordChars_def list.distinct(1), metis snd_conv)
  show ?case
    using wpt_mono [OF Suc.IH] i w
    by (auto simp: wp_simps r index_def intro!: wpt_mono [OF Suc.IH])
qed (simp add: wpt_gret)

definition vmiSecretOf :: "SyntheticBinding \<Rightarrow> Secret \<Rightarrow> bool" where
  "vmiSecretOf binding s \<longleftrightarrow>
     Name s = VmiSecretName \<and> Namespace s = VerrazzanoNamespace \<and>
     Labels s = GetLocalBindingLabels binding \<and>
     (\<exists>pw. secretData s = [(''username'', Some VmiUsername), (''password'', Some pw)] \<and>
       length pw = 16 \<and> set pw \<subseteq> set passwordChars)"

lemma safe_NewVmiSecret [safe_rules]:
  assumes "fairRand R" "\<And>s. vmiSecretOf b s \<Longrightarrow> Q s"
  shows "safe A X (NewVmiSecret R b) Q"
  unfolding NewVmiSecret_def Let_def
  by (intro safe_gbind safe_genPassword assms safe_gret)
    (auto simp: vmiSecretOf_def ObjectMeta.defs Secret.defs noMeta_def)

lemma wpt_NewVmiSecret:
  assumes "randKeeps view R"
  shows "wpt (NewVmiSecret R b) (\<lambda>x s'. vmiSecretOf b x \<and> view (world s') = view (world s)) s"
  unfolding NewVmiSecret_def Let_def wpt_gbind
  by (rule wpt_mono [OF wpt_genPassword [OF assms]])
    (auto simp: wpt_gret vmiSecretOf_def ObjectMeta.defs Secret.defs noMeta_def)

section \<open>The contracts\<close>

text \<open>
  Which requests the operations send: reads send none, writes at most the one request they are
  named after, to the client \<open>c\<close>; \<open>here\<close> is the namespace secrets are written to.
\<close>

locale secrets_ops =
  fixes S :: "'w Secrets" and c :: string and here :: string
  assumes get_safe: "(\<And>r. Q1 r) \<Longrightarrow> safe A X (secGet S n) Q1"
    and create_safe: "A (ReqCreate c here (KSecret s)) \<Longrightarrow> (\<And>r. Q1 r) \<Longrightarrow> safe A X (secCreate S s) Q1"
    and update_safe: "A (ReqUpdate c here (KSecret s)) \<Longrightarrow> (\<And>r. Q1 r) \<Longrightarrow> safe A X (secUpdate S s) Q1"
    and list_safe: "(\<And>r. Q2 r) \<Longrightarrow> safe A X (secList S ns sel) Q2"
    and delete_safe: "A (ReqDelete c SecretKind ns n) \<Longrightarrow> (\<And>r. Q3 r) \<Longrightarrow> safe A X (secDelete S ns n) Q3"
begin

lemma ensureVmiSecret_safe:
  assumes "fairRand R" "\<And>e. Q e"
    and "\<And>s. vmiSecretOf b s \<Longrightarrow> A (ReqCreate c here (KSecret s)) \<and> A (ReqUpdate c here (KSecret s))"
  shows "safe A X (ensureVmiSecret R b S) Q"
  unfolding ensureVmiSecret_def
  by (intro safe_gbind get_safe safe_case_prod safe_case_option safe_if safe_gret
      safe_NewVmiSecret create_safe update_safe assms(1)) (use assms in auto)

lemma CreateVmiSecrets_safe:
  assumes "fairRand R" "\<And>e. Q e"
    and "\<And>s. vmiSecretOf b s \<Longrightarrow> A (ReqCreate c here (KSecret s)) \<and> A (ReqUpdate c here (KSecret s))"
    and "\<And>ns n. n \<noteq> VmiSecretName \<Longrightarrow> n \<noteq> Name b \<Longrightarrow> A (ReqDelete c SecretKind ns n)"
  shows "safe A X (CreateVmiSecrets R b S) Q"
  unfolding CreateVmiSecrets_def Let_def
  by (intro safe_gbind ensureVmiSecret_safe safe_case_prod safe_case_option safe_gret
      safe_rangeE safe_if list_safe delete_safe assms(1))
    (use assms in \<open>auto simp: VmiUsername_def VmiSecretName_def GetVmiNameForBinding_def\<close>)

lemma GetVmiPassword_safe: "(\<And>r. Q r) \<Longrightarrow> safe A X (GetVmiPassword S) Q"
  unfolding GetVmiPassword_def
  by (intro safe_gbind get_safe safe_case_prod safe_case_option safe_gret) auto

end

text \<open>What is not the credentials or the secret named after the binding.\<close>

abbreviation otherSecret :: "SyntheticBinding \<Rightarrow> Secret \<Rightarrow> bool" where
  "otherSecret b x \<equiv> \<not> Contains [VmiUsername, GetVmiNameForBinding (Name b)] (Name x)"

text \<open>
  Beyond that: \<open>inList ns sel x\<close> says that the secret \<open>x\<close> can be in a list for the namespace and the
  selector. Only listed secrets are deleted.
\<close>

locale secrets_listing = secrets_ops S c here for S :: "'w Secrets" and c and here +
  fixes inList :: "string \<Rightarrow> selector \<Rightarrow> Secret \<Rightarrow> bool"
  assumes list_lists: "(\<And>xs e. (\<And>x. x \<in> set xs \<Longrightarrow> inList ns sel x) \<Longrightarrow> Q2 (xs, e)) \<Longrightarrow>
    safe A X (secList S ns sel) Q2"
begin

lemma CreateVmiSecrets_lists:
  assumes "fairRand R" "\<And>e. Q e"
    and "\<And>s. vmiSecretOf b s \<Longrightarrow> A (ReqCreate c here (KSecret s)) \<and> A (ReqUpdate c here (KSecret s))"
    and "\<And>x. inList [] [(VerrazzanoBinding, Name b)] x \<Longrightarrow> otherSecret b x \<Longrightarrow>
           A (ReqDelete c SecretKind (Namespace x) (Name x))"
  shows "safe A X (CreateVmiSecrets R b S) Q"
  unfolding CreateVmiSecrets_def Let_def
  by (intro safe_gbind ensureVmiSecret_safe safe_case_option safe_gret list_lists assms(1))
    (use assms in \<open>auto intro!: safe_gret safe_rangeE delete_safe split: option.split\<close>)

end

text \<open>A secret is complete when it has both credentials.\<close>

definition complete :: "Secret \<Rightarrow> bool" where
  "complete s \<longleftrightarrow> dataAt (secretData s) ''username'' \<noteq> None \<and> dataAt (secretData s) ''password'' \<noteq> None"

lemma vmiSecretOf_complete: "vmiSecretOf b x \<Longrightarrow> complete x \<and> Name x = VmiSecretName \<and> Namespace x = VerrazzanoNamespace"
  by (auto simp: vmiSecretOf_def complete_def dataAt_def)

text \<open>
  The operations read and write a store, of which \<open>view\<close> is what there is to see and \<open>secretAt\<close> the secret
  of a name in the namespace \<open>here\<close>. A secret can be created where \<open>writable\<close> allows it, and what is stored
  is \<open>like\<close> what was sent: it has its data. Deleting what a list returned leaves the view \<open>cleared\<close>,
  which spares the names that are not to be deleted.
\<close>

abbreviation purgeSecrets ::
  "'w Secrets \<Rightarrow> selector \<Rightarrow> (Secret \<Rightarrow> bool) \<Rightarrow> ('w, err option) prog" where
  "purgeSecrets S sel pick \<equiv>
     gbind (secList S [] sel) (\<lambda>(existing, err).
       case err of
         Some e \<Rightarrow> gret (Some e)
       | None \<Rightarrow> rangeE (\<lambda>x. if pick x then secDelete S (Namespace x) (Name x) else gret None) existing)"

locale secrets_store = secrets_ops S c here for S :: "'w Secrets" and c and here +
  fixes view :: "'w \<Rightarrow> 'v" and secretAt :: "'v \<Rightarrow> string \<Rightarrow> Secret option"
    and putAt :: "string \<Rightarrow> Secret \<Rightarrow> 'v \<Rightarrow> 'v" and writable :: "'v \<Rightarrow> string \<Rightarrow> bool"
    and like :: "Secret \<Rightarrow> Secret \<Rightarrow> bool"
    and cleared :: "selector \<Rightarrow> (Secret \<Rightarrow> bool) \<Rightarrow> 'v \<Rightarrow> 'v \<Rightarrow> bool"
  assumes secretAt_put: "secretAt (putAt n x v) n' = (if n' = n then Some x else secretAt v n')"
    and like_data: "like x z \<Longrightarrow> dataAt (secretData z) k = Some d \<Longrightarrow> dataAt (secretData x) k = Some d"
    and get_view: "wpt (secGet S n) (\<lambda>r s'. fst r = secretAt (view (world s)) n \<and>
      (fst r = None \<or> snd r = None) \<and> sent s' = sent s \<and> view (world s') = view (world s)) s"
    and create_view: "Namespace x = here \<Longrightarrow> secretAt (view (world s)) (Name x) = None \<Longrightarrow>
      writable (view (world s)) (Name x) \<Longrightarrow> wpt (secCreate S x) (\<lambda>r s'. snd r = None \<and>
        (\<exists>y. like y x \<and> view (world s') = putAt (Name x) y (view (world s)))) s"
    and update_view: "Namespace x = here \<Longrightarrow> secretAt (view (world s)) (Name x) = Some old \<Longrightarrow>
      wpt (secUpdate S x) (\<lambda>r s'. snd r = None \<and>
        (\<exists>y. like y x \<and> view (world s') = putAt (Name x) y (view (world s)))) s"
    and purge_view: "wpt (purgeSecrets S sel pick)
      (\<lambda>e s'. e = None \<and> cleared sel pick (view (world s)) (view (world s'))) s"
    and cleared_spares: "cleared sel pick v v' \<Longrightarrow> (\<And>x. pick x \<Longrightarrow> Name x \<noteq> n) \<Longrightarrow> secretAt v' n = secretAt v n"
begin

text \<open>The view with complete credentials: as it was if they were, or with new ones.\<close>

abbreviation ensured :: "SyntheticBinding \<Rightarrow> 'v \<Rightarrow> 'v \<Rightarrow> bool" where
  "ensured b v v' \<equiv> (if \<exists>old. secretAt v VmiSecretName = Some old \<and> complete old then v' = v
     else \<exists>x z. vmiSecretOf b z \<and> like x z \<and> v' = putAt VmiSecretName x v)"

lemma like_complete: "like x z \<Longrightarrow> vmiSecretOf b z \<Longrightarrow> complete x"
  using like_data [of x z "''username''"] like_data [of x z "''password''"]
  by (auto simp: vmiSecretOf_def complete_def dataAt_def)

lemma ensured_at:
  assumes "ensured b v v'"
  shows "\<exists>x. secretAt v' VmiSecretName = Some x \<and> complete x \<and>
    (\<forall>old. secretAt v VmiSecretName = Some old \<longrightarrow> complete old \<longrightarrow> x = old) \<and>
    (secretAt v VmiSecretName = None \<longrightarrow> (\<exists>z. vmiSecretOf b z \<and> like x z))"
  using assms by (auto simp: secretAt_put like_complete split: if_splits)

lemma ensureVmiSecret_view:
  assumes rand: "randKeeps view R" and here: "here = VerrazzanoNamespace"
    and ok: "secretAt (view (world s)) VmiSecretName = None \<Longrightarrow> writable (view (world s)) VmiSecretName"
  shows "wpt (ensureVmiSecret R b S) (\<lambda>e s'. e = None \<and> ensured b (view (world s)) (view (world s')) \<and>
    ((\<forall>x. secretAt (view (world s)) VmiSecretName = Some x \<longrightarrow> \<not> complete x) \<or> sent s' = sent s)) s"
    (is "wpt _ ?post s")
proof -
  let ?old = "secretAt (view (world s)) VmiSecretName"
  have fresh: "wpt (NewVmiSecret R b) (\<lambda>z s''. vmiSecretOf b z \<and> Name z = VmiSecretName \<and> Namespace z = here \<and>
         view (world s'') = view (world s)) s'"
    if "view (world s') = view (world s)" for s'
    by (rule wpt_mono [OF wpt_NewVmiSecret [OF rand, of b s']])
      (use that vmiSecretOf_complete here in auto)
  have put: "wpt m (\<lambda>a. wpt (case a of (_, err) \<Rightarrow> gret err) ?post) s'"
    if m: "wpt m (\<lambda>r s''. snd r = None \<and> (\<exists>y. like y z \<and> view (world s'') = putAt VmiSecretName y (view (world s)))) s'"
      and "vmiSecretOf b z" "\<And>old. ?old = Some old \<Longrightarrow> \<not> complete old"
    for m :: "('w, Secret result) prog" and z s'
    by (rule wpt_mono [OF m]) (use that in \<open>auto simp: wpt_gret split: prod.split\<close>)
  show ?thesis
    unfolding ensureVmiSecret_def wpt_gbind
  proof (rule wpt_mono [OF get_view], elim conjE)
    fix r :: "Secret result" and s1 :: "'w state" assume r: "fst r = ?old" and v: "view (world s1) = view (world s)"
      and quiet: "sent s1 = sent s"
    have create: "wpt (secCreate S z) (\<lambda>a. wpt (case a of (_, err) \<Rightarrow> gret err) ?post) s2"
      if "vmiSecretOf b z" "Name z = VmiSecretName" "Namespace z = here" "view (world s2) = view (world s)" "?old = None"
      for z and s2 :: "'w state"
      by (rule put) (use create_view [of z s2] ok that in auto)
    have update: "wpt (secUpdate S z) (\<lambda>a. wpt (case a of (_, err) \<Rightarrow> gret err) ?post) s2"
      if "vmiSecretOf b z" "Name z = VmiSecretName" "Namespace z = here" "view (world s2) = view (world s)"
        "?old = Some old" "\<not> complete old" for z old and s2 :: "'w state"
      by (rule put) (use update_view [of z s2 old] that in auto)
    show "wpt (case r of (vmiSecret, _) \<Rightarrow> (case vmiSecret of
        None \<Rightarrow> gbind (NewVmiSecret R b) (\<lambda>vmiSecret. gbind (secCreate S vmiSecret) (\<lambda>(_, err). gret err))
      | Some vmiSecret \<Rightarrow>
          if dataAt (secretData vmiSecret) ''username'' = None \<or> dataAt (secretData vmiSecret) ''password'' = None
          then gbind (NewVmiSecret R b) (\<lambda>vmiSecret. gbind (secUpdate S vmiSecret) (\<lambda>(_, err). gret err))
          else gret None)) ?post s1"
    proof (cases ?old)
      case None
      with r obtain err where "r = (None, err)" by (cases r) auto
      then show ?thesis
        by (simp only: prod.case option.case wpt_gbind, intro wpt_mono [OF fresh [OF v]])
          (elim conjE, simp only: wpt_gbind, intro create None)
    next
      case (Some old)
      with r obtain err where r: "r = (Some old, err)" by (cases r) auto
      show ?thesis
      proof (cases "complete old")
        case True
        then show ?thesis using r Some quiet v by (auto simp: complete_def [of old] wpt_gret)
      next
        case False
        then have "dataAt (secretData old) ''username'' = None \<or> dataAt (secretData old) ''password'' = None"
          by (simp add: complete_def)
        then show ?thesis
          by (simp only: r prod.case option.case if_True wpt_gbind, intro wpt_mono [OF fresh [OF v]])
            (elim conjE, simp only: wpt_gbind, intro update [OF _ _ _ _ Some False])
      qed
    qed
  qed
qed

text \<open>The deletion of the other secrets spares the credentials.\<close>

lemma CreateVmiSecrets_view:
  assumes "randKeeps view R" "here = VerrazzanoNamespace"
    and "secretAt (view (world s)) VmiSecretName = None \<Longrightarrow> writable (view (world s)) VmiSecretName"
  shows "wpt (CreateVmiSecrets R b S) (\<lambda>e s'. e = None \<and> (\<exists>v. ensured b (view (world s)) v \<and>
    cleared [(VerrazzanoBinding, Name b)] (otherSecret b) v (view (world s')))) s"
  unfolding CreateVmiSecrets_def Let_def wpt_gbind [of "ensureVmiSecret R b S"]
proof (rule wpt_mono [OF ensureVmiSecret_view [OF assms(1,2)]], erule assms(3), elim conjE)
  fix e :: "err option" and s1 :: "'w state" assume "e = None" and v: "ensured b (view (world s)) (view (world s1))"
  show "wpt (case e of None \<Rightarrow> purgeSecrets S [(VerrazzanoBinding, Name b)] (otherSecret b) | Some e \<Rightarrow> gret (Some e))
      (\<lambda>e s'. e = None \<and> (\<exists>v. ensured b (view (world s)) v \<and>
        cleared [(VerrazzanoBinding, Name b)] (otherSecret b) v (view (world s')))) s1"
    unfolding \<open>e = None\<close> option.case by (rule wpt_mono [OF purge_view]) (use v in blast)
qed

lemma CreateVmiSecrets_at:
  assumes "randKeeps view R" "here = VerrazzanoNamespace"
    and "secretAt (view (world s)) VmiSecretName = None \<Longrightarrow> writable (view (world s)) VmiSecretName"
  shows "wpt (CreateVmiSecrets R b S) (\<lambda>e s'. e = None \<and> (\<exists>x. secretAt (view (world s')) VmiSecretName = Some x \<and>
    complete x \<and> (\<forall>old. secretAt (view (world s)) VmiSecretName = Some old \<longrightarrow> complete old \<longrightarrow> x = old) \<and>
    (secretAt (view (world s)) VmiSecretName = None \<longrightarrow> (\<exists>z. vmiSecretOf b z \<and> like x z)))) s"
proof (rule wpt_mono [OF CreateVmiSecrets_view [OF assms(1,2)]], erule assms(3), elim conjE exE)
  fix e v and s' :: "'w state" assume "e = None" and v: "ensured b (view (world s)) v"
    and c: "cleared [(VerrazzanoBinding, Name b)] (otherSecret b) v (view (world s'))"
  have "secretAt (view (world s')) VmiSecretName = secretAt v VmiSecretName"
    by (rule cleared_spares [OF c]) (auto simp: VmiUsername_def VmiSecretName_def)
  with ensured_at [OF v] \<open>e = None\<close> show "e = None \<and> (\<exists>x. secretAt (view (world s')) VmiSecretName = Some x \<and>
    complete x \<and> (\<forall>old. secretAt (view (world s)) VmiSecretName = Some old \<longrightarrow> complete old \<longrightarrow> x = old) \<and>
    (secretAt (view (world s)) VmiSecretName = None \<longrightarrow> (\<exists>z. vmiSecretOf b z \<and> like x z)))" by simp
qed

text \<open>The password that is read is the one that is stored.\<close>

lemma GetVmiPassword_at:
  assumes "secretAt (view (world s)) VmiSecretName = Some x" "dataAt (secretData x) ''password'' = Some pw"
  shows "wpt (GetVmiPassword S) (\<lambda>r s'. r = (pw, None) \<and> sent s' = sent s \<and> view (world s') = view (world s)) s"
  unfolding GetVmiPassword_def wpt_gbind
  by (rule wpt_mono [OF get_view]) (use assms in \<open>auto simp: wpt_gret\<close>)

text \<open>
  Where there were no credentials, the password that is read after the first creation has 16 letters and
  digits, and a later creation for any binding does not change it.
\<close>

lemma password_stable:
  assumes rand: "randKeeps view R" and here: "here = VerrazzanoNamespace"
    and none: "secretAt (view (world s)) VmiSecretName = None" and ok: "writable (view (world s)) VmiSecretName"
  shows "\<exists>s1 s2 s3 s4 pw. CreateVmiSecrets R b S s = (Ret None, s1) \<and> GetVmiPassword S s1 = (Ret (pw, None), s2) \<and>
    length pw = 16 \<and> set pw \<subseteq> set passwordChars \<and> CreateVmiSecrets R b' S s2 = (Ret None, s3) \<and>
    GetVmiPassword S s3 = (Ret (pw, None), s4)"
proof -
  note create = CreateVmiSecrets_at [OF rand here]
  from wptD [OF create [where b = b, OF ok]] none obtain s1 x z where
    1: "CreateVmiSecrets R b S s = (Ret None, s1)" and x: "secretAt (view (world s1)) VmiSecretName = Some x" "complete x"
    and z: "vmiSecretOf b z" "like x z" by blast
  from z(1) obtain pw where pw: "dataAt (secretData z) ''password'' = Some pw" "length pw = 16" "set pw \<subseteq> set passwordChars"
    by (auto simp: vmiSecretOf_def dataAt_def)
  note get = like_data [OF z(2) pw(1)]
  from wptD [OF GetVmiPassword_at [OF x(1) get]] obtain s2 where
    2: "GetVmiPassword S s1 = (Ret (pw, None), s2)" and v: "view (world s2) = view (world s1)" by blast
  from wptD [OF create [where b = b' and s = s2]] x v obtain s3 where
    3: "CreateVmiSecrets R b' S s2 = (Ret None, s3)" "secretAt (view (world s3)) VmiSecretName = Some x" by fastforce
  from wptD [OF GetVmiPassword_at [OF 3(2) get]] 1 2 3(1) pw(2,3) show ?thesis by blast
qed

end

end
