(* ===== verification/Base64.thy ===== *)
theory Base64
  imports Utf8
begin

text \<open>
  \<^verbatim>\<open>StdEncoding\<close> of the standard library's package encoding/base64: three bytes as four letters, the last
  letters padded. What was encoded is decoded to the bytes it was made from.
\<close>

definition letter64 :: "nat \<Rightarrow> char" where
  "letter64 d =
     char_of (if d < 26 then 65 + d else if d < 52 then 71 + d else if d < 62 then d - 4
              else if d = 62 then 43 else 47)"

definition value64 :: "char \<Rightarrow> nat option" where
  "value64 c =
     (let b = byte c
      in if 65 \<le> b \<and> b \<le> 90 then Some (b - 65)
         else if 97 \<le> b \<and> b \<le> 122 then Some (b - 71)
         else if 48 \<le> b \<and> b \<le> 57 then Some (b + 4)
         else if b = 43 then Some 62
         else if b = 47 then Some 63
         else None)"

abbreviation padding :: char where
  "padding \<equiv> CHR ''=''"

fun encodeToString :: "nat list \<Rightarrow> string" where
  "encodeToString [] = []"
| "encodeToString [a] = [letter64 (a div 4), letter64 (a mod 4 * 16), padding, padding]"
| "encodeToString [a, b] =
     [letter64 (a div 4), letter64 (a mod 4 * 16 + b div 16), letter64 (b mod 16 * 4), padding]"
| "encodeToString (a # b # c # bs) =
     letter64 (a div 4) # letter64 (a mod 4 * 16 + b div 16) # letter64 (b mod 16 * 4 + c div 64) #
     letter64 (c mod 64) # encodeToString bs"

text \<open>The decoding, for texts as the encoding writes them.\<close>

fun decodeString :: "string \<Rightarrow> nat list option" where
  "decodeString [] = Some []"
| "decodeString (p # q # r # s # cs) =
     (case (value64 p, value64 q) of
        (Some x, Some y) \<Rightarrow>
          if r = padding then (if s = padding \<and> cs = [] then Some [x * 4 + y div 16] else None)
          else (case value64 r of
                  None \<Rightarrow> None
                | Some z \<Rightarrow>
                    if s = padding then
                      (if cs = [] then Some [x * 4 + y div 16, y mod 16 * 16 + z div 4] else None)
                    else (case value64 s of
                            None \<Rightarrow> None
                          | Some w \<Rightarrow> map_option
                              (\<lambda>bs. (x * 4 + y div 16) # (y mod 16 * 16 + z div 4) # (z mod 4 * 64 + w) # bs)
                              (decodeString cs)))
      | _ \<Rightarrow> None)"
| "decodeString _ = None"

lemma value64_letter64: "d < 64 \<Longrightarrow> value64 (letter64 d) = Some d"
  by (auto simp: value64_def letter64_def Let_def)

lemma letter64_padding: "d < 64 \<Longrightarrow> letter64 d \<noteq> padding"
  using value64_letter64 [of d] by (auto simp: value64_def)

lemma digits64:
  fixes a b c :: nat
  assumes "a < 256" "b < 256" "c < 256"
  shows "a div 4 < 64" "a mod 4 * 16 + b div 16 < 64" "b mod 16 * 4 + c div 64 < 64" "c mod 64 < 64"
    and "a mod 4 * 16 < 64" "b mod 16 * 4 < 64"
    and "a div 4 * 4 + (a mod 4 * 16 + b div 16) div 16 = a"
    and "(a mod 4 * 16 + b div 16) mod 16 * 16 + (b mod 16 * 4 + c div 64) div 4 = b"
    and "(b mod 16 * 4 + c div 64) mod 4 * 64 + c mod 64 = c"
proof -
  obtain u v w x y z where d: "u = a div 4" "v = a mod 4" "w = b div 16" "x = b mod 16" "y = c div 64" "z = c mod 64"
    by blast
  then have e: "a = u * 4 + v" "b = w * 16 + x" "c = y * 64 + z" by simp_all
  have l: "u < 64" "v < 4" "w < 16" "x < 16" "y < 4" "z < 64" using assms by (simp_all add: d)
  have "(v * 16 + w) div 16 = v" "(v * 16 + w) mod 16 = w" "(x * 4 + y) div 4 = x" "(x * 4 + y) mod 4 = y"
    using l by simp_all
  then show "a div 4 < 64" "a mod 4 * 16 + b div 16 < 64" "b mod 16 * 4 + c div 64 < 64" "c mod 64 < 64"
    "a mod 4 * 16 < 64" "b mod 16 * 4 < 64" "a div 4 * 4 + (a mod 4 * 16 + b div 16) div 16 = a"
    "(a mod 4 * 16 + b div 16) mod 16 * 16 + (b mod 16 * 4 + c div 64) div 4 = b"
    "(b mod 16 * 4 + c div 64) mod 4 * 64 + c mod 64 = c"
    unfolding d [symmetric] using l e by simp_all
qed

lemma base64_roundtrip: "list_all (\<lambda>b. b < 256) bs \<Longrightarrow> decodeString (encodeToString bs) = Some bs"
proof (induction bs rule: encodeToString.induct)
  case (4 a b c bs)
  then have l: "a < 256" "b < 256" "c < 256" "list_all (\<lambda>b. b < 256) bs" by simp_all
  note d = digits64 [OF l(1-3)]
  have "decodeString (encodeToString (a # b # c # bs)) = map_option
      (\<lambda>bs. (a div 4 * 4 + (a mod 4 * 16 + b div 16) div 16) #
        ((a mod 4 * 16 + b div 16) mod 16 * 16 + (b mod 16 * 4 + c div 64) div 4) #
        ((b mod 16 * 4 + c div 64) mod 4 * 64 + c mod 64) # bs) (decodeString (encodeToString bs))"
    by (simp only: encodeToString.simps decodeString.simps value64_letter64 letter64_padding d(1-4)
        option.case prod.case if_False)
  also have "\<dots> = Some (a # b # c # bs)" unfolding d(7-9) 4(1) [OF l(4)] by simp
  finally show ?case .
next
  case (3 a b)
  then show ?case using digits64 [of a b 0] by (simp add: value64_letter64 letter64_padding)
qed (use digits64 [of _ 0 0] in \<open>simp_all add: value64_letter64\<close>)

lemma length_encodeToString: "length (encodeToString bs) = (length bs + 2) div 3 * 4"
  by (induction bs rule: encodeToString.induct) (simp_all, presburger)

end
