(* ===== verification/Managed_Secrets.thy ===== *)
theory Managed_Secrets
  imports Local_Secrets Vmi_Secrets Monitoring Base64
begin

text \<open>
  pkg/managed/utils.go and secrets.go: the connection to a managed cluster and the choice of the
  connections a pair is reconciled on, and the copies of the management cluster's secrets that the
  pair's clusters need. The parameters \<^verbatim>\<open>sec\<close> and \<^verbatim>\<open>clusterInfo\<close> of \<^verbatim>\<open>CreateSecrets\<close>, which it does
  not use, are dropped. Nothing calls \<^verbatim>\<open>createTempKubeconfigFile\<close> and \<^verbatim>\<open>generateRandomString\<close>.
\<close>

section \<open>Connections\<close>

text \<open>
  The libraries a connection is made with: the configuration read from a file, the client sets made
  from it, and what \<^verbatim>\<open>kubeinformers.NewSharedInformerFactory(clientSet, resync)\<close> and its \<^verbatim>\<open>Start\<close>
  give: a lister per kind and the \<^verbatim>\<open>HasSynced\<close> of the informers behind them.
\<close>

record 'w informerFactory =
  ifDeployments :: "(Deployment, 'w) lister"
  ifServiceAccounts :: "(ServiceAccount, 'w) lister"
  ifNamespaces :: "(NamespaceObj, 'w) lister"
  ifSecrets :: "(Secret, 'w) lister"
  ifClusterRoles :: "(ClusterRole, 'w) lister"
  ifClusterRoleBindings :: "(ClusterRoleBinding, 'w) lister"
  ifConfigMaps :: "(ConfigMap, 'w) lister"
  ifDaemonSets :: "(DaemonSet, 'w) lister"
  ifServices :: "(Service, 'w) lister"
  ifHasSynced :: "'w \<Rightarrow> bool \<times> 'w"
  ifStart :: "'w \<Rightarrow> unit \<times> 'w"

record ('cfg, 'w) connectionLib =
  buildConfigFromFlags :: "string \<Rightarrow> string \<Rightarrow> 'w \<Rightarrow> (err + 'cfg) \<times> 'w"
  newKubernetesClientSet :: "'cfg \<Rightarrow> 'w \<Rightarrow> (err + 'w Clientset) \<times> 'w"
  newExtClientSet :: "'cfg \<Rightarrow> 'w \<Rightarrow> (err + unit) \<times> 'w"
  NewSharedInformerFactory :: "'w Clientset \<Rightarrow> nat \<Rightarrow> 'w informerFactory"

definition BuildManagedClusterConnection ::
  "('cfg, 'w) connectionLib \<Rightarrow> string \<Rightarrow> ('w, err + 'w ManagedClusterConnection) prog" where
  "BuildManagedClusterConnection L kubeconfigPath =
     gbind (glift (buildConfigFromFlags L [] kubeconfigPath)) (\<lambda>cfg.
       case cfg of Inl err \<Rightarrow> gret (Inl err) | Inr cfg \<Rightarrow>
     gbind (glift (newKubernetesClientSet L cfg)) (\<lambda>clientSet.
       case clientSet of Inl err \<Rightarrow> gret (Inl err) | Inr clientSet \<Rightarrow>
     gbind (glift (newExtClientSet L cfg)) (\<lambda>kubeClientExt.
       case kubeClientExt of Inl err \<Rightarrow> gret (Inl err) | Inr _ \<Rightarrow>
     let factory = NewSharedInformerFactory L clientSet ResyncPeriod
     in gbind (glift (ifStart factory)) (\<lambda>_.
       gret (Inr
         \<lparr>KubeClient = clientSet,
          DeploymentLister = ifDeployments factory,
          ServiceAccountLister = ifServiceAccounts factory,
          NamespaceLister = ifNamespaces factory,
          SecretLister = ifSecrets factory,
          ClusterRoleLister = ifClusterRoles factory,
          ClusterRoleBindingLister = ifClusterRoleBindings factory,
          ConfigMapLister = ifConfigMaps factory,
          DaemonSetLister = ifDaemonSets factory,
          ServiceLister = ifServices factory,
          hasSynced = ifHasSynced factory\<rparr>)))))"

definition GetFilteredConnections ::
  "'w runtime \<Rightarrow> SyntheticModelBinding \<Rightarrow> 'w connections \<Rightarrow>
   ('w, 'w connections \<times> err option) prog" where
  "GetFilteredConnections R vzSynMB avail =
     (if Name (SynBinding vzSynMB) = VmiSystemBindingName then gret (avail, None)
      else gbind (GetManagedClustersForVerrazzanoBinding R vzSynMB avail) (\<lambda>(filteredConnections, err).
        case err of Some e \<Rightarrow> gret ([], Some e) | None \<Rightarrow> gret (filteredConnections, None)))"

text \<open>\<^verbatim>\<open>ioutil.TempFile\<close> is the parameter \<open>tempFile\<close>, which answers the name of a new file.\<close>

definition createTempKubeconfigFile ::
  "(string \<Rightarrow> string \<Rightarrow> 'w \<Rightarrow> (err + string) \<times> 'w) \<Rightarrow> ('w, string \<times> err option) prog" where
  "createTempKubeconfigFile tempFile =
     gbind (glift (tempFile ''/tmp'' ''kubeconfig'')) (\<lambda>tmpFile.
       case tmpFile of Inl err \<Rightarrow> gret ([], Some err) | Inr name \<Rightarrow> gret (name, None))"

section \<open>Secrets\<close>

definition wlsRuntimeEncryptionSecret :: string where
  [const_defs]: "wlsRuntimeEncryptionSecret = ''wlsRuntimeEncryptionSecret''"

text \<open>\<^verbatim>\<open>for k, v := range src { d[k] = v }\<close>: the keys of a map are distinct, so any order will do.\<close>

definition copyInto :: "'v gomap \<Rightarrow> 'v gomap \<Rightarrow> 'v gomap" where
  "copyInto d src = foldl (\<lambda>d (k, v). mset_key k v d) d src"

definition newSecret ::
  "string \<Rightarrow> string \<Rightarrow> 'w Clientset \<Rightarrow> bytes gomap \<Rightarrow> string gomap \<Rightarrow> ('w, err + Secret) prog" where
  "newSecret secretName namespace kubeClientSet data ls =
     (let build = (\<lambda>secretInMgmtCluster. deref secretInMgmtCluster (\<lambda>mgmt.
            gret (Inr (ObjectMeta.extend
              (noMeta\<lparr>Name := secretName, Namespace := namespace, Labels := ls\<rparr>)
              (Secret.fields (copyInto (copyInto [] (secretData mgmt)) data) (secretType mgmt))))))
      in gbind (GetSecret secretName DefaultNamespace kubeClientSet) (\<lambda>(secretInMgmtCluster, err).
           case err of
             None \<Rightarrow> build secretInMgmtCluster
           | Some _ \<Rightarrow>
               gbind (GetSecret secretName VerrazzanoNamespace kubeClientSet)
                 (\<lambda>(secretInMgmtCluster, err).
                   case err of Some e \<Rightarrow> gret (Inl e) | None \<Rightarrow> build secretInMgmtCluster)))"

text \<open>The loop over the names of one namespace; \<open>secrets\<close> is what has been collected so far.\<close>

definition addSecret ::
  "'w Clientset \<Rightarrow> string \<Rightarrow> string \<Rightarrow> Secret list \<Rightarrow> ('w, Secret list) prog" where
  "addSecret kubeClientSet namespace secretName secrets =
     (let found = list_ex (\<lambda>s. Name s = secretName \<and> Namespace s = namespace) secrets
      in if \<not> found then
           gbind (newSecret secretName namespace kubeClientSet [] []) (\<lambda>res.
             case res of Inl _ \<Rightarrow> gret secrets | Inr secretObj \<Rightarrow> gret (secrets @ [secretObj]))
         else gret secrets)"

definition newSecrets ::
  "'w runtime \<Rightarrow> SyntheticModelBinding \<Rightarrow> ManagedCluster \<Rightarrow> 'w Clientset \<Rightarrow>
   ('w, Secret list) prog" where
  "newSecrets R vzSynMB managedCluster kubeClientSet =
     gbind (glift (rangeOrder R (keys (mcSecrets managedCluster)))) (\<lambda>nss.
       rangeFold (\<lambda>namespace secrets.
         case mlookup (mcSecrets managedCluster) namespace of
           None \<Rightarrow> gret secrets
         | Some secretNames \<Rightarrow> rangeFold (addSecret kubeClientSet namespace) secretNames secrets)
         nss [])"

definition createSecrets ::
  "'w runtime \<Rightarrow> SyntheticBinding \<Rightarrow> 'w ManagedClusterConnection \<Rightarrow> Secret list \<Rightarrow> string \<Rightarrow>
   ('w, err option) prog" where
  "createSecrets R binding conn news clusterName =
     rangeE (\<lambda>new.
       gbind (listerGet (SecretLister conn) (Namespace new) (Name new)) (\<lambda>(existingSecret, err).
         case existingSecret of
           Some old \<Rightarrow>
             if secretType old \<noteq> wlsRuntimeEncryptionSecret \<and> Diff R (KSecret old) (KSecret new) \<noteq> [] then
               gbind (clientUpdate (connName conn) KSecret (csSecrets (KubeClient conn))
                        (Namespace new) new) (\<lambda>(_, err). gret err)
             else gret err
         | None \<Rightarrow>
             gbind (clientCreate (connName conn) KSecret (csSecrets (KubeClient conn))
                      (Namespace new) new) (\<lambda>(_, err). gret err))) news"

definition CreateSecrets ::
  "'w runtime \<Rightarrow> SyntheticModelBinding \<Rightarrow> 'w connections \<Rightarrow> 'w Clientset \<Rightarrow>
   ('w, err option) prog" where
  "CreateSecrets R vzSynMB avail kubeClientSet =
     gbind (GetFilteredConnections R vzSynMB avail) (\<lambda>(filteredConnections, err).
       case err of
         Some e \<Rightarrow> gret (Some e)
       | None \<Rightarrow>
           rangeClusters R (ManagedClusters vzSynMB) filteredConnections
             (\<lambda>clusterName managedClusterObj conn.
               gbind (if Name (SynBinding vzSynMB) \<noteq> VmiSystemBindingName
                      then newSecrets R vzSynMB managedClusterObj kubeClientSet else gret [])
                 (\<lambda>secrets. createSecrets R (SynBinding vzSynMB) conn secrets clusterName)))"

text \<open>\<^verbatim>\<open>rand.Read\<close> is the parameter \<open>randRead\<close>, which answers as many bytes as it is asked for.\<close>

definition generateRandomString :: "(nat \<Rightarrow> 'w \<Rightarrow> nat list \<times> 'w) \<Rightarrow> ('w, string) prog" where
  "generateRandomString randRead = gbind (glift (randRead 32)) (\<lambda>b. gret (encodeToString b))"

lemma generateRandomString_decodes:
  assumes "\<And>n w. length (fst (randRead n w)) = n \<and> list_all (\<lambda>b. b < 256) (fst (randRead n w))"
  shows "\<exists>r s'. generateRandomString randRead s = (Ret r, s') \<and> length r = 44 \<and>
    decodeString r = Some (fst (randRead 32 (world s)))"
  using assms [of 32 "world s"]
  by (cases "randRead 32 (world s)")
    (simp add: generateRandomString_def gbind_def glift_def gret_def length_encodeToString base64_roundtrip)

section \<open>The secrets wanted\<close>

lemma mlookup_copyInto:
  "wf_map src \<Longrightarrow> mlookup (copyInto d src) = mlookup d ++ mlookup src"
proof (induction src arbitrary: d)
  case (Cons kv src)
  obtain k v where kv: "kv = (k, v)" by (cases kv)
  have wf: "wf_map src" and k: "k \<notin> set (keys src)"
    using Cons.prems by (auto simp: wf_map_def keys_def kv)
  then have "mlookup src k = None" by (simp add: domIff)
  moreover have "mlookup (copyInto d (kv # src)) = mlookup (mset_key k v d) ++ mlookup src"
    using Cons.IH [OF wf, of "mset_key k v d"] unfolding copyInto_def kv foldl.simps prod.case .
  ultimately show ?case by (auto simp: kv map_add_def fun_eq_iff split: option.split)
qed (simp add: copyInto_def)

text \<open>A client whose \<^verbatim>\<open>Get\<close> returns an object or an error, as client-go documents.\<close>

definition clientTotal :: "('o, 'w) rclient \<Rightarrow> bool" where
  "clientTotal rc \<longleftrightarrow> (\<forall>ns n w. fst (rcGet rc ns n w) \<noteq> (None, None))"

lemma safe_GetSecret_total:
  assumes "clientTotal (csSecrets cs)" "\<And>s. Q (Some s, None)" "\<And>e. Q (None, Some e)"
  shows "safe A X (GetSecret n ns cs) Q"
  unfolding GetSecret_def clientGet_def
proof (intro safe_gbind safe_glift_fst)
  fix w
  obtain s e where r: "fst (rcGet (csSecrets cs) ns n w) = (s, e)" by fastforce
  with assms(1) have "s \<noteq> None \<or> e \<noteq> None" unfolding clientTotal_def by metis
  then show "safe A X (case fst (rcGet (csSecrets cs) ns n w) of
       (secret, err) \<Rightarrow> (case err of Some e \<Rightarrow> gret (None, Some e) | None \<Rightarrow> gret (secret, None))) Q"
    unfolding r by (cases e) (auto intro!: safe_gret assms(2,3))
qed

lemma safe_newSecret:
  assumes "clientTotal (csSecrets cs)" "\<And>e. Q (Inl e)"
    and "\<And>s. Name s = n \<Longrightarrow> Namespace s = ns \<Longrightarrow> Labels s = ls \<Longrightarrow> Q (Inr s)"
  shows "safe A X (newSecret n ns cs d ls) Q"
  unfolding newSecret_def Let_def
  by (intro safe_gbind safe_GetSecret_total [OF assms(1)])
    (use assms in \<open>auto intro!: safe_gbind safe_GetSecret_total [OF assms(1)] safe_gret
      simp: ObjectMeta.defs Secret.defs noMeta_def\<close>)

definition wantedSecret :: "ManagedCluster \<Rightarrow> Secret \<Rightarrow> bool" where
  "wantedSecret mc s \<longleftrightarrow>
     (\<exists>names. mlookup (mcSecrets mc) (Namespace s) = Some names \<and> Name s \<in> set names)"

abbreviation secretKey :: "Secret \<Rightarrow> string \<times> string" where
  "secretKey s \<equiv> (Namespace s, Name s)"

text \<open>A secret listed twice for a namespace is copied once.\<close>

definition wantedSecrets :: "ManagedCluster \<Rightarrow> Secret list \<Rightarrow> bool" where
  "wantedSecrets mc l \<longleftrightarrow> list_all (wantedSecret mc) l \<and> distinct (map secretKey l)"

lemma safe_addSecret:
  assumes "clientTotal (csSecrets cs)" "wantedSecrets mc l"
    and "mlookup (mcSecrets mc) ns = Some names" "n \<in> set names"
  shows "safe A X (addSecret cs ns n l) (wantedSecrets mc)"
  unfolding addSecret_def Let_def
  by (intro safe_if safe_gbind safe_newSecret [OF assms(1)])
    (use assms in \<open>auto intro!: safe_gret simp: wantedSecrets_def wantedSecret_def list_ex_iff\<close>, blast)

lemma safe_newSecrets:
  assumes "clientTotal (csSecrets cs)" "\<And>l. wantedSecrets mc l \<Longrightarrow> Q l"
  shows "safe A X (newSecrets R mb mc cs) Q"
  unfolding newSecrets_def
proof (intro safe_gbind safe_glift)
  fix nss
  let ?f = "\<lambda>namespace secrets. case mlookup (mcSecrets mc) namespace of
     None \<Rightarrow> gret secrets | Some names \<Rightarrow> rangeFold (addSecret cs namespace) names secrets"
  have inner: "safe A X (rangeFold (addSecret cs ns) names l) (wantedSecrets mc)"
    if "wantedSecrets mc l" "mlookup (mcSecrets mc) ns = Some names" for ns names l
    by (rule safe_rangeFold [where I = "wantedSecrets mc"])
      (use that safe_addSecret [OF assms(1)] in auto)
  have "safe A X (rangeFold ?f nss []) (wantedSecrets mc)"
    by (rule safe_rangeFold)
      (use inner in \<open>auto intro: safe_gret simp: wantedSecrets_def split: option.split\<close>)
  then show "safe A X (rangeFold ?f nss []) Q" by (rule safe_post) (rule assms(2))
qed

lemma safe_GetFilteredConnections:
  assumes "fairOrder R" "wf_pair mb"
    and "Name (SynBinding mb) = VmiSystemBindingName \<Longrightarrow> covers avail (ManagedClusters mb)"
    and "\<And>r. mlookup r \<subseteq>\<^sub>m mlookup avail \<Longrightarrow> covers r (ManagedClusters mb) \<Longrightarrow> Q (r, None)"
    and "\<And>e. Q ([], Some e)"
  shows "safe A X (GetFilteredConnections R mb avail) Q"
proof -
  have sub: "mlookup r \<subseteq>\<^sub>m mlookup avail" if "forSpec mb avail (r, None)" for r
    using that by (auto simp: forSpec_def map_le_def restrict_map_def split: if_splits)
  have res: "safe A X (case r of (cs, err) \<Rightarrow>
      (case err of Some e \<Rightarrow> gret ([], Some e) | None \<Rightarrow> gret (cs, None))) Q"
    if "forSpec mb avail r" for r
    using that sub assms(4,5) forSpec_covers [OF _ assms(2), of avail]
    by (cases r) (auto intro!: safe_gret split: option.split)
  show ?thesis
    unfolding GetFilteredConnections_def
    by (intro safe_if safe_gret safe_gbind safe_For res assms(1)) (use assms in auto)
qed

lemma safe_createSecrets:
  assumes "mlookup conns k = Some c" "\<And>s. s \<in> set l \<Longrightarrow> ok k (Namespace s) (KSecret s)" "\<And>e. Q e"
  shows "safe (writes conns ok) X (createSecrets R b c l cl) Q"
  unfolding createSecrets_def using assms by (intro safe_rules) auto

lemma safe_CreateSecrets [safe_rules]:
  assumes "fairOrder R" "wf_pair mb" "clientTotal (csSecrets cs)"
    and "Name (SynBinding mb) = VmiSystemBindingName \<Longrightarrow> covers avail (ManagedClusters mb)"
    and "\<And>k mc s. Name (SynBinding mb) \<noteq> VmiSystemBindingName \<Longrightarrow>
           mlookup (ManagedClusters mb) k = Some mc \<Longrightarrow> wantedSecret mc s \<Longrightarrow>
           ok k (Namespace s) (KSecret s)"
    and "\<And>e. Q e"
  shows "safe (writes avail ok) X (CreateSecrets R mb avail cs) Q"
  unfolding CreateSecrets_def
proof (intro safe_gbind safe_GetFilteredConnections [OF assms(1,2,4)], simp_all only: prod.case option.case)
  fix r assume sub: "mlookup r \<subseteq>\<^sub>m mlookup avail" and cov: "covers r (ManagedClusters mb)"
  show "safe (writes avail ok) X (rangeClusters R (ManagedClusters mb) r (\<lambda>cl mc c.
      gbind (if Name (SynBinding mb) \<noteq> VmiSystemBindingName then newSecrets R mb mc cs else gret [])
        (\<lambda>l. createSecrets R (SynBinding mb) c l cl))) Q"
  proof (intro safe_rangeClusters [OF cov] safe_gbind safe_if safe_newSecrets [OF assms(3)] safe_gret)
    fix k mc c l assume mc: "mlookup (ManagedClusters mb) k = Some mc" and c: "mlookup r k = Some c"
      and nsys: "Name (SynBinding mb) \<noteq> VmiSystemBindingName" and l: "wantedSecrets mc l"
    have "mlookup avail k = Some c" using sub c by (auto simp: map_le_def dom_def)
    then show "safe (writes avail ok) X (createSecrets R (SynBinding mb) c l k)
        (\<lambda>e. e \<noteq> None \<longrightarrow> Q e)"
      by (rule safe_createSecrets) (use assms(5) nsys mc l assms(6) in
          \<open>auto simp: wantedSecrets_def list_all_iff\<close>)
  next
    fix k c assume "mlookup r k = Some c"
    then have "mlookup avail k = Some c" using sub by (auto simp: map_le_def dom_def)
    then show "safe (writes avail ok) X (createSecrets R (SynBinding mb) c [] k)
        (\<lambda>e. e \<noteq> None \<longrightarrow> Q e)"
      by (rule safe_createSecrets) (use assms(6) in auto)
  qed (rule assms(6))
qed (auto intro: safe_gret assms(6))

end
