(* ===== verification/Local_Vmis.thy ===== *)
theory Local_Vmis
  imports Util
begin

text \<open>
  pkg/local/vmis.go: the monitoring instance (VMI) of a binding, built from the environment, and its
  reconciliation with the one in the cluster. \<open>createInstanceFunc\<close>, a variable so that tests can
  replace it, is its only value in the program.
\<close>

definition createStorageOption :: "string \<Rightarrow> string \<Rightarrow> Storage" where
  "createStorageOption envSetting enableMonitoringStorageEnvFlag =
     (case parseBool enableMonitoringStorageEnvFlag of
        None \<Rightarrow> \<lparr>Size = [], PvcNames = []\<rparr>
      | Some monitoringStorageEnabled \<Rightarrow>
          if monitoringStorageEnabled \<and> length envSetting > 0
          then \<lparr>Size = envSetting, PvcNames = []\<rparr> else \<lparr>Size = [], PvcNames = []\<rparr>)"

definition createInstance ::
  "'w runtime \<Rightarrow> SyntheticBinding \<Rightarrow> string \<Rightarrow> string \<Rightarrow> err + VMI" where
  "createInstance R binding verrazzanoURI enableMonitoringStorage =
     (if verrazzanoURI = [] then Inl (Errorf ''verrazzanoURI must not be empty'')
      else
        let bindingLabels = GetLocalBindingLabels binding;
            bindingName = GetProfileBindingName R (Name binding)
        in Inr (ObjectMeta.extend
             (noMeta\<lparr>Name := GetVmiNameForBinding (Name binding),
                     Namespace := VerrazzanoNamespace, Labels := bindingLabels\<rparr>)
             (VMI.fields
                (GetVmiURI bindingName verrazzanoURI)
                True
                VmiSecretName
                True
                \<lparr>grafanaEnabled = GetGrafanaEnabled R,
                 grafanaStorage = createStorageOption (GetGrafanaDataStorageSize R) enableMonitoringStorage,
                 grafanaDashboardsConfigMap = GetVmiNameForBinding (Name binding) @ ''-dashboards'',
                 grafanaRequestMemory = GetGrafanaRequestMemory R\<rparr>
                (''verrazzano-ingress.'' @ verrazzanoURI)
                \<lparr>prometheusEnabled = GetPrometheusEnabled R,
                 prometheusStorage = createStorageOption (GetPrometheusDataStorageSize R) enableMonitoringStorage,
                 prometheusRequestMemory = GetPrometheusRequestMemory R\<rparr>
                \<lparr>esEnabled = GetElasticsearchEnabled R,
                 esStorage = createStorageOption (GetElasticsearchDataStorageSize R) enableMonitoringStorage,
                 esIngestNode =
                   \<lparr>esReplicas = GetElasticsearchIngestNodeReplicas R,
                    esNodeRequestMemory = GetElasticsearchIngestNodeRequestMemory R\<rparr>,
                 esMasterNode =
                   \<lparr>esReplicas = GetElasticsearchMasterNodeReplicas R,
                    esNodeRequestMemory = GetElasticsearchMasterNodeRequestMemory R\<rparr>,
                 esDataNode =
                   \<lparr>esReplicas = GetElasticsearchDataNodeReplicas R,
                    esNodeRequestMemory = GetElasticsearchDataNodeRequestMemory R\<rparr>\<rparr>
                \<lparr>kibanaEnabled = GetKibanaEnabled R,
                 kibanaRequestMemory = GetKibanaRequestMemory R\<rparr>
                ''ClusterIP'')))"

text \<open>The three assignments that keep the volume claims of the VMI that exists.\<close>

definition keepPvcNames :: "VMI \<Rightarrow> VMI \<Rightarrow> VMI" where
  "keepPvcNames existingVmi newVmi =
     newVmi\<lparr>vmiGrafana := (vmiGrafana newVmi)\<lparr>grafanaStorage :=
              (grafanaStorage (vmiGrafana newVmi))\<lparr>PvcNames :=
                 PvcNames (grafanaStorage (vmiGrafana existingVmi))\<rparr>\<rparr>,
            vmiPrometheus := (vmiPrometheus newVmi)\<lparr>prometheusStorage :=
              (prometheusStorage (vmiPrometheus newVmi))\<lparr>PvcNames :=
                 PvcNames (prometheusStorage (vmiPrometheus existingVmi))\<rparr>\<rparr>,
            vmiElasticsearch := (vmiElasticsearch newVmi)\<lparr>esStorage :=
              (esStorage (vmiElasticsearch newVmi))\<lparr>PvcNames :=
                 PvcNames (esStorage (vmiElasticsearch existingVmi))\<rparr>\<rparr>\<rparr>"

definition CreateUpdateVmi ::
  "'w runtime \<Rightarrow> SyntheticBinding \<Rightarrow> 'w Clientset \<Rightarrow> (VMI, 'w) lister \<Rightarrow> string \<Rightarrow> string \<Rightarrow>
   ('w, err option) prog" where
  "CreateUpdateVmi R binding vmoClientSet vmiLister verrazzanoURI enableMonitoringStorage =
     (if SharedVMIDefault R \<and> \<not> IsSystemProfileBindingName (Name binding) then gret None
      else case createInstance R binding verrazzanoURI enableMonitoringStorage of
        Inl err \<Rightarrow> gret (Some err)
      | Inr newVmi \<Rightarrow>
          gbind (listerGet vmiLister (Namespace newVmi) (Name newVmi)) (\<lambda>(existingVmi, err).
            case existingVmi of
              Some existingVmi \<Rightarrow>
                let newVmi = keepPvcNames existingVmi newVmi;
                    specDiffs = Diff R (KVMI existingVmi) (KVMI newVmi)
                in if specDiffs \<noteq> [] then
                     let newVmi = newVmi\<lparr>ResourceVersion := ResourceVersion existingVmi\<rparr>
                     in gbind (clientUpdate (clientName vmoClientSet) KVMI (csVMIs vmoClientSet)
                                 (Namespace newVmi) newVmi) (\<lambda>(_, err). gret err)
                   else gret err
            | None \<Rightarrow>
                gbind (clientCreate (clientName vmoClientSet) KVMI (csVMIs vmoClientSet)
                         (Namespace newVmi) newVmi) (\<lambda>(_, err). gret err)))"

definition DeleteVmi ::
  "SyntheticBinding \<Rightarrow> 'w Clientset \<Rightarrow> (VMI, 'w) lister \<Rightarrow> ('w, err option) prog" where
  "DeleteVmi binding vmoClientSet vmiLister =
     deleteListed (clientName vmoClientSet) VMIKind vmiLister (csVMIs vmoClientSet) []
       [(VerrazzanoBinding, Name binding)] Namespace (\<lambda>_. True)"

section \<open>The instance\<close>

lemma createInstance_meta:
  "createInstance R b u f = Inr v \<Longrightarrow>
   u \<noteq> [] \<and> Name v = Name b \<and> Namespace v = VerrazzanoNamespace \<and> Labels v = GetLocalBindingLabels b"
  by (auto simp: createInstance_def ObjectMeta.defs VMI.defs noMeta_def GetVmiNameForBinding_def
      Let_def split: if_splits)

lemma createInstance_Inl: "createInstance R b u f = Inl e \<longleftrightarrow> u = [] \<and> e = Errorf ''verrazzanoURI must not be empty''"
  by (auto simp: createInstance_def Let_def)

lemma createInstance_Inr: "u \<noteq> [] \<Longrightarrow> \<exists>v. createInstance R b u f = Inr v"
  by (simp add: createInstance_def Let_def)

lemma keepPvcNames_meta [simp]:
  "Name (keepPvcNames old new) = Name new" "Namespace (keepPvcNames old new) = Namespace new"
  "Labels (keepPvcNames old new) = Labels new"
  by (simp_all add: keepPvcNames_def)

definition pvcNames :: "VMI \<Rightarrow> string list list" where
  "pvcNames v = [PvcNames (grafanaStorage (vmiGrafana v)), PvcNames (prometheusStorage (vmiPrometheus v)),
     PvcNames (esStorage (vmiElasticsearch v))]"

lemma pvcNames_keep [simp]: "pvcNames (keepPvcNames old new) = pvcNames old"
  by (simp add: pvcNames_def keepPvcNames_def)

lemma pvcNames_rv [simp]: "pvcNames (v\<lparr>ResourceVersion := r\<rparr>) = pvcNames v"
  by (simp add: pvcNames_def)

text \<open>One instance is created or updated, under the binding's name in the system namespace.\<close>

lemma safe_CreateUpdateVmi [safe_rules]:
  assumes "\<And>v. Name v = Name b \<Longrightarrow> Labels v = GetLocalBindingLabels b \<Longrightarrow>
             A (ReqCreate (clientName cs) VerrazzanoNamespace (KVMI v)) \<and>
             A (ReqUpdate (clientName cs) VerrazzanoNamespace (KVMI v))"
    and "\<And>e. Q e"
  shows "safe A X (CreateUpdateVmi R b cs ls u f) Q"
proof (cases "createInstance R b u f")
  case (Inl e)
  then show ?thesis unfolding CreateUpdateVmi_def using assms by (simp add: safe_gret)
next
  case (Inr v)
  then show ?thesis
    unfolding CreateUpdateVmi_def Let_def using createInstance_meta [OF Inr] assms
    by (auto intro!: safe_rules split: option.split)
qed

lemma safe_DeleteVmi [safe_rules]:
  assumes "\<And>ns n. A (ReqDelete (clientName cs) VMIKind ns n)" "\<And>e. Q e"
  shows "safe A X (DeleteVmi b cs ls) Q"
  unfolding DeleteVmi_def using assms by (intro safe_rules) auto

end
