(* ===== verification/Local_ConfigMaps.thy ===== *)
theory Local_ConfigMaps
  imports Util
begin

text \<open>
  pkg/local/configmaps.go: the config map with the Grafana dashboards of a binding. The dashboards
  are embedded by a generated file (package assets); \<open>Asset\<close>, its lookup by name, is an argument.
\<close>

text \<open>\<^verbatim>\<open>strings.Replace(dashboard, "/", "-", -1)\<close>\<close>

definition dashboardKey :: "string \<Rightarrow> string" where
  "dashboardKey dashboard = map (\<lambda>c. if c = CHR ''/'' then CHR ''-'' else c) dashboard"

definition dashboardsFor :: "'w runtime \<Rightarrow> string \<Rightarrow> string list" where
  "dashboardsFor R bindingName =
     (if SharedVMIDefault R then
        (if bindingName = VmiSystemBindingName
         then RemoveDuplicateValues (SystemDashboards @ DefaultDashboards) else [])
      else if bindingName = VmiSystemBindingName then SystemDashboards else DefaultDashboards)"

text \<open>The loop over the dashboards, that fills the data of the config map.\<close>

fun addDashboards ::
  "(string \<Rightarrow> err + string) \<Rightarrow> string list \<Rightarrow> string gomap \<Rightarrow> err + string gomap" where
  "addDashboards Asset [] cm = Inr cm"
| "addDashboards Asset (dashboard # ds) cm =
     (case Asset dashboard of
        Inl err \<Rightarrow> Inl err
      | Inr content \<Rightarrow> addDashboards Asset ds (mset_key (dashboardKey dashboard) content cm))"

definition newConfigMap ::
  "'w runtime \<Rightarrow> (string \<Rightarrow> err + string) \<Rightarrow> SyntheticBinding \<Rightarrow> err + ConfigMap" where
  "newConfigMap R Asset binding =
     (let bindingLabels = GetLocalBindingLabels binding
      in case addDashboards Asset (dashboardsFor R (Name binding)) [] of
           Inl err \<Rightarrow> Inl err
         | Inr cm \<Rightarrow> Inr (ObjectMeta.extend
             (noMeta\<lparr>Name := GetVmiNameForBinding (Name binding) @ ''-dashboards'',
                     Namespace := VerrazzanoNamespace, Labels := bindingLabels\<rparr>)
             (ConfigMap.fields (Some cm))))"

text \<open>\<^verbatim>\<open>reflect.DeepEqual\<close> of two maps: both nil, or both not nil with the same entries.\<close>

definition mapEqual :: "string gomap \<Rightarrow> string gomap \<Rightarrow> bool" where
  "mapEqual a b \<longleftrightarrow> list_all (\<lambda>k. mlookup a k = mlookup b k) (keys a @ keys b)"

definition deepEqualData :: "string gomap option \<Rightarrow> string gomap option \<Rightarrow> bool" where
  "deepEqualData a b =
     (case (a, b) of (None, None) \<Rightarrow> True | (Some a, Some b) \<Rightarrow> mapEqual a b | _ \<Rightarrow> False)"

definition UpdateConfigMaps ::
  "'w runtime \<Rightarrow> (string \<Rightarrow> err + string) \<Rightarrow> SyntheticBinding \<Rightarrow> 'w Clientset \<Rightarrow>
   (ConfigMap, 'w) lister \<Rightarrow> ('w, err option) prog" where
  "UpdateConfigMaps R Asset binding kubeClientSet configMapLister =
     (case newConfigMap R Asset binding of
        Inl err \<Rightarrow> gret (Some err)
      | Inr newCM \<Rightarrow>
          let configMapNames = [Name newCM]
          in gbind (listerGet configMapLister (Namespace newCM) (Name newCM)) (\<lambda>(existingConfigMap, _).
              gbind
                (case existingConfigMap of
                   Some old \<Rightarrow>
                     if \<not> deepEqualData (cmData old) (cmData newCM) then
                       gbind (clientUpdate (clientName kubeClientSet) KConfigMap
                                (csConfigMaps kubeClientSet) (Namespace newCM)
                                (newCM\<lparr>OwnerReferences := OwnerReferences old, Labels := Labels old\<rparr>))
                         (\<lambda>(_, err). gret err)
                     else gret None
                 | None \<Rightarrow> gret None)
                (\<lambda>err. case err of
                   Some e \<Rightarrow> gret (Some e)
                 | None \<Rightarrow>
                     deleteListed (clientName kubeClientSet) ConfigMapKind configMapLister
                       (csConfigMaps kubeClientSet) VerrazzanoNamespace
                       [(VerrazzanoBinding, Name binding)] Namespace
                       (\<lambda>cm. \<not> Contains configMapNames (Name cm)))))"

definition DeleteConfigMaps ::
  "SyntheticBinding \<Rightarrow> 'w Clientset \<Rightarrow> (ConfigMap, 'w) lister \<Rightarrow> ('w, err option) prog" where
  "DeleteConfigMaps binding kubeClientSet configMapLister =
     deleteListed (clientName kubeClientSet) ConfigMapKind configMapLister
       (csConfigMaps kubeClientSet) [] [(VerrazzanoBinding, Name binding)] Namespace (\<lambda>_. True)"

section \<open>The config map\<close>

lemma mapEqual_iff: "mapEqual a b \<longleftrightarrow> mlookup a = mlookup b"
proof
  assume eq: "mapEqual a b"
  have "mlookup a k = mlookup b k" for k
  proof (cases "k \<in> set (keys a) \<union> set (keys b)")
    case True
    with eq show ?thesis unfolding mapEqual_def list_all_iff set_append by blast
  next
    case False
    then show ?thesis by (simp add: domIff)
  qed
  then show "mlookup a = mlookup b" by blast
qed (simp add: mapEqual_def list_all_iff)

text \<open>The data has the key of each dashboard, with the asset of a dashboard of that key.\<close>

lemma addDashboards_dom:
  "addDashboards Asset ds cm = Inr data \<Longrightarrow>
   dom (mlookup data) = dom (mlookup cm) \<union> dashboardKey ` set ds"
  by (induction ds arbitrary: cm) (auto split: sum.splits)

lemma addDashboards_entry:
  "addDashboards Asset ds cm = Inr data \<Longrightarrow> mlookup data k = Some c \<Longrightarrow>
   mlookup cm k = Some c \<or> (\<exists>d \<in> set ds. dashboardKey d = k \<and> Asset d = Inr c)"
proof (induction ds arbitrary: cm)
  case (Cons d ds)
  then obtain c' where a: "Asset d = Inr c'"
    and r: "addDashboards Asset ds (mset_key (dashboardKey d) c' cm) = Inr data"
    by (auto split: sum.splits)
  from Cons.IH [OF r Cons.prems(2)] a show ?case by (auto split: if_splits)
qed simp

lemma addDashboards_Inl:
  "(\<exists>e. addDashboards Asset ds cm = Inl e) \<longleftrightarrow> (\<exists>d \<in> set ds. \<exists>e. Asset d = Inl e)"
  by (induction ds arbitrary: cm) (auto split: sum.splits)

lemma newConfigMap_meta:
  "newConfigMap R Asset b = Inr cm \<Longrightarrow>
   Name cm = Name b @ ''-dashboards'' \<and> Namespace cm = VerrazzanoNamespace \<and>
   Labels cm = GetLocalBindingLabels b"
  by (auto simp: newConfigMap_def ObjectMeta.defs ConfigMap.defs noMeta_def GetVmiNameForBinding_def
      Let_def split: sum.splits)

lemma safe_UpdateConfigMaps [safe_rules]:
  assumes "\<And>cm. Name cm = Name b @ ''-dashboards'' \<Longrightarrow>
             A (ReqUpdate (clientName cs) VerrazzanoNamespace (KConfigMap cm))"
    and "\<And>cm. listed ls VerrazzanoNamespace [(VerrazzanoBinding, Name b)] cm \<Longrightarrow>
           Name cm \<noteq> Name b @ ''-dashboards'' \<Longrightarrow>
           A (ReqDelete (clientName cs) ConfigMapKind (Namespace cm) (Name cm))"
    and "\<And>e. Q e"
  shows "safe A X (UpdateConfigMaps R Asset b cs ls) Q"
proof (cases "newConfigMap R Asset b")
  case (Inl e)
  then show ?thesis unfolding UpdateConfigMaps_def using assms by (simp add: safe_gret)
next
  case (Inr cm)
  then show ?thesis
    unfolding UpdateConfigMaps_def Let_def using newConfigMap_meta [OF Inr] assms
    by (auto intro!: safe_rules split: option.split)
qed

lemma safe_DeleteConfigMaps [safe_rules]:
  assumes "\<And>ns n. A (ReqDelete (clientName cs) ConfigMapKind ns n)" "\<And>e. Q e"
  shows "safe A X (DeleteConfigMaps b cs ls) Q"
  unfolding DeleteConfigMaps_def using assms by (intro safe_rules) auto

end
