(* ===== verification/Secrets_Impl.thy ===== *)
theory Secrets_Impl
  imports Vmi_Secrets Local_Secrets
begin

text \<open>
  The repository's implementations of the interface \<^verbatim>\<open>Secrets\<close>: \<open>KubeSecrets\<close> of
  pkg/controller/secrets.go, on the API server and a lister, and \<open>FakeSecrets\<close> of
  pkg/testutil/fakes.go, on a map in memory; and the interpretations of the interface's contracts.
  \<^verbatim>\<open>GetVmiPassword\<close> is for both the function of that name applied to the receiver.
\<close>

definition KubeSecrets ::
  "string \<Rightarrow> 'w Clientset \<Rightarrow> (Secret, 'w) lister \<Rightarrow> 'w Secrets" where
  "KubeSecrets namespace kubeClientSet secretLister =
     \<lparr>secGet = (\<lambda>name. listerGet secretLister namespace name),
      secCreate = (\<lambda>newSecret. clientCreate (clientName kubeClientSet) KSecret
        (csSecrets kubeClientSet) namespace newSecret),
      secUpdate = (\<lambda>newSecret. clientUpdate (clientName kubeClientSet) KSecret
        (csSecrets kubeClientSet) namespace newSecret),
      secList = (\<lambda>ns selector. listerList secretLister ns selector),
      secDelete = (\<lambda>ns name. clientDelete (clientName kubeClientSet) SecretKind
        (csSecrets kubeClientSet) ns name)\<rparr>"

text \<open>The map is the first component of the world; \<open>order\<close> is the order a range visits its keys in.\<close>

definition FakeSecrets :: "(string list \<Rightarrow> string list) \<Rightarrow> (Secret gomap \<times> 'r) Secrets" where
  "FakeSecrets order =
     \<lparr>secGet = (\<lambda>name. glift (\<lambda>(m, r). ((mlookup m name, None), (m, r)))),
      secCreate = (\<lambda>newSecret. glift (\<lambda>(m, r).
        ((Some newSecret, None), (mset_key (Name newSecret) newSecret m, r)))),
      secUpdate = (\<lambda>newSecret. glift (\<lambda>(m, r).
        ((Some newSecret, None), (mset_key (Name newSecret) newSecret m, r)))),
      secList = (\<lambda>ns selector. glift (\<lambda>(m, r).
        ((List.map_filter (\<lambda>i. case mlookup m i of
             Some s \<Rightarrow> if Namespace s = ns \<and> matches selector (Labels s) then Some s else None
           | None \<Rightarrow> None) (order (keys m)), None), (m, r)))),
      secDelete = (\<lambda>_ name. glift (\<lambda>(m, r). (None, (mdelete name m, r))))\<rparr>"

section \<open>The contracts hold\<close>

interpretation ks: secrets_ops "KubeSecrets ns cs ls" "clientName cs" ns
  for ns :: string and cs :: "'w Clientset" and ls :: "(Secret, 'w) lister"
  by unfold_locales (auto simp: KubeSecrets_def intro: safe_rules)

interpretation ksl: secrets_listing "KubeSecrets ns cs ls" "clientName cs" ns "listed ls"
  for ns :: string and cs :: "'w Clientset" and ls :: "(Secret, 'w) lister"
  by unfold_locales (auto simp: KubeSecrets_def intro: safe_listerList_listed)

text \<open>The map is a store of secrets by name, which a deletion clears of no name it is not for.\<close>

interpretation fk: secrets_store "FakeSecrets order" c here "\<lambda>w. mlookup (fst w)" "\<lambda>v. v" "\<lambda>n x v. v(n \<mapsto> x)"
    "\<lambda>_ _. True" "\<lambda>x y. x = y" "\<lambda>_ pick v v'. \<forall>n. (\<forall>x. pick x \<longrightarrow> Name x \<noteq> n) \<longrightarrow> v' n = v n"
  for order :: "string list \<Rightarrow> string list" and c here :: string
proof (unfold_locales, goal_cases)
  case (11 sel pick s)
  let ?I = "\<lambda>_ s'. \<forall>n. (\<forall>x. pick x \<longrightarrow> Name x \<noteq> n) \<longrightarrow> mlookup (fst (world s')) n = mlookup (fst (world s)) n"
  let ?del = "\<lambda>x. if pick x then secDelete (FakeSecrets order) (Namespace x) (Name x) else gret None"
  have loop: "wpt (rangeE ?del xs) (\<lambda>e s'. e = None \<and> ?I ([] @ xs) s') s1"
    if "world s1 = world s" for xs s1
    by (rule wpt_rangeE [where I = ?I]) (use that in \<open>auto simp: FakeSecrets_def wp_simps split: prod.split\<close>)
  obtain xs where l: "secList (FakeSecrets order) [] sel s = (Ret (xs, None), s)"
    by (cases "world s") (simp add: FakeSecrets_def glift_def)
  show ?case
    using loop [of s xs] by (simp add: wpt_gbind wpt_def [of "secList _ _ _"] l)
qed (auto simp: FakeSecrets_def wp_simps intro: safe_glift split: prod.splits)

end
