(* ===== verification/Interfaces.thy ===== *)
theory Interfaces
  imports Namespaces Managed_Rbac Managed_Accounts Managed_Workloads Managed_Secrets
    Local_Secrets Local_Vmis Local_ConfigMaps Secrets_Impl Location
begin

text \<open>
  The interfaces through which the controller calls the other packages (the end of
  pkg/controller/controller.go) and their implementations by those packages. A Go struct that embeds
  an interface and gives it no value has all of its methods, and panics in those it does not define
  itself: \<open>managedPackage\<close> leaves ten of them to the nil interface it embeds (\<open>promoted\<close>).

  The contracts of the interfaces the controller's lemmas rest on are locales, interpreted on the
  implementations: \<open>managed_create\<close> (what the creation of a pair's resources sends), \<open>managed_delete\<close>
  (what their deletion sends) and \<open>local_ops\<close> (the same for the management cluster).
\<close>

section \<open>The interfaces\<close>

type_synonym 'w reconcile = "SyntheticModelBinding \<Rightarrow> 'w connections \<Rightarrow> ('w, err option) prog"

record 'w managedInterface =
  mBuildManagedClusterConnection :: "string \<Rightarrow> ('w, err + 'w ManagedClusterConnection) prog"
  mCreateNamespaces :: "'w reconcile"
  mCreateSecrets :: "SyntheticModelBinding \<Rightarrow> 'w connections \<Rightarrow> 'w Clientset \<Rightarrow> 'w Secrets \<Rightarrow>
    ClusterInfo \<Rightarrow> ('w, err option) prog"
  mCreateServiceAccounts :: "string \<Rightarrow> string list \<Rightarrow> ManagedCluster gomap \<Rightarrow> 'w connections \<Rightarrow>
    ('w, err option) prog"
  mCreateConfigMaps :: "SyntheticModelBinding \<Rightarrow> 'w connections \<Rightarrow> ClusterInfo \<Rightarrow>
    ('w, err option) prog"
  mCreateClusterRoles :: "'w reconcile"
  mCreateClusterRoleBindings :: "'w reconcile"
  mCreateIngresses :: "'w reconcile"
  mCreateServiceEntries :: "SyntheticModelBinding \<Rightarrow> 'w connections \<Rightarrow> 'w connections \<Rightarrow>
    ('w, err option) prog"
  mCreateServices :: "'w reconcile"
  mCreateDeployments :: "SyntheticModelBinding \<Rightarrow> 'w connections \<Rightarrow> string \<Rightarrow> 'w Secrets \<Rightarrow>
    ('w, err option) prog"
  mCreateCustomResources :: "'w reconcile"
  mUpdateIstioPrometheusConfigMaps :: "SyntheticModelBinding \<Rightarrow> (Secret, 'w) lister \<Rightarrow>
    'w connections \<Rightarrow> ('w, err option) prog"
  mCreateDaemonSets :: "SyntheticModelBinding \<Rightarrow> 'w connections \<Rightarrow> string \<Rightarrow> ClusterInfo \<Rightarrow>
    ('w, err option) prog"
  mCreateDestinationRules :: "'w reconcile"
  mCreateAuthorizationPolicies :: "'w reconcile"
  mCleanupOrphanedCustomResources :: "'w reconcile"
  mCleanupOrphanedServiceEntries :: "'w reconcile"
  mCleanupOrphanedIngresses :: "'w reconcile"
  mCleanupOrphanedClusterRoleBindings :: "'w reconcile"
  mCleanupOrphanedClusterRoles :: "'w reconcile"
  mCleanupOrphanedConfigMaps :: "'w reconcile"
  mCleanupOrphanedNamespaces :: "SyntheticModelBinding \<Rightarrow> 'w connections \<Rightarrow>
    SyntheticModelBinding gomap \<Rightarrow> ('w, err option) prog"
  mCleanupOrphanedServices :: "'w reconcile"
  mCleanupOrphanedDeployments :: "'w reconcile"
  mDeleteCustomResources :: "'w reconcile"
  mDeleteClusterRoleBindings :: "SyntheticModelBinding \<Rightarrow> 'w connections \<Rightarrow> bool \<Rightarrow>
    ('w, err option) prog"
  mDeleteClusterRoles :: "SyntheticModelBinding \<Rightarrow> 'w connections \<Rightarrow> bool \<Rightarrow>
    ('w, err option) prog"
  mDeleteNamespaces :: "SyntheticModelBinding \<Rightarrow> 'w connections \<Rightarrow> bool \<Rightarrow> ('w, err option) prog"
  mDeleteServices :: "'w reconcile"
  mDeleteDeployments :: "'w reconcile"

record 'w cacheInterface =
  cWaitForCacheSync :: "('w \<Rightarrow> bool \<times> 'w) list \<Rightarrow> ('w, bool) prog"

record 'w utilInterface =
  uGetManagedClustersForVerrazzanoBinding ::
    "SyntheticModelBinding \<Rightarrow> 'w connections \<Rightarrow> ('w, 'w connections \<times> err option) prog"

record 'w localInterface =
  lDeleteVmi :: "SyntheticBinding \<Rightarrow> 'w Clientset \<Rightarrow> (VMI, 'w) lister \<Rightarrow> ('w, err option) prog"
  lDeleteSecrets :: "SyntheticBinding \<Rightarrow> 'w Clientset \<Rightarrow> (Secret, 'w) lister \<Rightarrow>
    ('w, err option) prog"
  lDeleteConfigMaps :: "SyntheticBinding \<Rightarrow> 'w Clientset \<Rightarrow> (ConfigMap, 'w) lister \<Rightarrow>
    ('w, err option) prog"
  lCreateUpdateVmi :: "SyntheticBinding \<Rightarrow> 'w Clientset \<Rightarrow> (VMI, 'w) lister \<Rightarrow> string \<Rightarrow> string \<Rightarrow>
    ('w, err option) prog"
  lUpdateConfigMaps :: "SyntheticBinding \<Rightarrow> 'w Clientset \<Rightarrow> (ConfigMap, 'w) lister \<Rightarrow>
    ('w, err option) prog"
  lUpdateAcmeDNSSecret :: "SyntheticBinding \<Rightarrow> 'w Clientset \<Rightarrow> (Secret, 'w) lister \<Rightarrow> string \<Rightarrow>
    string \<Rightarrow> ('w, err option) prog"

record 'w monitoringInterface =
  moCreateVmiSecrets :: "SyntheticBinding \<Rightarrow> 'w Secrets \<Rightarrow> ('w, err option) prog"

section \<open>The implementations\<close>

text \<open>A method of an embedded interface whose value is nil.\<close>

definition promoted :: "('w, 'a) prog" where
  "promoted = gpanic NilDeref"

definition managedPackage ::
  "'w runtime \<Rightarrow> ('cfg, 'w) connectionLib \<Rightarrow> 'w managedInterface" where
  "managedPackage R L =
     \<lparr>mBuildManagedClusterConnection = BuildManagedClusterConnection L,
      mCreateNamespaces = CreateNamespaces R,
      mCreateSecrets = (\<lambda>vzSynMB avail kubeClientSet sec clusterInfo.
        CreateSecrets R vzSynMB avail kubeClientSet),
      mCreateServiceAccounts = CreateServiceAccounts R,
      mCreateConfigMaps = CreateConfigMaps R,
      mCreateClusterRoles = CreateClusterRoles R,
      mCreateClusterRoleBindings = CreateClusterRoleBindings R,
      mCreateIngresses = (\<lambda>_ _. promoted),
      mCreateServiceEntries = (\<lambda>_ _ _. promoted),
      mCreateServices = CreateServices R,
      mCreateDeployments = (\<lambda>vzSynMB avail verrazzanoURI sec.
        CreateDeployments R vzSynMB avail verrazzanoURI),
      mCreateCustomResources = (\<lambda>_ _. promoted),
      mUpdateIstioPrometheusConfigMaps = (\<lambda>_ _ _. promoted),
      mCreateDaemonSets = CreateDaemonSets R,
      mCreateDestinationRules = (\<lambda>_ _. promoted),
      mCreateAuthorizationPolicies = (\<lambda>_ _. promoted),
      mCleanupOrphanedCustomResources = (\<lambda>_ _. promoted),
      mCleanupOrphanedServiceEntries = (\<lambda>_ _. promoted),
      mCleanupOrphanedIngresses = (\<lambda>_ _. promoted),
      mCleanupOrphanedClusterRoleBindings = CleanupOrphanedClusterRoleBindings R,
      mCleanupOrphanedClusterRoles = CleanupOrphanedClusterRoles R,
      mCleanupOrphanedConfigMaps = CleanupOrphanedConfigMaps R,
      mCleanupOrphanedNamespaces = CleanupOrphanedNamespaces R,
      mCleanupOrphanedServices = CleanupOrphanedServices R,
      mCleanupOrphanedDeployments = CleanupOrphanedDeployments R,
      mDeleteCustomResources = (\<lambda>_ _. promoted),
      mDeleteClusterRoleBindings = DeleteClusterRoleBindings R,
      mDeleteClusterRoles = DeleteClusterRoles R,
      mDeleteNamespaces = DeleteNamespaces R,
      mDeleteServices = DeleteServices R,
      mDeleteDeployments = DeleteDeployments R\<rparr>"

text \<open>\<^verbatim>\<open>k8scache.WaitForCacheSync\<close>, of the client library, is the argument.\<close>

definition cachePackage :: "(('w \<Rightarrow> bool \<times> 'w) list \<Rightarrow> 'w \<Rightarrow> bool \<times> 'w) \<Rightarrow> 'w cacheInterface" where
  "cachePackage waitForCacheSync =
     \<lparr>cWaitForCacheSync = (\<lambda>cacheSyncs. glift (waitForCacheSync cacheSyncs))\<rparr>"

definition utilPackage :: "'w runtime \<Rightarrow> 'w utilInterface" where
  "utilPackage R =
     \<lparr>uGetManagedClustersForVerrazzanoBinding = GetManagedClustersForVerrazzanoBinding R\<rparr>"

definition localPackage ::
  "'w runtime \<Rightarrow> (string \<Rightarrow> err + string) \<Rightarrow> 'w localInterface" where
  "localPackage R Asset =
     \<lparr>lDeleteVmi = DeleteVmi,
      lDeleteSecrets = DeleteSecrets,
      lDeleteConfigMaps = DeleteConfigMaps,
      lCreateUpdateVmi = CreateUpdateVmi R,
      lUpdateConfigMaps = UpdateConfigMaps R Asset,
      lUpdateAcmeDNSSecret = UpdateAcmeDNSSecret\<rparr>"

definition monitoringPackage :: "'w runtime \<Rightarrow> 'w monitoringInterface" where
  "monitoringPackage R = \<lparr>moCreateVmiSecrets = CreateVmiSecrets R\<rparr>"

section \<open>Contracts\<close>

text \<open>An object of a kind, for a cluster of the pair.\<close>

definition made :: "kind \<Rightarrow> ManagedCluster gomap \<Rightarrow> string \<Rightarrow> string \<Rightarrow> kobj \<Rightarrow> bool" where
  "made K mcs k ns obj \<longleftrightarrow> k \<in> dom (mlookup mcs) \<and> kindOf obj = K"

text \<open>
  A creation on connections that cover the pair does not panic and writes objects of its kind to the
  pair's clusters only. That of secrets chooses its connections itself.
\<close>

locale managed_create =
  fixes M :: "'w runtime \<Rightarrow> 'w managedInterface"
  assumes namespaces: "covers conns (ManagedClusters mb) \<Longrightarrow>
      safe (writes conns (made NamespaceKind (ManagedClusters mb))) noPanic
        (mCreateNamespaces (M R) mb conns) anyResult"
    and secrets: "fairOrder R \<Longrightarrow> wf_pair mb \<Longrightarrow> clientTotal (csSecrets cs) \<Longrightarrow>
      covers avail (ManagedClusters mb) \<Longrightarrow>
      safe (writes avail (made SecretKind (ManagedClusters mb))) noPanic
        (mCreateSecrets (M R) mb avail cs sec ci) anyResult"
    and accounts: "covers conns mcs \<Longrightarrow>
      safe (writes conns (made ServiceAccountKind mcs)) noPanic
        (mCreateServiceAccounts (M R) b s mcs conns) anyResult"
    and configmaps: "covers conns (ManagedClusters mb) \<Longrightarrow>
      safe (writes conns (made ConfigMapKind (ManagedClusters mb))) noPanic
        (mCreateConfigMaps (M R) mb conns ci) anyResult"
    and roles: "covers conns (ManagedClusters mb) \<Longrightarrow>
      safe (writes conns (made ClusterRoleKind (ManagedClusters mb))) noPanic
        (mCreateClusterRoles (M R) mb conns) anyResult"
    and rolebindings: "covers conns (ManagedClusters mb) \<Longrightarrow>
      safe (writes conns (made ClusterRoleBindingKind (ManagedClusters mb))) noPanic
        (mCreateClusterRoleBindings (M R) mb conns) anyResult"
    and deployments: "covers conns (ManagedClusters mb) \<Longrightarrow>
      safe (writes conns (made DeploymentKind (ManagedClusters mb))) noPanic
        (mCreateDeployments (M R) mb conns u sec) anyResult"
    and services: "covers conns (ManagedClusters mb) \<Longrightarrow>
      safe (writes conns (made ServiceKind (ManagedClusters mb))) noPanic
        (mCreateServices (M R) mb conns) anyResult"
    and daemonsets: "covers conns (ManagedClusters mb) \<Longrightarrow>
      safe (writes conns (made DaemonSetKind (ManagedClusters mb))) noPanic
        (mCreateDaemonSets (M R) mb conns u ci) anyResult"

text \<open>
  A deletion goes to the pair's clusters, a cleanup of cluster roles, bindings and config maps to the
  other ones; no deletion names what the platform owns. The operations on custom resources, service
  entries and ingresses are contracted to send nothing; they may panic.
\<close>

definition unowned :: "string list \<Rightarrow> (string \<Rightarrow> bool) \<Rightarrow> string \<Rightarrow> string \<Rightarrow> bool" where
  "unowned owned on k n \<longleftrightarrow> on k \<and> n \<notin> set owned"

definition ownedNamespaces :: "string list" where
  "ownedNamespaces = [MonitoringNamespace, VerrazzanoNamespace]"

definition ownedRoles :: "string list" where
  "ownedRoles = [VerrazzanoSystem, VerrazzanoSystemAdmin]"

locale managed_delete =
  fixes M :: "'w runtime \<Rightarrow> 'w managedInterface"
  assumes del_roles: "fairOrder R \<Longrightarrow>
      safe (deletes ClusterRoleKind avail (unowned ownedRoles (\<lambda>k. k \<in> clusterNames mb))) noPanic
        (mDeleteClusterRoles (M R) mb avail b) anyResult"
    and del_rolebindings: "fairOrder R \<Longrightarrow>
      safe (deletes ClusterRoleBindingKind avail (unowned ownedRoles (\<lambda>k. k \<in> clusterNames mb))) noPanic
        (mDeleteClusterRoleBindings (M R) mb avail b) anyResult"
    and del_namespaces: "fairOrder R \<Longrightarrow>
      safe (deletes NamespaceKind avail (unowned ownedNamespaces (\<lambda>k. k \<in> clusterNames mb))) noPanic
        (mDeleteNamespaces (M R) mb avail b) anyResult"
    and del_services:
      "safe (deletes ServiceKind conns (\<lambda>_ _. True)) noPanic (mDeleteServices (M R) mb conns) anyResult"
    and del_deployments:
      "safe (deletes DeploymentKind conns (\<lambda>_ _. True)) noPanic (mDeleteDeployments (M R) mb conns) anyResult"
    and del_custom:
      "safe (\<lambda>_. False) (\<lambda>p. p = NilDeref) (mDeleteCustomResources (M R) mb avail) anyResult"

text \<open>
  The requests about a binding to the management cluster, whose clients are named \<open>kc\<close> and \<open>vc\<close>:
  its monitoring instance, its dashboards and the DNS credentials, and its deletion. None of the
  operations panics; that on the DNS credentials relies on a lister that answers.
\<close>

definition vmiWrites :: "string \<Rightarrow> SyntheticBinding \<Rightarrow> request \<Rightarrow> bool" where
  "vmiWrites cl b e \<longleftrightarrow> (\<exists>v. Name v = Name b \<and> Labels v = GetLocalBindingLabels b \<and>
     (e = ReqCreate cl VerrazzanoNamespace (KVMI v) \<or> e = ReqUpdate cl VerrazzanoNamespace (KVMI v)))"

text \<open>The deletions are of what the lister lists in the system namespace with the binding's label.\<close>

definition dashboardWrites ::
  "string \<Rightarrow> (ConfigMap, 'w) lister \<Rightarrow> SyntheticBinding \<Rightarrow> request \<Rightarrow> bool" where
  "dashboardWrites cl ls b e \<longleftrightarrow>
     (\<exists>cm. Name cm = Name b @ ''-dashboards'' \<and> e = ReqUpdate cl VerrazzanoNamespace (KConfigMap cm)) \<or>
     (\<exists>cm. listed ls VerrazzanoNamespace [(VerrazzanoBinding, Name b)] cm \<and>
        Name cm \<noteq> Name b @ ''-dashboards'' \<and> e = ReqDelete cl ConfigMapKind (Namespace cm) (Name cm))"

definition dnsWrites :: "string \<Rightarrow> request \<Rightarrow> bool" where
  "dnsWrites cl e \<longleftrightarrow> (\<exists>s. e = ReqUpdate cl VerrazzanoNamespace (KSecret s))"

definition localDeletes :: "string \<Rightarrow> request \<Rightarrow> bool" where
  "localDeletes cl e \<longleftrightarrow> (\<exists>K ns n. K \<in> {VMIKind, SecretKind, ConfigMapKind} \<and> e = ReqDelete cl K ns n)"

locale local_ops =
  fixes L :: "'w localInterface"
  assumes update_vmi:
      "safe (vmiWrites (clientName cs) b) noPanic (lCreateUpdateVmi L b cs vls u f) anyResult"
    and update_config_maps:
      "safe (dashboardWrites (clientName cs) cls b) noPanic (lUpdateConfigMaps L b cs cls) anyResult"
    and update_dns: "listerTotal sls \<Longrightarrow>
      safe (dnsWrites (clientName cs)) noPanic (lUpdateAcmeDNSSecret L b cs sls n u) anyResult"
    and delete_vmi: "safe (localDeletes (clientName cs)) noPanic (lDeleteVmi L b cs vls) anyResult"
    and delete_secrets: "safe (localDeletes (clientName cs)) noPanic (lDeleteSecrets L b cs sls) anyResult"
    and delete_config_maps:
      "safe (localDeletes (clientName cs)) noPanic (lDeleteConfigMaps L b cs cls) anyResult"

section \<open>The contracts hold\<close>

interpretation mc: managed_create "\<lambda>R. managedPackage R L" for L :: "('cfg, 'w) connectionLib"
  by unfold_locales
    (auto simp: managedPackage_def made_def intro!: safe_rules)

interpretation md: managed_delete "\<lambda>R. managedPackage R L" for L :: "('cfg, 'w) connectionLib"
  by unfold_locales
    (auto simp: managedPackage_def promoted_def unowned_def ownedNamespaces_def ownedRoles_def
      intro!: safe_rules)

interpretation lo: local_ops "localPackage R Asset" for R :: "'w runtime" and Asset
  by unfold_locales
    (auto simp: localPackage_def vmiWrites_def dashboardWrites_def dnsWrites_def localDeletes_def
      intro!: safe_rules)

end
