(* ===== verification/Props_Managed.thy ===== *)
theory Props_Managed
  imports Environment Interfaces
begin

text \<open>
  Properties of the reconcilers of managed clusters: what they send, to which clusters, when they
  can panic, and what the wait for the deletion of a namespace tells.
\<close>

section \<open>Namespaces\<close>

lemma newNamespaces_in: "n \<in> set (newNamespaces b mc) \<Longrightarrow> Name n \<in> set (mcNamespaces mc)"
  unfolding newNamespaces_names [of b mc, symmetric] by simp

text \<open>On connections that cover the pair, \<^verbatim>\<open>CreateNamespaces\<close> never panics, updates nothing, and the
  only requests it sends create a namespace that the cluster addressed wants, with the labels of a
  namespace of the platform or of the binding.\<close>

theorem create_namespaces_confined:
  assumes "covers conns (ManagedClusters mb)"
  shows "safe (writes conns (\<lambda>k ns obj. ns = [] \<and> (\<exists>mc n. mlookup (ManagedClusters mb) k = Some mc \<and>
      obj = KNamespace n \<and> Name n \<in> set (mcNamespaces mc) \<and>
      Labels n = namespaceLabels (SynBinding mb) mc (Name n)))) noPanic
    (CreateNamespaces R mb conns) anyResult"
  by (intro safe_CreateNamespaces [OF assms])
    (use newNamespaces_labels newNamespaces_in in fastforce)+

lemma create_namespaces_confined_witness:
  "list_all (\<lambda>e. writes (plainConnections :: unit connections) (\<lambda>k ns obj. ns = [] \<and> (\<exists>mc n.
        mlookup (ManagedClusters plainPair) k = Some mc \<and> obj = KNamespace n \<and>
        Name n \<in> set (mcNamespaces mc) \<and> Labels n = namespaceLabels plainBinding mc (Name n))) e)
     (requests (CreateNamespaces plainRuntime plainPair (plainConnections :: unit connections))
        \<lparr>sent = [], world = ()\<rparr>)"
  by (rule safe_list_all [OF create_namespaces_confined [OF plain_covers]]) simp

text \<open>On connections that miss a cluster of the pair, \<^verbatim>\<open>CreateNamespaces\<close> never ends well, in any
  order of iteration: an error of the API server stops it first, or it panics.\<close>

lemma create_namespaces_missing:
  assumes "fairOrder R" "mlookup (ManagedClusters mb) k = Some mc" "mlookup conns k = None"
  shows "CreateNamespaces R mb conns s \<noteq> (Ret None, s')"
  unfolding CreateNamespaces_def by (rule rangeClusters_missing [OF assms])

text \<open>
  The labels of the monitoring namespace enable Istio: the branch that does not add the label leaves
  it in place, as \<^verbatim>\<open>GetManagedBindingLabels\<close> has it already.
\<close>

lemma monitoring_namespace_istio:
  "mlookup (namespaceLabels b mc MonitoringNamespace) ''istio-injection'' = Some ''enabled''"
  by (simp add: namespaceLabels_def GetManagedClusterNamespaceForSystem_def GetManagedBindingLabels_def
      const_defs)

text \<open>C7: \<^verbatim>\<open>DeleteNamespaces\<close> never panics, sends nothing but deletions of namespaces, to clusters of the
  pair only, and never of the monitoring or the system namespace, whatever the listers return and
  also when it deletes by the labels that all bindings share.\<close>

theorem delete_namespaces_confined:
  assumes "fairOrder R"
  shows "safe (deletes NamespaceKind avail (\<lambda>k n. k \<in> clusterNames mb \<and>
      n \<noteq> MonitoringNamespace \<and> n \<noteq> VerrazzanoNamespace)) noPanic
    (DeleteNamespaces R mb avail bindingLabel) anyResult"
  by (intro safe_DeleteNamespaces [OF assms]) auto

text \<open>A run that deletes one of the two namespaces with the binding's label, not the system's.\<close>

lemma delete_namespaces_confined_witness:
  "requests (DeleteNamespaces plainRuntime plainPair [(''local'', namespacesConnection)] True)
     \<lparr>sent = [], world = ()\<rparr> = [ReqDelete ''local'' NamespaceKind [] ''old''] \<and>
   deletes NamespaceKind [(''local'', namespacesConnection :: unit ManagedClusterConnection)]
     (\<lambda>k n. k \<in> clusterNames plainPair \<and> n \<noteq> MonitoringNamespace \<and> n \<noteq> VerrazzanoNamespace)
     (ReqDelete ''local'' NamespaceKind [] ''old'')"
proof -
  let ?m = "DeleteNamespaces plainRuntime plainPair
    [(''local'', namespacesConnection :: unit ManagedClusterConnection)] True"
  have r: "requests ?m \<lparr>sent = [], world = ()\<rparr> = [ReqDelete ''local'' NamespaceKind [] ''old'']"
    by (simp add: requests_def DeleteNamespaces_def GetManagedClustersForVerrazzanoBinding_def
        plainRuntime_def gbind_def glift_def gret_def gsend_def plainCluster_def rangeMap_def
        deleteNamespacesAndWait_def call_defs namespacesConnection_def plainConnection_def
        plainClientset_def plainClient_def plainLister_def matches_def GetManagedBindingLabels_def
        waitForNSDeletion_def const_defs eval_nat_numeral)
  then have "ReqDelete ''local'' NamespaceKind [] ''old'' \<in> set (requests ?m \<lparr>sent = [], world = ()\<rparr>)"
    by simp
  from r safe_requests [OF delete_namespaces_confined [OF plain_fair] this] show ?thesis by simp
qed

text \<open>C24: the cleanup of orphaned namespaces never deletes a namespace the pair wants on one of its
  clusters, nor the monitoring namespace on any other.\<close>

theorem cleanup_namespaces_confined:
  assumes "fairOrder R" "wf_pair mb"
  shows "safe (deletes NamespaceKind avail (\<lambda>k n.
      case mlookup (ManagedClusters mb) k of
        Some mc \<Rightarrow> n \<notin> set (mcNamespaces mc) | None \<Rightarrow> n \<noteq> MonitoringNamespace)) noPanic
    (CleanupOrphanedNamespaces R mb avail all) anyResult"
  by (intro safe_CleanupOrphanedNamespaces [OF assms])
    (auto simp: clusterNames_wf [OF assms(2)] split: option.split)

lemma cleanup_namespaces_confined_witness:
  "safe (deletes NamespaceKind (plainConnections :: unit connections) (\<lambda>k n.
      case mlookup (ManagedClusters plainPair) k of
        Some mc \<Rightarrow> n \<notin> set (mcNamespaces mc) | None \<Rightarrow> n \<noteq> MonitoringNamespace)) noPanic
    (CleanupOrphanedNamespaces plainRuntime plainPair (plainConnections :: unit connections) []) anyResult"
  by (rule cleanup_namespaces_confined [OF plain_fair plain_wf])

section \<open>Waiting for a deletion\<close>

lemma waitNSLoop_sound:
  "waitNSLoop fuel R mc ns cl t d s = (Ret None, s') \<Longrightarrow>
   \<exists>w r e. rcGet (csNamespaces (KubeClient mc)) [] ns w = ((r, Some e), world s') \<and> isNotFound e"
proof (induction fuel arbitrary: s)
  case (Suc fuel)
  obtain b w1 where sel: "selectTimeout R t d (world s) = (b, w1)" by fastforce
  obtain r e w2 where get: "rcGet (csNamespaces (KubeClient mc)) [] ns w1 = ((r, e), w2)"
    by (metis surj_pair)
  show ?case
  proof (cases e)
    case None
    with Suc.prems sel get Suc.IH [of "s\<lparr>world := w2\<rparr>"] show ?thesis
      by (auto simp: gbind_def glift_def gret_def call_defs split: if_splits)
  next
    case (Some e')
    with Suc.prems sel get have "isNotFound e'" "world s' = w2"
      by (auto simp: gbind_def glift_def gret_def call_defs split: if_splits)
    with get Some show ?thesis by blast
  qed
qed (simp add: ghang_def)

text \<open>\<^verbatim>\<open>waitForNSDeletion\<close> reports success only if the last answer of the API server was that the
  namespace is not found.\<close>

theorem wait_deletion_sound:
  assumes "waitForNSDeletion R mc ns cl t d s = (Ret None, s')"
  shows "\<exists>w r e. rcGet (csNamespaces (KubeClient mc)) [] ns w = ((r, Some e), world s') \<and> isNotFound e"
  using assms unfolding waitForNSDeletion_def by (rule waitNSLoop_sound)

lemma wait_deletion_sound_witness:
  "\<exists>w r e. rcGet (csNamespaces (KubeClient (plainConnection ''local'' :: unit ManagedClusterConnection)))
     [] ''n'' w = ((r, Some e), ()) \<and> isNotFound e"
proof -
  let ?R = "plainRuntime\<lparr>selectTimeout := (\<lambda>_ _ w. (False, w))\<rparr>"
  have "waitForNSDeletion ?R (plainConnection ''local'') ''n'' ''local'' 120 1 \<lparr>sent = [], world = ()\<rparr> =
      (Ret None, \<lparr>sent = [], world = ()\<rparr>)"
    by (simp add: waitForNSDeletion_def plainRuntime_def gbind_def glift_def gret_def call_defs
        plainConnection_def plainClientset_def plainClient_def)
  from wait_deletion_sound [OF this] show ?thesis by simp
qed

text \<open>
  Time, as the number of ticks before the timeout: a tick takes one, and no request gives any back.
\<close>

definition clock :: "'w runtime \<Rightarrow> ('o, 'w) rclient \<Rightarrow> nat \<Rightarrow> nat \<Rightarrow> ('w \<Rightarrow> nat) \<Rightarrow> bool" where
  "clock R rc t d left \<longleftrightarrow>
     (\<forall>w. fst (selectTimeout R t d w) \<or> left (snd (selectTimeout R t d w)) < left w) \<and>
     (\<forall>ns n w. left (snd (rcGet rc ns n w)) \<le> left w)"

lemma waitNSLoop_returns:
  assumes "clock R (csNamespaces (KubeClient mc)) t d left" "left (world s) < fuel"
  shows "\<exists>e s'. waitNSLoop fuel R mc ns cl t d s = (Ret e, s')"
  using assms(2)
proof (induction fuel arbitrary: s)
  case (Suc fuel)
  obtain b w1 where sel: "selectTimeout R t d (world s) = (b, w1)" by fastforce
  obtain r e w2 where get: "rcGet (csNamespaces (KubeClient mc)) [] ns w1 = ((r, e), w2)"
    by (metis surj_pair)
  have "b \<or> left w1 < left (world s)" "left w2 \<le> left w1"
    using assms(1) sel get unfolding clock_def by (metis fst_conv snd_conv)+
  then have "b \<or> left (world (s\<lparr>world := w2\<rparr>)) < fuel" using Suc.prems by auto
  with Suc.IH [of "s\<lparr>world := w2\<rparr>"] sel get show ?case
    by (auto simp: gbind_def glift_def gret_def call_defs split: option.splits)
qed simp

text \<open>C39: \<^verbatim>\<open>waitForNSDeletion\<close> returns: when every tick uses up some of the time before the timeout, the
  loop ends within as many rounds as there is time left.\<close>

theorem wait_deletion_returns:
  assumes "clock R (csNamespaces (KubeClient mc)) t d left" "left (world s) < waitFuel R"
  shows "\<exists>e s'. waitForNSDeletion R mc ns cl t d s = (Ret e, s')"
  unfolding waitForNSDeletion_def by (rule waitNSLoop_returns [OF assms])

text \<open>A clock with three ticks left, and a namespace that does not go away.\<close>

lemma wait_deletion_returns_witness:
  "\<exists>e s'. waitForNSDeletion
     (plainRuntime\<lparr>selectTimeout := (\<lambda>_ _ w. (w = 0, w - 1)), waitFuel := 4\<rparr>)
     ((plainConnection ''local'')\<lparr>KubeClient := (plainClientset ''local'')
        \<lparr>csNamespaces := plainClient\<lparr>rcGet := (\<lambda>_ n w. ((Some (plainNamespace n), None), w))\<rparr>\<rparr>\<rparr>)
     ''n'' ''local'' 120 1 \<lparr>sent = [], world = 3 :: nat\<rparr> = (Ret e, s')"
  by (rule wait_deletion_returns [where left = "\<lambda>w. w"]) (auto simp: clock_def)

end
