(* ===== verification/Props_Resources.thy ===== *)
theory Props_Resources
  imports Environment Interfaces
begin

text \<open>
  Properties of the reconcilers of cluster roles, service accounts, workloads and secrets of managed
  clusters.
\<close>

section \<open>Cluster roles\<close>

text \<open>C18: deleting the cluster roles or the cluster role bindings of a pair, by either selector, never
  panics and sends only deletions to clusters of the pair; the roles and bindings of the platform
  itself are never deleted.\<close>

theorem delete_rbac_confined:
  assumes "fairOrder R"
  shows "safe (deletes ClusterRoleKind avail (\<lambda>k n. k \<in> clusterNames mb \<and>
      n \<noteq> VerrazzanoSystem \<and> n \<noteq> VerrazzanoSystemAdmin)) noPanic
    (DeleteClusterRoles R mb avail bindingLabel) anyResult \<and>
    safe (deletes ClusterRoleBindingKind avail (\<lambda>k n. k \<in> clusterNames mb \<and>
      n \<noteq> VerrazzanoSystem \<and> n \<noteq> VerrazzanoSystemAdmin)) noPanic
    (DeleteClusterRoleBindings R mb avail bindingLabel) anyResult"
  by (intro conjI safe_DeleteClusterRoles safe_DeleteClusterRoleBindings assms) auto

lemma delete_rbac_confined_witness:
  "safe (deletes ClusterRoleKind (plainConnections :: unit connections) (\<lambda>k n. k = ''local'' \<and>
      n \<noteq> VerrazzanoSystem \<and> n \<noteq> VerrazzanoSystemAdmin)) noPanic
    (DeleteClusterRoles plainRuntime plainPair (plainConnections :: unit connections) False) anyResult"
  using conjunct1 [OF delete_rbac_confined [OF plain_fair, of "plainConnections :: unit connections"
        plainPair False]] by simp

text \<open>The cleanup of cluster roles, cluster role bindings and config maps sends only deletions, and
  only to clusters that are not the pair's.\<close>

theorem cleanup_elsewhere:
  assumes "fairOrder R"
  shows "safe (deletes ClusterRoleKind avail (\<lambda>k n. k \<notin> clusterNames mb)) noPanic
      (CleanupOrphanedClusterRoles R mb avail) anyResult \<and>
    safe (deletes ClusterRoleBindingKind avail (\<lambda>k n. k \<notin> clusterNames mb)) noPanic
      (CleanupOrphanedClusterRoleBindings R mb avail) anyResult \<and>
    safe (deletes ConfigMapKind avail (\<lambda>k n. k \<notin> clusterNames mb)) noPanic
      (CleanupOrphanedConfigMaps R mb avail) anyResult"
  by (intro conjI safe_CleanupOrphanedClusterRoles safe_CleanupOrphanedClusterRoleBindings
      safe_CleanupOrphanedConfigMaps assms) auto

lemma cleanup_elsewhere_witness:
  "safe (deletes ConfigMapKind (plainConnections :: unit connections) (\<lambda>k n. k \<noteq> ''local'')) noPanic
    (CleanupOrphanedConfigMaps plainRuntime plainPair (plainConnections :: unit connections)) anyResult"
  using cleanup_elsewhere [OF plain_fair, of "plainConnections :: unit connections" plainPair] by simp

section \<open>Workloads\<close>

text \<open>C25: the cleanup of deployments and of services never panics on a well-formed pair, and never
  deletes one that the pair wants on the cluster addressed; elsewhere it may delete anything that
  bears the binding's labels.\<close>

theorem cleanup_keeps_wanted:
  assumes "fairOrder R" "wf_pair mb"
  shows "safe (deletes DeploymentKind avail (\<lambda>k n. case mlookup (ManagedClusters mb) k of
        Some mc \<Rightarrow> n \<notin> Name ` set (mcDeployments mc) | None \<Rightarrow> True)) noPanic
      (CleanupOrphanedDeployments R mb avail) anyResult \<and>
    safe (deletes ServiceKind avail (\<lambda>k n. case mlookup (ManagedClusters mb) k of
        Some mc \<Rightarrow> n \<notin> Name ` set (mcServices mc) | None \<Rightarrow> True)) noPanic
      (CleanupOrphanedServices R mb avail) anyResult"
  by (intro conjI safe_CleanupOrphanedDeployments safe_CleanupOrphanedServices assms)
    (auto simp: clusterNames_wf [OF assms(2)] split: option.split)

lemma cleanup_keeps_wanted_witness:
  "safe (deletes ServiceKind (plainConnections :: unit connections)
      (\<lambda>k n. case mlookup (ManagedClusters plainPair) k of
        Some mc \<Rightarrow> n \<notin> Name ` set (mcServices mc) | None \<Rightarrow> True)) noPanic
      (CleanupOrphanedServices plainRuntime plainPair (plainConnections :: unit connections)) anyResult"
  by (rule conjunct2 [OF cleanup_keeps_wanted [OF plain_fair plain_wf]])

section \<open>Service accounts\<close>

text \<open>On connections that cover the clusters, \<^verbatim>\<open>CreateServiceAccounts\<close> never panics and writes only
  these accounts, with the image pull secrets given: for the system binding the node exporter's in
  the monitoring namespace, for any other one the system account in each namespace of the cluster.\<close>

theorem service_accounts_confined:
  assumes "covers conns mcs"
  shows "safe (writes conns (\<lambda>k ns obj. \<exists>mc a. mlookup mcs k = Some mc \<and> obj = KServiceAccount a \<and>
      ns = Namespace a \<and> saImagePullSecrets a = secs \<and>
      (if b = VmiSystemBindingName
       then Name a = NodeExporterName \<and> Namespace a = MonitoringNamespace \<and>
         Labels a = GetNodeExporterLabels k
       else Name a = VerrazzanoSystem \<and> Namespace a \<in> set (mcNamespaces mc) \<and>
         Labels a = GetManagedLabelsNoBinding k))) noPanic
    (CreateServiceAccounts R b secs mcs conns) anyResult"
proof (intro safe_CreateServiceAccounts [OF assms])
  fix k mc a assume mc: "mlookup mcs k = Some mc" and a: "a \<in> set (wantedServiceAccounts b secs k mc)"
  have "a = newServiceAccount NodeExporterName MonitoringNamespace (GetNodeExporterLabels k) secs"
    if "b = VmiSystemBindingName"
    using a that by (auto simp: wantedServiceAccounts_def newServiceAccounts_def newServiceAccountsLoop_eq
        GetMonitoringComponents_def GetMonitoringComponentLabels_def GetMonitoringNamespace_def
        split: if_splits)
  moreover have "\<exists>ns \<in> set (mcNamespaces mc).
      a = newServiceAccount VerrazzanoSystem ns (GetManagedLabelsNoBinding k) secs"
    if "b \<noteq> VmiSystemBindingName"
    using a that by (auto simp: wantedServiceAccounts_binding)
  ultimately show "\<exists>mc a'. mlookup mcs k = Some mc \<and> KServiceAccount a = KServiceAccount a' \<and>
      Namespace a = Namespace a' \<and> saImagePullSecrets a' = secs \<and>
      (if b = VmiSystemBindingName
       then Name a' = NodeExporterName \<and> Namespace a' = MonitoringNamespace \<and>
         Labels a' = GetNodeExporterLabels k
       else Name a' = VerrazzanoSystem \<and> Namespace a' \<in> set (mcNamespaces mc) \<and>
         Labels a' = GetManagedLabelsNoBinding k)"
    using mc by auto
qed simp

lemma service_accounts_confined_witness:
  "list_all (\<lambda>e. \<not> isDelete e)
     (requests (CreateServiceAccounts plainRuntime ''b'' [''pull''] (ManagedClusters plainPair)
        (plainConnections :: unit connections)) \<lparr>sent = [], world = ()\<rparr>)"
  by (rule safe_list_all [OF service_accounts_confined [OF plain_covers]]) (auto simp: writes_def)

section \<open>Secrets\<close>

text \<open>C19: \<^verbatim>\<open>CreateSecrets\<close> never panics on a well-formed pair, provided the API server answers a lookup
  with a secret or an error and, for the system binding, that the connections cover the pair. It
  writes nothing but secrets that the pair names for the cluster and namespace addressed, and nothing
  at all for the system binding.\<close>

theorem create_secrets_confined:
  assumes "fairOrder R" "wf_pair mb" "clientTotal (csSecrets cs)"
    and "Name (SynBinding mb) = VmiSystemBindingName \<Longrightarrow> covers avail (ManagedClusters mb)"
  shows "safe (writes avail (\<lambda>k ns obj. Name (SynBinding mb) \<noteq> VmiSystemBindingName \<and>
      (\<exists>mc s names. mlookup (ManagedClusters mb) k = Some mc \<and> obj = KSecret s \<and> ns = Namespace s \<and>
         mlookup (mcSecrets mc) ns = Some names \<and> Name s \<in> set names))) noPanic
    (CreateSecrets R mb avail cs) anyResult"
  by (intro safe_CreateSecrets assms) (auto simp: wantedSecret_def)

lemma plain_clientTotal [simp]: "clientTotal plainClient"
  by (simp add: clientTotal_def plainClient_def)

lemma create_secrets_confined_witness:
  "list_all (\<lambda>e. \<not> isDelete e)
     (requests (CreateSecrets plainRuntime plainPair plainConnections
       (plainClientset ''local'' :: unit Clientset)) \<lparr>sent = [], world = ()\<rparr>)"
proof -
  have "clientTotal (csSecrets (plainClientset ''local'' :: unit Clientset))"
    by (simp add: plainClientset_def)
  from create_secrets_confined [OF plain_fair plain_wf this plain_covers]
  show ?thesis by (rule safe_list_all) (auto simp: writes_def)
qed

text \<open>A secret whose existing copy is a WebLogic runtime encryption secret is never written: with a
  lister that finds such a copy of each, \<^verbatim>\<open>createSecrets\<close> sends nothing, whatever the differences.\<close>

theorem wls_secret_untouched:
  assumes "\<And>ns n w. \<exists>old err w'. lsGet (SecretLister conn) ns n w = ((Some old, err), w') \<and>
     secretType old = wlsRuntimeEncryptionSecret"
  shows "requests (createSecrets R b conn news cl) s = []"
proof -
  have "sent (snd (createSecrets R b conn news cl s)) = sent s"
  proof (induction news arbitrary: s)
    case (Cons new news)
    obtain old err w where get:
        "lsGet (SecretLister conn) (Namespace new) (Name new) (world s) = ((Some old, err), w)"
      and wls: "secretType old = wlsRuntimeEncryptionSecret"
      using assms by blast
    show ?case
      using Cons.IH [of "s\<lparr>world := w\<rparr>"]
      by (cases err) (simp_all add: createSecrets_def gbind_def glift_def gret_def call_defs get wls)
  qed (simp add: createSecrets_def gret_def)
  then show ?thesis by (simp add: requests_def)
qed

lemma wls_secret_untouched_witness:
  "requests (createSecrets plainRuntime plainBinding
     ((plainConnection ''local'')\<lparr>SecretLister := (plainLister [])
        \<lparr>lsGet := (\<lambda>_ n w. ((Some (ObjectMeta.extend (noMeta\<lparr>Name := n\<rparr>)
           (Secret.fields [] wlsRuntimeEncryptionSecret)), None), w))\<rparr>\<rparr>)
     [ObjectMeta.extend (noMeta\<lparr>Name := ''s''\<rparr>) (Secret.fields [] ''Opaque'')] ''local'')
     \<lparr>sent = [], world = ()\<rparr> = []"
  by (rule wls_secret_untouched) (simp add: ObjectMeta.defs Secret.defs)

end
