(* ===== verification/Props_Local.thy ===== *)
theory Props_Local
  imports Environment Interfaces
begin

text \<open>
  Properties of what the operator keeps in the management cluster: the credentials and instances of
  the monitoring stack, the DNS credentials and the dashboards.
\<close>

section \<open>Credentials\<close>

text \<open>C21: \<^verbatim>\<open>CreateVmiSecrets\<close> on the API server never panics; it writes nothing but a secret with the
  fixed user name and a password of 16 letters and digits, into the store's namespace, and never
  deletes the secret with the credentials or the one named after the binding.\<close>

theorem vmi_secrets_confined:
  assumes "fairRand R"
  shows "safe (\<lambda>e.
      (\<exists>s. vmiSecretOf b s \<and>
         (e = ReqCreate (clientName cs) ns (KSecret s) \<or> e = ReqUpdate (clientName cs) ns (KSecret s))) \<or>
      (\<exists>ns' n. e = ReqDelete (clientName cs) SecretKind ns' n \<and> n \<noteq> VmiSecretName \<and> n \<noteq> Name b)) noPanic
    (CreateVmiSecrets R b (KubeSecrets ns cs ls)) anyResult"
  by (rule ks.CreateVmiSecrets_safe [OF assms]) auto

lemma plain_rand [simp]: "fairRand plainRuntime"
  by (simp add: fairRand_def plainRuntime_def)

lemma vmi_secrets_confined_witness:
  "list_all (\<lambda>e. \<forall>ns. e \<noteq> ReqDelete ''local'' SecretKind ns VmiSecretName)
     (requests (CreateVmiSecrets plainRuntime plainBinding
       (KubeSecrets ''ns'' (plainClientset ''local'' :: unit Clientset) (plainLister [])))
       \<lparr>sent = [], world = ()\<rparr>)"
  by (rule safe_list_all [OF vmi_secrets_confined [OF plain_rand]]) auto

text \<open>In the unit tests, on the fake in memory, the credentials are complete afterwards and never replaced.\<close>

theorem fake_secrets_kept:
  assumes "randKeeps (\<lambda>w. mlookup (fst w)) R"
  shows "\<exists>s' x. CreateVmiSecrets R b (FakeSecrets order) s = (Ret None, s') \<and>
     mlookup (fst (world s')) VmiSecretName = Some x \<and> complete x \<and>
     (case mlookup (fst (world s)) VmiSecretName of
        None \<Rightarrow> vmiSecretOf b x | Some old \<Rightarrow> complete old \<longrightarrow> x = old)"
  using wptD [OF fk.CreateVmiSecrets_at [OF assms refl, of s b order]] by (fastforce split: option.split)

lemma plain_randKeeps [simp]: "randKeeps view plainRuntime"
  by (simp add: randKeeps_def) (simp add: plainRuntime_def)

text \<open>There the password, 16 letters and digits, survives a later call for any binding.\<close>

theorem fake_password_stable:
  assumes "randKeeps (\<lambda>w. mlookup (fst w)) R" "mlookup (fst (world s)) VmiSecretName = None"
  shows "\<exists>s1 s2 s3 s4 pw. CreateVmiSecrets R b (FakeSecrets order) s = (Ret None, s1) \<and>
     GetVmiPassword (FakeSecrets order) s1 = (Ret (pw, None), s2) \<and>
     length pw = 16 \<and> set pw \<subseteq> set passwordChars \<and>
     CreateVmiSecrets R b' (FakeSecrets order) s2 = (Ret None, s3) \<and>
     GetVmiPassword (FakeSecrets order) s3 = (Ret (pw, None), s4)"
  by (rule secrets_store.password_stable [OF fk.secrets_store_axioms [where c = "[]"] assms(1) refl])
    (simp_all add: assms(2))

section \<open>Monitoring instances\<close>

text \<open>C38: when the lister finds an instance, the only request \<^verbatim>\<open>CreateUpdateVmi\<close> may send is an update
  of it that keeps the names of its three volume claims and its resource version.\<close>

theorem vmi_update_keeps_claims:
  assumes "\<And>w. \<exists>err w'. lsGet ls VerrazzanoNamespace (Name b) w = ((Some old, err), w')"
  shows "safe (\<lambda>e. \<exists>v. e = ReqUpdate (clientName cs) VerrazzanoNamespace (KVMI v) \<and> Name v = Name b \<and>
      pvcNames v = pvcNames old \<and> ResourceVersion v = ResourceVersion old) noPanic
    (CreateUpdateVmi R b cs ls uri flag) anyResult"
proof (cases "createInstance R b uri flag")
  case (Inl e)
  then show ?thesis unfolding CreateUpdateVmi_def by (simp add: safe_gret)
next
  case (Inr v)
  from createInstance_meta [OF Inr] have v: "Name v = Name b" "Namespace v = VerrazzanoNamespace"
    by simp_all
  have "safe A noPanic (listerGet ls VerrazzanoNamespace (Name b)) (\<lambda>r. fst r = Some old)"
    for A :: "request \<Rightarrow> bool"
    unfolding listerGet_def by (rule safe_glift_fst) (metis assms fst_conv)
  note get = safe_post [OF this]
  show ?thesis
    unfolding CreateUpdateVmi_def Let_def Inr sum.case v
    by (intro safe_if safe_gret safe_gbind get)
      (auto simp: v intro!: safe_if safe_gret safe_gbind safe_clientUpdate split: prod.split)
qed

lemma vmi_update_keeps_claims_witness:
  "\<forall>old. list_all (\<lambda>e. \<exists>v. e = ReqUpdate ''local'' VerrazzanoNamespace (KVMI v) \<and> pvcNames v = pvcNames old)
     (requests (CreateUpdateVmi plainRuntime plainBinding (plainClientset ''local'' :: unit Clientset)
       ((plainLister [])\<lparr>lsGet := (\<lambda>_ _ w. ((Some old, None), w))\<rparr>) ''uri'' ''true'')
       \<lparr>sent = [], world = ()\<rparr>)"
proof
  fix old :: VMI
  let ?ls = "(plainLister [])\<lparr>lsGet := (\<lambda>_ _ w. ((Some old, None), w))\<rparr> :: (VMI, unit) lister"
  have "clientName (plainClientset ''local'') = ''local''" by (simp add: plainClientset_def)
  then show "list_all (\<lambda>e. \<exists>v. e = ReqUpdate ''local'' VerrazzanoNamespace (KVMI v) \<and> pvcNames v = pvcNames old)
      (requests (CreateUpdateVmi plainRuntime plainBinding (plainClientset ''local'') ?ls ''uri'' ''true'')
        \<lparr>sent = [], world = ()\<rparr>)"
    by (intro safe_list_all [OF vmi_update_keeps_claims [of ?ls plainBinding old]]) auto
qed

text \<open>Without a URI no instance is made: \<^verbatim>\<open>CreateUpdateVmi\<close> sends nothing and returns an error,
  except that a binding that shares the system instance needs none and succeeds.\<close>

theorem vmi_needs_uri:
  "CreateUpdateVmi R b cs ls [] flag s =
     (Ret (if SharedVMIDefault R \<and> Name b \<noteq> VmiSystemBindingName then None
           else Some (Errorf ''verrazzanoURI must not be empty'')), s)"
  by (auto simp: CreateUpdateVmi_def createInstance_def gret_def IsSystemProfileBindingName_def)

section \<open>DNS credentials\<close>

text \<open>C22: on a management cluster where the server stores the secret of the DNS credentials and the lister has
  it in its cache, and with names that are UTF-8, \<^verbatim>\<open>UpdateAcmeDNSSecret\<close> succeeds. Afterwards the JSON of
  the secret on the server decodes to a map with both names of the binding, with the credentials of the
  URI if they were missing, and every other entry as before; the other keys of the secret on the server
  are unchanged, and a second call sends nothing and leaves the server alone. (The hypotheses: the lister
  hands out what is in its cache, assigning to it changes the cache and not the server, and an update
  stores the data it is given, after which the cache is as it was or has what the server stores.)\<close>

theorem dns_secret_updated:
  fixes cached stored :: "'w \<Rightarrow> Secret option"
  assumes get: "\<And>w x. cached w = Some x \<Longrightarrow> lsGet ls VerrazzanoNamespace n w = ((Some x, None), w)"
    and assign: "\<And>w x. cached (snd (lsWrite ls VerrazzanoNamespace n x w)) = Some x \<and>
      stored (snd (lsWrite ls VerrazzanoNamespace n x w)) = stored w"
    and update: "\<And>w x. \<exists>r y w'. rcUpdate (csSecrets cs) VerrazzanoNamespace x w = ((r, None), w') \<and>
      stored w' = Some y \<and> secretData y = secretData x \<and> cached w' \<in> {cached w, Some y}"
    and sec: "stored (world s) = Some sec" "cached (world s) = Some sec" "mlookup (secretData sec) AcmeDNSSecretKey = Some data"
    and creds: "acmeUnmarshal data = Inr creds" "creds \<noteq> []" and names: "valid (Name b)" "valid uri"
  shows "\<exists>s1 s2 sec' data' creds'. UpdateAcmeDNSSecret b cs ls n uri s = (Ret None, s1) \<and>
     stored (world s1) = Some sec' \<and>
     (\<forall>k. k = AcmeDNSSecretKey \<or> mlookup (secretData sec') k = mlookup (secretData sec) k) \<and>
     mlookup (secretData sec') AcmeDNSSecretKey = Some data' \<and> acmeUnmarshal data' = Inr creds' \<and>
     mlookup creds' = (\<lambda>k. if k \<in> {bindingDNSName b uri, ''*.'' @ bindingDNSName b uri} \<and> mlookup creds k = None
       then Some (case mlookup creds uri of None \<Rightarrow> noAcmeDNS | Some c \<Rightarrow> c) else mlookup creds k) \<and>
     UpdateAcmeDNSSecret b cs ls n uri s1 = (Ret None, s2) \<and> sent s2 = sent s1 \<and> stored (world s2) = Some sec'"
proof -
  have idle: "UpdateAcmeDNSSecret b cs ls n uri s1 = (Ret None, s1)"
    if "cached (world s1) = Some x" "mlookup (secretData x) AcmeDNSSecretKey = Some d"
      "acmeUnmarshal d = Inr c" "c \<noteq> []" "addBindingCredentials b uri c = (c, False)" for s1 :: "'w state" and x d c
    using that get by (simp add: UpdateAcmeDNSSecret_def gbind_def glift_def gret_def call_defs Let_def)
  obtain c upd where c: "addBindingCredentials b uri creds = (c, upd)" by (cases "addBindingCredentials b uri creds")
  show ?thesis
  proof (cases upd)
    case False
    with c have p: "mlookup creds (bindingDNSName b uri) \<noteq> None" "mlookup creds (''*.'' @ bindingDNSName b uri) \<noteq> None"
      using addBindingCredentials_updated [of b uri creds] by auto
    from idle [OF sec(2,3) creds addBindingCredentials_present [OF p]] sec creds p show ?thesis
      by (intro exI [of _ s] exI [of _ sec] exI [of _ data] exI [of _ creds]) (auto simp: fun_eq_iff)
  next
    case True
    obtain c' where c': "acmeUnmarshal (Some (acmeMarshal c)) = Inr c'" "mlookup c' = mlookup c"
      "addBindingCredentials b uri c' = (c', False)" "c' \<noteq> []"
      using credentials_reread [OF creds(1) names] c by auto
    define sec' where "sec' = sec\<lparr>secretData := mset_key AcmeDNSSecretKey (Some (acmeMarshal c)) (secretData sec)\<rparr>"
    have data: "mlookup (secretData sec') = (mlookup (secretData sec))(AcmeDNSSecretKey \<mapsto> Some (acmeMarshal c))"
      by (simp add: sec'_def update_conv')
    let ?w = "snd (lsWrite ls VerrazzanoNamespace n sec' (world s))"
    from update [of sec' ?w] assign [of sec' "world s"] obtain r y w' x where
      w': "rcUpdate (csSecrets cs) VerrazzanoNamespace sec' ?w = ((r, None), w')"
      and y: "stored w' = Some y" "secretData y = secretData sec'" "cached w' = Some x" "secretData x = secretData sec'"
      by auto
    let ?s1 = "s\<lparr>sent := sent s @ [ReqUpdate (clientName cs) VerrazzanoNamespace (KSecret sec')], world := w'\<rparr>"
    have "UpdateAcmeDNSSecret b cs ls n uri s = (Ret None, ?s1)"
      using sec creds c True w' get unfolding sec'_def
      by (simp add: UpdateAcmeDNSSecret_def gbind_def glift_def gret_def gsend_def call_defs Let_def split_beta)
    moreover have "UpdateAcmeDNSSecret b cs ls n uri ?s1 = (Ret None, ?s1)"
      by (rule idle [where x = x, OF _ _ c'(1,4,3)]) (simp_all add: y data)
    moreover have "mlookup (secretData y) AcmeDNSSecretKey = Some (Some (acmeMarshal c))"
      "\<forall>k. k = AcmeDNSSecretKey \<or> mlookup (secretData y) k = mlookup (secretData sec) k"
      by (simp_all add: y data)
    ultimately show ?thesis
      using y(1) c'(1,2) c addBindingCredentials_lookup [of b uri creds]
      by (intro exI [of _ ?s1] exI [of _ y] exI [of _ "Some (acmeMarshal c)"] exI [of _ c']) simp
  qed
qed

text \<open>
  A management cluster with the secret alone, in the lister's cache and on the server, and a text that
  names its fields as the code does not.
\<close>

definition dnsText :: string where
  "dnsText = ''{ \"uri\": {\"Fulldomain\":\"d\", \"username\":\"u'' @ [backslash] @
     ''/1\", \"other\":[1,{}]}}''"

definition dnsSecret :: Secret where
  "dnsSecret = ObjectMeta.extend noMeta (Secret.fields [(AcmeDNSSecretKey, Some dnsText)] [])"

definition dnsLister :: "(Secret, Secret \<times> Secret) lister" where
  "dnsLister = \<lparr>lsGet = (\<lambda>_ _ w. ((Some (fst w), None), w)), lsList = (\<lambda>_ _ w. (([fst w], None), w)),
     lsWrite = (\<lambda>_ _ x w. ((), (x, snd w)))\<rparr>"

definition dnsClientset :: "err option \<Rightarrow> (Secret \<times> Secret) Clientset" where
  "dnsClientset e = (plainClientset ''local'')\<lparr>csSecrets := plainClient
     \<lparr>rcUpdate := (\<lambda>_ x w. case e of None \<Rightarrow> ((Some x, None), (fst w, x)) | Some e \<Rightarrow> ((None, Some e), w))\<rparr>\<rparr>"

lemma dnsText_credentials:
  "acmeUnmarshal (Some dnsText) = Inr [(''uri'', noAcmeDNS\<lparr>Fulldomain := ''d'', acmeUsername := ''u/1''\<rparr>)]"
  by code_simp

lemma dnsSecret_data: "mlookup (secretData dnsSecret) AcmeDNSSecretKey = Some (Some dnsText)"
  by (simp add: dnsSecret_def ObjectMeta.defs Secret.defs)

lemma dns_names: "valid (Name plainBinding)" "valid ''uri''"
  by (simp_all add: plainBinding_def SyntheticBinding.defs ObjectMeta.defs noMeta_def RuneError_def)

lemma dns_secret_updated_witness:
  "\<exists>s1 data' creds'. UpdateAcmeDNSSecret plainBinding (dnsClientset None) dnsLister AcmeDNSSecret ''uri''
       \<lparr>sent = [], world = (dnsSecret, dnsSecret)\<rparr> = (Ret None, s1) \<and>
     mlookup (secretData (snd (world s1))) AcmeDNSSecretKey = Some data' \<and> acmeUnmarshal data' = Inr creds' \<and>
     map_option acmeUsername (mlookup creds' (bindingDNSName plainBinding ''uri'')) = Some ''u/1''"
proof -
  have "mlookup [(''uri'', c)] (bindingDNSName plainBinding ''uri'') = None" for c :: acmeDNS
    by (simp add: bindingDNSName_def)
  moreover note dns_secret_updated [where cached = "\<lambda>w. Some (fst w)" and stored = "\<lambda>w. Some (snd w)" and ls = dnsLister
      and cs = "dnsClientset None" and s = "\<lparr>sent = [], world = (dnsSecret, dnsSecret)\<rparr>" and n = AcmeDNSSecret,
      OF _ _ _ _ _ dnsSecret_data dnsText_credentials _ dns_names]
  ultimately show ?thesis
    by (fastforce simp: dnsLister_def dnsClientset_def)
qed

text \<open>C23: a failed update of the DNS credentials is never repeated. The code writes the new data into the
  object the lister handed out before it sends the update; if the update fails, the next call finds
  the entries in that object, sends nothing and reports success. (The hypotheses: the lister hands
  out the object written last, the names are UTF-8, and the API server refuses the update.)\<close>

theorem failed_dns_update_lost:
  assumes "lsGet ls VerrazzanoNamespace n (world s) = ((Some sec, None), world s)"
    and "mlookup (secretData sec) AcmeDNSSecretKey = Some data"
    and "acmeUnmarshal data = Inr creds" "creds \<noteq> []"
    and "mlookup creds (bindingDNSName b uri) = None" "valid (Name b)" "valid uri"
    and "\<And>x w. lsGet ls VerrazzanoNamespace n (snd (lsWrite ls VerrazzanoNamespace n x w)) =
          ((Some x, None), snd (lsWrite ls VerrazzanoNamespace n x w))"
    and "\<And>x w. rcUpdate (csSecrets cs) VerrazzanoNamespace x w = ((None, Some e), w)"
  shows "\<exists>s1 s2. UpdateAcmeDNSSecret b cs ls n uri s = (Ret (Some e), s1) \<and>
     UpdateAcmeDNSSecret b cs ls n uri s1 = (Ret None, s2) \<and> sent s2 = sent s1"
proof -
  obtain c where c: "addBindingCredentials b uri creds = (c, True)"
    using assms(5) addBindingCredentials_updated [of b uri creds]
    by (cases "addBindingCredentials b uri creds") auto
  obtain c' where c': "acmeUnmarshal (Some (acmeMarshal c)) = Inr c'"
    "addBindingCredentials b uri c' = (c', False)" "c' \<noteq> []"
    using credentials_reread [OF assms(3,6,7)] c by auto
  let ?sec = "sec\<lparr>secretData := mset_key AcmeDNSSecretKey (Some (acmeMarshal c)) (secretData sec)\<rparr>"
  let ?w = "snd (lsWrite ls VerrazzanoNamespace n ?sec (world s))"
  let ?s1 = "s\<lparr>sent := sent s @ [ReqUpdate (clientName cs) VerrazzanoNamespace (KSecret ?sec)], world := ?w\<rparr>"
  have "UpdateAcmeDNSSecret b cs ls n uri s = (Ret (Some e), ?s1)"
    using assms(1-4,9) c
    by (simp add: UpdateAcmeDNSSecret_def gbind_def glift_def gret_def gsend_def call_defs Let_def
        split: prod.split)
  moreover have "UpdateAcmeDNSSecret b cs ls n uri ?s1 = (Ret None, ?s1)"
    using assms(8) c'
    by (simp add: UpdateAcmeDNSSecret_def gbind_def glift_def gret_def call_defs Let_def)
  ultimately show ?thesis by auto
qed

text \<open>The same cluster, whose server refuses the update.\<close>

lemma failed_dns_update_lost_witness:
  "\<exists>s1 s2. UpdateAcmeDNSSecret plainBinding (dnsClientset (Some (Errorf ''conflict''))) dnsLister AcmeDNSSecret ''uri''
       \<lparr>sent = [], world = (dnsSecret, dnsSecret)\<rparr> = (Ret (Some (Errorf ''conflict'')), s1) \<and>
     UpdateAcmeDNSSecret plainBinding (dnsClientset (Some (Errorf ''conflict''))) dnsLister AcmeDNSSecret ''uri'' s1 =
       (Ret None, s2) \<and> sent s2 = sent s1"
  by (rule failed_dns_update_lost [OF _ dnsSecret_data dnsText_credentials _ _ dns_names])
    (simp_all add: dnsLister_def dnsClientset_def bindingDNSName_def)

section \<open>Dashboards\<close>

text \<open>The config map of a binding has one entry for every dashboard it shows and no other, with the
  asset of a dashboard of that key; it cannot be made exactly if an asset is missing.\<close>

theorem dashboards_config_map:
  "case newConfigMap R Asset b of
     Inr cm \<Rightarrow> (\<exists>data. cmData cm = Some data \<and>
       dom (mlookup data) = dashboardKey ` set (dashboardsFor R (Name b)) \<and>
       list_all (\<lambda>k. list_ex (\<lambda>d. dashboardKey d = k \<and>
            (case Asset d of Inr c \<Rightarrow> mlookup data k = Some c | Inl _ \<Rightarrow> False))
          (dashboardsFor R (Name b))) (keys data))
   | Inl e \<Rightarrow> list_ex (\<lambda>d. \<exists>e. Asset d = Inl e) (dashboardsFor R (Name b))"
proof (cases "addDashboards Asset (dashboardsFor R (Name b)) []")
  case (Inl e)
  with addDashboards_Inl [of Asset "dashboardsFor R (Name b)" "[]"]
  show ?thesis by (auto simp: newConfigMap_def list_ex_iff)
next
  case (Inr data)
  have "list_ex (\<lambda>d. dashboardKey d = k \<and> (case Asset d of Inr c \<Rightarrow> mlookup data k = Some c | Inl _ \<Rightarrow> False))
      (dashboardsFor R (Name b))" if "k \<in> set (keys data)" for k
  proof -
    from that obtain c where "mlookup data k = Some c" by (auto simp: dom_def)
    with addDashboards_entry [OF Inr this] show ?thesis by (auto simp: list_ex_iff intro: bexI)
  qed
  with addDashboards_dom [OF Inr] show ?thesis
    by (simp add: newConfigMap_def Inr ObjectMeta.defs ConfigMap.defs list_all_iff del: set_keys)
qed

text \<open>\<^verbatim>\<open>UpdateConfigMaps\<close> never panics; it creates nothing, updates only the binding's dashboards
  config map in the system namespace and never deletes it.\<close>

theorem update_config_maps_confined:
  "safe (\<lambda>e. (\<exists>cm. e = ReqUpdate (clientName cs) VerrazzanoNamespace (KConfigMap cm) \<and>
        Name cm = Name b @ ''-dashboards'') \<or>
      (\<exists>ns n. e = ReqDelete (clientName cs) ConfigMapKind ns n \<and> n \<noteq> Name b @ ''-dashboards'')) noPanic
    (UpdateConfigMaps R Asset b cs ls) anyResult"
  by (rule safe_UpdateConfigMaps) auto

end
