(* ===== verification/Controller.thy ===== *)
theory Controller
  imports Interfaces
begin

text \<open>
  pkg/controller/controller.go: the state of the controller and its event handlers. A handler takes
  the controller and returns the one it leaves; a panic ends the process. Errors that are only
  logged are dropped where the code drops them (\<open>logged\<close>), and end the handler where it returns
  (\<open>orReturn\<close>).
\<close>

section \<open>State\<close>

text \<open>
  A receive from a channel: nil blocks forever, and \<open>Some f\<close> until the channel is closed, the world
  having moved on by \<open>f\<close>. The counters of \<open>bindingSyncThreshold\<close> are Go ints; they stay below 6
  (theorem \<open>controller_invariant\<close>), so integers serve.
\<close>

type_synonym 'w stopChannel = "('w \<Rightarrow> unit \<times> 'w) option"

record 'w Controller =
  managed :: "'w managedInterface"
  cache :: "'w cacheInterface"
  util :: "'w utilInterface"
  localIface :: "'w localInterface"
  monitoring :: "'w monitoringInterface"
  kubeClientSet :: "'w Clientset"
  vmoClientSet :: "'w Clientset"
  verrazzanoURI :: string
  enableMonitoringStorage :: string
  imagePullSecrets :: "string list"
  secretLister :: "(Secret, 'w) lister"
  configMapLister :: "(ConfigMap, 'w) lister"
  vmiLister :: "(VMI, 'w) lister"
  secrets :: "'w Secrets"
  managedClusterConnections :: "'w connections"
  applicationModels :: "SyntheticModel gomap"
  applicationBindings :: "SyntheticBinding gomap"
  SyntheticModelBindings :: "SyntheticModelBinding gomap"
  watchNamespace :: string
  stopCh :: "'w stopChannel"
  bindingSyncThreshold :: "int gomap"

definition bindingFinalizer :: string where
  [const_defs]: "bindingFinalizer = ''vb.verrazzano.io''"

definition MCRegistrationSecret :: string where
  [const_defs]: "MCRegistrationSecret = ''verrazzano-cluster-registration''"

definition ClusterNameData :: string where
  [const_defs]: "ClusterNameData = ''managed-cluster-name''"

definition ElasticsearchURLData :: string where
  [const_defs]: "ElasticsearchURLData = ''es-url''"

definition ElasticsearchUsernameData :: string where
  [const_defs]: "ElasticsearchUsernameData = ''username''"

definition ElasticsearchPasswordData :: string where
  [const_defs]: "ElasticsearchPasswordData = ''password''"

definition ElasticsearchCABundleData :: string where
  [const_defs]: "ElasticsearchCABundleData = ''ca-bundle''"

definition recvStop :: "'w stopChannel \<Rightarrow> ('w, unit) prog" where
  "recvStop ch = (case ch of None \<Rightarrow> ghang | Some f \<Rightarrow> glift f)"

text \<open>\<^verbatim>\<open>err = op; if err != nil { log }\<close>\<close>

definition logged :: "('w, err option) prog \<Rightarrow> ('w, 'a) prog \<Rightarrow> ('w, 'a) prog" where
  "logged m k = gbind m (\<lambda>_. k)"

text \<open>\<^verbatim>\<open>err = op; if err != nil { log; return }\<close> in a handler that leaves \<open>c\<close>\<close>

definition orReturn :: "'c \<Rightarrow> ('w, err option) prog \<Rightarrow> ('w, 'c) prog \<Rightarrow> ('w, 'c) prog" where
  "orReturn c m k = gbind m (\<lambda>err. case err of Some _ \<Rightarrow> gret c | None \<Rightarrow> k)"

section \<open>Helpers\<close>

fun contains :: "string list \<Rightarrow> string \<Rightarrow> bool" where
  "contains [] s = False"
| "contains (v # vs) s = (if v = s then True else contains vs s)"

text \<open>
  The range visits the indices of the slice given; \<open>append(list[:i], list[i+1:]...)\<close> shifts the
  elements of the array both slices share. \<open>arr\<close> is that array, \<open>len\<close> the length of \<^verbatim>\<open>list\<close>.
\<close>

fun removeLoop :: "string \<Rightarrow> nat list \<Rightarrow> string list \<Rightarrow> nat \<Rightarrow> ('s, string list) go" where
  "removeLoop s [] arr len = gret (take len arr)"
| "removeLoop s (i # is) arr len =
     (if arr ! i = s then
        if len < i + 1 then gpanic SliceBounds
        else removeLoop s is
               (take i arr @ take (len - (i + 1)) (drop (i + 1) arr) @ drop (len - 1) arr) (len - 1)
      else removeLoop s is arr len)"

definition remove :: "string list \<Rightarrow> string \<Rightarrow> ('s, string list) go" where
  "remove l s = removeLoop s [0 ..< length l] l (length l)"

text \<open>The inner loop sets \<^verbatim>\<open>dupFound\<close> and breaks at the first equal name.\<close>

definition checkForDuplicateNamespaces :: "ClusterPlacement \<Rightarrow> ClusterPlacement \<Rightarrow> bool" where
  "checkForDuplicateNamespaces placement currPlacement =
     foldl (\<lambda>dupFound namespace.
        dupFound \<or> list_ex (\<lambda>currNamespace. knName currNamespace = knName namespace)
                     (placementNamespaces currPlacement))
       False (placementNamespaces placement)"

definition DeleteDeployment :: "'w Clientset \<Rightarrow> string \<Rightarrow> string \<Rightarrow> ('w, err option) prog" where
  "DeleteDeployment cs namespace name =
     gbind (clientGet (csDeployments cs) namespace name) (\<lambda>(dep, err).
       case dep of
         Some _ \<Rightarrow> clientDelete (clientName cs) DeploymentKind (csDeployments cs) namespace name
       | None \<Rightarrow> gret err)"

section \<open>What the controller knows of its own cluster\<close>

definition getContainerRuntime :: "'w runtime \<Rightarrow> 'w Controller \<Rightarrow> ('w, string) prog" where
  "getContainerRuntime R c =
     gbind (glift (csNodes (kubeClientSet c))) (\<lambda>(nodes, err).
       if NodeListSize R nodes = 0 then gret ''unknown''
       else case err of
         Some _ \<Rightarrow> gret ''unknown''
       | None \<Rightarrow> deref nodes (\<lambda>items. index items 0))"

definition bytesString :: "bytes \<Rightarrow> string" where
  "bytesString b = (case b of None \<Rightarrow> [] | Some s \<Rightarrow> s)"

definition getClusterInfo :: "'w runtime \<Rightarrow> 'w Controller \<Rightarrow> ('w, ClusterInfo) prog" where
  "getClusterInfo R c =
     gbind (getContainerRuntime R c) (\<lambda>containerRuntime.
       let clusterInfo =
         \<lparr>ContainerRuntime = containerRuntime, ManagedClusterName = [], ElasticsearchURL = [],
          ElasticsearchUsername = [], ElasticsearchPassword = [], ElasticsearchCABundle = None\<rparr>
       in gbind (secGet (secrets c) MCRegistrationSecret) (\<lambda>(clusterSecret, err).
            case err of
              Some _ \<Rightarrow> gret clusterInfo
            | None \<Rightarrow>
                deref clusterSecret (\<lambda>clusterSecret.
                  let data = dataAt (secretData clusterSecret)
                  in gret (clusterInfo
                      \<lparr>ManagedClusterName := bytesString (data ClusterNameData),
                       ElasticsearchURL := bytesString (data ElasticsearchURLData),
                       ElasticsearchUsername := bytesString (data ElasticsearchUsernameData),
                       ElasticsearchPassword := bytesString (data ElasticsearchPasswordData),
                       ElasticsearchCABundle := data ElasticsearchCABundleData\<rparr>))))"

section \<open>The system instance\<close>

definition createUpdateGlobalEntities ::
  "SyntheticBinding \<Rightarrow> 'w Controller \<Rightarrow> ('w, unit) prog" where
  "createUpdateGlobalEntities binding c =
     logged (lCreateUpdateVmi (localIface c) binding (vmoClientSet c) (vmiLister c)
               (verrazzanoURI c) (enableMonitoringStorage c))
    (logged (moCreateVmiSecrets (monitoring c) binding (secrets c))
    (logged (lUpdateConfigMaps (localIface c) binding (kubeClientSet c) (configMapLister c))
    (gret ())))"

text \<open>The endless loop of the goroutine, cut off after some rounds; \<open>pause\<close> is the minute between.\<close>

fun createUpdateGlobalEntitiesGoroutine ::
  "nat \<Rightarrow> ('w \<Rightarrow> unit \<times> 'w) \<Rightarrow> SyntheticBinding \<Rightarrow> 'w Controller \<Rightarrow> ('w, unit) prog" where
  "createUpdateGlobalEntitiesGoroutine 0 pause binding c = ghang"
| "createUpdateGlobalEntitiesGoroutine (Suc n) pause binding c =
     gbind (createUpdateGlobalEntities binding c) (\<lambda>_.
       gbind (glift pause) (\<lambda>_. createUpdateGlobalEntitiesGoroutine n pause binding c))"

section \<open>Resources of a pair\<close>

definition createManagedClusterResourcesForBinding ::
  "'w Controller \<Rightarrow> SyntheticModelBinding \<Rightarrow> ClusterInfo \<Rightarrow> ('w, unit) prog" where
  "createManagedClusterResourcesForBinding c vzSynMB clusterInfo =
     gbind (uGetManagedClustersForVerrazzanoBinding (util c) vzSynMB (managedClusterConnections c))
       (\<lambda>(filteredConnections, _).
     logged (mCreateNamespaces (managed c) vzSynMB filteredConnections)
    (logged (mCreateSecrets (managed c) vzSynMB (managedClusterConnections c) (kubeClientSet c)
               (secrets c) clusterInfo)
    (logged (mCreateServiceAccounts (managed c) (Name (SynBinding vzSynMB))
               (mbImagePullSecrets vzSynMB) (ManagedClusters vzSynMB) filteredConnections)
    (logged (mCreateConfigMaps (managed c) vzSynMB filteredConnections clusterInfo)
    (logged (mCreateClusterRoles (managed c) vzSynMB filteredConnections)
    (logged (mCreateClusterRoleBindings (managed c) vzSynMB filteredConnections)
    (logged (mCreateDeployments (managed c) vzSynMB filteredConnections (verrazzanoURI c) (secrets c))
    (logged (mCreateServices (managed c) vzSynMB filteredConnections)
    (logged (mCreateDaemonSets (managed c) vzSynMB filteredConnections (verrazzanoURI c) clusterInfo)
    (gret ()))))))))))"

definition cleanupOrphanedResources ::
  "'w Controller \<Rightarrow> SyntheticModelBinding \<Rightarrow> ('w, unit) prog" where
  "cleanupOrphanedResources c vzSynMB =
     (let conns = managedClusterConnections c in
     logged (mCleanupOrphanedCustomResources (managed c) vzSynMB conns)
    (logged (mCleanupOrphanedServices (managed c) vzSynMB conns)
    (logged (mCleanupOrphanedDeployments (managed c) vzSynMB conns)
    (logged (mCleanupOrphanedServiceEntries (managed c) vzSynMB conns)
    (logged (mCleanupOrphanedIngresses (managed c) vzSynMB conns)
    (logged (mCleanupOrphanedClusterRoleBindings (managed c) vzSynMB conns)
    (logged (mCleanupOrphanedClusterRoles (managed c) vzSynMB conns)
    (logged (mCleanupOrphanedConfigMaps (managed c) vzSynMB conns)
    (logged (mCleanupOrphanedNamespaces (managed c) vzSynMB conns (SyntheticModelBindings c))
    (gret ()))))))))))"

text \<open>The rounds of \<^verbatim>\<open>waitForManagedClusters\<close>: a timeout of a minute, a tick every five seconds.\<close>

definition clustersTimeout :: nat where "clustersTimeout = 60"
definition clustersTick :: nat where "clustersTick = 5"

fun waitClustersLoop ::
  "nat \<Rightarrow> 'w runtime \<Rightarrow> 'w Controller \<Rightarrow> SyntheticModelBinding \<Rightarrow> string \<Rightarrow> ('w, err option) prog" where
  "waitClustersLoop 0 R c vzSynMB bindingName = ghang"
| "waitClustersLoop (Suc fuel) R c vzSynMB bindingName =
     gbind (glift (selectTimeout R clustersTimeout clustersTick)) (\<lambda>timedOut.
       if timedOut then
         gret (Some (Errorf (''Failed, timed out waiting for Managed clusters referenced in binding '' @
                 bindingName)))
       else
         gbind (uGetManagedClustersForVerrazzanoBinding (util c) vzSynMB
                  (managedClusterConnections c)) (\<lambda>(_, err).
           case err of
             None \<Rightarrow> gret None
           | Some _ \<Rightarrow> waitClustersLoop fuel R c vzSynMB bindingName))"

definition waitForManagedClusters ::
  "'w runtime \<Rightarrow> 'w Controller \<Rightarrow> SyntheticModelBinding \<Rightarrow> string \<Rightarrow> ('w, err option) prog" where
  "waitForManagedClusters R c vzSynMB bindingName =
     waitClustersLoop (waitFuel R) R c vzSynMB bindingName"

section \<open>Managed clusters\<close>

definition systemBinding :: SyntheticBinding where
  "systemBinding = ObjectMeta.extend (noMeta\<lparr>Name := VmiSystemBindingName\<rparr>)
     (SyntheticBinding.fields
        \<lparr>specDescription = [], specModelName = [], specPlacement = []\<rparr>)"

definition systemModel :: SyntheticModel where
  "systemModel = noMeta\<lparr>Name := VmiSystemBindingName\<rparr>"

definition processManagedCluster ::
  "'w runtime \<Rightarrow> 'w Controller \<Rightarrow> string \<Rightarrow> string \<Rightarrow> ('w, 'w Controller) prog" where
  "processManagedCluster R c managedClusterName kubeconfigPath =
     gbind (clientGet (csServiceAccounts (kubeClientSet c)) VerrazzanoSystem
              VerrazzanoOperatorServiceAccount) (\<lambda>(sa, err).
       case err of
         Some _ \<Rightarrow> gret c
       | None \<Rightarrow>
     deref sa (\<lambda>sa.
       let c = c\<lparr>imagePullSecrets := saImagePullSecrets sa\<rparr>;
           vzSynMB = CreateSyntheticModelBinding systemModel systemBinding (verrazzanoURI c)
                       (imagePullSecrets c)
       in case mlookup (managedClusterConnections c) managedClusterName of
         Some _ \<Rightarrow> gret c
       | None \<Rightarrow>
     gbind (mBuildManagedClusterConnection (managed c) kubeconfigPath) (\<lambda>res.
       case res of
         Inl _ \<Rightarrow> gret c
       | Inr conn \<Rightarrow>
     gbind (cWaitForCacheSync (cache c) [hasSynced conn]) (\<lambda>_.
       let c = c\<lparr>managedClusterConnections :=
                 mset_key managedClusterName conn (managedClusterConnections c)\<rparr>;
           mc = newManagedCluster managedClusterName;
           mc = mc\<lparr>mcNamespaces := mcNamespaces mc @ [MonitoringNamespace]\<rparr>;
           vzSynMB = vzSynMB\<lparr>ManagedClusters :=
                       mset_key managedClusterName mc (ManagedClusters vzSynMB)\<rparr>
       in gbind (getClusterInfo R c) (\<lambda>clusterInfo.
            gbind (createManagedClusterResourcesForBinding c vzSynMB clusterInfo)
              (\<lambda>_. gret c))))))"

text \<open>\<^verbatim>\<open>defer runtime.HandleCrash()\<close> logs a panic and raises it again.\<close>

definition Run :: "'w runtime \<Rightarrow> 'w Controller \<Rightarrow> string \<Rightarrow> ('w, err option) prog" where
  "Run R c kubeconfigPath =
     gbind (processManagedCluster R c ''local'' kubeconfigPath) (\<lambda>c.
       gbind (recvStop (stopCh c)) (\<lambda>_. gret None))"

section \<open>Models\<close>

text \<open>The loop over the bindings, in the order visited; it breaks after the first pair it adds.\<close>

fun addPairForModel :: "'w Controller \<Rightarrow> SyntheticModel \<Rightarrow> string list \<Rightarrow> 'w Controller" where
  "addPairForModel c model [] = c"
| "addPairForModel c model (k # ks) =
     (case mlookup (applicationBindings c) k of
        None \<Rightarrow> addPairForModel c model ks
      | Some binding \<Rightarrow>
          if mlookup (SyntheticModelBindings c) (Name binding) = None \<and>
             Name model = specModelName (bindingSpec binding) then
            c\<lparr>SyntheticModelBindings := mset_key (Name binding)
                (CreateSyntheticModelBinding model binding (verrazzanoURI c) (imagePullSecrets c))
                (SyntheticModelBindings c)\<rparr>
          else addPairForModel c model ks)"

definition processApplicationModelAdded ::
  "'w runtime \<Rightarrow> 'w Controller \<Rightarrow> SyntheticModel \<Rightarrow> ('w, 'w Controller) prog" where
  "processApplicationModelAdded R c model =
     (let unchanged = (case mlookup (applicationModels c) (Name model) of
            Some existingModel \<Rightarrow> ResourceVersion existingModel = ResourceVersion model
          | None \<Rightarrow> False)
      in if unchanged then gret c
         else
           let c = c\<lparr>applicationModels := mset_key (Name model) model (applicationModels c)\<rparr>
           in gbind (glift (rangeOrder R (keys (applicationBindings c)))) (\<lambda>ks.
                gret (addPairForModel c model ks)))"

definition processApplicationModelDeleted ::
  "'w Controller \<Rightarrow> SyntheticModel \<Rightarrow> ('w, 'w Controller) prog" where
  "processApplicationModelDeleted c model =
     (case mlookup (applicationModels c) (Name model) of
        Some _ \<Rightarrow> gret (c\<lparr>applicationModels := mdelete (Name model) (applicationModels c)\<rparr>)
      | None \<Rightarrow> gret c)"

section \<open>Bindings\<close>

definition getSyntheticModelBinding ::
  "'w Controller \<Rightarrow> SyntheticBinding \<Rightarrow> SyntheticModelBinding option" where
  "getSyntheticModelBinding c binding = mlookup (SyntheticModelBindings c) (Name binding)"

text \<open>The pair of a binding whose model is known, put into the map.\<close>

definition addPair :: "'w Controller \<Rightarrow> SyntheticBinding \<Rightarrow> SyntheticModel \<Rightarrow> 'w Controller" where
  "addPair c binding model =
     c\<lparr>SyntheticModelBindings := mset_key (Name binding)
         (CreateSyntheticModelBinding model binding (verrazzanoURI c) (imagePullSecrets c))
         (SyntheticModelBindings c)\<rparr>"

definition processApplicationBindingDeleted ::
  "'w runtime \<Rightarrow> 'w Controller \<Rightarrow> SyntheticBinding \<Rightarrow> ('w, 'w Controller) prog" where
  "processApplicationBindingDeleted R c binding =
     (if \<not> contains (Finalizers binding) bindingFinalizer then gret c
      else case getSyntheticModelBinding c binding of
        None \<Rightarrow> gret c
      | Some vzSynMB \<Rightarrow>
     logged (lDeleteVmi (localIface c) binding (vmoClientSet c) (vmiLister c))
    (orReturn c (lDeleteSecrets (localIface c) binding (kubeClientSet c) (secretLister c))
    (orReturn c (lDeleteConfigMaps (localIface c) binding (kubeClientSet c) (configMapLister c))
    (gbind (uGetManagedClustersForVerrazzanoBinding (util c) vzSynMB (managedClusterConnections c))
       (\<lambda>(filteredConnections, _).
     let conns = managedClusterConnections c in
     orReturn c (mDeleteCustomResources (managed c) vzSynMB conns)
    (orReturn c (mDeleteServices (managed c) vzSynMB filteredConnections)
    (orReturn c (mDeleteDeployments (managed c) vzSynMB filteredConnections)
    (orReturn c (mDeleteClusterRoleBindings (managed c) vzSynMB conns True)
    (orReturn c (mDeleteClusterRoles (managed c) vzSynMB conns True)
    (orReturn c (mDeleteNamespaces (managed c) vzSynMB conns True)
    (let forget =
       gret (c\<lparr>applicationBindings :=
                 (if mlookup (applicationBindings c) (Name binding) \<noteq> None
                  then mdelete (Name binding) (applicationBindings c) else applicationBindings c),
               SyntheticModelBindings := mdelete (Name binding) (SyntheticModelBindings c),
               bindingSyncThreshold :=
                 (if mlookup (bindingSyncThreshold c) (Name binding) \<noteq> None
                  then mdelete (Name binding) (bindingSyncThreshold c)
                  else bindingSyncThreshold c)\<rparr>)
     in if length (SyntheticModelBindings c) = 1 then
          orReturn c (mDeleteClusterRoleBindings (managed c) vzSynMB conns False)
         (orReturn c (mDeleteClusterRoles (managed c) vzSynMB conns False)
         (orReturn c (mDeleteNamespaces (managed c) vzSynMB conns False)
            forget))
        else forget)))))))))))"

text \<open>
  The three parts of \<^verbatim>\<open>processApplicationBindingAdded\<close>. First, whether the binding is to be synced: new
  and changed ones are, an unchanged one when its counter has reached 4.
\<close>

definition noteBinding :: "'w Controller \<Rightarrow> SyntheticBinding \<Rightarrow> 'w Controller \<times> bool" where
  "noteBinding c binding =
     (case mlookup (applicationBindings c) (Name binding) of
        Some existingBinding \<Rightarrow>
          if ResourceVersion existingBinding = ResourceVersion binding then
            (let found = mlookup (bindingSyncThreshold c) (Name binding);
                 counter = (case found of None \<Rightarrow> 0 | Some n \<Rightarrow> n);
                 c = c\<lparr>bindingSyncThreshold :=
                       mset_key (Name binding) (case found of None \<Rightarrow> 0 | Some n \<Rightarrow> n + 1)
                         (bindingSyncThreshold c)\<rparr>
             in if counter < 4 then (c, False)
                else (c\<lparr>bindingSyncThreshold :=
                        mset_key (Name binding) 0 (bindingSyncThreshold c)\<rparr>, True))
          else
            (c\<lparr>applicationBindings := mset_key (Name binding) binding (applicationBindings c)\<rparr>, True)
      | None \<Rightarrow>
          (c\<lparr>applicationBindings := mset_key (Name binding) binding (applicationBindings c)\<rparr>, True))"

text \<open>Second, the pair: made if its model is known, rebuilt in place if there is one already.\<close>

definition syncPair ::
  "'w Controller \<Rightarrow> SyntheticBinding \<Rightarrow> 'w Controller \<times> SyntheticModelBinding option" where
  "syncPair c binding =
     (case getSyntheticModelBinding c binding of
        None \<Rightarrow>
          (case mlookup (applicationModels c) (specModelName (bindingSpec binding)) of
             Some model \<Rightarrow>
               (let c = addPair c binding model in (c, getSyntheticModelBinding c binding))
           | None \<Rightarrow> (c, None))
      | Some vzSynMB \<Rightarrow>
          (case mlookup (applicationModels c) (specModelName (bindingSpec binding)) of
             Some existingModel \<Rightarrow>
               (let vzSynMB = UpdateSyntheticModelBinding vzSynMB existingModel binding
                      (verrazzanoURI c) (imagePullSecrets c)
                in (c\<lparr>SyntheticModelBindings :=
                      mset_key (Name binding) vzSynMB (SyntheticModelBindings c)\<rparr>, Some vzSynMB))
           | None \<Rightarrow> (c, Some vzSynMB)))"

text \<open>Third, the resources, once every cluster of the pair is available.\<close>

definition syncResources ::
  "'w runtime \<Rightarrow> 'w Controller \<Rightarrow> SyntheticBinding \<Rightarrow> SyntheticModelBinding \<Rightarrow>
   ('w, 'w Controller) prog" where
  "syncResources R c binding vzSynMB =
     orReturn c (waitForManagedClusters R c vzSynMB (Name binding))
    (logged (lCreateUpdateVmi (localIface c) binding (vmoClientSet c) (vmiLister c)
               (verrazzanoURI c) (enableMonitoringStorage c))
    (logged (moCreateVmiSecrets (monitoring c) binding (secrets c))
    (logged (lUpdateConfigMaps (localIface c) binding (kubeClientSet c) (configMapLister c))
    (logged (lUpdateAcmeDNSSecret (localIface c) binding (kubeClientSet c) (secretLister c)
               AcmeDNSSecret (verrazzanoURI c))
    (gbind (getClusterInfo R c) (\<lambda>clusterInfo.
     gbind (createManagedClusterResourcesForBinding c vzSynMB clusterInfo) (\<lambda>_.
     gbind (cleanupOrphanedResources c vzSynMB) (\<lambda>_.
     gret c))))))))"

definition processApplicationBindingAdded ::
  "'w runtime \<Rightarrow> 'w Controller \<Rightarrow> SyntheticBinding \<Rightarrow> ('w, 'w Controller) prog" where
  "processApplicationBindingAdded R c binding =
     (if DeletionTimestamp binding \<noteq> None then
        (if contains (Finalizers binding) bindingFinalizer then
           let c = (if mlookup (applicationBindings c) (Name binding) = None
                    then c\<lparr>applicationBindings :=
                           mset_key (Name binding) binding (applicationBindings c)\<rparr>
                    else c);
               c = (case getSyntheticModelBinding c binding of
                      None \<Rightarrow>
                        (case mlookup (applicationModels c) (specModelName (bindingSpec binding)) of
                           Some model \<Rightarrow> addPair c binding model
                         | None \<Rightarrow> c)
                    | Some _ \<Rightarrow> c)
           in processApplicationBindingDeleted R c binding
         else gret c)
      else
        (case noteBinding c binding of
           (c, proceed) \<Rightarrow>
             if \<not> proceed then gret c
             else (case syncPair c binding of
                     (c, None) \<Rightarrow> gret c
                   | (c, Some vzSynMB) \<Rightarrow> syncResources R c binding vzSynMB)))"

section \<open>Construction\<close>

text \<open>
  The libraries a controller is made with. A lister is restricted to the namespace given, or not at
  all if it is empty; \<open>clSyncs\<close> are the \<^verbatim>\<open>HasSynced\<close> of the informers of secrets and VMIs. The
  event broadcaster and recorder, the API extensions client set and the goroutines that start the
  informers are not modelled.
\<close>

record ('cfg, 'w) controllerLib =
  clBuildKubeClientSet :: "'cfg \<Rightarrow> 'w \<Rightarrow> (err + 'w Clientset) \<times> 'w"
  clNewOperatorClientSet :: "'cfg \<Rightarrow> 'w \<Rightarrow> (err + unit) \<times> 'w"
  clNewVmoClientSet :: "'cfg \<Rightarrow> 'w \<Rightarrow> (err + 'w Clientset) \<times> 'w"
  clNewExtClientSet :: "'cfg \<Rightarrow> 'w \<Rightarrow> (err + unit) \<times> 'w"
  clSecretLister :: "'w Clientset \<Rightarrow> string \<Rightarrow> (Secret, 'w) lister"
  clConfigMapLister :: "'w Clientset \<Rightarrow> string \<Rightarrow> (ConfigMap, 'w) lister"
  clVmiLister :: "'w Clientset \<Rightarrow> string \<Rightarrow> (VMI, 'w) lister"
  clSyncs :: "('w \<Rightarrow> bool \<times> 'w) list"
  clSetupSignalHandler :: "('w, 'w stopChannel) prog"

record 'w packages =
  newManagedPackage :: "'w managedInterface"
  newCachePackage :: "'w cacheInterface"
  newUtilPackage :: "'w utilInterface"
  newLocalPackage :: "'w localInterface"
  newMonitoringPackage :: "'w monitoringInterface"

text \<open>\<^verbatim>\<open>if err != nil { zap.S().Fatalf(...) }\<close>\<close>

definition orFatal :: "string \<Rightarrow> ('w \<Rightarrow> (err + 'a) \<times> 'w) \<Rightarrow> ('a \<Rightarrow> ('w, 'b) prog) \<Rightarrow> ('w, 'b) prog" where
  "orFatal msg f k = gbind (glift f) (\<lambda>r. case r of Inl _ \<Rightarrow> gpanic (FatalExit msg) | Inr a \<Rightarrow> k a)"

text \<open>
  The composite literal sets no \<^verbatim>\<open>stopCh\<close>: the channel of the signal handler goes to the informers
  only. Starting the goroutine of the system instance is no step of this function.
\<close>

definition NewController ::
  "('cfg, 'w) controllerLib \<Rightarrow> 'w packages \<Rightarrow> 'cfg \<Rightarrow> string \<Rightarrow> string \<Rightarrow> string \<Rightarrow>
   ('w, 'w Controller \<times> err option) prog" where
  "NewController L P config watchNs uri enableStorage =
     orFatal ''Error building kubernetes clientset'' (clBuildKubeClientSet L config) (\<lambda>kube.
     orFatal ''Error building verrazzano operator clientset'' (clNewOperatorClientSet L config) (\<lambda>_.
     orFatal ''Error building VMO clientset'' (clNewVmoClientSet L config) (\<lambda>vmo.
     orFatal ''Error building apiextensions-apiserver clientset'' (clNewExtClientSet L config) (\<lambda>_.
     let c =
       \<lparr>managed = newManagedPackage P, cache = newCachePackage P, util = newUtilPackage P,
        localIface = newLocalPackage P, monitoring = newMonitoringPackage P,
        kubeClientSet = kube, vmoClientSet = vmo, verrazzanoURI = uri,
        enableMonitoringStorage = enableStorage, imagePullSecrets = [],
        secretLister = clSecretLister L kube watchNs,
        configMapLister = clConfigMapLister L kube watchNs,
        vmiLister = clVmiLister L vmo watchNs,
        secrets = KubeSecrets VerrazzanoNamespace kube (clSecretLister L kube watchNs),
        managedClusterConnections = [], applicationModels = [], applicationBindings = [],
        SyntheticModelBindings = [], watchNamespace = watchNs, stopCh = None,
        bindingSyncThreshold = []\<rparr>
     in gbind (clSetupSignalHandler L) (\<lambda>_.
        gbind (cWaitForCacheSync (cache c) (clSyncs L)) (\<lambda>ok.
          if \<not> ok then gret (c, Some (Errorf ''failed to wait for caches to sync''))
          else gret (c, None)))))))"

end
