(* ===== verification/Controller_Lemmas.thy ===== *)
theory Controller_Lemmas
  imports Controller
begin

text \<open>
  What the controller's operations send and when they panic, proved for every implementation of the
  interfaces that keeps their contracts (the locales of \<open>Interfaces\<close>), and what the operations
  outside them do to the controller.
\<close>

section \<open>Rules\<close>

lemma safe_logged [safe_rules]:
  "safe A X m anyResult \<Longrightarrow> safe A X k Q \<Longrightarrow> safe A X (logged m k) Q"
  unfolding logged_def by (intro safe_gbind) (auto elim: safe_post)

lemma safe_orReturn [safe_rules]:
  "safe A X m anyResult \<Longrightarrow> Q c \<Longrightarrow> safe A X k Q \<Longrightarrow> safe A X (orReturn c m k) Q"
  unfolding orReturn_def
  by (intro safe_gbind) (auto elim!: safe_post intro: safe_gret split: option.split)

lemma safe_case_sum [safe_rules]:
  "(\<And>a. x = Inl a \<Longrightarrow> safe A X (f a) Q) \<Longrightarrow> (\<And>b. x = Inr b \<Longrightarrow> safe A X (g b) Q) \<Longrightarrow>
   safe A X (case x of Inl a \<Rightarrow> f a | Inr b \<Rightarrow> g b) Q"
  by (cases x) auto

text \<open>Writes through the connections chosen for a pair are writes through the available ones.\<close>

lemma forSpec_missing:
  "forSpec mb avail r \<Longrightarrow> wf_pair mb \<Longrightarrow> \<not> covers avail (ManagedClusters mb) \<Longrightarrow> fst r = []"
  by (auto simp: forSpec_def covers_def clusterNames_wf split: prod.splits option.splits)

lemma writes_through:
  assumes "writes filtered ok e" "\<And>k c. mlookup filtered k = Some c \<Longrightarrow> mlookup avail k = Some c"
    and "\<And>k ns obj. ok k ns obj \<Longrightarrow> ok' k ns obj"
  shows "writes avail ok' e"
  using assms unfolding writes_def by blast

text \<open>An object for a cluster of the pair, of any kind.\<close>

definition forPair :: "SyntheticModelBinding \<Rightarrow> string \<Rightarrow> string \<Rightarrow> kobj \<Rightarrow> bool" where
  "forPair mb k ns obj \<longleftrightarrow> k \<in> dom (mlookup (ManagedClusters mb))"

lemma made_forPair: "made K (ManagedClusters mb) k ns obj \<Longrightarrow> forPair mb k ns obj"
  by (simp add: made_def forPair_def)

section \<open>The resources of a pair\<close>

context managed_create
begin

lemma create_resources_safe:
  fixes R :: "'w runtime"
  assumes m: "managed c = M R" and u: "util c = utilPackage R"
    and fair: "fairOrder R" and wf: "wf_pair mb"
    and total: "clientTotal (csSecrets (kubeClientSet c))"
    and cov: "covers (managedClusterConnections c) (ManagedClusters mb)"
  shows "safe (writes (managedClusterConnections c) (forPair mb)) noPanic
    (createManagedClusterResourcesForBinding c mb ci) anyResult"
proof -
  let ?avail = "managedClusterConnections c"
  have all: "safe (writes ?avail (forPair mb)) X m anyResult"
    if "safe (writes filtered (made K (ManagedClusters mb))) X m anyResult"
      and "\<forall>k c. mlookup filtered k = Some c \<longrightarrow> mlookup ?avail k = Some c"
    for filtered :: "'w connections" and K X and m :: "('w, err option) prog"
  proof (rule safe_mono [OF that(1)])
    fix e assume "writes filtered (made K (ManagedClusters mb)) e"
    then show "writes ?avail (forPair mb) e"
      by (rule writes_through [OF _ _ made_forPair]) (use that(2) in auto)
  qed simp_all
  show ?thesis
    unfolding createManagedClusterResourcesForBinding_def m u utilPackage_def
      utilInterface.simps
  proof (intro safe_gbind safe_For [OF fair])
    fix r :: "'w connections \<times> err option" assume "forSpec mb ?avail r"
    from forSpec_ok [OF this wf cov] obtain filtered where r: "r = (filtered, None)"
      and f: "covers filtered (ManagedClusters mb)"
      and sub: "\<forall>k c. mlookup filtered k = Some c \<longrightarrow> mlookup ?avail k = Some c" by blast
    note up = all [OF _ sub]
    have refl: "\<forall>k c. mlookup ?avail k = Some c \<longrightarrow> mlookup ?avail k = Some c" by blast
    show "safe (writes ?avail (forPair mb)) noPanic
      (case r of (filteredConnections, _) \<Rightarrow>
        logged (mCreateNamespaces (M R) mb filteredConnections)
       (logged (mCreateSecrets (M R) mb ?avail (kubeClientSet c) (secrets c) ci)
       (logged (mCreateServiceAccounts (M R) (Name (SynBinding mb)) (mbImagePullSecrets mb)
                  (ManagedClusters mb) filteredConnections)
       (logged (mCreateConfigMaps (M R) mb filteredConnections ci)
       (logged (mCreateClusterRoles (M R) mb filteredConnections)
       (logged (mCreateClusterRoleBindings (M R) mb filteredConnections)
       (logged (mCreateDeployments (M R) mb filteredConnections (verrazzanoURI c) (secrets c))
       (logged (mCreateServices (M R) mb filteredConnections)
       (logged (mCreateDaemonSets (M R) mb filteredConnections (verrazzanoURI c) ci)
       (gret ())))))))))) anyResult"
      unfolding r prod.case
      by (intro safe_logged safe_gret TrueI up [OF namespaces] all [OF secrets refl]
          up [OF accounts] up [OF configmaps] up [OF roles] up [OF rolebindings]
          up [OF deployments] up [OF services] up [OF daemonsets] f fair wf total cov)
  qed
qed

end

text \<open>
  A cluster that is not connected: no connection is returned, and the first range over the clusters
  dereferences nil.
\<close>

lemma rangeClusters_none:
  assumes "fairOrder R" "mcs \<noteq> []"
  shows "\<exists>s'. rangeClusters R mcs [] body s = (Panic NilDeref, s') \<and> sent s' = sent s"
proof -
  obtain ks w where o: "rangeOrder R (keys mcs) (world s) = (ks, w)" by fastforce
  then have ks: "set ks = set (keys mcs)" using assms(1) unfolding fairOrder_def by (metis fst_conv)
  moreover have "set (keys mcs) \<noteq> {}" using assms(2) unfolding keys_def by simp
  ultimately obtain k ks' where "ks = k # ks'" "k \<in> set (keys mcs)" by (cases ks) auto
  with o show ?thesis
    by (auto simp: rangeClusters_def rangeMap_def gbind_def glift_def gpanic_def dom_def)
qed

lemma resources_missing:
  assumes m: "mCreateNamespaces (managed c) = CreateNamespaces R" and u: "util c = utilPackage R"
    and fair: "fairOrder R" and wf: "wf_pair mb"
    and cov: "\<not> covers (managedClusterConnections c) (ManagedClusters mb)"
  shows "\<exists>s'. createManagedClusterResourcesForBinding c mb ci s = (Panic NilDeref, s') \<and> sent s' = sent s"
proof -
  let ?avail = "managedClusterConnections c"
  obtain r s1 where get: "GetManagedClustersForVerrazzanoBinding R mb ?avail s = (Ret r, s1)"
      "sent s1 = sent s"
    by (cases "rangeOrder R (keys (ManagedClusters mb)) (world s)")
      (auto simp: GetManagedClustersForVerrazzanoBinding_def gbind_def glift_def gret_def)
  from safe_result [OF safe_For [OF fair, of mb ?avail "forSpec mb ?avail"] get(1)]
  have "fst r = []" by (rule forSpec_missing [OF _ wf cov])
  then obtain e where r: "r = ([], e)" by (cases r) auto
  from cov have "ManagedClusters mb \<noteq> []" by (auto simp: covers_def)
  from rangeClusters_none [OF fair this] obtain s2 where
    "CreateNamespaces R mb [] s1 = (Panic NilDeref, s2)" "sent s2 = sent s1"
    unfolding CreateNamespaces_def by blast
  with get r show ?thesis
    by (simp add: createManagedClusterResourcesForBinding_def m u utilPackage_def logged_def gbind_def)
qed

section \<open>Helpers\<close>

text \<open>
  \<^verbatim>\<open>remove\<close> is right for a string that occurs once; two occurrences at the end of the list make it
  panic, and of two adjacent ones before the end it leaves one.
\<close>

lemma removeLoop_absent: "list_all (\<lambda>i. arr ! i \<noteq> s) is \<Longrightarrow> removeLoop s is arr len = gret (take len arr)"
  by (induction "is") auto

lemma remove_repeated:
  "remove [s, s] s = gpanic SliceBounds"
  "s \<noteq> t \<Longrightarrow> remove [s, s, t] s = gret [s, t]"
  by (simp_all add: remove_def upt_rec)

lemma remove_absent: "s \<notin> set l \<Longrightarrow> remove l s = gret l"
  unfolding remove_def by (subst removeLoop_absent) (auto simp: list_all_iff in_set_conv_nth)

text \<open>
  \<^verbatim>\<open>nodes.Size()\<close> is the size of the encoded list; if that of an empty one is not zero, indexing it
  panics.
\<close>

lemma container_runtime_empty:
  "csNodes (kubeClientSet c) (world s) = ((Some [], None), w) \<Longrightarrow> NodeListSize R (Some []) \<noteq> 0 \<Longrightarrow>
   getContainerRuntime R c s = (Panic IndexOutOfRange, s\<lparr>world := w\<rparr>)"
  by (simp add: getContainerRuntime_def gbind_def glift_def index_def gpanic_def)

section \<open>The management cluster\<close>

text \<open>
  What keeping the credentials sends, to the client \<open>cl\<close> and its namespace \<open>here\<close>: the credentials, and
  deletions of other secrets that are listed with the binding's label, in any namespace.
\<close>

definition credentialRequest ::
  "string \<Rightarrow> string \<Rightarrow> (string \<Rightarrow> selector \<Rightarrow> Secret \<Rightarrow> bool) \<Rightarrow> SyntheticBinding \<Rightarrow> request \<Rightarrow> bool" where
  "credentialRequest cl here inList b e \<longleftrightarrow>
     (\<exists>s. vmiSecretOf b s \<and>
        (e = ReqCreate cl here (KSecret s) \<or> e = ReqUpdate cl here (KSecret s))) \<or>
     (\<exists>x. inList [] [(VerrazzanoBinding, Name b)] x \<and> otherSecret b x \<and>
        e = ReqDelete cl SecretKind (Namespace x) (Name x))"

definition systemRequest ::
  "'w Controller \<Rightarrow> (string \<Rightarrow> selector \<Rightarrow> Secret \<Rightarrow> bool) \<Rightarrow> SyntheticBinding \<Rightarrow> request \<Rightarrow> bool" where
  "systemRequest c inList b e \<longleftrightarrow> vmiWrites (clientName (vmoClientSet c)) b e \<or>
     dashboardWrites (clientName (kubeClientSet c)) (configMapLister c) b e \<or>
     credentialRequest (clientName (kubeClientSet c)) VerrazzanoNamespace inList b e"

context local_ops
begin

lemma global_entities_safe:
  assumes l: "localIface c = L" and m: "monitoring c = monitoringPackage R"
    and sec: "secrets_listing (secrets c) (clientName (kubeClientSet c)) VerrazzanoNamespace inList"
    and rand: "fairRand R"
  shows "safe (systemRequest c inList b) noPanic (createUpdateGlobalEntities b c) anyResult"
proof -
  have "safe (systemRequest c inList b) noPanic (CreateVmiSecrets R b (secrets c)) anyResult"
    by (rule secrets_listing.CreateVmiSecrets_lists [OF sec rand])
      (auto simp: systemRequest_def credentialRequest_def)
  moreover have "safe (systemRequest c inList b) noPanic
      (lCreateUpdateVmi L b (vmoClientSet c) (vmiLister c) u f) anyResult" for u f
    by (rule safe_mono [OF update_vmi]) (auto simp: systemRequest_def)
  moreover have "safe (systemRequest c inList b) noPanic
      (lUpdateConfigMaps L b (kubeClientSet c) (configMapLister c)) anyResult"
    by (rule safe_mono [OF update_config_maps]) (auto simp: systemRequest_def)
  ultimately show ?thesis
    unfolding createUpdateGlobalEntities_def l m monitoringPackage_def monitoringInterface.simps
    by (intro safe_logged safe_gret TrueI)
qed

lemma goroutine_safe:
  assumes "localIface c = L" "monitoring c = monitoringPackage R"
    and "secrets_listing (secrets c) (clientName (kubeClientSet c)) VerrazzanoNamespace inList" "fairRand R"
  shows "safe (systemRequest c inList b) noPanic (createUpdateGlobalEntitiesGoroutine n pause b c) (\<lambda>_. False)"
proof (induction n)
  case (Suc n)
  then show ?case
    unfolding createUpdateGlobalEntitiesGoroutine.simps
    by (intro safe_gbind safe_post [OF global_entities_safe [OF assms]] safe_glift)
qed (simp add: safe_ghang)

end

section \<open>The cluster of the operator\<close>

text \<open>
  What the API server answers at startup: a lookup returns an object or an error, and a list of
  nodes that is not empty on the wire has a node in it.
\<close>

definition nodesAnswer :: "'w runtime \<Rightarrow> 'w Clientset \<Rightarrow> bool" where
  "nodesAnswer R cs \<longleftrightarrow> (\<forall>w. case fst (csNodes cs w) of (nodes, err) \<Rightarrow>
     NodeListSize R nodes = 0 \<or> err \<noteq> None \<or> (\<exists>n ns. nodes = Some (n # ns)))"

text \<open>The exception: an API server that answers an empty list of nodes which is not empty on the wire.\<close>

definition emptyNodes :: "'w runtime \<Rightarrow> 'w Clientset \<Rightarrow> bool" where
  "emptyNodes R cs \<longleftrightarrow> NodeListSize R (Some []) \<noteq> 0 \<and> (\<exists>w. fst (csNodes cs w) = (Some [], None))"

lemma nodesAnswer_iff:
  assumes "NodeListSize R None = 0"
  shows "nodesAnswer R cs \<longleftrightarrow> \<not> emptyNodes R cs"
proof -
  have "(case r of (nodes, err) \<Rightarrow> NodeListSize R nodes = 0 \<or> err \<noteq> None \<or> (\<exists>n ns. nodes = Some (n # ns))) \<longleftrightarrow>
      \<not> (NodeListSize R (Some []) \<noteq> 0 \<and> r = (Some [], None))" for r :: "string list result"
    using assms by (cases r; cases "fst r"; cases "the (fst r)") auto
  then have "nodesAnswer R cs \<longleftrightarrow> (\<forall>w. \<not> (NodeListSize R (Some []) \<noteq> 0 \<and> fst (csNodes cs w) = (Some [], None)))"
    unfolding nodesAnswer_def by presburger
  then show ?thesis by (simp add: emptyNodes_def)
qed

text \<open>The one panic of the handler of the local cluster.\<close>

abbreviation nodePanic :: "'w runtime \<Rightarrow> 'w Clientset \<Rightarrow> panic \<Rightarrow> bool" where
  "nodePanic R cs p \<equiv> p = IndexOutOfRange \<and> emptyNodes R cs"

lemma safe_getContainerRuntime:
  assumes "NodeListSize R None = 0"
  shows "safe A (nodePanic R (kubeClientSet c)) (getContainerRuntime R c) anyResult"
  unfolding getContainerRuntime_def
proof (rule safe_gbind, rule safe_glift_fst)
  fix w
  let ?r = "fst (csNodes (kubeClientSet c) w)"
  show "safe A (nodePanic R (kubeClientSet c)) (case ?r of (nodes, err) \<Rightarrow>
      if NodeListSize R nodes = 0 then gret ''unknown''
      else case err of None \<Rightarrow> deref nodes (\<lambda>items. index items 0) | Some x \<Rightarrow> gret ''unknown'') anyResult"
  proof (intro safe_case_prod safe_if safe_case_option safe_gret TrueI safe_deref safe_index)
    fix nodes err items
    assume r: "?r = (nodes, err)" "NodeListSize R nodes \<noteq> 0" "err = None" "nodes = Some items" "\<not> 0 < length items"
    then show "nodePanic R (kubeClientSet c) IndexOutOfRange" unfolding emptyNodes_def by auto
  qed (use assms in auto)
qed

lemma safe_getClusterInfo:
  assumes nil: "NodeListSize R None = 0"
    and sec: "secrets c = KubeSecrets ns cs ls" and total: "listerTotal ls"
  shows "safe A (nodePanic R (kubeClientSet c)) (getClusterInfo R c) anyResult"
  unfolding getClusterInfo_def sec KubeSecrets_def Secrets.simps Let_def
proof (intro safe_gbind, rule safe_post [OF safe_getContainerRuntime [OF nil]], intro safe_gbind
    safe_listerGet_total [OF total])
  fix rt :: string and r :: "Secret result" assume "r \<noteq> (None, None)"
  then show "safe A (nodePanic R (kubeClientSet c)) (case r of (clusterSecret, err) \<Rightarrow> case err of
      None \<Rightarrow> deref clusterSecret (\<lambda>s. gret (f rt s)) | Some _ \<Rightarrow> gret (g rt)) anyResult"
    for f :: "string \<Rightarrow> Secret \<Rightarrow> ClusterInfo" and g
    by (cases r; cases "fst r"; cases "snd r") (auto intro: safe_gret)
qed

end
