(* ===== verification/Finishing.thy ===== *)
theory Finishing
  imports Controller_Lemmas
begin

text \<open>
  What comes to an end: a computation \<open>finishes\<close> if from no state it hangs. All loops of the operator that
  do not wait are over lists and maps, so the creation of a pair's resources, the handler of the local
  cluster and the upkeep of the system instance finish whatever the environment answers. With what they
  can panic in (\<open>safe\<close>) this says that they return, and that what blocks \<^verbatim>\<open>Run\<close> is the stop channel.
\<close>

definition finishes :: "('s, 'a) go \<Rightarrow> bool" where
  "finishes m \<longleftrightarrow> (\<forall>s. fst (m s) \<noteq> Hang)"

named_theorems finish_rules

lemma safe_finishes:
  assumes "safe A X m Q" "finishes m"
  shows "(\<exists>a s'. m s = (Ret a, s') \<and> Q a) \<or> (\<exists>p s'. m s = (Panic p, s') \<and> X p)"
  using safe_outcome [OF assms(1), of s] assms(2) unfolding finishes_def
  by (cases "m s"; cases "fst (m s)") (auto dest: spec [of _ s])

lemma finishes_returns:
  assumes "safe A noPanic m Q" "finishes m"
  shows "\<exists>a s'. m s = (Ret a, s') \<and> Q a"
  using safe_finishes [OF assms, of s] by blast

section \<open>Rules\<close>

lemma finishes_gret [finish_rules]: "finishes (gret a)"
  by (simp add: finishes_def gret_def)

lemma finishes_gpanic [finish_rules]: "finishes (gpanic p)"
  by (simp add: finishes_def gpanic_def)

lemma finishes_glift [finish_rules]: "finishes (glift f)"
  by (simp add: finishes_def glift_def split: prod.split)

lemma finishes_gsend [finish_rules]: "finishes (gsend e f)"
  by (simp add: finishes_def gsend_def split: prod.split)

lemma finishes_gbind [finish_rules]:
  "finishes m \<Longrightarrow> (\<And>a. finishes (f a)) \<Longrightarrow> finishes (gbind m f)"
  unfolding finishes_def gbind_def by (auto split: prod.split outcome.split) (metis fst_conv)+

lemma finishes_if [finish_rules]: "finishes m \<Longrightarrow> finishes n \<Longrightarrow> finishes (if b then m else n)"
  by simp

lemma finishes_case_option [finish_rules]:
  "finishes m \<Longrightarrow> (\<And>a. finishes (f a)) \<Longrightarrow> finishes (case x of None \<Rightarrow> m | Some a \<Rightarrow> f a)"
  by (cases x) auto

lemma finishes_case_sum [finish_rules]:
  "(\<And>a. finishes (f a)) \<Longrightarrow> (\<And>b. finishes (g b)) \<Longrightarrow> finishes (case x of Inl a \<Rightarrow> f a | Inr b \<Rightarrow> g b)"
  by (cases x) auto

lemma finishes_case_prod [finish_rules]:
  "(\<And>a b. finishes (f a b)) \<Longrightarrow> finishes (case x of (a, b) \<Rightarrow> f a b)"
  by (cases x) auto

lemma finishes_Let [finish_rules]: "(\<And>a. finishes (f a)) \<Longrightarrow> finishes (Let t f)"
  by simp

lemma finishes_deref [finish_rules]: "(\<And>a. finishes (f a)) \<Longrightarrow> finishes (deref p f)"
  by (cases p) (auto intro: finishes_gpanic)

lemma finishes_index [finish_rules]: "finishes (index xs i)"
  by (simp add: index_def finish_rules)

lemma finishes_rangeE [finish_rules]: "(\<And>x. finishes (f x)) \<Longrightarrow> finishes (rangeE f xs)"
  by (induction xs) (auto intro!: finish_rules)

lemma finishes_rangeFold [finish_rules]: "(\<And>x a. finishes (f x a)) \<Longrightarrow> finishes (rangeFold f xs a)"
  by (induction xs arbitrary: a) (auto intro!: finish_rules)

lemma finishes_rangeMap [finish_rules]: "(\<And>k v. finishes (f k v)) \<Longrightarrow> finishes (rangeMap R m f)"
  unfolding rangeMap_def by (intro finish_rules)

lemma finishes_rangeClusters [finish_rules]:
  "(\<And>k mc c. finishes (body k mc c)) \<Longrightarrow> finishes (rangeClusters R mcs conns body)"
  unfolding rangeClusters_def by (intro finish_rules)

lemma finishes_calls [finish_rules]:
  "finishes (clientGet rc ns n)" "finishes (clientCreate cn wrap rc ns x)" "finishes (clientUpdate cn wrap rc ns x)"
  "finishes (clientDelete cn K rc ns n)" "finishes (listerGet ls ns n)" "finishes (listerList ls ns sel)"
  by (simp_all add: call_defs finish_rules)

lemma finishes_createOrUpdate [finish_rules]: "finishes (createOrUpdate R c wrap ls rc ns n new)"
  unfolding createOrUpdate_def by (intro finish_rules)

lemma finishes_deleteListed [finish_rules]: "finishes (deleteListed c k ls rc ns sel nsOf pick)"
  unfolding deleteListed_def by (intro finish_rules)

lemma finishes_logged [finish_rules]: "finishes m \<Longrightarrow> finishes k \<Longrightarrow> finishes (logged m k)"
  unfolding logged_def by (intro finish_rules)

section \<open>The managed clusters\<close>

lemma finishes_For [finish_rules]: "finishes (GetManagedClustersForVerrazzanoBinding R mb avail)"
  unfolding GetManagedClustersForVerrazzanoBinding_def by (intro finish_rules)

lemma finishes_GetSecret [finish_rules]: "finishes (GetSecret n ns cs)"
  unfolding GetSecret_def by (intro finish_rules)

lemma finishes_CreateSecrets [finish_rules]: "finishes (CreateSecrets R mb avail cs)"
  unfolding CreateSecrets_def GetFilteredConnections_def newSecrets_def addSecret_def newSecret_def
    createSecrets_def Let_def
  by (intro finish_rules)

lemma finishes_creates [finish_rules]:
  "finishes (CreateNamespaces R mb conns)" "finishes (CreateServiceAccounts R b s mcs conns)"
  "finishes (CreateConfigMaps R mb conns ci)" "finishes (CreateClusterRoles R mb conns)"
  "finishes (CreateClusterRoleBindings R mb conns)" "finishes (CreateDeployments R mb conns u)"
  "finishes (CreateServices R mb conns)" "finishes (CreateDaemonSets R mb conns u ci)"
  unfolding CreateNamespaces_def createNamespace_def CreateServiceAccounts_def createServiceAccount_def
    CreateConfigMaps_def createUpdateConfigMaps_def CreateClusterRoles_def CreateClusterRoleBindings_def
    CreateDeployments_def CreateServices_def CreateDaemonSets_def
  by (intro finish_rules)+

lemma finishes_resources:
  assumes "managed c = managedPackage R L" "util c = utilPackage R"
  shows "finishes (createManagedClusterResourcesForBinding c mb ci)"
  unfolding createManagedClusterResourcesForBinding_def assms managedPackage_def utilPackage_def
    managedInterface.simps utilInterface.simps
  by (intro finish_rules)

section \<open>The management cluster\<close>

lemma finishes_local [finish_rules]:
  "finishes (CreateUpdateVmi R b cs vls u f)" "finishes (UpdateConfigMaps R Asset b cs cls)"
  "finishes (DeleteVmi b cs vls)" "finishes (DeleteSecrets b cs sls)" "finishes (DeleteConfigMaps b cs cls)"
  unfolding CreateUpdateVmi_def UpdateConfigMaps_def DeleteVmi_def DeleteSecrets_def DeleteConfigMaps_def
    Let_def
  by (intro finish_rules)+

lemma finishes_genPassword [finish_rules]: "finishes (genPassword R n)"
  by (induction n) (auto intro!: finish_rules)

lemma finishes_CreateVmiSecrets [finish_rules]: "finishes (CreateVmiSecrets R b (KubeSecrets ns cs ls))"
  unfolding CreateVmiSecrets_def ensureVmiSecret_def NewVmiSecret_def KubeSecrets_def Secrets.simps Let_def
  by (intro finish_rules)

lemma finishes_global_entities:
  assumes "localIface c = localPackage R Asset" "monitoring c = monitoringPackage R"
    and "secrets c = KubeSecrets ns cs ls"
  shows "finishes (createUpdateGlobalEntities b c)"
  unfolding createUpdateGlobalEntities_def assms localPackage_def monitoringPackage_def
    localInterface.simps monitoringInterface.simps
  by (intro finish_rules)

section \<open>The handler of the local cluster\<close>

lemma finishes_getClusterInfo:
  assumes "secrets c = KubeSecrets ns cs ls"
  shows "finishes (getClusterInfo R c)"
  unfolding getClusterInfo_def getContainerRuntime_def assms KubeSecrets_def Secrets.simps Let_def
  by (intro finish_rules)

lemma finishes_processManagedCluster:
  assumes "managed c = managedPackage R L" "util c = utilPackage R" "cache c = cachePackage f"
    and "secrets c = KubeSecrets ns cs ls"
  shows "finishes (processManagedCluster R c name path)"
proof -
  have build: "finishes (mBuildManagedClusterConnection (managed (c\<lparr>imagePullSecrets := x\<rparr>)) path)" for x
    by (auto simp: assms managedPackage_def BuildManagedClusterConnection_def Let_def intro!: finish_rules)
  have sync: "finishes (cWaitForCacheSync (cache (c\<lparr>imagePullSecrets := x\<rparr>)) l)" for x l
    by (simp add: assms cachePackage_def finish_rules)
  show ?thesis
    unfolding processManagedCluster_def Let_def
    by (intro finish_rules build sync finishes_resources finishes_getClusterInfo) (simp_all add: assms)
qed

text \<open>
  Whatever fails, the handler deletes nothing, and its only panic is that on an empty list of nodes. It
  returns the controller with the pull secrets of its service account and at most one new connection.
\<close>

lemma startup_safe:
  assumes m: "managed c = managedPackage R L" and u: "util c = utilPackage R" and "cache c = cachePackage f"
    and sec: "secrets c = KubeSecrets ns cs ls" and total: "listerTotal ls"
    and fair: "fairOrder R" and nil: "NodeListSize R None = 0"
    and acc: "clientTotal (csServiceAccounts (kubeClientSet c))"
    and scl: "clientTotal (csSecrets (kubeClientSet c))"
  shows "safe (\<lambda>e. \<not> isDelete e) (nodePanic R (kubeClientSet c)) (processManagedCluster R c name path)
    (\<lambda>c'. \<exists>s conn. c' = c \<or> c' = c\<lparr>imagePullSecrets := s\<rparr> \<or>
       c' = c\<lparr>imagePullSecrets := s, managedClusterConnections :=
               mset_key name conn (managedClusterConnections c)\<rparr>)"
    (is "safe ?A ?X _ ?Q")
proof -
  have get: "safe ?A ?X (clientGet (csServiceAccounts (kubeClientSet c)) VerrazzanoSystem
      VerrazzanoOperatorServiceAccount) (\<lambda>r. r \<noteq> (None, None))"
    unfolding clientGet_def by (rule safe_glift_fst) (use acc in \<open>simp add: clientTotal_def\<close>)
  have managedbuild: "safe ?A ?X (mBuildManagedClusterConnection (managedPackage R L) path) anyResult"
    unfolding managedPackage_def managedInterface.simps BuildManagedClusterConnection_def Let_def
    by (auto intro!: safe_rules split: sum.split)
  have create: "safe ?A ?X (createManagedClusterResourcesForBinding c1 mb ci) anyResult"
    if "c1 = c\<lparr>imagePullSecrets := s, managedClusterConnections := conns\<rparr>" "wf_pair mb"
      "covers conns (ManagedClusters mb)" for c1 s conns mb ci
    by (rule safe_mono [OF mc.create_resources_safe [OF _ _ fair that(2)]])
      (use that m u scl in \<open>auto simp: writes_def\<close>)
  have info: "safe ?A ?X (getClusterInfo R c1) anyResult"
    if "c1 = c\<lparr>imagePullSecrets := s, managedClusterConnections := conns\<rparr>" for c1 s conns
    using safe_getClusterInfo [OF nil _ total, of c1] by (simp add: that sec)
  have pair: "wf_pair (mb\<lparr>ManagedClusters := mset_key name mc (ManagedClusters mb)\<rparr>) \<and>
      covers (mset_key name conn conns) (mset_key name mc (ManagedClusters mb))"
    if "mb = CreateSyntheticModelBinding systemModel systemBinding u s" "mcName mc = name"
    for mb u s mc conn and conns :: "'a connections"
  proof -
    have "ManagedClusters mb = []"
      by (simp add: that(1) CreateSyntheticModelBinding_def buildSyntheticModelBinding_def
          getPlacements_def systemBinding_def ObjectMeta.defs SyntheticBinding.defs)
    with that(2) show ?thesis by (auto simp: wf_pair_def covers_def wf_map_def keys_def)
  qed
  have Q: "?Q c" "?Q (c\<lparr>imagePullSecrets := s\<rparr>)"
    "?Q (c\<lparr>imagePullSecrets := s, managedClusterConnections :=
       mset_key name conn (managedClusterConnections c)\<rparr>)" for s conn
    by blast+
  have go: "safe ?A ?X (gbind (cWaitForCacheSync (cachePackage f) [hasSynced conn]) (\<lambda>_.
      gbind (getClusterInfo R c1) (\<lambda>ci.
        gbind (createManagedClusterResourcesForBinding c1 mb ci) (\<lambda>_. gret c1)))) ?Q"
    if "c1 = c\<lparr>imagePullSecrets := s, managedClusterConnections :=
        mset_key name conn (managedClusterConnections c)\<rparr>" "wf_pair mb"
      "covers (mset_key name conn (managedClusterConnections c)) (ManagedClusters mb)" for c1 s conn mb
    unfolding cachePackage_def cacheInterface.simps
    by (intro safe_gbind safe_glift safe_post [OF info [OF that(1)]] safe_post [OF create [OF that]] safe_gret)
      (use Q(3) that(1) in blast)
  have fields: "managed (c\<lparr>imagePullSecrets := s\<rparr>) = managedPackage R L"
    "cache (c\<lparr>imagePullSecrets := s\<rparr>) = cachePackage f"
    "managedClusterConnections (c\<lparr>imagePullSecrets := s\<rparr>) = managedClusterConnections c" for s
    by (simp_all add: m assms(3))
  show ?thesis
    unfolding processManagedCluster_def Let_def fields
    by (intro safe_gbind safe_post [OF get] safe_case_prod safe_case_option safe_deref safe_gret Q
        safe_post [OF managedbuild] safe_case_sum go refl)
      (use pair in \<open>auto simp: newManagedCluster_def\<close>)
qed

end
