(* ===== verification/Controller_Steps.thy ===== *)
theory Controller_Steps
  imports Controller
begin

text \<open>
  The controller as a state machine: its handlers are the events, \<open>cstep\<close> is one handler that
  returns, \<open>reachable\<close> the controllers they lead to from one without models and bindings. What the
  controller records is specified by \<open>registry\<close>, three finite maps, and \<open>regStep\<close>, what each event
  may do to them. Nothing is assumed of the interfaces: they may send, answer and fail as they like.
\<close>

section \<open>Events\<close>

datatype event =
    ModelAdded SyntheticModel
  | ModelDeleted SyntheticModel
  | BindingAdded SyntheticBinding
  | BindingDeleted SyntheticBinding
  | ClusterAdded string string

fun handle :: "'w runtime \<Rightarrow> event \<Rightarrow> 'w Controller \<Rightarrow> ('w, 'w Controller) prog" where
  "handle R (ModelAdded m) c = processApplicationModelAdded R c m"
| "handle R (ModelDeleted m) c = processApplicationModelDeleted c m"
| "handle R (BindingAdded b) c = processApplicationBindingAdded R c b"
| "handle R (BindingDeleted b) c = processApplicationBindingDeleted R c b"
| "handle R (ClusterAdded n k) c = processManagedCluster R c n k"

inductive cstep :: "'w runtime \<Rightarrow> 'w Controller \<Rightarrow> event \<Rightarrow> 'w Controller \<Rightarrow> bool" for R where
  handled: "handle R e c s = (Ret c', s') \<Longrightarrow> cstep R c e c'"

inductive_cases cstep_cases: "cstep R c e c'"

definition fresh :: "'w Controller \<Rightarrow> bool" where
  "fresh c \<longleftrightarrow> applicationModels c = [] \<and> applicationBindings c = [] \<and>
     SyntheticModelBindings c = [] \<and> bindingSyncThreshold c = [] \<and> managedClusterConnections c = []"

inductive reachable :: "'w runtime \<Rightarrow> 'w Controller \<Rightarrow> bool" for R where
  initial: "fresh c \<Longrightarrow> reachable R c"
| later: "reachable R c \<Longrightarrow> cstep R c e c' \<Longrightarrow> reachable R c'"

section \<open>What a handler returns\<close>

definition returns :: "('s, 'a) go \<Rightarrow> ('a \<Rightarrow> bool) \<Rightarrow> bool" where
  "returns m Q \<longleftrightarrow> (\<forall>s a s'. m s = (Ret a, s') \<longrightarrow> Q a)"

named_theorems returns_rules \<open>introduction rules for returns\<close>

lemma returnsD: "returns m Q \<Longrightarrow> m s = (Ret a, s') \<Longrightarrow> Q a"
  unfolding returns_def by blast

lemma returns_mono: "returns m P \<Longrightarrow> (\<And>a. P a \<Longrightarrow> Q a) \<Longrightarrow> returns m Q"
  unfolding returns_def by blast

lemma returns_gret [returns_rules]: "Q a \<Longrightarrow> returns (gret a) Q"
  by (simp add: returns_def gret_def)

lemma returns_gpanic [returns_rules]: "returns (gpanic p) Q"
  by (simp add: returns_def gpanic_def)

lemma returns_ghang [returns_rules]: "returns ghang Q"
  by (simp add: returns_def ghang_def)

lemma returns_gbind: "returns m P \<Longrightarrow> (\<And>a. P a \<Longrightarrow> returns (f a) Q) \<Longrightarrow> returns (gbind m f) Q"
  unfolding returns_def gbind_def by (fastforce split: prod.splits outcome.splits)

lemma returns_any [returns_rules]: "(\<And>a. returns (f a) Q) \<Longrightarrow> returns (gbind m f) Q"
  by (rule returns_gbind [where P = anyResult]) (simp_all add: returns_def)

lemma returns_logged [returns_rules]: "returns k Q \<Longrightarrow> returns (logged m k) Q"
  unfolding logged_def by (rule returns_any)

lemma returns_orReturn [returns_rules]: "Q c \<Longrightarrow> returns k Q \<Longrightarrow> returns (orReturn c m k) Q"
  unfolding orReturn_def by (auto intro!: returns_any returns_gret split: option.split)

text \<open>If what follows never returns, the handler returns only on the error.\<close>

lemma orReturn_error:
  assumes "orReturn c m k s = (Ret c', s')" "returns k (\<lambda>_. False)"
  shows "\<exists>e. m s = (Ret (Some e), s')"
proof -
  have "k t \<noteq> (Ret c', s')" for t using assms(2) unfolding returns_def by blast
  with assms(1) show ?thesis
    by (auto simp: orReturn_def gbind_def gret_def split: prod.splits outcome.splits option.splits)
qed

lemma returns_deref [returns_rules]: "(\<And>a. p = Some a \<Longrightarrow> returns (f a) Q) \<Longrightarrow> returns (deref p f) Q"
  by (cases p) (auto intro: returns_gpanic)

lemma returns_glift_order:
  assumes "fairOrder R" "\<And>ks'. set ks' = set ks \<Longrightarrow> returns (f ks') Q"
  shows "returns (gbind (glift (rangeOrder R ks)) f) Q"
proof (rule returns_gbind)
  show "returns (glift (rangeOrder R ks)) (\<lambda>ks'. set ks' = set ks)"
    using assms(1) unfolding returns_def glift_def fairOrder_def
    by (auto split: prod.splits) (metis fst_conv)+
qed (rule assms(2))

text \<open>A binding that is gone is gone from all three maps.\<close>

definition forgetBinding :: "string \<Rightarrow> 'w Controller \<Rightarrow> 'w Controller" where
  "forgetBinding n c =
     c\<lparr>applicationBindings := mdelete n (applicationBindings c),
       SyntheticModelBindings := mdelete n (SyntheticModelBindings c),
       bindingSyncThreshold := mdelete n (bindingSyncThreshold c)\<rparr>"

lemma mdelete_absent: "mlookup m k = None \<Longrightarrow> mdelete k m = m"
  by (rule delete_id) (simp add: map_of_eq_None_iff)

lemma contains_iff [simp]: "contains vs s \<longleftrightarrow> s \<in> set vs"
  by (induction vs) auto

lemma binding_deleted_returns:
  "returns (processApplicationBindingDeleted R c b)
     (\<lambda>c'. c' = c \<or> (bindingFinalizer \<in> set (Finalizers b) \<and>
        getSyntheticModelBinding c b \<noteq> None \<and> c' = forgetBinding (Name b) c))"
proof -
  have forget: "c\<lparr>applicationBindings :=
        (if mlookup (applicationBindings c) (Name b) \<noteq> None
         then mdelete (Name b) (applicationBindings c) else applicationBindings c),
      SyntheticModelBindings := mdelete (Name b) (SyntheticModelBindings c),
      bindingSyncThreshold :=
        (if mlookup (bindingSyncThreshold c) (Name b) \<noteq> None
         then mdelete (Name b) (bindingSyncThreshold c) else bindingSyncThreshold c)\<rparr> =
      forgetBinding (Name b) c"
    by (simp add: forgetBinding_def mdelete_absent)
  show ?thesis
    unfolding processApplicationBindingDeleted_def forget Let_def
    by (auto intro!: returns_rules split: option.split)
qed

lemma syncResources_returns: "returns (syncResources R c b mb) (\<lambda>c'. c' = c)"
  unfolding syncResources_def by (intro returns_rules refl)

text \<open>The controller with which a binding that is being deleted is handled.\<close>

definition adoptBinding :: "SyntheticBinding \<Rightarrow> 'w Controller \<Rightarrow> 'w Controller" where
  "adoptBinding b c =
     (let c = (if mlookup (applicationBindings c) (Name b) = None
               then c\<lparr>applicationBindings := mset_key (Name b) b (applicationBindings c)\<rparr> else c)
      in case getSyntheticModelBinding c b of
           None \<Rightarrow> (case mlookup (applicationModels c) (specModelName (bindingSpec b)) of
                      Some model \<Rightarrow> addPair c b model | None \<Rightarrow> c)
         | Some _ \<Rightarrow> c)"

lemma binding_added_deleting:
  "DeletionTimestamp b \<noteq> None \<Longrightarrow> processApplicationBindingAdded R c b =
     (if bindingFinalizer \<in> set (Finalizers b)
      then processApplicationBindingDeleted R (adoptBinding b c) b else gret c)"
  by (simp add: processApplicationBindingAdded_def adoptBinding_def Let_def)

lemma binding_added_returns:
  assumes "DeletionTimestamp b = None"
  shows "returns (processApplicationBindingAdded R c b)
    (\<lambda>c'. c' = (if snd (noteBinding c b) then fst (syncPair (fst (noteBinding c b)) b)
                else fst (noteBinding c b)))"
  unfolding processApplicationBindingAdded_def using assms
  by (auto intro!: returns_gret syncResources_returns split: prod.split option.split)

section \<open>The invariant\<close>

text \<open>
  The maps are maps, keyed by the names of what they hold; every pair is well formed, is for a
  recorded binding and joins it with the model it names; every counter is of a recorded binding and
  between 0 and 4.
\<close>

definition pair_ok :: "string \<Rightarrow> SyntheticModelBinding \<Rightarrow> bool" where
  "pair_ok k mb \<longleftrightarrow> wf_pair mb \<and> Name (SynBinding mb) = k \<and>
     Name (SynModel mb) = specModelName (bindingSpec (SynBinding mb))"

definition allEntries :: "(string \<Rightarrow> 'v \<Rightarrow> bool) \<Rightarrow> 'v gomap \<Rightarrow> bool" where
  "allEntries P m \<longleftrightarrow> wf_map m \<and> (\<forall>k v. mlookup m k = Some v \<longrightarrow> P k v)"

definition controller_ok :: "'w Controller \<Rightarrow> bool" where
  "controller_ok c \<longleftrightarrow>
     allEntries (\<lambda>k m. Name m = k) (applicationModels c) \<and>
     allEntries (\<lambda>k b. Name b = k) (applicationBindings c) \<and>
     allEntries pair_ok (SyntheticModelBindings c) \<and>
     allEntries (\<lambda>_ n. n \<in> {0..4}) (bindingSyncThreshold c) \<and>
     wf_map (managedClusterConnections c) \<and>
     dom (mlookup (SyntheticModelBindings c)) \<subseteq> dom (mlookup (applicationBindings c)) \<and>
     dom (mlookup (bindingSyncThreshold c)) \<subseteq> dom (mlookup (applicationBindings c))"

lemma allEntries_Nil [simp]: "allEntries P []"
  by (simp add: allEntries_def)

lemma allEntries_update [intro]: "allEntries P m \<Longrightarrow> P k v \<Longrightarrow> allEntries P (mset_key k v m)"
  by (simp add: allEntries_def)

lemma allEntries_delete [intro]: "allEntries P m \<Longrightarrow> allEntries P (mdelete k m)"
  by (simp add: allEntries_def)

lemma allEntriesD: "allEntries P m \<Longrightarrow> mlookup m k = Some v \<Longrightarrow> P k v"
  by (simp add: allEntries_def)

lemma fresh_ok: "fresh c \<Longrightarrow> controller_ok c"
  by (simp add: fresh_def controller_ok_def)

lemma CreatePair_ok:
  "Name m = specModelName (bindingSpec b) \<Longrightarrow> pair_ok (Name b) (CreateSyntheticModelBinding m b u s)"
  by (simp add: pair_ok_def CreatePair_wf)

lemma put_pair_ok:
  assumes "controller_ok c" "Name m = specModelName (bindingSpec b)"
    and "mlookup (applicationBindings c) (Name b) \<noteq> None"
  shows "controller_ok (c\<lparr>SyntheticModelBindings := mset_key (Name b)
    (CreateSyntheticModelBinding m b u s) (SyntheticModelBindings c)\<rparr>)"
  using assms CreatePair_ok [OF assms(2)] by (auto simp: controller_ok_def)

lemma model_name:
  "controller_ok c \<Longrightarrow> mlookup (applicationModels c) k = Some m \<Longrightarrow> Name m = k"
  unfolding controller_ok_def by (auto dest: allEntriesD)

lemma binding_name:
  "controller_ok c \<Longrightarrow> mlookup (applicationBindings c) k = Some b \<Longrightarrow> Name b = k"
  unfolding controller_ok_def by (auto dest: allEntriesD)

lemma put_model_ok:
  "controller_ok c \<Longrightarrow>
   controller_ok (c\<lparr>applicationModels := mset_key (Name m) m (applicationModels c)\<rparr>)"
  by (auto simp: controller_ok_def)

lemma put_binding_ok:
  "controller_ok c \<Longrightarrow>
   controller_ok (c\<lparr>applicationBindings := mset_key (Name b) b (applicationBindings c)\<rparr>)"
  by (auto simp: controller_ok_def)

lemma addPairForModel_ok:
  "controller_ok c \<Longrightarrow> controller_ok (addPairForModel c model ks)"
proof (induction ks)
  case (Cons k ks)
  show ?case
  proof (cases "mlookup (applicationBindings c) k")
    case (Some b)
    with binding_name [OF Cons.prems Some] Cons show ?thesis
      by (auto intro!: put_pair_ok)
  qed (use Cons in simp)
qed simp

lemma noteBinding_ok: "controller_ok c \<Longrightarrow> controller_ok (fst (noteBinding c b))"
proof (cases "mlookup (applicationBindings c) (Name b)")
  case (Some b')
  assume ok: "controller_ok c"
  have bound: "n \<in> {0..4}" if "mlookup (bindingSyncThreshold c) (Name b) = Some n" for n
    using ok that unfolding controller_ok_def by (auto dest: allEntriesD)
  show ?thesis
  proof (cases "ResourceVersion b' = ResourceVersion b")
    case True
    show ?thesis
      using ok Some True bound
      by (cases "mlookup (bindingSyncThreshold c) (Name b)")
        (force simp: noteBinding_def controller_ok_def Let_def)+
  next
    case False
    with Some put_binding_ok [OF ok] show ?thesis by (simp add: noteBinding_def)
  qed
qed (simp add: noteBinding_def put_binding_ok)

lemma noteBinding_dom: "mlookup (applicationBindings (fst (noteBinding c b))) (Name b) \<noteq> None"
  by (simp add: noteBinding_def Let_def split: option.split)

lemma syncPair_ok:
  assumes "controller_ok c" "mlookup (applicationBindings c) (Name b) \<noteq> None"
  shows "controller_ok (fst (syncPair c b))"
  using assms put_pair_ok [OF assms(1) model_name [OF assms(1)] assms(2)]
  by (auto simp: syncPair_def addPair_def UpdateSyntheticModelBinding_def Let_def split: option.split)

lemma adoptBinding_ok: "controller_ok c \<Longrightarrow> controller_ok (adoptBinding b c)"
proof -
  let ?c = "if mlookup (applicationBindings c) (Name b) = None
    then c\<lparr>applicationBindings := mset_key (Name b) b (applicationBindings c)\<rparr> else c"
  let ?pair = "\<lambda>d. case getSyntheticModelBinding d b of
      None \<Rightarrow> (case mlookup (applicationModels d) (specModelName (bindingSpec b)) of
                 Some model \<Rightarrow> addPair d b model | None \<Rightarrow> d)
    | Some _ \<Rightarrow> d"
  have pair: "controller_ok (?pair d)"
    if "controller_ok d" "mlookup (applicationBindings d) (Name b) \<noteq> None" for d :: "'a Controller"
    using that put_pair_ok [OF that(1) model_name [OF that(1)] that(2)]
    by (auto simp: addPair_def split: option.split)
  assume "controller_ok c"
  then have "controller_ok ?c" by (simp add: put_binding_ok)
  moreover have "mlookup (applicationBindings ?c) (Name b) \<noteq> None" by simp
  ultimately show ?thesis unfolding adoptBinding_def Let_def by (rule pair)
qed

lemma forgetBinding_ok: "controller_ok c \<Longrightarrow> controller_ok (forgetBinding n c)"
  by (auto simp: controller_ok_def forgetBinding_def)

lemma cluster_returns:
  "returns (processManagedCluster R c n k) (\<lambda>c'. \<exists>secs conns.
     c' = c\<lparr>imagePullSecrets := secs, managedClusterConnections := conns\<rparr> \<and>
     (wf_map (managedClusterConnections c) \<longrightarrow> wf_map conns))"
proof -
  have same: "\<exists>secs conns. c = c\<lparr>imagePullSecrets := secs, managedClusterConnections := conns\<rparr> \<and>
      (wf_map (managedClusterConnections c) \<longrightarrow> wf_map conns)" for c :: "'a Controller"
    by (intro exI [where x = "imagePullSecrets c"] exI [where x = "managedClusterConnections c"]) simp
  have more: "\<exists>secs conns. c\<lparr>imagePullSecrets := x\<rparr> = c\<lparr>imagePullSecrets := secs, managedClusterConnections := conns\<rparr> \<and>
      (wf_map (managedClusterConnections c) \<longrightarrow> wf_map conns)" for c :: "'a Controller" and x
    by (intro exI [where x = x] exI [where x = "managedClusterConnections c"]) simp
  show ?thesis
    unfolding processManagedCluster_def Let_def
    by (auto intro!: returns_rules same more split: option.split sum.split) blast
qed

lemma cluster_fields_ok:
  "controller_ok c \<Longrightarrow> (wf_map (managedClusterConnections c) \<Longrightarrow> wf_map conns) \<Longrightarrow>
   controller_ok (c\<lparr>imagePullSecrets := secs, managedClusterConnections := conns\<rparr>)"
  by (simp add: controller_ok_def)

theorem step_ok:
  assumes "cstep R c e c'" "controller_ok c"
  shows "controller_ok c'"
proof -
  from assms(1) obtain s s' where 1: "handle R e c s = (Ret c', s')" by (rule cstep_cases)
  show ?thesis
  proof (cases e)
    case (ModelAdded m)
    have "returns (processApplicationModelAdded R c m) controller_ok"
      unfolding processApplicationModelAdded_def
      by (auto simp: Let_def assms(2) put_model_ok intro!: returns_rules addPairForModel_ok)
    with 1 ModelAdded show ?thesis by (auto dest: returnsD)
  next
    case (ModelDeleted m)
    have "returns (processApplicationModelDeleted c m) controller_ok"
      using assms(2) unfolding processApplicationModelDeleted_def
      by (auto simp: controller_ok_def intro!: returns_gret split: option.split)
    with 1 ModelDeleted show ?thesis by (auto dest: returnsD)
  next
    case (BindingAdded b)
    have "returns (processApplicationBindingAdded R c b) controller_ok"
    proof (cases "DeletionTimestamp b")
      case None
      note ok = noteBinding_ok [OF assms(2), of b]
      from binding_added_returns [OF None, of R c] syncPair_ok [OF ok noteBinding_dom] ok
      show ?thesis unfolding returns_def by (auto split: if_splits)
    next
      case (Some t)
      note ok = adoptBinding_ok [OF assms(2), of b]
      have "returns (processApplicationBindingDeleted R (adoptBinding b c) b) controller_ok"
        using binding_deleted_returns [of R "adoptBinding b c" b] ok forgetBinding_ok [OF ok]
        unfolding returns_def by auto
      with Some assms(2) show ?thesis by (simp add: binding_added_deleting returns_gret)
    qed
    with 1 BindingAdded show ?thesis by (auto dest: returnsD)
  next
    case (BindingDeleted b)
    with 1 binding_deleted_returns [of R c b] assms(2) forgetBinding_ok [OF assms(2)]
    show ?thesis by (auto dest!: returnsD)
  next
    case (ClusterAdded n k)
    with 1 cluster_returns [of R c n k] cluster_fields_ok [OF assms(2)] show ?thesis
      by (auto dest!: returnsD)
  qed
qed

theorem reachable_ok: "reachable R c \<Longrightarrow> controller_ok c"
  by (induction rule: reachable.induct) (auto simp: fresh_ok intro: step_ok)

end
