(* ===== verification/Operator_Start.thy ===== *)
theory Operator_Start
  imports Finishing Controller_Steps
begin

text \<open>
  The start of the operator, up to where it blocks: the controller \<^verbatim>\<open>NewController\<close> makes, and \<^verbatim>\<open>Run\<close> on it.
\<close>

section \<open>Construction\<close>

text \<open>A client set cannot be built; the code ends the process.\<close>

definition clientsFail :: "('cfg, 'w) controllerLib \<Rightarrow> 'cfg \<Rightarrow> bool" where
  "clientsFail L cfg \<longleftrightarrow> (\<exists>w e. fst (clBuildKubeClientSet L cfg w) = Inl e \<or> fst (clNewOperatorClientSet L cfg w) = Inl e \<or>
     fst (clNewVmoClientSet L cfg w) = Inl e \<or> fst (clNewExtClientSet L cfg w) = Inl e)"

text \<open>
  What a new controller is: without records, connections and stop channel, with the packages it was
  given, clients from the libraries, listers of the watched namespace and the credentials in that of the
  system.
\<close>

definition newlyMade ::
  "('cfg, 'w) controllerLib \<Rightarrow> 'w packages \<Rightarrow> 'cfg \<Rightarrow> string \<Rightarrow> string \<Rightarrow> string \<Rightarrow> 'w Controller \<Rightarrow> bool" where
  "newlyMade L P cfg ns uri storage c \<longleftrightarrow> fresh c \<and> stopCh c = None \<and>
     managed c = newManagedPackage P \<and> cache c = newCachePackage P \<and> util c = newUtilPackage P \<and>
     localIface c = newLocalPackage P \<and> monitoring c = newMonitoringPackage P \<and>
     (\<exists>w. fst (clBuildKubeClientSet L cfg w) = Inr (kubeClientSet c)) \<and>
     (\<exists>w. fst (clNewVmoClientSet L cfg w) = Inr (vmoClientSet c)) \<and>
     secretLister c = clSecretLister L (kubeClientSet c) ns \<and>
     configMapLister c = clConfigMapLister L (kubeClientSet c) ns \<and>
     vmiLister c = clVmiLister L (vmoClientSet c) ns \<and>
     secrets c = KubeSecrets VerrazzanoNamespace (kubeClientSet c) (secretLister c) \<and>
     verrazzanoURI c = uri \<and> enableMonitoringStorage c = storage \<and> watchNamespace c = ns"

lemma NewController_outcome:
  assumes cache: "newCachePackage P = cachePackage f"
    and signal: "\<And>s. \<exists>ch s'. clSetupSignalHandler L s = (Ret ch, s') \<and> sent s' = sent s"
  shows "(clientsFail L cfg \<and> (\<exists>msg s'. NewController L P cfg ns uri storage s = (Panic (FatalExit msg), s') \<and>
      sent s' = sent s)) \<or>
    (\<exists>c e s'. NewController L P cfg ns uri storage s = (Ret (c, e), s') \<and> sent s' = sent s \<and>
      e \<in> {None, Some (Errorf ''failed to wait for caches to sync'')} \<and> newlyMade L P cfg ns uri storage c)"
proof -
  obtain r1 w1 where 1: "clBuildKubeClientSet L cfg (world s) = (r1, w1)" by fastforce
  obtain r2 w2 where 2: "clNewOperatorClientSet L cfg w1 = (r2, w2)" by fastforce
  obtain r3 w3 where 3: "clNewVmoClientSet L cfg w2 = (r3, w3)" by fastforce
  obtain r4 w4 where 4: "clNewExtClientSet L cfg w3 = (r4, w4)" by fastforce
  note run = NewController_def orFatal_def gbind_def glift_def gpanic_def Let_def 1 2 3 4
  show ?thesis
  proof (cases "\<exists>e. r1 = Inl e \<or> r2 = Inl e \<or> r3 = Inl e \<or> r4 = Inl e")
    case True
    then have "clientsFail L cfg" unfolding clientsFail_def by (metis 1 2 3 4 fst_conv)
    moreover from True have "\<exists>msg s'. NewController L P cfg ns uri storage s = (Panic (FatalExit msg), s') \<and> sent s' = sent s"
      by (cases r1; cases r2; cases r3; cases r4) (auto simp: run)
    ultimately show ?thesis by blast
  next
    case False
    then obtain kube u2 vmo u4 where r: "r1 = Inr kube" "r2 = Inr u2" "r3 = Inr vmo" "r4 = Inr u4"
      by (metis old.sum.exhaust)
    obtain ch s5 where sig: "clSetupSignalHandler L (s\<lparr>world := w4\<rparr>) = (Ret ch, s5)" "sent s5 = sent s"
      using signal [of "s\<lparr>world := w4\<rparr>"] by auto
    have libs: "\<exists>w. fst (clBuildKubeClientSet L cfg w) = Inr kube" "\<exists>w. fst (clNewVmoClientSet L cfg w) = Inr vmo"
      using 1 3 r by (metis fst_conv)+
    obtain ok w6 where "f (clSyncs L) (world s5) = (ok, w6)" by fastforce
    with sig r libs show ?thesis
      by (cases ok) (simp_all add: run cache cachePackage_def gret_def newlyMade_def fresh_def)
  qed
qed

section \<open>Running\<close>

text \<open>
  On a controller without a stop channel, with the packages of the repository, the handler of the local
  cluster comes to its end, and there \<^verbatim>\<open>Run\<close> stays; unless the handler has ended the process at an empty
  list of nodes.
\<close>

lemma Run_blocks:
  assumes "managed c = managedPackage R L" "util c = utilPackage R" "cache c = cachePackage f"
    and "secrets c = KubeSecrets ns cs ls" "listerTotal ls"
    and "fairOrder R" "NodeListSize R None = 0"
    and "clientTotal (csServiceAccounts (kubeClientSet c))" "clientTotal (csSecrets (kubeClientSet c))"
    and stop: "stopCh c = None"
  shows "(\<exists>c' s'. processManagedCluster R c ''local'' path s = (Ret c', s') \<and> Run R c path s = (Hang, s')) \<or>
    (emptyNodes R (kubeClientSet c) \<and> (\<exists>s'. Run R c path s = (Panic IndexOutOfRange, s')))"
proof -
  from safe_finishes [OF startup_safe [OF assms(1-9)] finishes_processManagedCluster [OF assms(1-4)], of "''local''" path s]
  consider c' s' where "processManagedCluster R c ''local'' path s = (Ret c', s')" "stopCh c' = None"
    | s' where "processManagedCluster R c ''local'' path s = (Panic IndexOutOfRange, s')" "emptyNodes R (kubeClientSet c)"
    using stop by fastforce
  then show ?thesis
    by cases (auto simp: Run_def gbind_def recvStop_def ghang_def)
qed

text \<open>The two together, with the libraries as they are documented.\<close>

lemma newlyMade_blocks:
  assumes made: "newlyMade L P cfg ns uri storage c"
    and P: "newManagedPackage P = managedPackage R CL" "newUtilPackage P = utilPackage R" "newCachePackage P = cachePackage f"
    and R: "fairOrder R" "NodeListSize R None = 0"
    and kube: "\<And>kube w. fst (clBuildKubeClientSet L cfg w) = Inr kube \<Longrightarrow> clientTotal (csServiceAccounts kube) \<and>
      clientTotal (csSecrets kube) \<and> listerTotal (clSecretLister L kube ns)"
  shows "(\<exists>c' s'. processManagedCluster R c ''local'' path s = (Ret c', s') \<and> Run R c path s = (Hang, s')) \<or>
    (emptyNodes R (kubeClientSet c) \<and> (\<exists>s'. Run R c path s = (Panic IndexOutOfRange, s')))"
proof -
  from made obtain w where "fst (clBuildKubeClientSet L cfg w) = Inr (kubeClientSet c)" unfolding newlyMade_def by blast
  note k = kube [OF this]
  have total: "listerTotal (secretLister c)" using made k by (simp add: newlyMade_def)
  show ?thesis
    by (rule Run_blocks [OF _ _ _ _ total R]) (use made P k in \<open>auto simp: newlyMade_def\<close>)
qed

end
