(* ===== verification/Controller_Spec.thy ===== *)
theory Controller_Spec
  imports Controller_Steps
begin

text \<open>
  An abstract specification of what the controller records, and the proof that every handler
  implements it. The specification knows models, bindings and the pairs of both, and for each event
  the registries it may lead to; a pair is the model and the binding it was made from.
\<close>

record registry =
  rModels :: "string \<rightharpoonup> SyntheticModel"
  rBindings :: "string \<rightharpoonup> SyntheticBinding"
  rPairs :: "string \<rightharpoonup> SyntheticModel \<times> SyntheticBinding"

definition registryOf :: "'w Controller \<Rightarrow> registry" where
  "registryOf c =
     \<lparr>rModels = mlookup (applicationModels c), rBindings = mlookup (applicationBindings c),
      rPairs = (\<lambda>n. map_option (\<lambda>mb. (SynModel mb, SynBinding mb)) (mlookup (SyntheticModelBindings c) n))\<rparr>"

abbreviation modelOf :: "SyntheticBinding \<Rightarrow> string" where
  "modelOf b \<equiv> specModelName (bindingSpec b)"

section \<open>The specification\<close>

text \<open>The bindings that wait for a model: recorded, of that model, without a pair.\<close>

definition waiting :: "registry \<Rightarrow> string \<Rightarrow> SyntheticBinding \<Rightarrow> bool" where
  "waiting g m b \<longleftrightarrow> rBindings g (Name b) = Some b \<and> rPairs g (Name b) = None \<and> modelOf b = m"

definition known :: "('b ObjectMeta_scheme) option \<Rightarrow> 'b ObjectMeta_scheme \<Rightarrow> bool" where
  "known old new \<longleftrightarrow> (case old of None \<Rightarrow> False | Some x \<Rightarrow> ResourceVersion x = ResourceVersion new)"

definition regPair :: "SyntheticModel \<Rightarrow> SyntheticBinding \<Rightarrow> registry \<Rightarrow> registry" where
  "regPair m b g = g\<lparr>rPairs := (rPairs g)(Name b \<mapsto> (m, b))\<rparr>"

text \<open>The pair of a binding, if its model is known.\<close>

definition regSync :: "SyntheticBinding \<Rightarrow> registry \<Rightarrow> registry" where
  "regSync b g = (case rModels g (modelOf b) of None \<Rightarrow> g | Some m \<Rightarrow> regPair m b g)"

definition regForget :: "string \<Rightarrow> registry \<Rightarrow> registry" where
  "regForget n g = g\<lparr>rBindings := (rBindings g)(n := None), rPairs := (rPairs g)(n := None)\<rparr>"

definition regBind :: "SyntheticBinding \<Rightarrow> registry \<Rightarrow> registry" where
  "regBind b g = g\<lparr>rBindings := (rBindings g)(Name b \<mapsto> b)\<rparr>"

text \<open>What is recorded of a binding that arrives with a deletion timestamp.\<close>

definition regAdopt :: "SyntheticBinding \<Rightarrow> registry \<Rightarrow> registry" where
  "regAdopt b g =
     (let g = (if rBindings g (Name b) = None then regBind b g else g)
      in if rPairs g (Name b) = None then regSync b g else g)"

abbreviation finalized :: "SyntheticBinding \<Rightarrow> bool" where
  "finalized b \<equiv> bindingFinalizer \<in> set (Finalizers b)"

inductive regStep :: "event \<Rightarrow> registry \<Rightarrow> registry \<Rightarrow> bool" where
  model_known: "known (rModels g (Name m)) m \<Longrightarrow> regStep (ModelAdded m) g g"
| model_new: "\<not> known (rModels g (Name m)) m \<Longrightarrow> g' = g\<lparr>rModels := (rModels g)(Name m \<mapsto> m)\<rparr> \<Longrightarrow>
    \<nexists>b. waiting g' (Name m) b \<Longrightarrow> regStep (ModelAdded m) g g'"
| model_paired: "\<not> known (rModels g (Name m)) m \<Longrightarrow> g' = g\<lparr>rModels := (rModels g)(Name m \<mapsto> m)\<rparr> \<Longrightarrow>
    waiting g' (Name m) b \<Longrightarrow> regStep (ModelAdded m) g (regPair m b g')"
| model_deleted: "regStep (ModelDeleted m) g (g\<lparr>rModels := (rModels g)(Name m := None)\<rparr>)"
| binding_changed: "DeletionTimestamp b = None \<Longrightarrow> \<not> known (rBindings g (Name b)) b \<Longrightarrow>
    regStep (BindingAdded b) g (regSync b (regBind b g))"
| binding_idle: "DeletionTimestamp b = None \<Longrightarrow> known (rBindings g (Name b)) b \<Longrightarrow>
    regStep (BindingAdded b) g g"
| binding_resync: "DeletionTimestamp b = None \<Longrightarrow> known (rBindings g (Name b)) b \<Longrightarrow>
    regStep (BindingAdded b) g (regSync b g)"
| binding_not_ours: "DeletionTimestamp b \<noteq> None \<Longrightarrow> \<not> finalized b \<Longrightarrow>
    regStep (BindingAdded b) g g"
| binding_deleting: "DeletionTimestamp b \<noteq> None \<Longrightarrow> finalized b \<Longrightarrow>
    regStep (BindingAdded b) g (regAdopt b g)"
| binding_forgotten: "DeletionTimestamp b \<noteq> None \<Longrightarrow> finalized b \<Longrightarrow>
    rPairs (regAdopt b g) (Name b) \<noteq> None \<Longrightarrow>
    regStep (BindingAdded b) g (regForget (Name b) (regAdopt b g))"
| deletion_failed: "regStep (BindingDeleted b) g g"
| deleted: "finalized b \<Longrightarrow> rPairs g (Name b) \<noteq> None \<Longrightarrow>
    regStep (BindingDeleted b) g (regForget (Name b) g)"
| cluster: "regStep (ClusterAdded n k) g g"

section \<open>The operations on it\<close>

lemma registryOf_simps [simp]:
  "rModels (registryOf c) = mlookup (applicationModels c)"
  "rBindings (registryOf c) = mlookup (applicationBindings c)"
  "rPairs (registryOf c) = (\<lambda>n. map_option (\<lambda>mb. (SynModel mb, SynBinding mb))
     (mlookup (SyntheticModelBindings c) n))"
  by (simp_all add: registryOf_def)

lemma registryOf_model:
  "registryOf (c\<lparr>applicationModels := mset_key (Name m) m (applicationModels c)\<rparr>) =
     (registryOf c)\<lparr>rModels := (rModels (registryOf c))(Name m \<mapsto> m)\<rparr>"
  by (simp add: registryOf_def)

lemma registryOf_bind:
  "registryOf (c\<lparr>applicationBindings := mset_key (Name b) b (applicationBindings c)\<rparr>) =
     regBind b (registryOf c)"
  by (simp add: registryOf_def regBind_def)

lemma registryOf_pair:
  "registryOf (c\<lparr>SyntheticModelBindings := mset_key (Name b) (CreateSyntheticModelBinding m b u s)
     (SyntheticModelBindings c)\<rparr>) = regPair m b (registryOf c)"
  by (auto simp: registryOf_def regPair_def)

lemma registryOf_forget: "registryOf (forgetBinding n c) = regForget n (registryOf c)"
  by (auto simp: registryOf_def regForget_def forgetBinding_def)

lemma registryOf_sync: "registryOf (fst (syncPair c b)) = regSync b (registryOf c)"
  by (auto simp: syncPair_def regSync_def addPair_def UpdateSyntheticModelBinding_def Let_def
      registryOf_pair split: option.split)

lemma registryOf_note:
  "registryOf (fst (noteBinding c b)) =
     (if known (rBindings (registryOf c) (Name b)) b then registryOf c else regBind b (registryOf c))"
  by (auto simp: noteBinding_def known_def Let_def registryOf_def regBind_def split: option.split)

lemma note_changed: "\<not> known (rBindings (registryOf c) (Name b)) b \<Longrightarrow> snd (noteBinding c b)"
  by (auto simp: noteBinding_def known_def split: option.split)

lemma registryOf_adopt: "registryOf (adoptBinding b c) = regAdopt b (registryOf c)"
proof -
  have pair: "registryOf (case getSyntheticModelBinding d b of
      None \<Rightarrow> (case mlookup (applicationModels d) (modelOf b) of
                 Some model \<Rightarrow> addPair d b model | None \<Rightarrow> d)
    | Some _ \<Rightarrow> d) = (if rPairs (registryOf d) (Name b) = None then regSync b (registryOf d) else registryOf d)"
    for d :: "'a Controller"
    by (auto simp: getSyntheticModelBinding_def regSync_def addPair_def registryOf_pair split: option.split)
  show ?thesis
    unfolding adoptBinding_def regAdopt_def Let_def pair
    by (cases "mlookup (applicationBindings c) (Name b)") (simp_all add: registryOf_bind)
qed

text \<open>
  The loop over the bindings adds the pair of the first one that waits, in the order of the
  iteration, and no other.
\<close>

lemma addPairForModel_spec:
  assumes "controller_ok c"
  shows "(registryOf (addPairForModel c m ks) = registryOf c \<and>
      (\<forall>k \<in> set ks. \<forall>b. mlookup (applicationBindings c) k = Some b \<longrightarrow> \<not> waiting (registryOf c) (Name m) b)) \<or>
    (\<exists>b. waiting (registryOf c) (Name m) b \<and> registryOf (addPairForModel c m ks) = regPair m b (registryOf c))"
proof (induction ks)
  case (Cons k ks)
  show ?case
  proof (cases "mlookup (applicationBindings c) k")
    case (Some b)
    with binding_name [OF assms Some] Cons.IH show ?thesis
      by (auto simp: waiting_def registryOf_pair)
  qed (use Cons.IH in auto)
qed simp

section \<open>Refinement\<close>

lemma model_added_refines:
  assumes "fairOrder R" "controller_ok c"
  shows "returns (processApplicationModelAdded R c m)
    (\<lambda>c'. regStep (ModelAdded m) (registryOf c) (registryOf c'))"
proof -
  let ?c = "c\<lparr>applicationModels := mset_key (Name m) m (applicationModels c)\<rparr>"
  note ok = put_model_ok [OF assms(2), of m]
  have new: "regStep (ModelAdded m) (registryOf c) (registryOf (addPairForModel ?c m ks))"
    if ks: "set ks = set (keys (applicationBindings c))"
      and unknown: "\<not> known (rModels (registryOf c) (Name m)) m" for ks
    using addPairForModel_spec [OF ok, of m ks]
  proof (elim disjE conjE exE)
    assume same: "registryOf (addPairForModel ?c m ks) = registryOf ?c"
      and none: "\<forall>k \<in> set ks. \<forall>b. mlookup (applicationBindings ?c) k = Some b \<longrightarrow>
        \<not> waiting (registryOf ?c) (Name m) b"
    have "\<nexists>b. waiting (registryOf ?c) (Name m) b"
    proof
      assume "\<exists>b. waiting (registryOf ?c) (Name m) b"
      then obtain b where w: "waiting (registryOf ?c) (Name m) b" by blast
      then have b: "mlookup (applicationBindings ?c) (Name b) = Some b" by (simp add: waiting_def)
      then have "Name b \<in> set ks" using ks by (auto simp: dom_def)
      with none b w show False by blast
    qed
    from model_new [OF unknown registryOf_model this] same show ?thesis by simp
  next
    fix b assume w: "waiting (registryOf ?c) (Name m) b"
      and p: "registryOf (addPairForModel ?c m ks) = regPair m b (registryOf ?c)"
    from model_paired [OF unknown registryOf_model w] p show ?thesis by simp
  qed
  show ?thesis
  proof (cases "known (rModels (registryOf c) (Name m)) m")
    case True
    from True model_known [OF True] show ?thesis
      by (simp add: processApplicationModelAdded_def known_def returns_gret split: option.splits)
  next
    case False
    then have "processApplicationModelAdded R c m =
        gbind (glift (rangeOrder R (keys (applicationBindings c)))) (\<lambda>ks. gret (addPairForModel ?c m ks))"
      by (simp add: processApplicationModelAdded_def known_def split: option.splits)
    with new [OF _ False] show ?thesis
      by (auto intro!: returns_glift_order [OF assms(1)] returns_gret)
  qed
qed

lemma binding_added_refines:
  "returns (processApplicationBindingAdded R c b)
     (\<lambda>c'. regStep (BindingAdded b) (registryOf c) (registryOf c'))"
proof (cases "DeletionTimestamp b")
  case None
  let ?g = "registryOf c" and ?n = "noteBinding c b"
  have "regStep (BindingAdded b) ?g
      (registryOf (if snd ?n then fst (syncPair (fst ?n) b) else fst ?n))"
  proof (cases "known (rBindings ?g (Name b)) b")
    case True
    with None show ?thesis
      using binding_idle [OF None True] binding_resync [OF None True]
      by (simp add: registryOf_sync registryOf_note del: registryOf_simps)
  next
    case False
    with binding_changed [OF None False] note_changed [OF False] show ?thesis
      by (simp add: registryOf_sync registryOf_note del: registryOf_simps)
  qed
  with binding_added_returns [OF None, of R c] show ?thesis unfolding returns_def by fastforce
next
  case (Some t)
  then have t: "DeletionTimestamp b \<noteq> None" by simp
  show ?thesis
  proof (cases "finalized b")
    case True
    have pair: "rPairs (regAdopt b (registryOf c)) (Name b) \<noteq> None"
      if "getSyntheticModelBinding (adoptBinding b c) b \<noteq> None"
      using that by (simp add: getSyntheticModelBinding_def flip: registryOf_adopt)
    have "returns (processApplicationBindingDeleted R (adoptBinding b c) b)
        (\<lambda>c'. regStep (BindingAdded b) (registryOf c) (registryOf c'))"
      using binding_deleted_returns [of R "adoptBinding b c" b] binding_deleting [OF t True]
        binding_forgotten [OF t True pair]
      unfolding returns_def by (fastforce simp: registryOf_adopt registryOf_forget)
    with True show ?thesis by (simp add: binding_added_deleting [OF t])
  next
    case False
    with binding_not_ours [OF t False] show ?thesis
      by (simp add: binding_added_deleting [OF t] returns_gret)
  qed
qed

lemma binding_deleted_refines:
  "returns (processApplicationBindingDeleted R c b)
     (\<lambda>c'. regStep (BindingDeleted b) (registryOf c) (registryOf c'))"
  using binding_deleted_returns [of R c b] deletion_failed [of b "registryOf c"]
    deleted [of b "registryOf c"]
  unfolding returns_def
  by (fastforce simp: registryOf_forget getSyntheticModelBinding_def)

lemma model_deleted_refines:
  "returns (processApplicationModelDeleted c m)
     (\<lambda>c'. regStep (ModelDeleted m) (registryOf c) (registryOf c'))"
proof -
  have del: "registryOf (c\<lparr>applicationModels := mdelete (Name m) (applicationModels c)\<rparr>) =
      (registryOf c)\<lparr>rModels := (mlookup (applicationModels c))(Name m := None)\<rparr>"
    by (simp add: registryOf_def)
  have same: "(registryOf c)\<lparr>rModels := (mlookup (applicationModels c))(Name m := None)\<rparr> = registryOf c"
    if "mlookup (applicationModels c) (Name m) = None"
    using that by (auto simp: registryOf_def fun_upd_idem)
  show ?thesis
    using model_deleted [of m "registryOf c"] same
    by (auto simp: processApplicationModelDeleted_def del intro!: returns_gret split: option.split)
qed

lemma cluster_refines:
  "returns (processManagedCluster R c n k)
     (\<lambda>c'. regStep (ClusterAdded n k) (registryOf c) (registryOf c'))"
proof -
  have same: "registryOf (c\<lparr>imagePullSecrets := secs, managedClusterConnections := conns\<rparr>) = registryOf c"
    for secs conns by (simp add: registryOf_def)
  show ?thesis
    by (rule returns_mono [OF cluster_returns]) (auto simp: same cluster)
qed

lemmas handlers_refine =
  model_deleted_refines binding_added_refines binding_deleted_refines cluster_refines

lemma step_refines:
  assumes "cstep R c e c'" "controller_ok c" "fairOrder R"
  shows "regStep e (registryOf c) (registryOf c')"
proof -
  from assms(1) obtain s s' where "handle R e c s = (Ret c', s')" by (rule cstep_cases)
  then show ?thesis
    using returnsD [OF model_added_refines [OF assms(3,2)]] handlers_refine [THEN returnsD]
    by (cases e) auto
qed

end
