(* ===== verification/Props_Controller.thy ===== *)
theory Props_Controller
  imports Environment Operator_Start Controller_Spec
begin

text \<open>
  Properties of the controller: what its handlers send with the packages of the repository behind its
  interfaces, when they can panic, and what they record whatever the interfaces do.
\<close>

section \<open>A concrete controller\<close>

definition plainConnectionLib :: "(unit, 'w) connectionLib" where
  "plainConnectionLib =
     \<lparr>buildConfigFromFlags = (\<lambda>_ _ w. (Inr (), w)),
      newKubernetesClientSet = (\<lambda>_ w. (Inr (plainClientset ''local''), w)),
      newExtClientSet = (\<lambda>_ w. (Inr (), w)),
      NewSharedInformerFactory = (\<lambda>_ _.
        \<lparr>ifDeployments = plainLister [], ifServiceAccounts = plainLister [],
         ifNamespaces = plainLister [], ifSecrets = plainLister [], ifClusterRoles = plainLister [],
         ifClusterRoleBindings = plainLister [], ifConfigMaps = plainLister [],
         ifDaemonSets = plainLister [], ifServices = plainLister [],
         ifHasSynced = (\<lambda>w. (True, w)), ifStart = (\<lambda>w. ((), w))\<rparr>)\<rparr>"

definition plainPackages :: "'w packages" where
  "plainPackages =
     \<lparr>newManagedPackage = managedPackage plainRuntime plainConnectionLib,
      newCachePackage = cachePackage (\<lambda>_ w. (True, w)),
      newUtilPackage = utilPackage plainRuntime,
      newLocalPackage = localPackage plainRuntime (\<lambda>_. Inr []),
      newMonitoringPackage = monitoringPackage plainRuntime\<rparr>"

definition plainController :: "'w connections \<Rightarrow> 'w Controller" where
  "plainController conns =
     \<lparr>managed = newManagedPackage plainPackages, cache = newCachePackage plainPackages,
      util = newUtilPackage plainPackages, localIface = newLocalPackage plainPackages,
      monitoring = newMonitoringPackage plainPackages,
      kubeClientSet = plainClientset ''mgmt'', vmoClientSet = plainClientset ''mgmt'',
      verrazzanoURI = ''uri'', enableMonitoringStorage = ''true'', imagePullSecrets = [],
      secretLister = plainLister [], configMapLister = plainLister [], vmiLister = plainLister [],
      secrets = KubeSecrets VerrazzanoNamespace (plainClientset ''mgmt'') (plainLister []),
      managedClusterConnections = conns, applicationModels = [], applicationBindings = [],
      SyntheticModelBindings = [], watchNamespace = [], stopCh = None, bindingSyncThreshold = []\<rparr>"

lemma plain_controller [simp]:
  "managed (plainController conns) = managedPackage plainRuntime plainConnectionLib"
  "util (plainController conns) = utilPackage plainRuntime"
  "cache (plainController conns) = cachePackage (\<lambda>_ w. (True, w))"
  "localIface (plainController conns) = localPackage plainRuntime (\<lambda>_. Inr [])"
  "monitoring (plainController conns) = monitoringPackage plainRuntime"
  "kubeClientSet (plainController conns) = plainClientset ''mgmt''"
  "secretLister (plainController conns) = plainLister []"
  "secrets (plainController conns) = KubeSecrets VerrazzanoNamespace (plainClientset ''mgmt'') (plainLister [])"
  "managedClusterConnections (plainController conns) = conns"
  by (simp_all add: plainController_def plainPackages_def)

definition plainInfo :: ClusterInfo where
  "plainInfo =
     \<lparr>ContainerRuntime = ''docker://19'', ManagedClusterName = [], ElasticsearchURL = [],
      ElasticsearchUsername = [], ElasticsearchPassword = [], ElasticsearchCABundle = None\<rparr>"

lemma plain_fresh [simp]: "fresh (plainController [])"
  by (simp add: fresh_def plainController_def)

lemma plain_client_total [simp]:
  "clientTotal (csSecrets (plainClientset n))" "clientTotal (csServiceAccounts (plainClientset n))"
  by (simp_all add: clientTotal_def plainClientset_def plainClient_def)

section \<open>Resources of a pair\<close>

text \<open>C1: with the packages of the repository, and every cluster of the pair connected,
  \<^verbatim>\<open>createManagedClusterResourcesForBinding\<close> does not panic, deletes nothing and writes to the clusters
  of the pair only.\<close>

theorem create_resources_confined:
  assumes "managed c = managedPackage R L" "util c = utilPackage R" "fairOrder R" "wf_pair mb"
    and "clientTotal (csSecrets (kubeClientSet c))"
    and "covers (managedClusterConnections c) (ManagedClusters mb)"
  shows "safe (writes (managedClusterConnections c) (forPair mb)) noPanic
    (createManagedClusterResourcesForBinding c mb ci) anyResult"
  by (rule mc.create_resources_safe [OF assms])

lemma create_resources_confined_witness:
  "list_all (writes (plainConnections :: unit connections) (forPair plainPair))
     (requests (createManagedClusterResourcesForBinding
       (plainController (plainConnections :: unit connections)) plainPair plainInfo) \<lparr>sent = [], world = ()\<rparr>)"
proof -
  let ?c = "plainController (plainConnections :: unit connections)"
  have "safe (writes (managedClusterConnections ?c) (forPair plainPair)) noPanic
      (createManagedClusterResourcesForBinding ?c plainPair plainInfo) anyResult"
    by (rule create_resources_confined [where R = plainRuntime and L = plainConnectionLib]) simp_all
  then show ?thesis by (rule safe_list_all) simp
qed

text \<open>C34: if a cluster of the pair is not connected, the error of
  \<^verbatim>\<open>GetManagedClustersForVerrazzanoBinding\<close> is logged and the handler goes on without connections: it
  dereferences nil before it has sent anything.\<close>

theorem create_resources_missing:
  assumes "managed c = managedPackage R L" "util c = utilPackage R" "fairOrder R" "wf_pair mb"
    and "\<not> covers (managedClusterConnections c) (ManagedClusters mb)"
  shows "\<exists>s'. createManagedClusterResourcesForBinding c mb ci s = (Panic NilDeref, s') \<and> sent s' = sent s"
  by (rule resources_missing [OF _ assms(2-5)])
    (simp add: assms(1) managedPackage_def)

lemma create_resources_missing_witness:
  "\<exists>s'. createManagedClusterResourcesForBinding (plainController []) plainPair plainInfo
     \<lparr>sent = [], world = ()\<rparr> = (Panic NilDeref, s') \<and> sent s' = []"
proof -
  have "\<not> covers ([] :: unit connections) (ManagedClusters plainPair)"
    by (simp add: covers_def plainPair_def)
  then show ?thesis
    using create_resources_missing [of "plainController []" plainRuntime plainConnectionLib plainPair plainInfo
        "\<lparr>sent = [], world = ()\<rparr>"] by simp
qed

section \<open>Methods without an implementation\<close>

text \<open>What a deletion may send: deletions of what the management cluster's listers list of the binding.\<close>

definition localDeletions :: "'w Controller \<Rightarrow> SyntheticBinding \<Rightarrow> request \<Rightarrow> bool" where
  "localDeletions c b e \<longleftrightarrow> (let sel = [(VerrazzanoBinding, Name b)] in
     (\<exists>x. listed (vmiLister c) [] sel x \<and>
        e = ReqDelete (clientName (vmoClientSet c)) VMIKind (Namespace x) (Name x)) \<or>
     (\<exists>x. listed (secretLister c) [] sel x \<and>
        e = ReqDelete (clientName (kubeClientSet c)) SecretKind (Namespace x) (Name x)) \<or>
     (\<exists>x. listed (configMapLister c) [] sel x \<and>
        e = ReqDelete (clientName (kubeClientSet c)) ConfigMapKind (Namespace x) (Name x)))"

lemma safe_localDeletions:
  "safe (localDeletions c b) noPanic (DeleteVmi b (vmoClientSet c) (vmiLister c)) anyResult"
  "safe (localDeletions c b) noPanic (DeleteSecrets b (kubeClientSet c) (secretLister c)) anyResult"
  "safe (localDeletions c b) noPanic (DeleteConfigMaps b (kubeClientSet c) (configMapLister c)) anyResult"
  unfolding DeleteVmi_def DeleteSecrets_def DeleteConfigMaps_def
  by (rule safe_deleteListed; auto simp: localDeletions_def)+

lemma requests_step:
  assumes "safe A X m Q" "m s = (r, s')"
  shows "\<exists>l. sent s' = sent s @ l \<and> list_all A l"
  using assms unfolding safe_def list_all_iff by (metis snd_conv)

text \<open>C26: with the packages of the repository a binding that is deleted is never forgotten. For a binding
  with the finalizer and a pair, the handler deletes its instances, then its secrets, then its config maps
  in the management cluster, as far as their listers list them. If the deletion of the secrets or that of
  the config maps fails, it returns the controller as it was; and if none does, it panics: it calls
  \<^verbatim>\<open>DeleteCustomResources\<close>, which only the embedded interface provides, and that is nil. Nothing in a
  managed cluster is deleted.\<close>

theorem binding_deletion_incomplete:
  assumes "managed c = managedPackage R L" "util c = utilPackage R" "localIface c = localPackage R A"
    and "bindingFinalizer \<in> set (Finalizers b)" "mlookup (SyntheticModelBindings c) (Name b) = Some mb"
  shows "\<exists>r1 s1 e2 s2 out s'. DeleteVmi b (vmoClientSet c) (vmiLister c) s = (Ret r1, s1) \<and>
     DeleteSecrets b (kubeClientSet c) (secretLister c) s1 = (Ret e2, s2) \<and>
     processApplicationBindingDeleted R c b s = (out, s') \<and>
     (\<exists>l. sent s' = sent s @ l \<and> list_all (localDeletions c b) l) \<and>
     (if e2 \<noteq> None then out = Ret c \<and> s' = s2
      else \<exists>e3 s3. DeleteConfigMaps b (kubeClientSet c) (configMapLister c) s2 = (Ret e3, s3) \<and>
        (if e3 \<noteq> None then out = Ret c \<and> s' = s3 else out = Panic NilDeref \<and> sent s' = sent s3))"
proof -
  note safe = safe_localDeletions [of c b]
  obtain r1 s1 where 1: "DeleteVmi b (vmoClientSet c) (vmiLister c) s = (Ret r1, s1)"
    using finishes_returns [OF safe(1)] by (metis finishes_local(3))
  obtain e2 s2 where 2: "DeleteSecrets b (kubeClientSet c) (secretLister c) s1 = (Ret e2, s2)"
    using finishes_returns [OF safe(2)] by (metis finishes_local(4))
  obtain e3 s3 where 3: "DeleteConfigMaps b (kubeClientSet c) (configMapLister c) s2 = (Ret e3, s3)"
    using finishes_returns [OF safe(3)] by (metis finishes_local(5))
  obtain ks w where o: "rangeOrder R (keys (ManagedClusters mb)) (world s3) = (ks, w)" by fastforce
  note run = processApplicationBindingDeleted_def getSyntheticModelBinding_def logged_def orReturn_def
    managedPackage_def utilPackage_def localPackage_def promoted_def assms
    GetManagedClustersForVerrazzanoBinding_def
  have out: "processApplicationBindingDeleted R c b s = (if e2 \<noteq> None then (Ret c, s2)
      else if e3 \<noteq> None then (Ret c, s3) else (Panic NilDeref, s3\<lparr>world := w\<rparr>))"
    by (cases e2; cases e3) (simp_all add: run 1 2 3 o gbind_def glift_def gret_def gpanic_def Let_def)
  obtain l1 l2 l3 where l: "sent s1 = sent s @ l1" "sent s2 = sent s @ l1 @ l2" "sent s3 = sent s @ l1 @ l2 @ l3"
    "list_all (localDeletions c b) l1" "list_all (localDeletions c b) l2" "list_all (localDeletions c b) l3"
    using requests_step [OF safe(1) 1] requests_step [OF safe(2) 2] requests_step [OF safe(3) 3] by auto
  have "\<exists>l. sent (snd (processApplicationBindingDeleted R c b s)) = sent s @ l \<and> list_all (localDeletions c b) l"
    unfolding out using l by (auto intro: exI [of _ "l1 @ l2"] exI [of _ "l1 @ l2 @ l3"])
  with 1 2 3 show ?thesis
    by (intro exI [of _ r1] exI [of _ s1] exI [of _ e2] exI [of _ s2]
        exI [of _ "fst (processApplicationBindingDeleted R c b s)"] exI [of _ "snd (processApplicationBindingDeleted R c b s)"])
      (simp add: out)
qed

text \<open>A binding with an instance, of the finalizer and with a pair.\<close>

definition deletedBinding :: SyntheticBinding where
  "deletedBinding = plainBinding\<lparr>Finalizers := [bindingFinalizer]\<rparr>"

definition instanceOf :: "SyntheticBinding \<Rightarrow> VMI" where
  "instanceOf b = (case createInstance (plainRuntime :: unit runtime) b ''uri'' ''true'' of Inr v \<Rightarrow> v)"

definition deletingController :: "unit Controller" where
  "deletingController = (plainController plainConnections)
     \<lparr>vmiLister := plainLister [instanceOf deletedBinding], SyntheticModelBindings := [(''b'', plainPair)]\<rparr>"

lemma binding_deletion_incomplete_witness:
  "\<exists>s'. processApplicationBindingDeleted plainRuntime deletingController deletedBinding \<lparr>sent = [], world = ()\<rparr> =
     (Panic NilDeref, s') \<and> sent s' = [ReqDelete ''mgmt'' VMIKind VerrazzanoNamespace ''b'']"
proof -
  let ?s = "\<lparr>sent = [], world = ()\<rparr> :: unit state"
  have c: "managed deletingController = managedPackage plainRuntime plainConnectionLib"
    "util deletingController = utilPackage plainRuntime"
    "localIface deletingController = localPackage plainRuntime (\<lambda>_. Inr [])"
    "mlookup (SyntheticModelBindings deletingController) (Name deletedBinding) = Some plainPair"
    "bindingFinalizer \<in> set (Finalizers deletedBinding)"
    by (simp_all add: deletingController_def deletedBinding_def)
  obtain v where inst: "createInstance (plainRuntime :: unit runtime) deletedBinding ''uri'' ''true'' = Inr v"
    using createInstance_Inr by blast
  have v: "Namespace (instanceOf deletedBinding) = VerrazzanoNamespace" "Name (instanceOf deletedBinding) = ''b''"
    "matches [(VerrazzanoBinding, ''b'')] (Labels (instanceOf deletedBinding))"
    using createInstance_meta [OF inst] inst
    by (simp_all add: instanceOf_def deletedBinding_def GetLocalBindingLabels_def matches_def const_defs)
  have vmi: "DeleteVmi deletedBinding (vmoClientSet deletingController) (vmiLister deletingController) ?s =
      (Ret None, ?s\<lparr>sent := [ReqDelete ''mgmt'' VMIKind VerrazzanoNamespace ''b'']\<rparr>)"
    using v by (simp add: DeleteVmi_def deleteListed_def deletingController_def plainController_def deletedBinding_def
        call_defs gbind_def glift_def gsend_def gret_def plainLister_def plainClientset_def plainClient_def)
  have rest: "DeleteSecrets deletedBinding (kubeClientSet deletingController) (secretLister deletingController) s = (Ret None, s)"
    "DeleteConfigMaps deletedBinding (kubeClientSet deletingController) (configMapLister deletingController) s = (Ret None, s)" for s
    by (simp_all add: DeleteSecrets_def DeleteConfigMaps_def deleteListed_def deletingController_def plainController_def
        call_defs gbind_def glift_def gret_def plainLister_def)
  from binding_deletion_incomplete [OF c(1-3,5,4), of ?s] show ?thesis
    by (auto simp: vmi rest)
qed

lemma cleanup_panics:
  "cleanupOrphanedResources (c\<lparr>managed := managedPackage R L\<rparr>) mb s = (Panic NilDeref, s)"
  by (simp add: cleanupOrphanedResources_def logged_def managedPackage_def promoted_def gbind_def
      gpanic_def)

text \<open>C27: a synchronization of a binding never completes either. With the packages of the repository
  \<^verbatim>\<open>processApplicationBindingAdded\<close> gets past the wait for the clusters only to call
  \<^verbatim>\<open>CleanupOrphanedCustomResources\<close> on the nil embedded interface: it returns only if the wait fails.\<close>

theorem sync_never_completes:
  assumes "syncResources R (c\<lparr>managed := managedPackage R L\<rparr>) b mb s = (Ret c', s')"
  shows "\<exists>e. waitForManagedClusters R (c\<lparr>managed := managedPackage R L\<rparr>) mb (Name b) s = (Ret (Some e), s')"
proof -
  let ?c = "c\<lparr>managed := managedPackage R L\<rparr>"
  have "returns (gbind (cleanupOrphanedResources ?c mb) (\<lambda>_. gret ?c)) (\<lambda>_. False)"
    by (simp add: returns_def gbind_def cleanup_panics)
  then have "returns (gbind (getClusterInfo R ?c) (\<lambda>clusterInfo.
      gbind (createManagedClusterResourcesForBinding ?c mb clusterInfo) (\<lambda>_.
      gbind (cleanupOrphanedResources ?c mb) (\<lambda>_. gret ?c)))) (\<lambda>_. False)"
    by (rule returns_any [OF returns_any])
  then show ?thesis
    by (intro orReturn_error [OF assms [unfolded syncResources_def]] returns_logged)
qed

lemma sync_never_completes_witness:
  "syncResources plainRuntime (plainController [] :: unit Controller) plainBinding plainPair
     \<lparr>sent = [], world = ()\<rparr> = (Ret (plainController []), \<lparr>sent = [], world = ()\<rparr>) \<and>
   (\<exists>e. waitForManagedClusters plainRuntime (plainController [] :: unit Controller) plainPair ''b''
     \<lparr>sent = [], world = ()\<rparr> = (Ret (Some e), \<lparr>sent = [], world = ()\<rparr>))"
proof -
  let ?c = "(plainController [] :: unit Controller)\<lparr>managed := managedPackage plainRuntime plainConnectionLib\<rparr>"
  have c: "?c = plainController []" by (simp add: plainController_def plainPackages_def)
  have run: "syncResources plainRuntime ?c plainBinding plainPair \<lparr>sent = [], world = ()\<rparr> =
      (Ret ?c, \<lparr>sent = [], world = ()\<rparr>)"
    by (simp add: syncResources_def orReturn_def waitForManagedClusters_def plainRuntime_def gbind_def
        glift_def gret_def)
  from sync_never_completes [OF run] run show ?thesis by (simp add: c)
qed

section \<open>Waiting for the clusters\<close>

text \<open>
  Time, as the number of ticks before the timeout; a tick takes one, and the iteration over a map
  gives none back.
\<close>

definition ticks :: "'w runtime \<Rightarrow> nat \<Rightarrow> nat \<Rightarrow> ('w \<Rightarrow> nat) \<Rightarrow> bool" where
  "ticks R t d left \<longleftrightarrow>
     (\<forall>w. fst (selectTimeout R t d w) \<or> left (snd (selectTimeout R t d w)) < left w) \<and>
     (\<forall>ks w. left (snd (rangeOrder R ks w)) \<le> left w)"

abbreviation connected :: "'w Controller \<Rightarrow> SyntheticModelBinding \<Rightarrow> bool" where
  "connected c mb \<equiv> clusterNames mb \<subseteq> dom (mlookup (managedClusterConnections c))"

lemma waitClustersLoop_spec:
  assumes u: "util c = utilPackage R" and fair: "fairOrder R"
    and clock: "ticks R clustersTimeout clustersTick left" and fuel: "left (world s) < fuel"
  shows "\<exists>e s'. waitClustersLoop fuel R c mb n s = (Ret e, s') \<and> sent s' = sent s \<and>
    (e = None \<longrightarrow> connected c mb) \<and>
    (connected c mb \<longrightarrow> (e = None \<longleftrightarrow> \<not> fst (selectTimeout R clustersTimeout clustersTick (world s))))"
  using fuel
proof (induction fuel arbitrary: s)
  case (Suc fuel)
  obtain b w1 where sel: "selectTimeout R clustersTimeout clustersTick (world s) = (b, w1)" by fastforce
  obtain ks w2 where ord: "rangeOrder R (keys (ManagedClusters mb)) w1 = (ks, w2)" by fastforce
  let ?r = "matchClusters mb (managedClusterConnections c) ks []"
  have "set ks = set (keys (ManagedClusters mb))" using fair ord unfolding fairOrder_def by (metis fst_conv)
  from matchClusters_forSpec [OF this, of "managedClusterConnections c"]
  have r: "snd ?r = None \<longleftrightarrow> connected c mb"
    by (cases ?r; cases "snd ?r") (simp_all add: forSpec_def)
  have "b \<or> left w1 < left (world s)" "left w2 \<le> left w1"
    using clock sel ord unfolding ticks_def by (metis fst_conv snd_conv)+
  with Suc.prems have l: "b \<or> left (world (s\<lparr>world := w2\<rparr>)) < fuel" by auto
  show ?case
  proof (cases "b \<or> connected c mb")
    case True
    with sel ord r show ?thesis
      by (cases ?r) (auto simp: u utilPackage_def GetManagedClustersForVerrazzanoBinding_def gbind_def
          glift_def gret_def)
  next
    case False
    with r obtain f e where "?r = (f, Some e)" by (cases ?r) auto
    with Suc.IH [of "s\<lparr>world := w2\<rparr>"] l False sel ord show ?thesis
      by (auto simp: u utilPackage_def GetManagedClustersForVerrazzanoBinding_def gbind_def
          glift_def gret_def)
  qed
qed simp

text \<open>C28: \<^verbatim>\<open>waitForManagedClusters\<close> returns within as many rounds as there is time left and sends
  nothing; it succeeds only if every cluster of the pair is connected, and if they all are it
  succeeds at the first tick.\<close>

theorem wait_for_clusters:
  assumes "util c = utilPackage R" "fairOrder R" "ticks R clustersTimeout clustersTick left"
    and "left (world s) < waitFuel R"
  shows "\<exists>e s'. waitForManagedClusters R c mb n s = (Ret e, s') \<and> sent s' = sent s \<and>
    (e = None \<longrightarrow> connected c mb) \<and>
    (connected c mb \<longrightarrow> (e = None \<longleftrightarrow> \<not> fst (selectTimeout R clustersTimeout clustersTick (world s))))"
  unfolding waitForManagedClusters_def by (rule waitClustersLoop_spec [OF assms])

lemma wait_for_clusters_witness:
  "\<exists>s'. waitForManagedClusters
      (plainRuntime\<lparr>selectTimeout := (\<lambda>_ _ w. (w = 0, w - 1)), waitFuel := 4\<rparr>)
      ((plainController plainConnections)\<lparr>util := utilPackage
        (plainRuntime\<lparr>selectTimeout := (\<lambda>_ _ w. (w = 0, w - 1)), waitFuel := 4\<rparr>)\<rparr>) plainPair ''b''
      \<lparr>sent = [], world = 3 :: nat\<rparr> = (Ret None, s') \<and> sent s' = []"
proof -
  let ?R = "plainRuntime\<lparr>selectTimeout := (\<lambda>_ _ w. (w = 0, w - 1)), waitFuel := 4\<rparr> :: nat runtime"
  have "fairOrder ?R" "ticks ?R clustersTimeout clustersTick (\<lambda>w. w)"
    by (auto simp: fairOrder_def ticks_def plainRuntime_def)
  from wait_for_clusters [OF _ this, of "(plainController plainConnections)\<lparr>util := utilPackage ?R\<rparr>"
      "\<lparr>sent = [], world = 3\<rparr>" plainPair "''b''"]
  show ?thesis by (auto simp: plainConnections_def)
qed

section \<open>Startup\<close>


lemma plain_listerTotal [simp]: "listerTotal (plainLister objs)"
  by (simp add: listerTotal_def plainLister_def split: option.split)

text \<open>An operator with a service account, whose API server answers the list of nodes given.\<close>

definition sizedRuntime :: "unit runtime" where
  "sizedRuntime = plainRuntime\<lparr>NodeListSize := (\<lambda>l. case l of None \<Rightarrow> 0 | Some ns \<Rightarrow> length ns + 2)\<rparr>"

definition nodesController :: "string list \<Rightarrow> unit Controller" where
  "nodesController nodes = (plainController [])
     \<lparr>managed := managedPackage sizedRuntime plainConnectionLib, util := utilPackage sizedRuntime,
      kubeClientSet := (plainClientset ''mgmt'')
        \<lparr>csServiceAccounts := plainClient\<lparr>rcGet := (\<lambda>ns n w. ((Some (newServiceAccount n ns [] [''pull'']), None), w))\<rparr>,
         csNodes := (\<lambda>w. ((Some nodes, None), w))\<rparr>\<rparr>"

lemma sized_simps [simp]: "fairOrder sizedRuntime" "NodeListSize sizedRuntime None = 0"
  "NodeListSize sizedRuntime (Some l) \<noteq> 0"
  by (simp_all add: sizedRuntime_def plainRuntime_def fairOrder_def)


text \<open>A cluster that is connected is not connected again: the handler only reads the pull secrets
  anew, and sends nothing.\<close>

theorem known_cluster:
  assumes "mlookup (managedClusterConnections c) name = Some conn"
    and "clientTotal (csServiceAccounts (kubeClientSet c))"
  shows "safe (\<lambda>_. False) noPanic (processManagedCluster R c name path)
    (\<lambda>c'. \<exists>s. c' = c\<lparr>imagePullSecrets := s\<rparr>)"
proof -
  have same: "\<exists>s. c = c\<lparr>imagePullSecrets := s\<rparr>"
    by (rule exI [where x = "imagePullSecrets c"]) simp
  have get: "safe (\<lambda>_. False) noPanic (clientGet (csServiceAccounts (kubeClientSet c)) VerrazzanoSystem
      VerrazzanoOperatorServiceAccount) (\<lambda>r. r \<noteq> (None, None))"
    unfolding clientGet_def by (rule safe_glift_fst) (use assms(2) in \<open>simp add: clientTotal_def\<close>)
  show ?thesis
    unfolding processManagedCluster_def Let_def
    by (intro safe_gbind safe_post [OF get] safe_case_prod safe_case_option safe_deref safe_gret same)
      (use assms(1) in auto)
qed

lemma known_cluster_witness:
  "requests (processManagedCluster plainRuntime (plainController (plainConnections :: unit connections))
     ''local'' []) \<lparr>sent = [], world = ()\<rparr> = []"
proof -
  have "safe (\<lambda>_. False) noPanic (processManagedCluster plainRuntime
      (plainController (plainConnections :: unit connections)) ''local'' [])
      (\<lambda>c'. \<exists>s. c' = (plainController plainConnections)\<lparr>imagePullSecrets := s\<rparr>)"
    by (rule known_cluster) simp_all
  from safe_requests [OF this] show ?thesis by (metis ex_in_conv set_empty)
qed

section \<open>Construction and the main loop\<close>

text \<open>The libraries of a controller whose clients are the plain ones.\<close>

definition plainControllerLib :: "(unit, unit) controllerLib" where
  "plainControllerLib =
     \<lparr>clBuildKubeClientSet = (\<lambda>_ w. (Inr (plainClientset ''mgmt''), w)), clNewOperatorClientSet = (\<lambda>_ w. (Inr (), w)),
      clNewVmoClientSet = (\<lambda>_ w. (Inr (plainClientset ''mgmt''), w)), clNewExtClientSet = (\<lambda>_ w. (Inr (), w)),
      clSecretLister = (\<lambda>_ _. plainLister []), clConfigMapLister = (\<lambda>_ _. plainLister []),
      clVmiLister = (\<lambda>_ _. plainLister []), clSyncs = [], clSetupSignalHandler = gret (Some (\<lambda>w. ((), w)))\<rparr>"

lemma plainControllerLib_simps:
  "\<exists>ch s'. clSetupSignalHandler plainControllerLib s = (Ret ch, s') \<and> sent s' = sent s"
  "fst (clBuildKubeClientSet plainControllerLib cfg w) = Inr kube \<Longrightarrow> clientTotal (csServiceAccounts kube) \<and>
     clientTotal (csSecrets kube) \<and> listerTotal (clSecretLister plainControllerLib kube ns)"
  "\<not> clientsFail plainControllerLib cfg"
  by (auto simp: plainControllerLib_def gret_def clientsFail_def)

lemma plainPackages_simps:
  "newManagedPackage plainPackages = managedPackage plainRuntime plainConnectionLib"
  "newUtilPackage plainPackages = utilPackage plainRuntime"
  "newCachePackage plainPackages = cachePackage (\<lambda>_ w. (True, w))"
  "NodeListSize plainRuntime None = 0" "\<not> emptyNodes plainRuntime cs"
  by (simp_all add: plainPackages_def) (simp_all add: plainRuntime_def emptyNodes_def)



text \<open>C33: every round of the loop that keeps the system instance comes to its end without a panic, and
  however many there are they send nothing but: creations and updates of the monitoring instance of the
  system binding, updates of its dashboards, creations and updates of the credentials with the fixed user
  name and a password of 16 letters and digits, all in the system namespace; deletions of other config
  maps that the lister lists in the system namespace with the binding's label; and deletions of other
  secrets that the lister lists with the binding's label, in any namespace.\<close>

theorem system_instance_maintained:
  assumes "localIface c = localPackage R A" "monitoring c = monitoringPackage R" "fairRand R"
    and "secrets c = KubeSecrets VerrazzanoNamespace (kubeClientSet c) ls"
  shows "(\<exists>s'. createUpdateGlobalEntities systemBinding c s = (Ret (), s')) \<and>
    safe (\<lambda>e. let vmo = clientName (vmoClientSet c); kube = clientName (kubeClientSet c); ns = VerrazzanoNamespace;
         name = Name systemBinding; sel = [(VerrazzanoBinding, name)] in
       (\<exists>v. Name v = name \<and> Labels v = GetLocalBindingLabels systemBinding \<and> (e = ReqCreate vmo ns (KVMI v) \<or> e = ReqUpdate vmo ns (KVMI v))) \<or>
       (\<exists>cm. Name cm = name @ ''-dashboards'' \<and> e = ReqUpdate kube ns (KConfigMap cm)) \<or>
       (\<exists>x. vmiSecretOf systemBinding x \<and> (e = ReqCreate kube ns (KSecret x) \<or> e = ReqUpdate kube ns (KSecret x))) \<or>
       (\<exists>cm. listed (configMapLister c) ns sel cm \<and> Name cm \<noteq> name @ ''-dashboards'' \<and>
          e = ReqDelete kube ConfigMapKind (Namespace cm) (Name cm)) \<or>
       (\<exists>x. listed ls [] sel x \<and> Name x \<noteq> VmiSecretName \<and> Name x \<noteq> name \<and>
          e = ReqDelete kube SecretKind (Namespace x) (Name x)))
      noPanic (createUpdateGlobalEntitiesGoroutine n pause systemBinding c) (\<lambda>_. False)"
proof -
  have ops: "secrets_listing (secrets c) (clientName (kubeClientSet c)) VerrazzanoNamespace (listed ls)"
    unfolding assms(4) by (rule ksl.secrets_listing_axioms)
  have "finishes (createUpdateGlobalEntities systemBinding c)" by (rule finishes_global_entities [OF assms(1,2,4)])
  from finishes_returns [OF lo.global_entities_safe [OF assms(1,2) ops assms(3)] this]
  have "\<exists>s'. createUpdateGlobalEntities systemBinding c s = (Ret (), s')" by simp
  then show ?thesis
    by (intro conjI safe_mono [OF lo.goroutine_safe [OF assms(1,2) ops assms(3), of systemBinding n pause]])
      (auto simp: systemRequest_def vmiWrites_def dashboardWrites_def credentialRequest_def Let_def VmiUsername_def
        VmiSecretName_def GetVmiNameForBinding_def)
qed

text \<open>A management cluster with a config map of the binding that is not wanted, and one that is not its.\<close>

definition someConfigMap :: "string \<Rightarrow> string gomap \<Rightarrow> ConfigMap" where
  "someConfigMap n ls = ObjectMeta.extend (noMeta\<lparr>Name := n, Namespace := VerrazzanoNamespace, Labels := ls\<rparr>) (ConfigMap.fields None)"

definition untidyController :: "unit Controller" where
  "untidyController = (plainController [])
     \<lparr>configMapLister := plainLister [someConfigMap ''stale'' [(VerrazzanoBinding, VmiSystemBindingName)], someConfigMap ''other'' []]\<rparr>"

lemma untidy_lists: "listed (configMapLister untidyController) ns [(VerrazzanoBinding, VmiSystemBindingName)] cm \<Longrightarrow>
    Name cm = ''stale''"
  by (auto simp: listed_def untidyController_def plainLister_def someConfigMap_def matches_def ObjectMeta.defs ConfigMap.defs
      noMeta_def const_defs split: if_splits)

text \<open>The first round deletes the one, and no round deletes the other.\<close>

lemma system_instance_maintained_witness:
  "ReqDelete ''mgmt'' ConfigMapKind VerrazzanoNamespace ''stale'' \<in>
     set (requests (createUpdateGlobalEntities systemBinding untidyController) \<lparr>sent = [], world = ()\<rparr>) \<and>
   ReqDelete ''mgmt'' ConfigMapKind VerrazzanoNamespace ''other'' \<notin>
     set (requests (createUpdateGlobalEntitiesGoroutine 3 (\<lambda>w. ((), w)) systemBinding untidyController)
       \<lparr>sent = [], world = ()\<rparr>)"
proof -
  let ?c = untidyController and ?s = "\<lparr>sent = [], world = ()\<rparr> :: unit state"
  have c: "localIface ?c = localPackage plainRuntime (\<lambda>_. Inr [])" "monitoring ?c = monitoringPackage plainRuntime"
    "secrets ?c = KubeSecrets VerrazzanoNamespace (kubeClientSet ?c) (plainLister [])" "fairRand (plainRuntime :: unit runtime)"
    by (simp_all add: untidyController_def fairRand_def) (simp add: plainRuntime_def)
  have names: "Name systemBinding = VmiSystemBindingName" "clientName (kubeClientSet ?c) = ''mgmt''"
    by (simp_all add: systemBinding_def ObjectMeta.defs SyntheticBinding.defs untidyController_def plainClientset_def)
  note both = system_instance_maintained [OF c(1,2,4,3), where s = ?s and n = 3 and pause = "\<lambda>w. ((), w)"]
  have "ReqDelete ''mgmt'' ConfigMapKind VerrazzanoNamespace ''other'' \<notin>
      set (requests (createUpdateGlobalEntitiesGoroutine 3 (\<lambda>w. ((), w)) systemBinding ?c) ?s)"
  proof
    assume "ReqDelete ''mgmt'' ConfigMapKind VerrazzanoNamespace ''other'' \<in>
      set (requests (createUpdateGlobalEntitiesGoroutine 3 (\<lambda>w. ((), w)) systemBinding ?c) ?s)"
    from safe_requests [OF both [THEN conjunct2] this] untidy_lists show False by (fastforce simp: Let_def names)
  qed
  moreover have "ReqDelete ''mgmt'' ConfigMapKind VerrazzanoNamespace ''stale'' \<in>
      set (requests (createUpdateGlobalEntities systemBinding ?c) ?s)"
  proof -
    have "safe (\<lambda>_. True) noPanic (CreateUpdateVmi plainRuntime systemBinding (vmoClientSet ?c) (vmiLister ?c)
        (verrazzanoURI ?c) (enableMonitoringStorage ?c)) anyResult"
      by (rule safe_CreateUpdateVmi) simp_all
    from finishes_returns [OF this finishes_local(1), of ?s] obtain e1 s1 where
      1: "CreateUpdateVmi plainRuntime systemBinding (vmoClientSet ?c) (vmiLister ?c)
        (verrazzanoURI ?c) (enableMonitoringStorage ?c) ?s = (Ret e1, s1)" by blast
    have "safe (\<lambda>_. True) noPanic (CreateVmiSecrets plainRuntime systemBinding (secrets ?c)) anyResult"
      unfolding c(3) by (rule ks.CreateVmiSecrets_safe [OF c(4)]) simp_all
    from finishes_returns [OF this, of s1] obtain e2 s2 where
      2: "CreateVmiSecrets plainRuntime systemBinding (secrets ?c) s1 = (Ret e2, s2)"
      unfolding c(3) using finishes_CreateVmiSecrets by blast
    obtain data where data: "addDashboards (\<lambda>_. Inr []) (dashboardsFor (plainRuntime :: unit runtime) (Name systemBinding)) [] = Inr data"
      using addDashboards_Inl [of "\<lambda>_. Inr []" "dashboardsFor (plainRuntime :: unit runtime) (Name systemBinding)" "[]"]
      by (cases "addDashboards (\<lambda>_. Inr []) (dashboardsFor (plainRuntime :: unit runtime) (Name systemBinding)) []") auto
    then obtain cm where cm: "newConfigMap (plainRuntime :: unit runtime) (\<lambda>_. Inr []) systemBinding = Inr cm"
      by (simp add: newConfigMap_def Let_def)
    have 3: "UpdateConfigMaps plainRuntime (\<lambda>_. Inr []) systemBinding (kubeClientSet ?c) (configMapLister ?c) s2 =
        (Ret None, s2\<lparr>sent := sent s2 @ [ReqDelete ''mgmt'' ConfigMapKind VerrazzanoNamespace ''stale'']\<rparr>)"
      using newConfigMap_meta [OF cm] cm names
      by (simp add: UpdateConfigMaps_def untidyController_def someConfigMap_def plainLister_def deleteListed_def matches_def
          call_defs gbind_def glift_def gsend_def gret_def plainClientset_def plainClient_def ObjectMeta.defs ConfigMap.defs
          noMeta_def const_defs)
    show ?thesis
      by (simp add: requests_def createUpdateGlobalEntities_def logged_def c(1,2) localPackage_def monitoringPackage_def
          gbind_def gret_def 1 2 3)
  qed
  ultimately show ?thesis by blast
qed

end
