(* ===== verification/Props_Registry.thy ===== *)
theory Props_Registry
  imports Props_Controller
begin

text \<open>
  Properties of what the controller records, whatever the interfaces behind it do: the invariant of
  every reachable controller, the refinement of the registry, and the schedule of synchronizations.
\<close>

section \<open>Reachable controllers\<close>

text \<open>C8: whatever events a controller without models and bindings has handled, and whatever its
  interfaces did: its maps are keyed by the names of what they hold; every pair is well formed, joins
  a recorded binding's name with the model it names, and every counter is of a recorded binding and
  between 0 and 4.\<close>

theorem controller_invariant:
  assumes "reachable R c"
  shows "controller_ok c"
  using assms by (rule reachable_ok)

definition plainModel :: SyntheticModel where
  "plainModel = noMeta\<lparr>Name := ''m'', ResourceVersion := ''1''\<rparr>"

text \<open>A binding arrives before its model, then the model.\<close>

abbreviation bound :: "unit Controller" where
  "bound \<equiv> (plainController [])\<lparr>applicationBindings := [(''b'', plainBinding)]\<rparr>"

abbreviation paired :: "unit Controller" where
  "paired \<equiv> bound\<lparr>applicationModels := [(''m'', plainModel)],
     SyntheticModelBindings := [(''b'', CreateSyntheticModelBinding plainModel plainBinding ''uri'' [])]\<rparr>"

lemma plainBinding_simps [simp]:
  "modelOf plainBinding = ''m''" "DeletionTimestamp plainBinding = None"
  by (simp_all add: plainBinding_def ObjectMeta.defs SyntheticBinding.defs noMeta_def)

lemma plainModel_simps [simp]: "Name plainModel = ''m''"
  by (simp add: plainModel_def)

lemma bound_step: "cstep plainRuntime (plainController []) (BindingAdded plainBinding) bound"
proof (rule handled)
  show "handle plainRuntime (BindingAdded plainBinding) (plainController []) \<lparr>sent = [], world = ()\<rparr> =
      (Ret bound, \<lparr>sent = [], world = ()\<rparr>)"
    by (simp add: processApplicationBindingAdded_def noteBinding_def syncPair_def
        getSyntheticModelBinding_def plainController_def gret_def)
qed

lemma paired_step: "cstep plainRuntime bound (ModelAdded plainModel) paired"
proof (rule handled)
  show "handle plainRuntime (ModelAdded plainModel) bound \<lparr>sent = [], world = ()\<rparr> =
      (Ret paired, \<lparr>sent = [], world = ()\<rparr>)"
    by (simp add: processApplicationModelAdded_def plainController_def gret_def gbind_def glift_def
        plainRuntime_def)
qed

lemma bound_reachable: "reachable plainRuntime bound"
  by (rule later [OF initial [OF plain_fresh] bound_step])

lemma controller_invariant_witness: "controller_ok paired"
  by (rule controller_invariant [OF later [OF bound_reachable paired_step]])

text \<open>C9: every handler implements the specification of the registry: on any reachable controller, a
  handler that returns has made one of the abstract steps its event allows.\<close>

theorem registry_refinement:
  assumes "reachable R c" "cstep R c e c'" "fairOrder R"
  shows "regStep e (registryOf c) (registryOf c')"
  by (rule step_refines [OF assms(2) reachable_ok [OF assms(1)] assms(3)])

lemma registry_refinement_witness:
  "regStep (ModelAdded plainModel) (registryOf bound) (registryOf paired) \<and>
   rPairs (registryOf paired) ''b'' = Some (plainModel, plainBinding)"
  using registry_refinement [OF bound_reachable paired_step plain_fair] by simp

section \<open>Deletion\<close>

text \<open>The deletion of a binding is all or nothing: the handler leaves the controller as it was, or
  the binding had the finalizer and a pair and is gone from the bindings, the pairs and the counters,
  with nothing else changed.\<close>

theorem binding_deleted_all_or_nothing:
  "returns (processApplicationBindingDeleted R c b)
     (\<lambda>c'. c' = c \<or>
        (bindingFinalizer \<in> set (Finalizers b) \<and> mlookup (SyntheticModelBindings c) (Name b) \<noteq> None \<and>
         c' = c\<lparr>applicationBindings := mdelete (Name b) (applicationBindings c),
                SyntheticModelBindings := mdelete (Name b) (SyntheticModelBindings c),
                bindingSyncThreshold := mdelete (Name b) (bindingSyncThreshold c)\<rparr>))"
  using binding_deleted_returns [of R c b]
  unfolding getSyntheticModelBinding_def forgetBinding_def .

section \<open>Synchronization\<close>

text \<open>The controller after \<open>n\<close> events of a binding.\<close>

fun noteTimes :: "nat \<Rightarrow> SyntheticBinding \<Rightarrow> 'w Controller \<Rightarrow> 'w Controller" where
  "noteTimes 0 b c = c"
| "noteTimes (Suc n) b c = fst (noteBinding (noteTimes n b c) b)"

lemma noteTimes_state:
  assumes "mlookup (applicationBindings c) (Name b) = Some b0" "ResourceVersion b0 = ResourceVersion b"
    and "mlookup (bindingSyncThreshold c) (Name b) = None"
  shows "mlookup (applicationBindings (noteTimes n b c)) (Name b) = Some b0 \<and>
    mlookup (bindingSyncThreshold (noteTimes n b c)) (Name b) =
      (if n = 0 then None else Some (int ((n - 1) mod 5)))"
proof (induction n)
  case (Suc n)
  have "int (n mod 5) < 5" by simp
  have step: "(Suc k) mod 5 = (if k mod 5 = 4 then 0 else Suc (k mod 5))" for k :: nat
    by (simp add: mod_Suc)
  show ?case
  proof (cases n)
    case 0
    with Suc assms(2) show ?thesis by (simp add: noteBinding_def Let_def)
  next
    case (Suc k)
    with \<open>int (n mod 5) < 5\<close> Suc.IH assms(2) show ?thesis
      by (auto simp: noteBinding_def Let_def step)
  qed
qed (simp add: assms)

text \<open>C32: a binding whose resource version stays the same is synchronized again first at the sixth event
  that repeats it, and then at every fifth.\<close>

theorem sync_schedule:
  assumes "mlookup (applicationBindings c) (Name b) = Some b0" "ResourceVersion b0 = ResourceVersion b"
    and "mlookup (bindingSyncThreshold c) (Name b) = None"
  shows "snd (noteBinding (noteTimes n b c) b) \<longleftrightarrow> n > 0 \<and> n mod 5 = 0"
proof (cases n)
  case (Suc k)
  have "k mod 5 < 5" by simp
  moreover have "Suc k mod 5 = 0 \<longleftrightarrow> k mod 5 = 4" by (simp add: mod_Suc)
  ultimately show ?thesis
    using noteTimes_state [OF assms, of n] assms(2) Suc
    by (auto simp: noteBinding_def Let_def)
qed (use noteTimes_state [OF assms, of n] assms(2) in \<open>simp add: noteBinding_def Let_def\<close>)

lemma sync_schedule_witness:
  "snd (noteBinding (noteTimes 5 plainBinding bound) plainBinding) \<and>
   \<not> snd (noteBinding (noteTimes 6 plainBinding bound) plainBinding)"
proof -
  have "mlookup (applicationBindings bound) (Name plainBinding) = Some plainBinding"
    "mlookup (bindingSyncThreshold bound) (Name plainBinding) = None"
    by (simp_all add: plainController_def)
  from sync_schedule [OF this(1) refl this(2)] show ?thesis by simp
qed

end
