(* ===== verification/Object_Store.thy ===== *)
theory Object_Store
  imports Types
begin

text \<open>
  What the reconcilers achieve when the API servers of the managed clusters behave: the contract
  \<open>api_store\<close> of a client on a store of objects, its extensions \<open>read_store\<close> and \<open>kind_store\<close> to a lister that reads
  the same store, by name or also by label, the rules for ranging over clusters, and what the loops that delete achieve, proved once
  for every kind of object. A client stores what it is sent up to what \<^verbatim>\<open>diff.Diff\<close> disregards, as an API server does
  that fills in defaults.
\<close>

section \<open>Stores\<close>

text \<open>The objects of one kind: by client, namespace (empty for cluster-scoped kinds) and name.\<close>

type_synonym 'o store = "string \<Rightarrow> string \<Rightarrow> string \<Rightarrow> 'o option"

definition put :: "string \<Rightarrow> string \<Rightarrow> string \<Rightarrow> 'o option \<Rightarrow> 'o store \<Rightarrow> 'o store" where
  "put cl ns n x v = v(cl := (v cl)(ns := (v cl ns)(n := x)))"

lemma put_apply: "put cl ns n x v cl' ns' n' = (if cl' = cl \<and> ns' = ns \<and> n' = n then x else v cl' ns' n')"
  by (simp add: put_def)

text \<open>Every object is stored under its own namespace and name.\<close>

definition placed :: "('a ObjectMeta_scheme \<Rightarrow> string) \<Rightarrow> 'a ObjectMeta_scheme store \<Rightarrow> bool" where
  "placed nsOf v \<longleftrightarrow> (\<forall>cl ns n x. v cl ns n = Some x \<longrightarrow> Name x = n \<and> nsOf x = ns)"

definition stored :: "'o store \<Rightarrow> string \<Rightarrow> string \<Rightarrow> 'o set" where
  "stored v cl ns = {x. \<exists>ns' n. (ns = [] \<or> ns' = ns) \<and> v cl ns' n = Some x}"

section \<open>Contracts\<close>

text \<open>
  The client \<open>rc c\<close> of each connection \<open>c\<close> is a store of its own, which \<open>view\<close> sees; \<open>rest\<close> is what
  else there is to see, which creating and updating objects of this kind leaves alone. Objects are
  stored under their name and the namespace \<open>nsOf\<close> gives them, which is empty for a cluster-scoped
  kind. An object can be created where \<open>ok\<close>, on what else there is, allows its key: typically if its
  namespace exists. A list of all namespaces is asked for with the empty one. Going over a map changes
  nothing.
\<close>

text \<open>
  The answer to a lookup: the object, or a not-found error, beside which client-go returns an empty object
  and its fake client set nil.
\<close>

definition answers :: "('o result \<times> 'w) \<Rightarrow> 'o option \<Rightarrow> string \<Rightarrow> 'w \<Rightarrow> bool" where
  "answers r x n w \<longleftrightarrow> snd r = w \<and>
     (case x of Some y \<Rightarrow> fst r = (Some y, None) | None \<Rightarrow> snd (fst r) = Some (ErrNotFound n))"

locale api_store =
  fixes R :: "'w runtime" and conns :: "'w connections"
    and wrap :: "'a ObjectMeta_scheme \<Rightarrow> kobj"
    and nsOf :: "'a ObjectMeta_scheme \<Rightarrow> string"
    and ok :: "'r \<Rightarrow> string \<Rightarrow> string \<Rightarrow> string \<Rightarrow> bool"
    and rc :: "'w ManagedClusterConnection \<Rightarrow> ('a ObjectMeta_scheme, 'w) rclient"
    and view :: "'w \<Rightarrow> 'a ObjectMeta_scheme store" and rest :: "'w \<Rightarrow> 'r"
  assumes order_view: "view (snd (rangeOrder R ks w)) = view w"
    and order_rest: "rest (snd (rangeOrder R ks w)) = rest w"
    and own_client: "mlookup conns k = Some c \<Longrightarrow> mlookup conns k' = Some c' \<Longrightarrow>
      connName c = connName c' \<Longrightarrow> k = k'"
    and view_placed: "placed nsOf (view w)"
    and get_view: "mlookup conns k = Some c \<Longrightarrow> answers (rcGet (rc c) ns n w) (view w (connName c) ns n) n w"
    and list_view: "mlookup conns k = Some c \<Longrightarrow> \<exists>xs. rcList (rc c) ns w = ((xs, None), w) \<and>
      distinct xs \<and> set xs = stored (view w) (connName c) ns"
    and create_view: "mlookup conns k = Some c \<Longrightarrow> ok (rest w) (connName c) (nsOf x) (Name x) \<Longrightarrow>
      view w (connName c) (nsOf x) (Name x) = None \<Longrightarrow>
      \<exists>r y w'. rcCreate (rc c) (nsOf x) x w = ((r, None), w') \<and> Diff R (wrap y) (wrap x) = [] \<and>
        view w' = put (connName c) (nsOf x) (Name x) (Some y) (view w) \<and> rest w' = rest w"
    and update_view: "mlookup conns k = Some c \<Longrightarrow> view w (connName c) (nsOf x) (Name x) = Some old \<Longrightarrow>
      \<exists>r y w'. rcUpdate (rc c) (nsOf x) x w = ((r, None), w') \<and> Diff R (wrap y) (wrap x) = [] \<and>
        view w' = put (connName c) (nsOf x) (Name x) (Some y) (view w) \<and> rest w' = rest w"
    and delete_view: "mlookup conns k = Some c \<Longrightarrow> view w (connName c) ns n = Some old \<Longrightarrow>
      \<exists>w'. rcDelete (rc c) ns n w = (None, w') \<and> view w' = put (connName c) ns n None (view w)"

text \<open>A lister, \<open>ls c\<close>, that reads the store of the client: by name, and also by label selector.\<close>

locale read_store = api_store R conns wrap nsOf ok rc view rest
  for R :: "'w runtime" and conns and wrap :: "'a ObjectMeta_scheme \<Rightarrow> kobj" and nsOf
    and ok :: "'r \<Rightarrow> string \<Rightarrow> string \<Rightarrow> string \<Rightarrow> bool" and rc and view and rest +
  fixes ls :: "'w ManagedClusterConnection \<Rightarrow> ('a ObjectMeta_scheme, 'w) lister"
  assumes lister_get: "mlookup conns k = Some c \<Longrightarrow> lsGet (ls c) ns n w =
      ((view w (connName c) ns n, if view w (connName c) ns n = None then Some (ErrNotFound n) else None), w)"

locale kind_store = read_store R conns wrap nsOf ok rc view rest ls
  for R :: "'w runtime" and conns and wrap :: "'a ObjectMeta_scheme \<Rightarrow> kobj" and nsOf
    and ok :: "'r \<Rightarrow> string \<Rightarrow> string \<Rightarrow> string \<Rightarrow> bool" and rc and view and rest and ls +
  assumes lister_list: "mlookup conns k = Some c \<Longrightarrow> \<exists>xs. lsList (ls c) ns sel w = ((xs, None), w) \<and>
      distinct xs \<and> set xs = {x \<in> stored (view w) (connName c) ns. matches sel (Labels x)}"

lemma kind_store_api:
  "kind_store R conns wrap nsOf ok rc view rest ls \<Longrightarrow> api_store R conns wrap nsOf ok rc view rest"
  by (drule kind_store.axioms(1), erule read_store.axioms(1))

section \<open>Ranging over clusters\<close>

text \<open>
  A range over the clusters of a pair, or over connections, whose bodies succeed from an invariant
  and extend it by their key, succeeds and has been through every key.
\<close>

lemma wpt_rangeMap:
  assumes fair: "fairOrder R"
    and ord: "\<And>ks. I [] (s\<lparr>world := snd (rangeOrder R ks (world s))\<rparr>)"
    and step: "\<And>k v ys s. mlookup m k = Some v \<Longrightarrow> I ys s \<Longrightarrow>
      wpt (f k v) (\<lambda>e s'. e = None \<and> I (ys @ [k]) s') s"
  shows "wpt (rangeMap R m f) (\<lambda>e s'. e = None \<and> (\<exists>ks. set ks = dom (mlookup m) \<and> I ks s')) s"
proof -
  let ?f = "\<lambda>k. case mlookup m k of None \<Rightarrow> gret None | Some v \<Rightarrow> f k v"
  obtain ks w where o: "rangeOrder R (keys m) (world s) = (ks, w)" by fastforce
  have ks: "set ks = dom (mlookup m)"
    using fair o unfolding fairOrder_def by (metis fst_conv set_keys)
  have I: "I [] (s\<lparr>world := w\<rparr>)" using ord [of "keys m"] o by simp
  have "wpt (rangeE ?f ks) (\<lambda>e s'. e = None \<and> I ([] @ ks) s') (s\<lparr>world := w\<rparr>)"
  proof (rule wpt_rangeE [where I = I])
    fix k s' ys assume "k \<in> set ks" and I': "I ys s'"
    then obtain v where v: "mlookup m k = Some v" using ks by auto
    from step [OF v I'] v show "wpt (?f k) (\<lambda>e s'. e = None \<and> I (ys @ [k]) s') s'" by simp
  qed (rule I)
  then have "wpt (rangeE ?f ks) (\<lambda>e s'. e = None \<and> (\<exists>ks. set ks = dom (mlookup m) \<and> I ks s'))
      (s\<lparr>world := w\<rparr>)"
    by (rule wpt_mono) (use ks in auto)
  then show ?thesis
    by (simp add: rangeMap_def wpt_gbind wpt_glift o)
qed

lemma wpt_rangeClusters:
  assumes fair: "fairOrder R" and cov: "covers conns mcs"
    and ord: "\<And>ks. I [] (s\<lparr>world := snd (rangeOrder R ks (world s))\<rparr>)"
    and step: "\<And>k mc c ys s. mlookup mcs k = Some mc \<Longrightarrow> mlookup conns k = Some c \<Longrightarrow> I ys s \<Longrightarrow>
      wpt (body k mc c) (\<lambda>e s'. e = None \<and> I (ys @ [k]) s') s"
  shows "wpt (rangeClusters R mcs conns body)
    (\<lambda>e s'. e = None \<and> (\<exists>ks. set ks = dom (mlookup mcs) \<and> I ks s')) s"
  unfolding rangeClusters_def
proof (rule wpt_rangeMap [where I = I, OF fair ord])
  fix k mc ys s assume mc: "mlookup mcs k = Some mc" and I: "I ys s"
  with coversD [OF cov mc] step [OF mc _ I]
  show "wpt (deref (mlookup conns k) (body k mc)) (\<lambda>e s'. e = None \<and> I (ys @ [k]) s') s" by auto
qed

section \<open>Deletions\<close>

text \<open>The view without some of the objects of one cluster.\<close>

definition erase :: "string \<Rightarrow> 'o set \<Rightarrow> 'o store \<Rightarrow> 'o store" where
  "erase c X v cl ns n =
     (case v cl ns n of None \<Rightarrow> None | Some x \<Rightarrow> if cl = c \<and> x \<in> X then None else Some x)"

lemma erase_empty [simp]: "erase c {} v = v"
  by (simp add: erase_def fun_eq_iff split: option.split)

lemma erase_erase: "erase c Y (erase c {x} v) = erase c (insert x Y) v"
  by (auto simp: erase_def fun_eq_iff split: option.split)

lemma placed_erase: "placed nsOf v \<Longrightarrow> placed nsOf (erase c X v)"
  by (auto simp: placed_def erase_def split: option.splits if_splits)

lemma erase_other: "v cl ns n = Some y \<Longrightarrow> y \<notin> X \<Longrightarrow> erase c X v cl ns n = Some y"
  by (simp add: erase_def)

lemma erase_put:
  assumes "placed nsOf v" "v c (nsOf x) (Name x) = Some x"
  shows "put c (nsOf x) (Name x) None v = erase c {x} v"
proof (intro ext)
  fix cl ns n
  show "put c (nsOf x) (Name x) None v cl ns n = erase c {x} v cl ns n"
  proof (cases "v cl ns n = Some x")
    case True
    with assms(1) have "ns = nsOf x" "n = Name x" unfolding placed_def by blast+
    with True show ?thesis by (simp add: put_apply erase_def)
  next
    case False
    with assms(2) have "\<not> (cl = c \<and> ns = nsOf x \<and> n = Name x)" by auto
    with False show ?thesis by (cases "v cl ns n") (auto simp: put_apply erase_def)
  qed
qed

text \<open>What one call of \<^const>\<open>deleteListed\<close> is asked to delete from the cluster \<open>k\<close>.\<close>

definition picked ::
  "string \<Rightarrow> (string \<Rightarrow> selector) \<Rightarrow> (string \<Rightarrow> 'a ObjectMeta_scheme \<Rightarrow> bool) \<Rightarrow>
   string \<Rightarrow> string \<Rightarrow> 'a ObjectMeta_scheme \<Rightarrow> bool" where
  "picked ns sel pick k ns' x \<longleftrightarrow> (ns = [] \<or> ns' = ns) \<and> matches (sel k) (Labels x) \<and> pick k x"

lemma erase_picked:
  assumes "placed nsOf v"
  shows "erase cl {x \<in> stored v cl ns. matches (sel k) (Labels x) \<and> pick k x} v cl' ns' n =
    (case v cl' ns' n of None \<Rightarrow> None
     | Some x \<Rightarrow> if cl' = cl \<and> picked ns sel pick k ns' x then None else Some x)"
proof (cases "v cl' ns' n")
  case (Some x)
  have "v cl ns'' n'' = Some x \<Longrightarrow> ns'' = ns'" for ns'' n''
    using assms Some unfolding placed_def by metis
  with Some show ?thesis by (auto simp: erase_def picked_def stored_def)
qed (simp add: erase_def)

text \<open>
  The view after the deletion, on the clusters of some connections with keys in a set, of the
  objects \<open>gone\<close> selects.
\<close>

definition purgeOn ::
  "string set \<Rightarrow> 'w connections \<Rightarrow> (string \<Rightarrow> string \<Rightarrow> 'o \<Rightarrow> bool) \<Rightarrow> 'o store \<Rightarrow> 'o store" where
  "purgeOn ks cs gone v cl ns n =
     (case v cl ns n of None \<Rightarrow> None
      | Some x \<Rightarrow> if \<exists>k \<in> ks. \<exists>c. mlookup cs k = Some c \<and> cl = connName c \<and> gone k ns x then None else Some x)"

abbreviation purge :: "'w connections \<Rightarrow> (string \<Rightarrow> string \<Rightarrow> 'o \<Rightarrow> bool) \<Rightarrow> 'o store \<Rightarrow> 'o store" where
  "purge cs \<equiv> purgeOn (dom (mlookup cs)) cs"

lemma purgeOn_empty [simp]: "purgeOn {} cs gone v = v"
  by (simp add: purgeOn_def fun_eq_iff split: option.split)

lemma placed_purgeOn: "placed nsOf v \<Longrightarrow> placed nsOf (purgeOn ks cs gone v)"
  by (auto simp: placed_def purgeOn_def split: option.splits if_splits)

lemma purgeOn_step:
  assumes "placed nsOf v" "mlookup cs k = Some c"
  shows "erase (connName c) {x \<in> stored (purgeOn ks cs (picked ns sel pick) v) (connName c) ns.
      matches (sel k) (Labels x) \<and> pick k x} (purgeOn ks cs (picked ns sel pick) v) =
    purgeOn (insert k ks) cs (picked ns sel pick) v"
proof (intro ext)
  fix cl ns' n
  show "erase (connName c) {x \<in> stored (purgeOn ks cs (picked ns sel pick) v) (connName c) ns.
      matches (sel k) (Labels x) \<and> pick k x} (purgeOn ks cs (picked ns sel pick) v) cl ns' n =
    purgeOn (insert k ks) cs (picked ns sel pick) v cl ns' n"
    unfolding erase_picked [OF placed_purgeOn [OF assms(1)]]
    using assms(2) by (cases "v cl ns' n") (auto simp: purgeOn_def)
qed

text \<open>
  A loop over objects with a step that removes the object it is given, and a range over connections with
  a body that erases from their cluster what \<open>picked\<close> selects.
\<close>

lemma wpt_rangeE_erases:
  assumes placed: "\<And>w. placed nsOf (view w)"
    and step: "\<And>x s. view (world s) cl (nsOf x) (Name x) = Some x \<Longrightarrow>
      wpt (m x) (\<lambda>e s'. e = None \<and> view (world s') = put cl (nsOf x) (Name x) None (view (world s))) s"
  shows "distinct xs \<Longrightarrow> \<forall>x \<in> set xs. view (world s) cl (nsOf x) (Name x) = Some x \<Longrightarrow>
    wpt (rangeE (\<lambda>x. if pick x then m x else gret None) xs)
      (\<lambda>e s'. e = None \<and> view (world s') = erase cl {x \<in> set xs. pick x} (view (world s))) s"
proof (induction xs arbitrary: s)
  case (Cons x xs)
  show ?case
  proof (cases "pick x")
    case False
    with Cons.prems Cons.IH [of s] show ?thesis
      by (auto simp: Collect_disj_eq elim!: wpt_mono intro: arg_cong2 [where f = "erase cl"])
  next
    case True
    from Cons.prems(2) have at: "view (world s) cl (nsOf x) (Name x) = Some x" by simp
    have rest: "wpt (rangeE (\<lambda>x. if pick x then m x else gret None) xs) (\<lambda>e s'. e = None \<and>
        view (world s') = erase cl {y \<in> set (x # xs). pick y} (view (world s))) s1"
      if v: "view (world s1) = put cl (nsOf x) (Name x) None (view (world s))" for s1
    proof -
      note v = v [unfolded erase_put [OF placed at]]
      have "wpt (rangeE (\<lambda>x. if pick x then m x else gret None) xs) (\<lambda>e s'. e = None \<and>
          view (world s') = erase cl {x \<in> set xs. pick x} (view (world s1))) s1"
        using Cons.prems by (intro Cons.IH) (auto simp: v intro!: erase_other)
      moreover have "{y \<in> set (x # xs). pick y} = insert x {y \<in> set xs. pick y}" using True by auto
      ultimately show ?thesis by (simp add: v erase_erase)
    qed
    have "wpt (m x) (\<lambda>e. wpt (case e of None \<Rightarrow> rangeE (\<lambda>x. if pick x then m x else gret None) xs
          | Some e \<Rightarrow> gret (Some e))
        (\<lambda>e s'. e = None \<and> view (world s') = erase cl {y \<in> set (x # xs). pick y} (view (world s)))) s"
      by (rule wpt_mono [OF step [OF at]]) (use rest in auto)
    with True show ?thesis by (simp add: wpt_gbind)
  qed
qed (simp add: wpt_gret)

lemma wpt_rangeMap_purges:
  fixes view :: "'w \<Rightarrow> 'a ObjectMeta_scheme store"
  assumes fair: "fairOrder R" and order: "\<And>ks w. view (snd (rangeOrder R ks w)) = view w"
    and placed: "\<And>w. placed nsOf (view w)"
    and body: "\<And>k c s. mlookup cs k = Some c \<Longrightarrow> wpt (body k c) (\<lambda>e s'. e = None \<and> view (world s') =
      erase (connName c) {x \<in> stored (view (world s)) (connName c) ns. matches (sel k) (Labels x) \<and> pick k x} (view (world s))) s"
  shows "wpt (rangeMap R cs body) (\<lambda>e s'. e = None \<and> view (world s') = purge cs (picked ns sel pick) (view (world s))) s"
proof -
  let ?I = "\<lambda>ks s'. view (world s') = purgeOn (set ks) cs (picked ns sel pick) (view (world s))"
  have "wpt (rangeMap R cs body) (\<lambda>e s'. e = None \<and> (\<exists>ks. set ks = dom (mlookup cs) \<and> ?I ks s')) s"
  proof (rule wpt_rangeMap [where I = ?I, OF fair])
    fix k c ys and s1 :: "'w state"
    assume k: "mlookup cs k = Some c" and I: "?I ys s1"
    from body [OF k, of s1] show "wpt (body k c) (\<lambda>e s'. e = None \<and> ?I (ys @ [k]) s') s1"
      by (simp add: I purgeOn_step [OF placed k])
  qed (simp add: order)
  then show ?thesis by (rule wpt_mono) auto
qed

context kind_store
begin

text \<open>The loop of every deletion: over the objects of one cluster, and over clusters.\<close>

abbreviation deleteAll ::
  "'w ManagedClusterConnection \<Rightarrow> kind \<Rightarrow> ('a ObjectMeta_scheme \<Rightarrow> bool) \<Rightarrow> 'a ObjectMeta_scheme list \<Rightarrow> ('w, err option) prog" where
  "deleteAll c K pick xs \<equiv>
     rangeE (\<lambda>x. if pick x then clientDelete (connName c) K (rc c) (nsOf x) (Name x) else gret None) xs"

lemma deleteAll_erases:
  assumes c: "mlookup conns k = Some c" and "distinct xs"
    and "\<forall>x \<in> set xs. view (world s) (connName c) (nsOf x) (Name x) = Some x"
  shows "wpt (deleteAll c K pick xs)
    (\<lambda>e s'. e = None \<and> view (world s') = erase (connName c) {x \<in> set xs. pick x} (view (world s))) s"
proof (rule wpt_rangeE_erases [where view = view and nsOf = nsOf, OF view_placed _ assms(2,3)])
  fix x and s :: "'w state" assume "view (world s) (connName c) (nsOf x) (Name x) = Some x"
  from delete_view [OF c this] obtain w' where "rcDelete (rc c) (nsOf x) (Name x) (world s) = (None, w')"
    "view w' = put (connName c) (nsOf x) (Name x) None (view (world s))" by blast
  then show "wpt (clientDelete (connName c) K (rc c) (nsOf x) (Name x))
      (\<lambda>e s'. e = None \<and> view (world s') = put (connName c) (nsOf x) (Name x) None (view (world s))) s"
    by (simp add: wp_simps call_defs)
qed

lemma deleteListed_view:
  assumes c: "mlookup conns k = Some c"
  shows "wpt (deleteListed (connName c) K (ls c) (rc c) ns sel nsOf pick) (\<lambda>e s'. e = None \<and>
    view (world s') = erase (connName c)
      {x \<in> stored (view (world s)) (connName c) ns. matches sel (Labels x) \<and> pick x} (view (world s))) s"
proof -
  from lister_list [OF c, of ns sel "world s"] obtain xs where
    l: "lsList (ls c) ns sel (world s) = ((xs, None), world s)" and "distinct xs"
    and xs: "set xs = {x \<in> stored (view (world s)) (connName c) ns. matches sel (Labels x)}" by blast
  moreover have "view (world s) (connName c) (nsOf x) (Name x) = Some x" if "x \<in> set xs" for x
  proof -
    from that obtain ns' n where "view (world s) (connName c) ns' n = Some x"
      unfolding xs stored_def by blast
    with view_placed show ?thesis unfolding placed_def by blast
  qed
  moreover have "{x \<in> set xs. pick x} = {x \<in> stored (view (world s)) (connName c) ns. matches sel (Labels x) \<and> pick x}"
    unfolding xs by blast
  ultimately show ?thesis
    using deleteAll_erases [OF c, where xs = xs and K = K and pick = pick]
    by (simp add: deleteListed_def wpt_gbind call_defs wp_simps)
qed

lemma deleteListed_purges:
  assumes fair: "fairOrder R"
    and sub: "\<And>k c. mlookup cs k = Some c \<Longrightarrow> mlookup conns k = Some c"
  shows "wpt (rangeMap R cs (\<lambda>k c. deleteListed (connName c) K (ls c) (rc c) ns (sel k) nsOf (pick k)))
    (\<lambda>e s'. e = None \<and> view (world s') = purge cs (picked ns sel pick) (view (world s))) s"
  by (rule wpt_rangeMap_purges [OF fair order_view view_placed]) (rule deleteListed_view [OF sub])

end

end
