(* ===== verification/Reconciling.thy ===== *)
theory Reconciling
  imports Object_Store
begin

text \<open>
  What the loops that create achieve. A \<open>reconciler\<close> handles one wanted object on one cluster: where
  the object can be created it succeeds and leaves its entry of the store \<open>good\<close>, it changes the entry
  only where it \<open>may\<close>, and it does nothing if the entry is good already. The loops over the objects
  wanted on a cluster and over the clusters then succeed, leave every entry good, change no other, and
  do nothing the second time. The two reconcilers of the repository, which create or update and which
  create only, are sublocales of the contract of a lister.
\<close>

section \<open>What is to be achieved\<close>

text \<open>Every wanted object's entry is good.\<close>

definition goodAll ::
  "('a ObjectMeta_scheme option \<Rightarrow> 'a ObjectMeta_scheme \<Rightarrow> bool) \<Rightarrow> ('a ObjectMeta_scheme \<Rightarrow> string) \<Rightarrow>
   'w connections \<Rightarrow> ManagedCluster gomap \<Rightarrow> (string \<Rightarrow> ManagedCluster \<Rightarrow> 'a ObjectMeta_scheme list) \<Rightarrow>
   'a ObjectMeta_scheme store \<Rightarrow> bool" where
  "goodAll good nsOf conns mcs wanted v \<longleftrightarrow>
     (\<forall>k mc c x. mlookup mcs k = Some mc \<longrightarrow> mlookup conns k = Some c \<longrightarrow> x \<in> set (wanted k mc) \<longrightarrow>
        good (v (connName c) (nsOf x) (Name x)) x)"

text \<open>What has changed is wanted and was allowed to change.\<close>

definition changes ::
  "('a ObjectMeta_scheme option \<Rightarrow> bool) \<Rightarrow> ('a ObjectMeta_scheme \<Rightarrow> string) \<Rightarrow> 'w connections \<Rightarrow>
   ManagedCluster gomap \<Rightarrow> (string \<Rightarrow> ManagedCluster \<Rightarrow> 'a ObjectMeta_scheme list) \<Rightarrow>
   'a ObjectMeta_scheme store \<Rightarrow> 'a ObjectMeta_scheme store \<Rightarrow> bool" where
  "changes may nsOf conns mcs wanted v v' \<longleftrightarrow>
     (\<forall>cl ns n. v' cl ns n = v cl ns n \<or> may (v cl ns n) \<and>
        (\<exists>k mc c x. mlookup mcs k = Some mc \<and> mlookup conns k = Some c \<and> x \<in> set (wanted k mc) \<and>
           cl = connName c \<and> ns = nsOf x \<and> n = Name x))"

lemma changes_refl [simp]: "changes may nsOf conns mcs wanted v v"
  by (simp add: changes_def)

lemma changes_trans:
  assumes "changes may nsOf conns mcs wanted u v" "changes may nsOf conns mcs wanted v w"
  shows "changes may nsOf conns mcs wanted u w"
  using assms unfolding changes_def by metis

text \<open>What is to be achieved, and nothing else.\<close>

definition converged ::
  "('a ObjectMeta_scheme option \<Rightarrow> 'a ObjectMeta_scheme \<Rightarrow> bool) \<Rightarrow> ('a ObjectMeta_scheme option \<Rightarrow> bool) \<Rightarrow>
   ('a ObjectMeta_scheme \<Rightarrow> string) \<Rightarrow> 'w connections \<Rightarrow> ManagedCluster gomap \<Rightarrow>
   (string \<Rightarrow> ManagedCluster \<Rightarrow> 'a ObjectMeta_scheme list) \<Rightarrow>
   'a ObjectMeta_scheme store \<Rightarrow> 'a ObjectMeta_scheme store \<Rightarrow> bool" where
  "converged good may nsOf conns mcs wanted v v' \<longleftrightarrow>
     goodAll good nsOf conns mcs wanted v' \<and> changes may nsOf conns mcs wanted v v'"

text \<open>No two different objects are wanted under one key.\<close>

definition keyed :: "('a ObjectMeta_scheme \<Rightarrow> string) \<Rightarrow> 'a ObjectMeta_scheme list \<Rightarrow> bool" where
  "keyed nsOf xs \<longleftrightarrow> (\<forall>x \<in> set xs. \<forall>y \<in> set xs. nsOf x = nsOf y \<longrightarrow> Name x = Name y \<longrightarrow> x = y)"

text \<open>Everything that is wanted can be created.\<close>

definition allowed ::
  "(string \<Rightarrow> string \<Rightarrow> string \<Rightarrow> bool) \<Rightarrow> ('a ObjectMeta_scheme \<Rightarrow> string) \<Rightarrow> 'w connections \<Rightarrow>
   ManagedCluster gomap \<Rightarrow> (string \<Rightarrow> ManagedCluster \<Rightarrow> 'a ObjectMeta_scheme list) \<Rightarrow> bool" where
  "allowed ok nsOf conns mcs wanted \<longleftrightarrow> (\<forall>k mc c. mlookup mcs k = Some mc \<longrightarrow> mlookup conns k = Some c \<longrightarrow>
     (\<forall>x \<in> set (wanted k mc). ok (connName c) (nsOf x) (Name x)))"

text \<open>
  What a reconciler of one kind is to do. Where everything wanted can be created it ends without an
  error and converges; where everything wanted is good it ends without an error and neither sends nor
  changes anything.
\<close>

definition reconciles ::
  "('a ObjectMeta_scheme option \<Rightarrow> 'a ObjectMeta_scheme \<Rightarrow> bool) \<Rightarrow> ('a ObjectMeta_scheme option \<Rightarrow> bool) \<Rightarrow>
   ('a ObjectMeta_scheme \<Rightarrow> string) \<Rightarrow> ('r \<Rightarrow> string \<Rightarrow> string \<Rightarrow> string \<Rightarrow> bool) \<Rightarrow> 'w connections \<Rightarrow>
   ManagedCluster gomap \<Rightarrow> (string \<Rightarrow> ManagedCluster \<Rightarrow> 'a ObjectMeta_scheme list) \<Rightarrow>
   ('w \<Rightarrow> 'a ObjectMeta_scheme store) \<Rightarrow> ('w \<Rightarrow> 'r) \<Rightarrow> ('w, err option) prog \<Rightarrow> bool" where
  "reconciles good may nsOf ok conns mcs wanted view rest m \<longleftrightarrow>
     (\<forall>s. allowed (ok (rest (world s))) nsOf conns mcs wanted \<longrightarrow>
        (\<exists>s'. m s = (Ret None, s') \<and> rest (world s') = rest (world s) \<and>
           converged good may nsOf conns mcs wanted (view (world s)) (view (world s')))) \<and>
     (\<forall>s. goodAll good nsOf conns mcs wanted (view (world s)) \<longrightarrow>
        (\<exists>s'. m s = (Ret None, s') \<and> sent s' = sent s \<and> rest (world s') = rest (world s) \<and>
           view (world s') = view (world s)))"

section \<open>Reconcilers\<close>

locale reconciler = api_store R conns wrap nsOf ok rc view rest
  for R :: "'w runtime" and conns and wrap :: "'a ObjectMeta_scheme \<Rightarrow> kobj" and nsOf
    and ok :: "'r \<Rightarrow> string \<Rightarrow> string \<Rightarrow> string \<Rightarrow> bool" and rc and view and rest +
  fixes good :: "'a ObjectMeta_scheme option \<Rightarrow> 'a ObjectMeta_scheme \<Rightarrow> bool"
    and may :: "'a ObjectMeta_scheme option \<Rightarrow> bool"
    and ensure :: "'w ManagedClusterConnection \<Rightarrow> 'a ObjectMeta_scheme \<Rightarrow> ('w, err option) prog"
  assumes ensure_works: "mlookup conns k = Some c \<Longrightarrow> ok (rest (world s)) (connName c) (nsOf x) (Name x) \<Longrightarrow>
      \<not> good (view (world s) (connName c) (nsOf x) (Name x)) x \<Longrightarrow>
      \<exists>s' y. ensure c x s = (Ret None, s') \<and> rest (world s') = rest (world s) \<and>
        may (view (world s) (connName c) (nsOf x) (Name x)) \<and> good y x \<and>
        view (world s') = put (connName c) (nsOf x) (Name x) y (view (world s))"
    and ensure_idle: "mlookup conns k = Some c \<Longrightarrow> good (view (world s) (connName c) (nsOf x) (Name x)) x \<Longrightarrow>
      ensure c x s = (Ret None, s)"
begin

abbreviation goodAt :: "'w \<Rightarrow> 'w ManagedClusterConnection \<Rightarrow> 'a ObjectMeta_scheme \<Rightarrow> bool" where
  "goodAt w c x \<equiv> good (view w (connName c) (nsOf x) (Name x)) x"

lemma ensure_good:
  assumes c: "mlookup conns k = Some c" and "ok (rest (world s)) (connName c) (nsOf x) (Name x)"
  shows "wpt (ensure c x) (\<lambda>e s'. e = None \<and> rest (world s') = rest (world s) \<and> goodAt (world s') c x \<and>
    (\<exists>y. view (world s') = put (connName c) (nsOf x) (Name x) y (view (world s)) \<and>
       (y = view (world s) (connName c) (nsOf x) (Name x) \<or> may (view (world s) (connName c) (nsOf x) (Name x))))) s"
proof (cases "goodAt (world s) c x")
  case True
  have "view (world s) = put (connName c) (nsOf x) (Name x) (view (world s) (connName c) (nsOf x) (Name x)) (view (world s))"
    by (simp add: put_def)
  with True show ?thesis by (auto simp: wpt_def ensure_idle [OF c True])
next
  case False
  from ensure_works [OF assms False] obtain s' y where "ensure c x s = (Ret None, s')"
    "rest (world s') = rest (world s)" "may (view (world s) (connName c) (nsOf x) (Name x))" "good y x"
    "view (world s') = put (connName c) (nsOf x) (Name x) y (view (world s))" by blast
  then show ?thesis by (auto simp: wpt_def put_apply intro: exI [where x = y])
qed

text \<open>The loop over what is wanted on one cluster.\<close>

lemma ensureAll_idle:
  "mlookup conns k = Some c \<Longrightarrow> \<forall>x \<in> set xs. goodAt (world s) c x \<Longrightarrow>
   rangeE (ensure c) xs s = (Ret None, s)"
  by (induction xs) (auto simp: gret_def gbind_def ensure_idle)

lemma ensureAll_good:
  assumes c: "mlookup conns k = Some c" and keyed: "keyed nsOf xs"
    and allow: "\<forall>x \<in> set xs. ok (rest (world s)) (connName c) (nsOf x) (Name x)"
  shows "wpt (rangeE (ensure c) xs) (\<lambda>e s'. e = None \<and> rest (world s') = rest (world s) \<and>
    (\<forall>x \<in> set xs. goodAt (world s') c x) \<and>
    (\<forall>cl ns n. view (world s') cl ns n = view (world s) cl ns n \<or> may (view (world s) cl ns n) \<and>
       cl = connName c \<and> (\<exists>x \<in> set xs. ns = nsOf x \<and> n = Name x))) s"
proof -
  let ?v = "view (world s)"
  let ?same = "\<lambda>ys s'. \<forall>cl ns n. view (world s') cl ns n = ?v cl ns n \<or> may (?v cl ns n) \<and>
       cl = connName c \<and> (\<exists>x \<in> set ys. ns = nsOf x \<and> n = Name x)"
  let ?J = "\<lambda>ys s'. set ys \<subseteq> set xs \<and> rest (world s') = rest (world s) \<and>
    (\<forall>x \<in> set ys. goodAt (world s') c x) \<and> ?same ys s'"
  have "wpt (rangeE (ensure c) xs) (\<lambda>e s'. e = None \<and> ?J ([] @ xs) s') s"
  proof (rule wpt_rangeE [where I = ?J])
    fix x and s1 :: "'w state" and ys assume x: "x \<in> set xs" and J: "?J ys s1"
    have "ok (rest (world s1)) (connName c) (nsOf x) (Name x)" using x J allow by simp
    from ensure_good [OF c this]
    show "wpt (ensure c x) (\<lambda>e s'. e = None \<and> ?J (ys @ [x]) s') s1"
    proof (rule wpt_mono, elim conjE exE, intro conjI)
      fix e s2 y
      assume x2: "goodAt (world s2) c x"
        and v: "view (world s2) = put (connName c) (nsOf x) (Name x) y (view (world s1))"
        and y: "y = view (world s1) (connName c) (nsOf x) (Name x) \<or>
          may (view (world s1) (connName c) (nsOf x) (Name x))"
      have "goodAt (world s2) c z" if "z \<in> set ys" for z
      proof (cases "nsOf z = nsOf x \<and> Name z = Name x")
        case True
        with that J x keyed have "z = x" unfolding keyed_def by blast
        with x2 show ?thesis by simp
      next
        case False
        with that J show ?thesis by (auto simp: v put_apply)
      qed
      with x2 show "\<forall>x \<in> set (ys @ [x]). goodAt (world s2) c x" by simp
      show "?same (ys @ [x]) s2"
      proof (intro allI)
        fix cl ns n
        from J have "view (world s1) cl ns n = ?v cl ns n \<or> may (?v cl ns n) \<and>
            cl = connName c \<and> (\<exists>x \<in> set ys. ns = nsOf x \<and> n = Name x)" by blast
        then show "view (world s2) cl ns n = ?v cl ns n \<or> may (?v cl ns n) \<and>
            cl = connName c \<and> (\<exists>x \<in> set (ys @ [x]). ns = nsOf x \<and> n = Name x)"
          using y by (auto simp: v put_apply)
      qed
    qed (use x J in auto)
  qed simp
  then show ?thesis by (rule wpt_mono) simp
qed

text \<open>
  The loop over the clusters, for any \<open>body\<close> that does what the loop over a list of the wanted objects
  does.
\<close>

abbreviation ensures ::
  "'w ManagedClusterConnection \<Rightarrow> 'a ObjectMeta_scheme list \<Rightarrow> ('w, err option) prog \<Rightarrow> 'w state \<Rightarrow> bool" where
  "ensures c xs m s \<equiv> (\<forall>x \<in> set xs. ok (rest (world s)) (connName c) (nsOf x) (Name x)) \<longrightarrow>
     wpt m (\<lambda>e s'. e = None \<and> rest (world s') = rest (world s) \<and> (\<forall>x \<in> set xs. goodAt (world s') c x) \<and>
       (\<forall>cl ns n. view (world s') cl ns n = view (world s) cl ns n \<or> may (view (world s) cl ns n) \<and>
          cl = connName c \<and> (\<exists>x \<in> set xs. ns = nsOf x \<and> n = Name x))) s"

abbreviation idles ::
  "'w ManagedClusterConnection \<Rightarrow> 'a ObjectMeta_scheme list \<Rightarrow> ('w, err option) prog \<Rightarrow> 'w state \<Rightarrow> bool" where
  "idles c xs m s \<equiv> (\<forall>x \<in> set xs. goodAt (world s) c x) \<longrightarrow>
     wpt m (\<lambda>e s'. e = None \<and> sent s' = sent s \<and> rest (world s') = rest (world s) \<and> view (world s') = view (world s)) s"

lemma bodies_converge:
  assumes fair: "fairOrder R" and cov: "covers conns mcs"
    and body: "\<And>k mc c s. mlookup mcs k = Some mc \<Longrightarrow> mlookup conns k = Some c \<Longrightarrow>
      ensures c (wanted k mc) (body k mc c) s"
    and allow: "allowed (ok (rest (world s))) nsOf conns mcs wanted"
  shows "wpt (rangeClusters R mcs conns body) (\<lambda>e s'. e = None \<and> rest (world s') = rest (world s) \<and>
    converged good may nsOf conns mcs wanted (view (world s)) (view (world s'))) s"
proof -
  let ?v = "view (world s)"
  let ?good = "\<lambda>ks s'. \<forall>k \<in> set ks. \<forall>mc c x. mlookup mcs k = Some mc \<longrightarrow> mlookup conns k = Some c \<longrightarrow>
     x \<in> set (wanted k mc) \<longrightarrow> goodAt (world s') c x"
  let ?same = "\<lambda>s'. \<forall>cl ns n. view (world s') cl ns n = ?v cl ns n \<or> may (?v cl ns n) \<and>
       (\<exists>k mc c x. mlookup mcs k = Some mc \<and> mlookup conns k = Some c \<and> x \<in> set (wanted k mc) \<and>
          cl = connName c \<and> ns = nsOf x \<and> n = Name x)"
  let ?I = "\<lambda>ks s'. rest (world s') = rest (world s) \<and> ?good ks s' \<and> ?same s'"
  have "wpt (rangeClusters R mcs conns body)
      (\<lambda>e s'. e = None \<and> (\<exists>ks. set ks = dom (mlookup mcs) \<and> ?I ks s')) s"
  proof (rule wpt_rangeClusters [where I = ?I, OF fair cov])
    fix k mc c ys and s1 :: "'w state"
    assume k: "mlookup mcs k = Some mc" and c: "mlookup conns k = Some c" and I: "?I ys s1"
    have "\<forall>x \<in> set (wanted k mc). ok (rest (world s1)) (connName c) (nsOf x) (Name x)"
      using I allow k c unfolding allowed_def by simp
    then show "wpt (body k mc c) (\<lambda>e s'. e = None \<and> ?I (ys @ [k]) s') s1"
    proof (rule wpt_mono [OF mp [OF body [OF k c]]], elim conjE, intro conjI)
      fix e and s2 :: "'w state"
      assume rest: "rest (world s2) = rest (world s1)" and new: "\<forall>x \<in> set (wanted k mc). goodAt (world s2) c x"
        and same: "\<forall>cl ns n. view (world s2) cl ns n = view (world s1) cl ns n \<or> may (view (world s1) cl ns n) \<and>
          cl = connName c \<and> (\<exists>x \<in> set (wanted k mc). ns = nsOf x \<and> n = Name x)"
      show "rest (world s2) = rest (world s)" using I rest by simp
      show "?good (ys @ [k]) s2"
      proof (intro ballI allI impI)
        fix j mc' c' x
        assume j: "j \<in> set (ys @ [k])" and mc': "mlookup mcs j = Some mc'"
          and c': "mlookup conns j = Some c'" and x: "x \<in> set (wanted j mc')"
        show "goodAt (world s2) c' x"
        proof (cases "j = k")
          case True
          with k c mc' c' x new show ?thesis by simp
        next
          case False
          with own_client [OF c' c] have "connName c' \<noteq> connName c" by blast
          with same have "view (world s2) (connName c') ns n = view (world s1) (connName c') ns n" for ns n
            by blast
          with I j False mc' c' x show ?thesis by simp
        qed
      qed
      show "?same s2" using same I k c by metis
    qed
  qed (simp add: order_view order_rest)
  then show ?thesis
    by (rule wpt_mono) (fastforce simp: converged_def changes_def goodAll_def dom_def)
qed

text \<open>Once everything is good, nothing is sent.\<close>

lemma bodies_idle:
  assumes fair: "fairOrder R" and cov: "covers conns mcs"
    and body: "\<And>k mc c s. mlookup mcs k = Some mc \<Longrightarrow> mlookup conns k = Some c \<Longrightarrow>
      idles c (wanted k mc) (body k mc c) s"
    and good: "goodAll good nsOf conns mcs wanted (view (world s))"
  shows "wpt (rangeClusters R mcs conns body) (\<lambda>e s'. e = None \<and> sent s' = sent s \<and> rest (world s') = rest (world s) \<and>
    view (world s') = view (world s)) s"
proof -
  let ?I = "\<lambda>ks s'. sent s' = sent s \<and> rest (world s') = rest (world s) \<and> view (world s') = view (world s)"
  have "wpt (rangeClusters R mcs conns body)
      (\<lambda>e s'. e = None \<and> (\<exists>ks. set ks = dom (mlookup mcs) \<and> ?I ks s')) s"
  proof (rule wpt_rangeClusters [where I = ?I, OF fair cov])
    fix k mc c ys and s1 :: "'w state"
    assume k: "mlookup mcs k = Some mc" and c: "mlookup conns k = Some c" and I: "?I ys s1"
    have "\<forall>x \<in> set (wanted k mc). goodAt (world s1) c x"
      using good k c I unfolding goodAll_def by simp
    with body [OF k c] have "wpt (body k mc c) (\<lambda>e s'. e = None \<and> sent s' = sent s1 \<and>
        rest (world s') = rest (world s1) \<and> view (world s') = view (world s1)) s1" by blast
    with I show "wpt (body k mc c) (\<lambda>e s'. e = None \<and> ?I (ys @ [k]) s') s1" by simp
  qed (simp add: order_view order_rest)
  then show ?thesis by (rule wpt_mono) blast
qed

lemma bodies_reconcile:
  assumes "fairOrder R" "covers conns mcs"
    and "\<And>k mc c s. mlookup mcs k = Some mc \<Longrightarrow> mlookup conns k = Some c \<Longrightarrow> ensures c (wanted k mc) (body k mc c) s"
    and "\<And>k mc c s. mlookup mcs k = Some mc \<Longrightarrow> mlookup conns k = Some c \<Longrightarrow> idles c (wanted k mc) (body k mc c) s"
  shows "reconciles good may nsOf ok conns mcs wanted view rest (rangeClusters R mcs conns body)"
  unfolding reconciles_def
  using wptD [OF bodies_converge [where wanted = wanted, OF assms(1-3)]]
    wptD [OF bodies_idle [where wanted = wanted, OF assms(1,2,4)]] by blast

lemma reconcile_reconciles:
  assumes "fairOrder R" "covers conns mcs"
    and keyed: "\<And>k mc. mlookup mcs k = Some mc \<Longrightarrow> keyed nsOf (wanted k mc)"
  shows "reconciles good may nsOf ok conns mcs wanted view rest
    (rangeClusters R mcs conns (\<lambda>k mc c. rangeE (ensure c) (wanted k mc)))"
proof (rule bodies_reconcile [OF assms(1,2)])
  fix k mc c and s :: "'w state" assume k: "mlookup mcs k = Some mc" and c: "mlookup conns k = Some c"
  show "ensures c (wanted k mc) (rangeE (ensure c) (wanted k mc)) s"
    by (intro impI ensureAll_good [OF c keyed [OF k]])
  show "idles c (wanted k mc) (rangeE (ensure c) (wanted k mc)) s"
    by (simp add: wpt_def ensureAll_idle [OF c])
qed

end

section \<open>The two reconcilers of the repository\<close>

text \<open>An object that \<^verbatim>\<open>diff.Diff\<close> takes for the wanted one is there.\<close>

definition settled :: "'w runtime \<Rightarrow> ('o \<Rightarrow> kobj) \<Rightarrow> 'o option \<Rightarrow> 'o \<Rightarrow> bool" where
  "settled R wrap y x = (case y of None \<Rightarrow> False | Some y \<Rightarrow> Diff R (wrap y) (wrap x) = [])"

abbreviation always :: "'o \<Rightarrow> bool" where
  "always \<equiv> \<lambda>_. True"

text \<open>Any object of the key is there; only what was not there may change.\<close>

abbreviation present :: "'o option \<Rightarrow> 'o \<Rightarrow> bool" where
  "present y x \<equiv> y \<noteq> None"

abbreviation absent :: "'o option \<Rightarrow> bool" where
  "absent y \<equiv> y = None"

text \<open>The body of \<^verbatim>\<open>createNamespace\<close>, for any kind.\<close>

definition createIfAbsent ::
  "string \<Rightarrow> ('o \<Rightarrow> kobj) \<Rightarrow> ('o, 'w) lister \<Rightarrow> ('o, 'w) rclient \<Rightarrow> string \<Rightarrow> string \<Rightarrow> 'o \<Rightarrow>
   ('w, err option) prog" where
  "createIfAbsent c wrap ls rc ns name new =
     gbind (listerGet ls ns name) (\<lambda>(existing, err).
       case existing of
         Some _ \<Rightarrow> gret err
       | None \<Rightarrow> gbind (clientCreate c wrap rc ns new) (\<lambda>(_, err). gret err))"

sublocale read_store \<subseteq> updating: reconciler R conns wrap nsOf ok rc view rest "settled R wrap" always
  "\<lambda>c x. createOrUpdate R (connName c) wrap (ls c) (rc c) (nsOf x) (Name x) x"
proof unfold_locales
  fix k c x and s :: "'w state" assume c: "mlookup conns k = Some c"
  let ?y = "view (world s) (connName c) (nsOf x) (Name x)"
  show "settled R wrap ?y x \<Longrightarrow>
      createOrUpdate R (connName c) wrap (ls c) (rc c) (nsOf x) (Name x) x s = (Ret None, s)"
    by (auto simp: createOrUpdate_def call_defs gbind_def glift_def gret_def lister_get [OF c] settled_def
        split: option.splits)
  assume ok: "ok (rest (world s)) (connName c) (nsOf x) (Name x)" and bad: "\<not> settled R wrap ?y x"
  show "\<exists>s' y. createOrUpdate R (connName c) wrap (ls c) (rc c) (nsOf x) (Name x) x s = (Ret None, s') \<and>
      rest (world s') = rest (world s) \<and> always ?y \<and> settled R wrap y x \<and>
      view (world s') = put (connName c) (nsOf x) (Name x) y (view (world s))"
  proof (cases ?y)
    case None
    from create_view [OF c ok None] obtain r y w' where "rcCreate (rc c) (nsOf x) x (world s) = ((r, None), w')"
      "Diff R (wrap y) (wrap x) = []" "view w' = put (connName c) (nsOf x) (Name x) (Some y) (view (world s))"
      "rest w' = rest (world s)" by blast
    with None show ?thesis
      by (auto simp: createOrUpdate_def call_defs gbind_def glift_def gsend_def gret_def lister_get [OF c]
          settled_def intro!: exI [of _ "Some y"])
  next
    case (Some old)
    from update_view [OF c Some] obtain r y w' where "rcUpdate (rc c) (nsOf x) x (world s) = ((r, None), w')"
      "Diff R (wrap y) (wrap x) = []" "view w' = put (connName c) (nsOf x) (Name x) (Some y) (view (world s))"
      "rest w' = rest (world s)" by blast
    with Some bad show ?thesis
      by (auto simp: createOrUpdate_def call_defs gbind_def glift_def gsend_def gret_def lister_get [OF c]
          settled_def intro!: exI [of _ "Some y"])
  qed
qed

sublocale read_store \<subseteq> creating: reconciler R conns wrap nsOf ok rc view rest present absent
  "\<lambda>c x. createIfAbsent (connName c) wrap (ls c) (rc c) (nsOf x) (Name x) x"
proof unfold_locales
  fix k c x and s :: "'w state" assume c: "mlookup conns k = Some c"
  let ?y = "view (world s) (connName c) (nsOf x) (Name x)"
  show "present ?y x \<Longrightarrow>
      createIfAbsent (connName c) wrap (ls c) (rc c) (nsOf x) (Name x) x s = (Ret None, s)"
    by (auto simp: createIfAbsent_def call_defs gbind_def glift_def gret_def lister_get [OF c] split: option.splits)
  assume ok: "ok (rest (world s)) (connName c) (nsOf x) (Name x)" and "\<not> present ?y x"
  then have None: "?y = None" by simp
  from create_view [OF c ok None] obtain r y w' where "rcCreate (rc c) (nsOf x) x (world s) = ((r, None), w')"
    "view w' = put (connName c) (nsOf x) (Name x) (Some y) (view (world s))" "rest w' = rest (world s)" by blast
  with None show "\<exists>s' y. createIfAbsent (connName c) wrap (ls c) (rc c) (nsOf x) (Name x) x s = (Ret None, s') \<and>
      rest (world s') = rest (world s) \<and> absent ?y \<and> present y x \<and>
      view (world s') = put (connName c) (nsOf x) (Name x) y (view (world s))"
    by (auto simp: createIfAbsent_def call_defs gbind_def glift_def gsend_def gret_def lister_get [OF c]
        intro!: exI [of _ "Some y"])
qed

end
