(* ===== verification/Cluster_State.thy ===== *)
theory Cluster_State
  imports Reconciling
begin

text \<open>
  What the API servers of the managed clusters hold, kinds together: the objects of every kind, of
  which a reconciler's contract sees one kind as its \<open>view\<close> and the others as the \<open>rest\<close> it leaves alone.
  An object of a namespaced kind can be created only where its namespace is, which ties the kinds
  together and makes the order of the reconcilers matter.
\<close>

section \<open>Kinds\<close>

fun nameOf :: "kobj \<Rightarrow> string" where
  "nameOf (KNamespace x) = Name x"
| "nameOf (KServiceAccount x) = Name x"
| "nameOf (KSecret x) = Name x"
| "nameOf (KConfigMap x) = Name x"
| "nameOf (KClusterRole x) = Name x"
| "nameOf (KClusterRoleBinding x) = Name x"
| "nameOf (KDeployment x) = Name x"
| "nameOf (KService x) = Name x"
| "nameOf (KDaemonSet x) = Name x"
| "nameOf (KVMI x) = Name x"

text \<open>Empty for the cluster-scoped kinds.\<close>

fun namespaceOf :: "kobj \<Rightarrow> string" where
  "namespaceOf (KServiceAccount x) = Namespace x"
| "namespaceOf (KSecret x) = Namespace x"
| "namespaceOf (KConfigMap x) = Namespace x"
| "namespaceOf (KDeployment x) = Namespace x"
| "namespaceOf (KService x) = Namespace x"
| "namespaceOf (KDaemonSet x) = Namespace x"
| "namespaceOf (KVMI x) = Namespace x"
| "namespaceOf _ = []"

fun asNamespace where "asNamespace (KNamespace x) = Some x" | "asNamespace _ = None"
fun asServiceAccount where "asServiceAccount (KServiceAccount x) = Some x" | "asServiceAccount _ = None"
fun asSecret where "asSecret (KSecret x) = Some x" | "asSecret _ = None"
fun asConfigMap where "asConfigMap (KConfigMap x) = Some x" | "asConfigMap _ = None"
fun asClusterRole where "asClusterRole (KClusterRole x) = Some x" | "asClusterRole _ = None"
fun asClusterRoleBinding where
  "asClusterRoleBinding (KClusterRoleBinding x) = Some x" | "asClusterRoleBinding _ = None"
fun asDeployment where "asDeployment (KDeployment x) = Some x" | "asDeployment _ = None"
fun asService where "asService (KService x) = Some x" | "asService _ = None"
fun asDaemonSet where "asDaemonSet (KDaemonSet x) = Some x" | "asDaemonSet _ = None"
fun asVMI where "asVMI (KVMI x) = Some x" | "asVMI _ = None"

text \<open>The constructor of a kind, the test for it, and the namespace of its objects.\<close>

definition shape ::
  "kind \<Rightarrow> ('a ObjectMeta_scheme \<Rightarrow> kobj) \<Rightarrow> (kobj \<Rightarrow> 'a ObjectMeta_scheme option) \<Rightarrow>
   ('a ObjectMeta_scheme \<Rightarrow> string) \<Rightarrow> bool" where
  "shape K wrap un nsOf \<longleftrightarrow> (\<forall>y. case un y of None \<Rightarrow> kindOf y \<noteq> K | Some x \<Rightarrow> kindOf y = K \<and> y = wrap x) \<and>
     (\<forall>x. un (wrap x) = Some x \<and> namespaceOf (wrap x) = nsOf x \<and> nameOf (wrap x) = Name x)"

lemma shapes [simp]:
  "shape NamespaceKind KNamespace asNamespace clusterScoped"
  "shape ServiceAccountKind KServiceAccount asServiceAccount Namespace"
  "shape SecretKind KSecret asSecret Namespace"
  "shape ConfigMapKind KConfigMap asConfigMap Namespace"
  "shape ClusterRoleKind KClusterRole asClusterRole clusterScoped"
  "shape ClusterRoleBindingKind KClusterRoleBinding asClusterRoleBinding clusterScoped"
  "shape DeploymentKind KDeployment asDeployment Namespace"
  "shape ServiceKind KService asService Namespace"
  "shape DaemonSetKind KDaemonSet asDaemonSet Namespace"
  "shape VMIKind KVMI asVMI Namespace"
  by (auto simp: shape_def clusterScoped_def split: option.split elim: kindOf.elims
      elim!: asNamespace.elims asServiceAccount.elims asSecret.elims asConfigMap.elims asClusterRole.elims
        asClusterRoleBinding.elims asDeployment.elims asService.elims asDaemonSet.elims asVMI.elims)

section \<open>All kinds together\<close>

type_synonym clusterState = "kind \<Rightarrow> kobj store"

definition typed :: "(kobj \<Rightarrow> 'o option) \<Rightarrow> kobj store \<Rightarrow> 'o store" where
  "typed un v cl ns n = Option.bind (v cl ns n) un"

definition others :: "kind \<Rightarrow> clusterState \<Rightarrow> clusterState" where
  "others K f = f(K := \<lambda>_ _ _. None)"

lemma others_same: "others K f = others K g \<Longrightarrow> K' \<noteq> K \<Longrightarrow> f K' = g K'"
  unfolding others_def by (metis fun_upd_other)

text \<open>
  Where an object can be created: namespaces need a name, the objects of the namespaced kinds a
  namespace that exists.
\<close>

definition creatable :: "kind \<Rightarrow> clusterState \<Rightarrow> string \<Rightarrow> string \<Rightarrow> string \<Rightarrow> bool" where
  "creatable K f cl ns n =
     (case K of NamespaceKind \<Rightarrow> ns = [] \<and> n \<noteq> [] | ClusterRoleKind \<Rightarrow> ns = [] | ClusterRoleBindingKind \<Rightarrow> ns = []
      | _ \<Rightarrow> ns \<noteq> [] \<and> f NamespaceKind cl [] ns \<noteq> None)"

lemma creatable_others [simp]: "creatable K (others K f) = creatable K f"
  by (simp add: creatable_def others_def fun_eq_iff split: kind.split)

text \<open>The contract of one kind: its client and lister work on its objects and leave the others alone.\<close>

abbreviation storeOf ::
  "'w runtime \<Rightarrow> 'w connections \<Rightarrow> ('w \<Rightarrow> clusterState) \<Rightarrow> kind \<Rightarrow> ('a ObjectMeta_scheme \<Rightarrow> kobj) \<Rightarrow>
   (kobj \<Rightarrow> 'a ObjectMeta_scheme option) \<Rightarrow> ('a ObjectMeta_scheme \<Rightarrow> string) \<Rightarrow>
   ('w Clientset \<Rightarrow> ('a ObjectMeta_scheme, 'w) rclient) \<Rightarrow>
   ('w ManagedClusterConnection \<Rightarrow> ('a ObjectMeta_scheme, 'w) lister) \<Rightarrow> bool" where
  "storeOf R conns fam K wrap un nsOf cs ls \<equiv> kind_store R conns wrap nsOf (creatable K) (\<lambda>c. cs (KubeClient c))
     (\<lambda>w. typed un (fam w K)) (\<lambda>w. others K (fam w)) ls"

abbreviation "namespaceStore R conns fam \<equiv>
  storeOf R conns fam NamespaceKind KNamespace asNamespace clusterScoped csNamespaces NamespaceLister"
abbreviation "serviceAccountStore R conns fam \<equiv>
  storeOf R conns fam ServiceAccountKind KServiceAccount asServiceAccount Namespace csServiceAccounts ServiceAccountLister"
abbreviation "configMapStore R conns fam \<equiv>
  storeOf R conns fam ConfigMapKind KConfigMap asConfigMap Namespace csConfigMaps ConfigMapLister"
abbreviation "clusterRoleStore R conns fam \<equiv>
  storeOf R conns fam ClusterRoleKind KClusterRole asClusterRole clusterScoped csClusterRoles ClusterRoleLister"
abbreviation "clusterRoleBindingStore R conns fam \<equiv>
  storeOf R conns fam ClusterRoleBindingKind KClusterRoleBinding asClusterRoleBinding clusterScoped
    csClusterRoleBindings ClusterRoleBindingLister"
abbreviation "deploymentStore R conns fam \<equiv>
  storeOf R conns fam DeploymentKind KDeployment asDeployment Namespace csDeployments DeploymentLister"
abbreviation "serviceStore R conns fam \<equiv>
  storeOf R conns fam ServiceKind KService asService Namespace csServices ServiceLister"
abbreviation "daemonSetStore R conns fam \<equiv>
  storeOf R conns fam DaemonSetKind KDaemonSet asDaemonSet Namespace csDaemonSets DaemonSetLister"

text \<open>What a reconciler of one kind is to do on them: nothing is changed but objects of its kind.\<close>

abbreviation reconcilesKind ::
  "'w runtime \<Rightarrow> ('w \<Rightarrow> clusterState) \<Rightarrow> kind \<Rightarrow> ('a ObjectMeta_scheme \<Rightarrow> kobj) \<Rightarrow>
   (kobj \<Rightarrow> 'a ObjectMeta_scheme option) \<Rightarrow> ('a ObjectMeta_scheme \<Rightarrow> string) \<Rightarrow> 'w connections \<Rightarrow>
   ManagedCluster gomap \<Rightarrow> (string \<Rightarrow> ManagedCluster \<Rightarrow> 'a ObjectMeta_scheme list) \<Rightarrow>
   ('w, err option) prog \<Rightarrow> bool" where
  "reconcilesKind R fam K wrap un nsOf conns mcs wanted m \<equiv>
     reconciles (settled R wrap) always nsOf (creatable K) conns mcs wanted
       (\<lambda>w. typed un (fam w K)) (\<lambda>w. others K (fam w)) m"

section \<open>From the contracts\<close>

context read_store
begin

lemma updates_reconcile:
  assumes "fairOrder R" "covers conns mcs"
    and "\<And>k mc. mlookup mcs k = Some mc \<Longrightarrow> keyed nsOf (wanted k mc)"
    and "m = rangeClusters R mcs conns (\<lambda>k mc c.
      rangeE (\<lambda>x. createOrUpdate R (connName c) wrap (ls c) (rc c) (nsOf x) (Name x) x) (wanted k mc))"
  shows "reconciles (settled R wrap) always nsOf ok conns mcs wanted view rest m"
  unfolding assms(4) by (rule updating.reconcile_reconciles [where wanted = wanted, OF assms(1-3)])

lemma creations_reconcile:
  assumes "fairOrder R" "covers conns mcs"
    and "\<And>k mc. mlookup mcs k = Some mc \<Longrightarrow> keyed nsOf (wanted k mc)"
    and "m = rangeClusters R mcs conns (\<lambda>k mc c.
      rangeE (\<lambda>x. createIfAbsent (connName c) wrap (ls c) (rc c) (nsOf x) (Name x) x) (wanted k mc))"
  shows "reconciles present absent nsOf ok conns mcs wanted view rest m"
  unfolding assms(4) by (rule creating.reconcile_reconciles [where wanted = wanted, OF assms(1-3)])

end

text \<open>The contract on some of the connections.\<close>

lemma read_store_restrict:
  assumes "read_store R conns wrap nsOf ok rc view rest ls"
    and "\<And>k c. mlookup conns' k = Some c \<Longrightarrow> mlookup conns k = Some c"
  shows "read_store R conns' wrap nsOf ok rc view rest ls"
proof -
  have A: "api_store R conns wrap nsOf ok rc view rest" by (rule read_store.axioms(1) [OF assms(1)])
  show ?thesis
  proof (unfold_locales, goal_cases)
    case (3 k c k' c') then show ?case by (rule api_store.own_client [OF A, OF assms(2) assms(2)])
  qed (rule api_store.order_view [OF A] api_store.order_rest [OF A] api_store.view_placed [OF A]
      api_store.get_view [OF A, OF assms(2)] api_store.list_view [OF A, OF assms(2)]
      api_store.create_view [OF A, OF assms(2)] api_store.update_view [OF A, OF assms(2)]
      api_store.delete_view [OF A, OF assms(2)] read_store.lister_get [OF assms(1), OF assms(2)]; assumption)+
qed

lemma kind_store_restrict:
  assumes "kind_store R conns wrap nsOf ok rc view rest ls"
    and "\<And>k c. mlookup conns' k = Some c \<Longrightarrow> mlookup conns k = Some c"
  shows "kind_store R conns' wrap nsOf ok rc view rest ls"
  by (intro kind_store.intro kind_store_axioms.intro
      read_store_restrict [OF kind_store.axioms(1) [OF assms(1)] assms(2)]
      kind_store.lister_list [OF assms(1) assms(2)])

text \<open>The contract is about the clients and listers of the connections only.\<close>

lemma kind_store_cong:
  assumes K: "kind_store R conns wrap nsOf ok rc view rest ls"
    and rc: "\<And>k c. mlookup conns k = Some c \<Longrightarrow> rc' c = rc c" and ls: "\<And>k c. mlookup conns k = Some c \<Longrightarrow> ls' c = ls c"
  shows "kind_store R conns wrap nsOf ok rc' view rest ls'"
proof -
  note L = kind_store.axioms(1) [OF K]
  note A = read_store.axioms(1) [OF L]
  have "api_store R conns wrap nsOf ok rc' view rest"
    by (unfold_locales, goal_cases)
      (use api_store.order_view [OF A] api_store.order_rest [OF A] api_store.own_client [OF A]
         api_store.view_placed [OF A] api_store.get_view [OF A] api_store.list_view [OF A]
         api_store.create_view [OF A] api_store.update_view [OF A] api_store.delete_view [OF A] rc in simp_all)
  then show ?thesis
    by (intro kind_store.intro read_store.intro kind_store_axioms.intro read_store_axioms.intro)
      (simp_all add: ls read_store.lister_get [OF L] kind_store.lister_list [OF K])
qed

lemma keyed_Nil [simp]: "keyed nsOf []"
  by (simp add: keyed_def)

lemma keyed_single [simp]: "keyed nsOf [x]"
  by (simp add: keyed_def)

end
