(* ===== verification/Convergence.thy ===== *)
theory Convergence
  imports Cluster_State Namespaces Managed_Rbac Managed_Accounts Managed_Workloads
begin

text \<open>
  The lemmas of \<open>Object_Store\<close> brought to the reconcilers of pkg/managed: the choice of the clusters
  leaves the stores alone and returns, a cleanup removes exactly what the pair does not want, and the
  objects each reconciler wants have keys of their own.
\<close>

section \<open>The choice of the clusters\<close>

lemma wpt_rangeOrder:
  assumes "fairOrder R" and "\<And>ks'. set ks' = set ks \<Longrightarrow> Q ks' (s\<lparr>world := snd (rangeOrder R ks (world s))\<rparr>)"
  shows "wpt (glift (rangeOrder R ks)) Q s"
proof -
  obtain ks' w where o: "rangeOrder R ks (world s) = (ks', w)" by fastforce
  with assms(1) have "set ks' = set ks" unfolding fairOrder_def by (metis fst_conv)
  from assms(2) [OF this] o show ?thesis by (simp add: wpt_glift)
qed

lemma wpt_rangeFold:
  assumes "\<And>x ys a s. x \<in> set xs \<Longrightarrow> I ys a s \<Longrightarrow> wpt (f x a) (I (ys @ [x])) s" and "I ys a s"
  shows "wpt (rangeFold f xs a) (I (ys @ xs)) s"
  using assms
proof (induction xs arbitrary: ys a s)
  case (Cons x xs)
  have "wpt (f x a) (I (ys @ [x])) s" using Cons.prems by simp
  then have "wpt (f x a) (\<lambda>b. wpt (rangeFold f xs b) (I (ys @ x # xs))) s"
  proof (rule wpt_mono)
    fix b s' assume "I (ys @ [x]) b s'"
    with Cons.IH [of "ys @ [x]" b s'] Cons.prems(1)
    show "wpt (rangeFold f xs b) (I (ys @ x # xs)) s'" by simp
  qed
  then show ?case by (simp add: wpt_gbind)
qed (simp add: wpt_gret)

lemma wpt_For:
  assumes "fairOrder R" and "\<And>r ks. forSpec mb avail r \<Longrightarrow> Q r (s\<lparr>world := snd (rangeOrder R ks (world s))\<rparr>)"
  shows "wpt (GetManagedClustersForVerrazzanoBinding R mb avail) Q s"
  unfolding GetManagedClustersForVerrazzanoBinding_def wpt_gbind
  by (rule wpt_rangeOrder [OF assms(1)]) (simp add: wpt_gret assms(2) matchClusters_forSpec)

lemma wpt_NotFor:
  assumes fair: "fairOrder R" and J: "\<And>ks s. J s \<Longrightarrow> J (s\<lparr>world := snd (rangeOrder R ks (world s))\<rparr>)" and "J s"
  shows "wpt (GetManagedClustersNotForVerrazzanoBinding R mb avail)
    (\<lambda>r s'. mlookup r = mlookup avail |` (- clusterNames mb) \<and> J s') s"
  unfolding GetManagedClustersNotForVerrazzanoBinding_def wpt_gbind
proof (rule wpt_rangeOrder [OF fair])
  fix cs assume cs: "set cs = set (keys avail)"
  let ?f = "\<lambda>clusterName filtered. gbind (glift (rangeOrder R (keys (ManagedClusters mb))))
    (\<lambda>ks. if hasClusterNamed mb clusterName ks then gret filtered
          else case mlookup avail clusterName of
                 None \<Rightarrow> gret filtered | Some c \<Rightarrow> gret (mset_key clusterName c filtered))"
  let ?I = "\<lambda>ys r s. mlookup r = mlookup avail |` (set ys - clusterNames mb) \<and> J s"
  let ?s = "s\<lparr>world := snd (rangeOrder R (keys avail) (world s))\<rparr>"
  have "wpt (rangeFold ?f cs []) (?I ([] @ cs)) ?s"
  proof (rule wpt_rangeFold)
    fix x ys r s assume "?I ys r s"
    then show "wpt (?f x r) (?I (ys @ [x])) s"
      unfolding wpt_gbind
      by (intro wpt_rangeOrder [OF fair])
        (auto simp: hasClusterNamed_iff wpt_gret J restrict_map_def fun_eq_iff split: option.split)
  qed (simp add: J \<open>J s\<close> restrict_map_def fun_eq_iff)
  then show "wpt (rangeFold ?f cs []) (\<lambda>r s'. mlookup r = mlookup avail |` (- clusterNames mb) \<and> J s') ?s"
    by (rule wpt_mono) (use cs in \<open>auto simp: restrict_map_def fun_eq_iff dom_def\<close>)
qed

section \<open>Cleanups\<close>

text \<open>
  What a cleanup of a pair is to remove: the objects with the labels of the binding and the cluster,
  unless the cluster is the pair's and \<open>wants\<close> has the name.
\<close>

definition orphaned ::
  "SyntheticModelBinding \<Rightarrow> (ManagedCluster \<Rightarrow> string list) \<Rightarrow> string \<Rightarrow> string \<Rightarrow> 'a ObjectMeta_scheme \<Rightarrow> bool" where
  "orphaned mb wants k ns x \<longleftrightarrow>
     matches [(VerrazzanoBinding, Name (SynBinding mb)), (VerrazzanoCluster, k)] (Labels x) \<and>
     (case mlookup (ManagedClusters mb) k of None \<Rightarrow> True | Some mc \<Rightarrow> Name x \<notin> set (wants mc))"

text \<open>What a cleanup asks for.\<close>

abbreviation bindingCluster :: "SyntheticModelBinding \<Rightarrow> string \<Rightarrow> selector" where
  "bindingCluster mb k \<equiv> [(VerrazzanoBinding, Name (SynBinding mb)), (VerrazzanoCluster, k)]"

lemma purgeOn_cong:
  assumes "\<And>k c ns x. k \<in> ks \<Longrightarrow> mlookup cs k = Some c \<Longrightarrow>
    mlookup cs' k = Some c \<and> (gone k ns x \<longleftrightarrow> gone' k ns x)"
    and "\<And>k c. k \<in> ks \<Longrightarrow> mlookup cs' k = Some c \<Longrightarrow> mlookup cs k = Some c"
  shows "purgeOn ks cs gone v = purgeOn ks cs' gone' v"
proof (intro ext)
  fix cl ns n
  have "(\<exists>k \<in> ks. \<exists>c. mlookup cs k = Some c \<and> cl = connName c \<and> gone k ns x) \<longleftrightarrow>
      (\<exists>k \<in> ks. \<exists>c. mlookup cs' k = Some c \<and> cl = connName c \<and> gone' k ns x)" for x
    using assms by metis
  then show "purgeOn ks cs gone v cl ns n = purgeOn ks cs' gone' v cl ns n"
    by (simp add: purgeOn_def split: option.split)
qed

lemma purgeOn_purgeOn: "purgeOn ks' cs gone (purgeOn ks cs gone v) = purgeOn (ks \<union> ks') cs gone v"
  by (auto simp: purgeOn_def fun_eq_iff split: option.split)

lemma purgeOn_dom: "purgeOn (ks \<inter> dom (mlookup cs)) cs gone v = purgeOn ks cs gone v"
proof -
  have "(\<exists>k \<in> ks \<inter> dom (mlookup cs). \<exists>c. mlookup cs k = Some c \<and> P k c) \<longleftrightarrow>
      (\<exists>k \<in> ks. \<exists>c. mlookup cs k = Some c \<and> P k c)" for P by blast
  then show ?thesis by (simp add: purgeOn_def fun_eq_iff split: option.split)
qed

text \<open>A deletion from the clusters of a pair, if they are all connected.\<close>

lemma wpt_matched_purges:
  fixes view :: "'w \<Rightarrow> 'a ObjectMeta_scheme store"
  assumes fair: "fairOrder R" and order: "\<And>ks w. view (snd (rangeOrder R ks w)) = view w"
    and placed: "\<And>w. placed nsOf (view w)"
    and body: "\<And>k c s. mlookup conns k = Some c \<Longrightarrow> wpt (body k c) (\<lambda>e s'. e = None \<and> view (world s') =
      erase (connName c) {x \<in> stored (view (world s)) (connName c) []. matches (sel k) (Labels x) \<and> pick x} (view (world s))) s"
  shows "wpt (gbind (GetManagedClustersForVerrazzanoBinding R mb conns) (\<lambda>(matched, err).
      case err of
        Some _ \<Rightarrow> gret None
      | None \<Rightarrow> rangeMap R matched body))
    (\<lambda>e s'. e = None \<and> view (world s') =
       (if clusterNames mb \<subseteq> dom (mlookup conns)
        then purgeOn (clusterNames mb) conns (\<lambda>k _ x. matches (sel k) (Labels x) \<and> pick x) (view (world s))
        else view (world s))) s"
  unfolding wpt_gbind
proof (rule wpt_For [OF fair])
  fix r ks
  let ?s = "s\<lparr>world := snd (rangeOrder R ks (world s))\<rparr>"
  assume fs: "forSpec mb conns r"
  obtain matched err where r: "r = (matched, err)" by fastforce
  show "wpt (case r of (matched, err) \<Rightarrow> case err of Some _ \<Rightarrow> gret None | None \<Rightarrow> rangeMap R matched body)
    (\<lambda>e s'. e = None \<and> view (world s') =
       (if clusterNames mb \<subseteq> dom (mlookup conns)
        then purgeOn (clusterNames mb) conns (\<lambda>k _ x. matches (sel k) (Labels x) \<and> pick x) (view (world s))
        else view (world s))) ?s"
  proof (cases err)
    case None
    with fs r have m: "mlookup matched = mlookup conns |` clusterNames mb" "clusterNames mb \<subseteq> dom (mlookup conns)"
      by (simp_all add: forSpec_def)
    have "purge matched (picked [] sel (\<lambda>_. pick)) v =
        purgeOn (clusterNames mb) conns (\<lambda>k _ x. matches (sel k) (Labels x) \<and> pick x) v" for v :: "'a ObjectMeta_scheme store"
      using m(2) by (simp add: m(1) Int_absorb1 Int_absorb2) (rule purgeOn_cong; auto simp: m picked_def)
    moreover have "mlookup matched k = Some c \<Longrightarrow> mlookup conns k = Some c" for k c
      by (simp add: m restrict_map_def split: if_splits)
    ultimately show ?thesis
      using m(2) wpt_rangeMap_purges [where cs = matched and body = body and s = ?s and view = view and ns = "[]" and
          sel = sel and pick = "\<lambda>_. pick", OF fair order placed body]
      by (simp add: r None order)
  qed (use fs r in \<open>simp add: forSpec_def wpt_gret order\<close>)
qed

context kind_store
begin

lemma deleteListed_purges_clusters:
  assumes fair: "fairOrder R" and cov: "covers cs mcs"
    and sub: "\<And>k c. mlookup cs k = Some c \<Longrightarrow> mlookup conns k = Some c"
    and pick: "\<And>k mc. mlookup mcs k = Some mc \<Longrightarrow> pick' k mc = pick k"
  shows "wpt (rangeClusters R mcs cs (\<lambda>k mc c.
      deleteListed (connName c) K (ls c) (rc c) ns (sel k) nsOf (pick' k mc)))
    (\<lambda>e s'. e = None \<and> view (world s') = purgeOn (dom (mlookup mcs)) cs (picked ns sel pick) (view (world s))) s"
proof -
  let ?I = "\<lambda>ks s'. view (world s') = purgeOn (set ks) cs (picked ns sel pick) (view (world s))"
  have "wpt (rangeClusters R mcs cs (\<lambda>k mc c.
      deleteListed (connName c) K (ls c) (rc c) ns (sel k) nsOf (pick' k mc)))
      (\<lambda>e s'. e = None \<and> (\<exists>ks. set ks = dom (mlookup mcs) \<and> ?I ks s')) s"
  proof (rule wpt_rangeClusters [where I = ?I, OF fair cov])
    fix k mc c ys and s1 :: "'w state"
    assume k: "mlookup mcs k = Some mc" and c: "mlookup cs k = Some c" and I: "?I ys s1"
    from deleteListed_view [OF sub [OF c], where s = s1 and K = K and ns = ns and sel = "sel k" and pick = "pick k"]
    show "wpt (deleteListed (connName c) K (ls c) (rc c) ns (sel k) nsOf (pick' k mc))
        (\<lambda>e s'. e = None \<and> ?I (ys @ [k]) s') s1"
      by (simp add: I purgeOn_step [OF view_placed c] pick [OF k])
  qed (simp add: order_view)
  then show ?thesis by (rule wpt_mono) auto
qed

text \<open>The two halves of a cleanup together: on the clusters of the pair and on all others.\<close>

abbreviation cleanupMatched ::
  "SyntheticModelBinding \<Rightarrow> kind \<Rightarrow> (ManagedCluster \<Rightarrow> string list) \<Rightarrow> 'w connections \<Rightarrow> ('w, err option) prog" where
  "cleanupMatched mb K wants matched \<equiv> rangeClusters R (ManagedClusters mb) matched (\<lambda>k mc c.
     deleteListed (connName c) K (ls c) (rc c) [] (bindingCluster mb k) nsOf (\<lambda>x. \<not> Contains (wants mc) (Name x)))"

abbreviation cleanupUnmatched ::
  "SyntheticModelBinding \<Rightarrow> kind \<Rightarrow> 'w connections \<Rightarrow> ('w, err option) prog" where
  "cleanupUnmatched mb K unmatched \<equiv> rangeMap R unmatched (\<lambda>k c.
     deleteListed (connName c) K (ls c) (rc c) [] (bindingCluster mb k) nsOf (\<lambda>_. True))"

lemma cleanup_matched:
  assumes fair: "fairOrder R" and wf: "wf_pair mb" and fs: "forSpec mb conns (matched, None)"
  shows "wpt (cleanupMatched mb K wants matched)
    (\<lambda>e s'. e = None \<and> view (world s') = purgeOn (clusterNames mb) conns (orphaned mb wants) (view (world s))) s"
proof -
  let ?pick = "\<lambda>k (x :: 'a ObjectMeta_scheme). case mlookup (ManagedClusters mb) k of None \<Rightarrow> True | Some mc \<Rightarrow> Name x \<notin> set (wants mc)"
  from fs have m: "mlookup matched = mlookup conns |` clusterNames mb" by (simp add: forSpec_def)
  have "purgeOn (dom (mlookup (ManagedClusters mb))) matched (picked [] (bindingCluster mb) ?pick) v =
      purgeOn (clusterNames mb) conns (orphaned mb wants) v" for v :: "'a ObjectMeta_scheme store"
    unfolding clusterNames_wf [OF wf, symmetric]
    by (rule purgeOn_cong) (auto simp: m picked_def orphaned_def)
  moreover have "mlookup matched k = Some c \<Longrightarrow> mlookup conns k = Some c" for k c
    using forSpec_Some [OF fs] by blast
  moreover have "mlookup (ManagedClusters mb) k = Some mc \<Longrightarrow>
      (\<lambda>x :: 'a ObjectMeta_scheme. \<not> Contains (wants mc) (Name x)) = ?pick k" for k mc
    by (simp add: Contains_iff)
  ultimately show ?thesis
    using deleteListed_purges_clusters [where pick = ?pick and cs = matched and ns = "[]" and s = s and
        sel = "bindingCluster mb" and K = K and pick' = "\<lambda>k mc x. \<not> Contains (wants mc) (Name x)",
        OF fair forSpec_covers [OF fs wf]]
    by simp
qed

lemma cleanup_unmatched:
  assumes fair: "fairOrder R" and wf: "wf_pair mb"
    and u: "mlookup unmatched = mlookup conns |` (- clusterNames mb)"
  shows "wpt (cleanupUnmatched mb K unmatched)
    (\<lambda>e s'. e = None \<and> view (world s') = purgeOn (- clusterNames mb) conns (orphaned mb wants) (view (world s))) s"
proof -
  have d: "dom (mlookup unmatched) = - clusterNames mb \<inter> dom (mlookup conns)" by (auto simp: u)
  have "purge unmatched (picked [] (bindingCluster mb) (\<lambda>_ _. True)) v =
      purgeOn (dom (mlookup unmatched)) conns (orphaned mb wants) v" for v :: "'a ObjectMeta_scheme store"
    by (rule purgeOn_cong)
      (auto simp: u picked_def orphaned_def clusterNames_wf [OF wf] restrict_map_def split: if_splits option.split)
  moreover have "mlookup unmatched k = Some c \<Longrightarrow> mlookup conns k = Some c" for k c
    by (simp add: u restrict_map_def split: if_splits)
  ultimately show ?thesis
    using deleteListed_purges [OF fair, where cs = unmatched and s = s and ns = "[]" and K = K and
        sel = "bindingCluster mb" and pick = "\<lambda>_ _. True"]
    by (simp add: d purgeOn_dom)
qed

lemma cleanup_purges:
  assumes fair: "fairOrder R" and wf: "wf_pair mb" and cov: "covers conns (ManagedClusters mb)"
  shows "wpt (gbind (GetManagedClustersForVerrazzanoBinding R mb conns) (\<lambda>(matched, err).
      case err of
        Some _ \<Rightarrow> gret None
      | None \<Rightarrow> gbind (cleanupMatched mb K wants matched) (\<lambda>err.
          case err of
            Some e \<Rightarrow> gret (Some e)
          | None \<Rightarrow> gbind (GetManagedClustersNotForVerrazzanoBinding R mb conns) (cleanupUnmatched mb K))))
    (\<lambda>e s'. e = None \<and> view (world s') = purge conns (orphaned mb wants) (view (world s))) s"
  unfolding wpt_gbind
proof (rule wpt_For [OF fair])
  fix r ks
  let ?s = "s\<lparr>world := snd (rangeOrder R ks (world s))\<rparr>"
  let ?half = "\<lambda>s'. view (world s') = purgeOn (clusterNames mb) conns (orphaned mb wants) (view (world s))"
  have "clusterNames mb \<subseteq> dom (mlookup conns)" using cov by (simp add: clusterNames_wf [OF wf] covers_def)
  moreover assume fs: "forSpec mb conns r"
  ultimately obtain matched where r: "r = (matched, None)"
    by (auto simp: forSpec_def split: prod.splits option.splits)
  have all: "purgeOn (- clusterNames mb) conns (orphaned mb wants) (purgeOn (clusterNames mb) conns (orphaned mb wants) v) =
      purge conns (orphaned mb wants) v" for v
    using purgeOn_dom [of UNIV conns "orphaned mb wants" v] by (simp add: purgeOn_purgeOn)
  have "wpt (cleanupUnmatched mb K unmatched)
      (\<lambda>e s'. e = None \<and> view (world s') = purge conns (orphaned mb wants) (view (world s))) s3"
    if "mlookup unmatched = mlookup conns |` (- clusterNames mb) \<and> ?half s3" for unmatched s3
    using cleanup_unmatched [OF fair wf, of unmatched K wants s3] that by (simp add: all)
  then have "wpt (GetManagedClustersNotForVerrazzanoBinding R mb conns) (\<lambda>a. wpt (cleanupUnmatched mb K a)
      (\<lambda>e s'. e = None \<and> view (world s') = purge conns (orphaned mb wants) (view (world s)))) s2" if "?half s2" for s2
    using that by (intro wpt_mono [OF wpt_NotFor [where J = ?half, OF fair]]) (auto simp: order_view)
  then have "wpt (cleanupMatched mb K wants matched) (\<lambda>e. wpt (case e of Some e \<Rightarrow> gret (Some e)
        | None \<Rightarrow> gbind (GetManagedClustersNotForVerrazzanoBinding R mb conns) (cleanupUnmatched mb K))
      (\<lambda>e s'. e = None \<and> view (world s') = purge conns (orphaned mb wants) (view (world s)))) ?s"
    using fs unfolding r by (intro wpt_mono [OF cleanup_matched [OF fair wf]]) (auto simp: order_view wpt_gbind)
  then show "wpt (case r of (matched, err) \<Rightarrow> case err of Some _ \<Rightarrow> gret None
      | None \<Rightarrow> gbind (cleanupMatched mb K wants matched) (\<lambda>err. case err of Some e \<Rightarrow> gret (Some e)
          | None \<Rightarrow> gbind (GetManagedClustersNotForVerrazzanoBinding R mb conns) (cleanupUnmatched mb K)))
    (\<lambda>e s'. e = None \<and> view (world s') = purge conns (orphaned mb wants) (view (world s))) ?s"
    by (simp add: r wpt_gbind)
qed

text \<open>Deletions on one side only: on the clusters that are not the pair's, or on the pair's, where a missing
  connection ends the deletion without an error.\<close>

lemma unmatched_purges:
  assumes fair: "fairOrder R"
  shows "wpt (gbind (GetManagedClustersNotForVerrazzanoBinding R mb conns) (cleanupUnmatched mb K))
    (\<lambda>e s'. e = None \<and> view (world s') =
       purgeOn (- clusterNames mb) conns (\<lambda>k _ x. matches (bindingCluster mb k) (Labels x)) (view (world s))) s"
  unfolding wpt_gbind
proof (rule wpt_mono [OF wpt_NotFor [where J = "\<lambda>s'. view (world s') = view (world s)", OF fair]])
  fix u and s1 :: "'w state"
  assume u: "mlookup u = mlookup conns |` (- clusterNames mb) \<and> view (world s1) = view (world s)"
  have "purge u (picked [] (bindingCluster mb) (\<lambda>_ _. True)) v =
      purgeOn (dom (mlookup u)) conns (\<lambda>k _ x. matches (bindingCluster mb k) (Labels x)) v" for v :: "'a ObjectMeta_scheme store"
    by (rule purgeOn_cong) (auto simp: u picked_def restrict_map_def split: if_splits)
  moreover have "dom (mlookup u) = - clusterNames mb \<inter> dom (mlookup conns)" by (auto simp: u)
  moreover have "mlookup u k = Some c \<Longrightarrow> mlookup conns k = Some c" for k c
    by (simp add: u restrict_map_def split: if_splits)
  ultimately show "wpt (cleanupUnmatched mb K u) (\<lambda>e s'. e = None \<and> view (world s') =
       purgeOn (- clusterNames mb) conns (\<lambda>k _ x. matches (bindingCluster mb k) (Labels x)) (view (world s))) s1"
    using u deleteListed_purges [OF fair, where cs = u and s = s1 and ns = "[]" and K = K and
        sel = "bindingCluster mb" and pick = "\<lambda>_ _. True"]
    by (simp add: purgeOn_dom)
qed (simp_all add: order_view)

lemma matched_purges:
  assumes fair: "fairOrder R"
  shows "wpt (gbind (GetManagedClustersForVerrazzanoBinding R mb conns) (\<lambda>(matched, err).
      case err of
        Some _ \<Rightarrow> gret None
      | None \<Rightarrow> rangeMap R matched (\<lambda>k c. deleteListed (connName c) K (ls c) (rc c) [] (sel k) nsOf pick)))
    (\<lambda>e s'. e = None \<and> view (world s') =
       (if clusterNames mb \<subseteq> dom (mlookup conns)
        then purgeOn (clusterNames mb) conns (\<lambda>k _ x. matches (sel k) (Labels x) \<and> pick x) (view (world s))
        else view (world s))) s"
  by (rule wpt_matched_purges [OF fair order_view view_placed]) (rule deleteListed_view)

end

section \<open>Creations\<close>

lemma namespaces_reconcile:
  assumes "fairOrder R" "covers conns (ManagedClusters mb)" "namespaceStore R conns fam"
  shows "reconciles present absent clusterScoped (creatable NamespaceKind) conns (ManagedClusters mb)
    (\<lambda>_. newNamespaces (SynBinding mb)) (\<lambda>w. typed asNamespace (fam w NamespaceKind))
    (\<lambda>w. others NamespaceKind (fam w)) (CreateNamespaces R mb conns)"
  by (rule read_store.creations_reconcile [OF kind_store.axioms(1) [OF assms(3)] assms(1,2)])
    (auto simp: keyed_def newNamespaces_def CreateNamespaces_def createNamespace_def createIfAbsent_def
      clusterScoped_def ObjectMeta.defs NamespaceObj.defs noMeta_def)

lemma clusterRoles_reconcile:
  assumes "fairOrder R" "covers conns (ManagedClusters mb)" "clusterRoleStore R conns fam"
  shows "reconcilesKind R fam ClusterRoleKind KClusterRole asClusterRole clusterScoped conns (ManagedClusters mb)
    (\<lambda>k _. newClusterRoles (SynBinding mb) k) (CreateClusterRoles R mb conns)"
  by (rule read_store.updates_reconcile [OF kind_store.axioms(1) [OF assms(3)] assms(1,2)])
    (simp_all add: newClusterRoles_def GetSystemClusterRoles_def clusterScoped_def CreateClusterRoles_def Let_def)

lemma clusterRoleBindings_reconcile:
  assumes "fairOrder R" "covers conns (ManagedClusters mb)" "clusterRoleBindingStore R conns fam"
  shows "reconcilesKind R fam ClusterRoleBindingKind KClusterRoleBinding asClusterRoleBinding clusterScoped conns
    (ManagedClusters mb) (\<lambda>k _. newClusterRoleBindings (SynBinding mb) k) (CreateClusterRoleBindings R mb conns)"
  by (rule read_store.updates_reconcile [OF kind_store.axioms(1) [OF assms(3)] assms(1,2)])
    (simp_all add: newClusterRoleBindings_def GetSystemClusterRoleBindings_def clusterScoped_def
      CreateClusterRoleBindings_def Let_def)

lemma wantedServiceAccounts_keyed: "keyed Namespace (wantedServiceAccounts b secs k mc)"
proof (cases "b = VmiSystemBindingName")
  case True
  then show ?thesis
    by (cases "mcNamespaces mc = []")
      (simp_all add: wantedServiceAccounts_system,
        simp add: wantedServiceAccounts_def newServiceAccounts_def newServiceAccountsLoop_eq concat_eq_Nil_conv keyed_def)
qed (auto simp: wantedServiceAccounts_binding keyed_def)

lemma serviceAccounts_reconcile:
  assumes "fairOrder R" "covers conns mcs" "serviceAccountStore R conns fam"
  shows "reconcilesKind R fam ServiceAccountKind KServiceAccount asServiceAccount Namespace conns mcs
    (wantedServiceAccounts b secs) (CreateServiceAccounts R b secs mcs conns)"
  by (rule read_store.updates_reconcile [OF kind_store.axioms(1) [OF assms(3)] assms(1,2)])
    (simp_all add: CreateServiceAccounts_def createServiceAccount_def wantedServiceAccounts_keyed)

definition wantedConfigMaps :: "SyntheticModelBinding \<Rightarrow> ManagedCluster \<Rightarrow> ConfigMap list" where
  "wantedConfigMaps mb mc = (if Name (SynBinding mb) = VmiSystemBindingName then [] else mcConfigMaps mc)"

lemma configMaps_reconcile:
  assumes "fairOrder R" "covers conns (ManagedClusters mb)" "configMapStore R conns fam"
    and "\<And>k mc. mlookup (ManagedClusters mb) k = Some mc \<Longrightarrow> keyed Namespace (wantedConfigMaps mb mc)"
  shows "reconcilesKind R fam ConfigMapKind KConfigMap asConfigMap Namespace conns (ManagedClusters mb)
    (\<lambda>_. wantedConfigMaps mb) (CreateConfigMaps R mb conns ci)"
  by (rule read_store.updates_reconcile [OF kind_store.axioms(1) [OF assms(3)] assms(1,2)], erule assms(4))
    (cases "Name (SynBinding mb) = VmiSystemBindingName";
      simp add: CreateConfigMaps_def wantedConfigMaps_def createUpdateConfigMaps_def)

lemma deployments_reconcile:
  assumes "fairOrder R" "covers conns (ManagedClusters mb)" "deploymentStore R conns fam"
    and "\<And>k mc. mlookup (ManagedClusters mb) k = Some mc \<Longrightarrow> keyed Namespace (mcDeployments mc)"
  shows "reconcilesKind R fam DeploymentKind KDeployment asDeployment Namespace conns (ManagedClusters mb)
    (\<lambda>_. mcDeployments) (CreateDeployments R mb conns uri)"
  by (rule read_store.updates_reconcile [OF kind_store.axioms(1) [OF assms(3)] assms(1,2)], erule assms(4)) (simp add: CreateDeployments_def)

lemma services_reconcile:
  assumes "fairOrder R" "covers conns (ManagedClusters mb)" "serviceStore R conns fam"
    and "\<And>k mc. mlookup (ManagedClusters mb) k = Some mc \<Longrightarrow> keyed Namespace (wantedServices mb k mc)"
  shows "reconcilesKind R fam ServiceKind KService asService Namespace conns (ManagedClusters mb)
    (wantedServices mb) (CreateServices R mb conns)"
  by (rule read_store.updates_reconcile [OF kind_store.axioms(1) [OF assms(3)] assms(1,2)])
    (simp_all add: CreateServices_def assms(4))

text \<open>Only the system binding wants daemon sets.\<close>

definition wantedDaemonSets ::
  "'w runtime \<Rightarrow> SyntheticModelBinding \<Rightarrow> string \<Rightarrow> ClusterInfo \<Rightarrow> string \<Rightarrow> DaemonSet list" where
  "wantedDaemonSets R mb uri ci k =
     (if Name (SynBinding mb) = VmiSystemBindingName then newDaemonSet R k uri ci else [])"

lemma reconciles_nothing: "reconciles good may nsOf ok conns mcs (\<lambda>_ _. []) view rest (gret None)"
  by (simp add: reconciles_def gret_def converged_def goodAll_def)

lemma daemonSets_reconcile:
  assumes "fairOrder R" "covers conns (ManagedClusters mb)" "daemonSetStore R conns fam"
  shows "reconcilesKind R fam DaemonSetKind KDaemonSet asDaemonSet Namespace conns (ManagedClusters mb)
    (\<lambda>k _. wantedDaemonSets R mb uri ci k) (CreateDaemonSets R mb conns uri ci)"
proof (cases "Name (SynBinding mb) = VmiSystemBindingName")
  case True
  then show ?thesis
    by (intro read_store.updates_reconcile [OF kind_store.axioms(1) [OF assms(3)] assms(1,2)])
      (simp_all add: CreateDaemonSets_def wantedDaemonSets_def newDaemonSet_def SystemDaemonSets_def Let_def)
qed (simp add: CreateDaemonSets_def wantedDaemonSets_def reconciles_nothing)

end
