(* ===== verification/Secret_Copies.thy ===== *)
theory Secret_Copies
  imports Convergence Managed_Secrets
begin

text \<open>
  What \<^verbatim>\<open>CreateSecrets\<close> achieves: the copies of the management cluster's secrets reach every cluster of
  the pair. The management cluster is read only, so its secrets are a function \<open>src\<close> of namespace and
  name. The copy is one more \<open>reconciler\<close>, which spares an existing WebLogic encryption secret.
\<close>

section \<open>The copies a pair wants\<close>

text \<open>The client of the management cluster finds the secrets of \<open>src\<close>, and changes nothing.\<close>

definition secretSource :: "(Secret, 'w) rclient \<Rightarrow> (string \<Rightarrow> string \<Rightarrow> Secret option) \<Rightarrow> bool" where
  "secretSource rc src \<longleftrightarrow>
     (\<forall>ns n w. answers (rcGet rc ns n w) (src ns n) n w)"

text \<open>The copy of a secret, which is looked for in two namespaces.\<close>

definition copyOf :: "(string \<Rightarrow> string \<Rightarrow> Secret option) \<Rightarrow> string \<Rightarrow> string \<Rightarrow> Secret option" where
  "copyOf src ns n =
     map_option (\<lambda>s. ObjectMeta.extend (noMeta\<lparr>Name := n, Namespace := ns, Labels := []\<rparr>)
         (Secret.fields (copyInto [] (secretData s)) (secretType s)))
       (case src DefaultNamespace n of None \<Rightarrow> src VerrazzanoNamespace n | Some s \<Rightarrow> Some s)"

definition copies :: "(string \<Rightarrow> string \<Rightarrow> Secret option) \<Rightarrow> ManagedCluster \<Rightarrow> Secret list" where
  "copies src mc = concat (map (\<lambda>ns. case mlookup (mcSecrets mc) ns of
       None \<Rightarrow> [] | Some names \<Rightarrow> List.map_filter (copyOf src ns) names) (keys (mcSecrets mc)))"

definition wantedCopies ::
  "(string \<Rightarrow> string \<Rightarrow> Secret option) \<Rightarrow> SyntheticModelBinding \<Rightarrow> ManagedCluster \<Rightarrow> Secret list" where
  "wantedCopies src mb mc = (if Name (SynBinding mb) = VmiSystemBindingName then [] else copies src mc)"

lemma copyOf_key: "copyOf src ns n = Some x \<Longrightarrow> Name x = n \<and> Namespace x = ns"
  by (auto simp: copyOf_def ObjectMeta.defs Secret.defs noMeta_def)

lemma set_map_filter: "set (List.map_filter f xs) = {y. \<exists>x \<in> set xs. f x = Some y}"
  by (induction xs) (auto simp: List.map_filter_simps split: option.splits)

lemma set_copies: "set (copies src mc) =
    {x. \<exists>ns names n. mlookup (mcSecrets mc) ns = Some names \<and> n \<in> set names \<and> copyOf src ns n = Some x}"
proof (intro set_eqI iffI)
  fix x assume "x \<in> set (copies src mc)"
  then show "x \<in> {x. \<exists>ns names n. mlookup (mcSecrets mc) ns = Some names \<and> n \<in> set names \<and> copyOf src ns n = Some x}"
    by (auto simp: copies_def set_map_filter split: option.splits) blast
next
  fix x assume "x \<in> {x. \<exists>ns names n. mlookup (mcSecrets mc) ns = Some names \<and> n \<in> set names \<and> copyOf src ns n = Some x}"
  then obtain ns names n where "mlookup (mcSecrets mc) ns = Some names" "n \<in> set names" "copyOf src ns n = Some x" by blast
  then show "x \<in> set (copies src mc)"
    by (auto simp: copies_def set_map_filter dom_def intro!: exI [of _ ns] exI [of _ names])
qed

lemma copies_keyed: "keyed Namespace (copies src mc)"
  unfolding keyed_def set_copies using copyOf_key by fastforce

lemma copyInto_Nil [simp]: "copyInto d [] = d"
  by (simp add: copyInto_def)

text \<open>The loops that collect them change nothing but the order maps are visited in.\<close>

lemma newSecret_copy:
  assumes "secretSource (csSecrets cs) src"
  shows "newSecret n ns cs [] [] s =
    (Ret (case copyOf src ns n of None \<Rightarrow> Inl (ErrNotFound n) | Some x \<Rightarrow> Inr x), s)"
proof -
  have g: "GetSecret n ns' cs s = (Ret (src ns' n, if src ns' n = None then Some (ErrNotFound n) else None), s)" for ns'
  proof -
    have "answers (rcGet (csSecrets cs) ns' n (world s)) (src ns' n) n (world s)"
      using assms by (simp add: secretSource_def)
    then show ?thesis
      by (cases "rcGet (csSecrets cs) ns' n (world s)")
        (auto simp: GetSecret_def clientGet_def gbind_def glift_def gret_def answers_def split: option.splits)
  qed
  show ?thesis
    by (cases "src DefaultNamespace n"; cases "src VerrazzanoNamespace n")
      (simp_all add: newSecret_def copyOf_def gbind_def g gret_def deref_def Let_def)
qed

lemma addSecret_copy:
  assumes src: "secretSource (csSecrets cs) src"
    and l: "\<forall>x \<in> set l. copyOf src (Namespace x) (Name x) = Some x"
  shows "\<exists>l'. addSecret cs ns n l s = (Ret l', s) \<and> set l' = set l \<union> {x. copyOf src ns n = Some x}"
proof (cases "list_ex (\<lambda>x. Name x = n \<and> Namespace x = ns) l")
  case True
  with l have "\<exists>x \<in> set l. copyOf src ns n = Some x" by (auto simp: list_ex_iff)
  with True show ?thesis by (auto simp: addSecret_def gret_def)
next
  case False
  then show ?thesis
    by (auto simp: addSecret_def gbind_def newSecret_copy [OF src] gret_def split: option.split)
qed

lemma addSecrets_copy:
  assumes src: "secretSource (csSecrets cs) src"
  shows "\<forall>x \<in> set l. copyOf src (Namespace x) (Name x) = Some x \<Longrightarrow>
    \<exists>l'. rangeFold (addSecret cs ns) names l s = (Ret l', s) \<and>
      set l' = set l \<union> {x. \<exists>n \<in> set names. copyOf src ns n = Some x}"
proof (induction names arbitrary: l)
  case (Cons n names)
  from addSecret_copy [OF src Cons.prems] obtain l1 where l1: "addSecret cs ns n l s = (Ret l1, s)"
    "set l1 = set l \<union> {x. copyOf src ns n = Some x}" by blast
  with Cons.prems have "\<forall>x \<in> set l1. copyOf src (Namespace x) (Name x) = Some x" using copyOf_key by auto
  from Cons.IH [OF this] obtain l2 where "rangeFold (addSecret cs ns) names l1 s = (Ret l2, s)"
    "set l2 = set l1 \<union> {x. \<exists>n \<in> set names. copyOf src ns n = Some x}" by blast
  with l1 show ?case by (auto simp: gbind_def)
qed (simp add: gret_def)

lemma collect_copy:
  assumes src: "secretSource (csSecrets cs) src"
  shows "\<forall>x \<in> set l. copyOf src (Namespace x) (Name x) = Some x \<Longrightarrow>
    \<exists>l'. rangeFold (\<lambda>namespace secrets. case mlookup (mcSecrets mc) namespace of None \<Rightarrow> gret secrets
        | Some names \<Rightarrow> rangeFold (addSecret cs namespace) names secrets) nss l s = (Ret l', s) \<and>
      set l' = set l \<union> {x. \<exists>ns \<in> set nss. \<exists>names n. mlookup (mcSecrets mc) ns = Some names \<and>
        n \<in> set names \<and> copyOf src ns n = Some x}"
    (is "_ \<Longrightarrow> \<exists>l'. rangeFold ?f nss l s = _ \<and> _")
proof (induction nss arbitrary: l)
  case (Cons ns nss)
  obtain l1 where l1: "?f ns l s = (Ret l1, s)" "set l1 = set l \<union> {x. \<exists>names n.
      mlookup (mcSecrets mc) ns = Some names \<and> n \<in> set names \<and> copyOf src ns n = Some x}"
  proof (cases "mlookup (mcSecrets mc) ns")
    case None
    then show thesis using that [of l] by (simp add: gret_def)
  next
    case (Some names)
    with addSecrets_copy [OF src Cons.prems, of ns names s] that show thesis by (auto simp: Bex_def)
  qed
  with Cons.prems have "\<forall>x \<in> set l1. copyOf src (Namespace x) (Name x) = Some x" using copyOf_key by auto
  from Cons.IH [OF this] obtain l2 where "rangeFold ?f nss l1 s = (Ret l2, s)" "set l2 = set l1 \<union> {x. \<exists>ns \<in> set nss.
      \<exists>names n. mlookup (mcSecrets mc) ns = Some names \<and> n \<in> set names \<and> copyOf src ns n = Some x}" by blast
  with l1 show ?case by (auto simp: gbind_def)
qed (simp add: gret_def)

lemma wpt_newSecrets:
  assumes fair: "fairOrder R" and src: "secretSource (csSecrets cs) src"
    and Q: "\<And>l ks. set l = set (copies src mc) \<Longrightarrow> Q l (s\<lparr>world := snd (rangeOrder R ks (world s))\<rparr>)"
  shows "wpt (newSecrets R mb mc cs) Q s"
  unfolding newSecrets_def wpt_gbind
proof (rule wpt_rangeOrder [OF fair])
  fix nss assume nss: "set nss = set (keys (mcSecrets mc))"
  let ?s = "s\<lparr>world := snd (rangeOrder R (keys (mcSecrets mc)) (world s))\<rparr>"
  from collect_copy [OF src, of "[]" mc nss ?s] obtain l where
    l: "rangeFold (\<lambda>namespace secrets. case mlookup (mcSecrets mc) namespace of None \<Rightarrow> gret secrets
        | Some names \<Rightarrow> rangeFold (addSecret cs namespace) names secrets) nss [] ?s = (Ret l, ?s)"
    and "set l = {x. \<exists>ns \<in> set nss. \<exists>names n. mlookup (mcSecrets mc) ns = Some names \<and>
        n \<in> set names \<and> copyOf src ns n = Some x}" by auto
  then have "set l = set (copies src mc)" by (auto simp: nss set_copies dom_def)
  with l Q show "wpt (rangeFold (\<lambda>namespace secrets. case mlookup (mcSecrets mc) namespace of None \<Rightarrow> gret secrets
        | Some names \<Rightarrow> rangeFold (addSecret cs namespace) names secrets) nss []) Q ?s"
    by (simp add: wpt_def)
qed

section \<open>The loop that writes them\<close>

text \<open>The body of \<^verbatim>\<open>createSecrets\<close>.\<close>

definition copySecret :: "'w runtime \<Rightarrow> 'w ManagedClusterConnection \<Rightarrow> Secret \<Rightarrow> ('w, err option) prog" where
  "copySecret R conn new =
     gbind (listerGet (SecretLister conn) (Namespace new) (Name new)) (\<lambda>(existingSecret, err).
       case existingSecret of
         Some old \<Rightarrow>
           if secretType old \<noteq> wlsRuntimeEncryptionSecret \<and> Diff R (KSecret old) (KSecret new) \<noteq> [] then
             gbind (clientUpdate (connName conn) KSecret (csSecrets (KubeClient conn))
                      (Namespace new) new) (\<lambda>(_, err). gret err)
           else gret err
       | None \<Rightarrow>
           gbind (clientCreate (connName conn) KSecret (csSecrets (KubeClient conn))
                    (Namespace new) new) (\<lambda>(_, err). gret err))"

lemma createSecrets_eq: "createSecrets R b c news cl = rangeE (copySecret R c) news"
  by (simp add: createSecrets_def copySecret_def [abs_def])

text \<open>A copy is there, or an encryption secret of its name.\<close>

definition copied :: "'w runtime \<Rightarrow> Secret option \<Rightarrow> Secret \<Rightarrow> bool" where
  "copied R y x = (case y of None \<Rightarrow> False
     | Some y \<Rightarrow> secretType y = wlsRuntimeEncryptionSecret \<or> Diff R (KSecret y) (KSecret x) = [])"

locale secret_store = read_store R conns KSecret Namespace ok "\<lambda>c. csSecrets (KubeClient c)" view rest SecretLister
  for R :: "'w runtime" and conns and ok and view and rest

sublocale secret_store \<subseteq> copying: reconciler R conns KSecret Namespace ok "\<lambda>c. csSecrets (KubeClient c)"
  view rest "copied R" always "copySecret R"
proof unfold_locales
  fix k c and x :: Secret and s :: "'w state" assume c: "mlookup conns k = Some c"
  let ?y = "view (world s) (connName c) (Namespace x) (Name x)"
  show "copied R ?y x \<Longrightarrow> copySecret R c x s = (Ret None, s)"
    by (auto simp: copySecret_def call_defs gbind_def glift_def gret_def lister_get [OF c] copied_def
        split: option.splits)
  assume ok: "ok (rest (world s)) (connName c) (Namespace x) (Name x)" and bad: "\<not> copied R ?y x"
  show "\<exists>s' y. copySecret R c x s = (Ret None, s') \<and> rest (world s') = rest (world s) \<and> always ?y \<and>
      copied R y x \<and> view (world s') = put (connName c) (Namespace x) (Name x) y (view (world s))"
  proof (cases ?y)
    case None
    from create_view [OF c ok None] obtain r y w' where "rcCreate (csSecrets (KubeClient c)) (Namespace x) x (world s) = ((r, None), w')"
      "Diff R (KSecret y) (KSecret x) = []" "view w' = put (connName c) (Namespace x) (Name x) (Some y) (view (world s))"
      "rest w' = rest (world s)" by blast
    with None show ?thesis
      by (auto simp: copySecret_def call_defs gbind_def glift_def gsend_def gret_def lister_get [OF c]
          copied_def intro!: exI [of _ "Some y"])
  next
    case (Some old)
    from update_view [OF c Some] obtain r y w' where "rcUpdate (csSecrets (KubeClient c)) (Namespace x) x (world s) = ((r, None), w')"
      "Diff R (KSecret y) (KSecret x) = []" "view w' = put (connName c) (Namespace x) (Name x) (Some y) (view (world s))"
      "rest w' = rest (world s)" by blast
    with Some bad show ?thesis
      by (auto simp: copySecret_def call_defs gbind_def glift_def gsend_def gret_def lister_get [OF c]
          copied_def intro!: exI [of _ "Some y"])
  qed
qed

text \<open>The loop over the clusters, once the connections are chosen.\<close>

abbreviation copyAll where
  "copyAll R mb cs conns \<equiv> rangeClusters R (ManagedClusters mb) conns (\<lambda>clusterName mc conn.
     gbind (if Name (SynBinding mb) \<noteq> VmiSystemBindingName then newSecrets R mb mc cs else gret [])
       (\<lambda>secrets. createSecrets R (SynBinding mb) conn secrets clusterName))"

context secret_store
begin

lemma copies_reconcile:
  assumes fair: "fairOrder R" and cov: "covers conns (ManagedClusters mb)"
    and src: "Name (SynBinding mb) \<noteq> VmiSystemBindingName \<Longrightarrow> secretSource (csSecrets cs) src"
  shows "reconciles (copied R) always Namespace ok conns (ManagedClusters mb) (\<lambda>_. wantedCopies src mb) view rest
    (copyAll R mb cs conns)"
proof (rule copying.bodies_reconcile [OF fair cov])
  fix k mc c and s :: "'w state"
  assume k: "mlookup (ManagedClusters mb) k = Some mc" and c: "mlookup conns k = Some c"
  let ?body = "gbind (if Name (SynBinding mb) \<noteq> VmiSystemBindingName then newSecrets R mb mc cs else gret [])
       (\<lambda>secrets. createSecrets R (SynBinding mb) c secrets k)"
  have body: "wpt ?body Q s" if "\<And>l s1. set l = set (wantedCopies src mb mc) \<Longrightarrow> keyed Namespace l \<Longrightarrow>
      sent s1 = sent s \<Longrightarrow> view (world s1) = view (world s) \<Longrightarrow> rest (world s1) = rest (world s) \<Longrightarrow>
      wpt (rangeE (copySecret R c) l) Q s1" for Q
  proof (cases "Name (SynBinding mb) = VmiSystemBindingName")
    case True
    then show ?thesis using that [of "[]" s] by (simp add: wantedCopies_def wpt_gbind wpt_gret createSecrets_eq)
  next
    case False
    have "keyed Namespace l" if "set l = set (copies src mc)" for l
      using copies_keyed [of src mc] unfolding keyed_def that by blast
    with False that show ?thesis
      by (simp add: wpt_gbind createSecrets_eq)
        (rule wpt_newSecrets [OF fair src], simp_all add: wantedCopies_def order_view order_rest)
  qed
  show "copying.ensures c (wantedCopies src mb mc) ?body s"
  proof (intro impI body)
    fix l and s1 :: "'w state" assume "set l = set (wantedCopies src mb mc)" "keyed Namespace l" "view (world s1) = view (world s)"
      "rest (world s1) = rest (world s)"
      "\<forall>x \<in> set (wantedCopies src mb mc). ok (rest (world s)) (connName c) (Namespace x) (Name x)"
    then show "wpt (rangeE (copySecret R c) l) (\<lambda>e s'. e = None \<and> rest (world s') = rest (world s) \<and>
        (\<forall>x \<in> set (wantedCopies src mb mc). copying.goodAt (world s') c x) \<and>
        (\<forall>cl ns n. view (world s') cl ns n = view (world s) cl ns n \<or> always (view (world s) cl ns n) \<and>
          cl = connName c \<and> (\<exists>x \<in> set (wantedCopies src mb mc). ns = Namespace x \<and> n = Name x))) s1"
      using copying.ensureAll_good [OF c, of l s1] by simp
  qed
  show "copying.idles c (wantedCopies src mb mc) ?body s"
    by (intro impI body) (simp add: wpt_def copying.ensureAll_idle [OF c])
qed

end

section \<open>The choice of the connections\<close>

abbreviation "secretStore R conns fam \<equiv> secret_store R conns (creatable SecretKind)
  (\<lambda>w. typed asSecret (fam w SecretKind)) (\<lambda>w. others SecretKind (fam w))"

lemma secret_store_restrict:
  "secret_store R conns ok view rest \<Longrightarrow> (\<And>k c. mlookup conns' k = Some c \<Longrightarrow> mlookup conns k = Some c) \<Longrightarrow>
   secret_store R conns' ok view rest"
  unfolding secret_store_def by (rule read_store_restrict)

lemma reconciles_cong:
  assumes "\<forall>k \<in> dom (mlookup mcs). mlookup conns' k = mlookup conns k"
  shows "reconciles good may nsOf ok conns' mcs wanted view rest m =
    reconciles good may nsOf ok conns mcs wanted view rest m"
proof -
  have e: "mlookup mcs k = Some mc \<Longrightarrow> mlookup conns' k = mlookup conns k" for k mc using assms by blast
  have "goodAll good nsOf conns' mcs wanted = goodAll good nsOf conns mcs wanted"
    "\<And>ok. allowed ok nsOf conns' mcs wanted = allowed ok nsOf conns mcs wanted"
    "converged good may nsOf conns' mcs wanted = converged good may nsOf conns mcs wanted"
    by (simp_all add: goodAll_def allowed_def converged_def changes_def fun_eq_iff e cong: conj_cong)
  then show ?thesis unfolding reconciles_def by simp
qed

text \<open>What comes before a reconciler and changes nothing.\<close>

lemma reconciles_after:
  assumes m: "\<And>s. wpt m (\<lambda>a s'. P a \<and> sent s' = sent s \<and> view (world s') = view (world s) \<and>
      rest (world s') = rest (world s)) s"
    and k: "\<And>a. P a \<Longrightarrow> reconciles good may nsOf ok conns mcs wanted view rest (k a)"
  shows "reconciles good may nsOf ok conns mcs wanted view rest (gbind m k)"
  unfolding reconciles_def
proof (intro conjI allI impI)
  fix s
  from m [of s] obtain a s1 where a: "m s = (Ret a, s1)" "P a" "sent s1 = sent s"
    "view (world s1) = view (world s)" "rest (world s1) = rest (world s)" by (blast dest: wptD)
  then have r: "gbind m k s = k a s1" by (simp add: gbind_def)
  note k = k [OF a(2), unfolded reconciles_def]
  show "\<exists>s'. gbind m k s = (Ret None, s') \<and> rest (world s') = rest (world s) \<and>
      converged good may nsOf conns mcs wanted (view (world s)) (view (world s'))"
    if "allowed (ok (rest (world s))) nsOf conns mcs wanted"
    using conjunct1 [OF k, rule_format, of s1] that by (simp add: a r)
  show "\<exists>s'. gbind m k s = (Ret None, s') \<and> sent s' = sent s \<and> rest (world s') = rest (world s) \<and>
      view (world s') = view (world s)"
    if "goodAll good nsOf conns mcs wanted (view (world s))"
    using conjunct2 [OF k, rule_format, of s1] that by (simp add: a r)
qed

lemma secrets_reconcile:
  fixes fam :: "'w \<Rightarrow> clusterState"
  assumes fair: "fairOrder R" and wf: "wf_pair mb" and cov: "covers conns (ManagedClusters mb)"
    and st: "secretStore R conns fam"
    and src: "Name (SynBinding mb) \<noteq> VmiSystemBindingName \<Longrightarrow> secretSource (csSecrets cs) src"
  shows "reconciles (copied R) always Namespace (creatable SecretKind) conns (ManagedClusters mb)
    (\<lambda>_. wantedCopies src mb) (\<lambda>w. typed asSecret (fam w SecretKind)) (\<lambda>w. others SecretKind (fam w))
    (CreateSecrets R mb conns cs)"
  unfolding CreateSecrets_def
proof (rule reconciles_after)
  let ?ok = "\<lambda>r. \<exists>filtered. r = (filtered, None) \<and> covers filtered (ManagedClusters mb) \<and>
    (\<forall>k c. mlookup filtered k = Some c \<longrightarrow> mlookup conns k = Some c)"
  note A = read_store.axioms(1) [OF st [unfolded secret_store_def]]
  note api_store.order_view [OF A, simp] api_store.order_rest [OF A, simp]
  show "wpt (GetFilteredConnections R mb conns) (\<lambda>r s'. ?ok r \<and> sent s' = sent s \<and>
      typed asSecret (fam (world s') SecretKind) = typed asSecret (fam (world s) SecretKind) \<and>
      others SecretKind (fam (world s')) = others SecretKind (fam (world s))) s" for s
  proof (cases "Name (SynBinding mb) = VmiSystemBindingName")
    case True
    with cov show ?thesis by (simp add: GetFilteredConnections_def wpt_gret)
  next
    case False
    have "wpt (GetManagedClustersForVerrazzanoBinding R mb conns)
        (\<lambda>r. wpt (case r of (fc, err) \<Rightarrow> case err of Some e \<Rightarrow> gret ([], Some e) | None \<Rightarrow> gret (fc, None))
          (\<lambda>r s'. ?ok r \<and> sent s' = sent s \<and>
            typed asSecret (fam (world s') SecretKind) = typed asSecret (fam (world s) SecretKind) \<and>
            others SecretKind (fam (world s')) = others SecretKind (fam (world s)))) s"
    proof (rule wpt_For [OF fair])
      fix r ks assume fs: "forSpec mb conns r"
      from forSpec_ok [OF fs wf cov] obtain filtered where "r = (filtered, None)" "covers filtered (ManagedClusters mb)"
        "\<And>k c. mlookup filtered k = Some c \<Longrightarrow> mlookup conns k = Some c" by blast
      then show "wpt (case r of (fc, err) \<Rightarrow> case err of Some e \<Rightarrow> gret ([], Some e) | None \<Rightarrow> gret (fc, None))
          (\<lambda>r s'. ?ok r \<and> sent s' = sent s \<and>
            typed asSecret (fam (world s') SecretKind) = typed asSecret (fam (world s) SecretKind) \<and>
            others SecretKind (fam (world s')) = others SecretKind (fam (world s)))
          (s\<lparr>world := snd (rangeOrder R ks (world s))\<rparr>)"
        by (simp add: wpt_gret)
    qed
    with False show ?thesis by (simp add: GetFilteredConnections_def wpt_gbind)
  qed
  fix r :: "'w connections \<times> err option" assume "?ok r"
  then obtain filtered where r: "r = (filtered, None)" and fcov: "covers filtered (ManagedClusters mb)"
    and sub: "\<And>k c. mlookup filtered k = Some c \<Longrightarrow> mlookup conns k = Some c" by blast
  have eq: "\<forall>k \<in> dom (mlookup (ManagedClusters mb)). mlookup filtered k = mlookup conns k"
    using fcov sub unfolding covers_def by (auto simp: subset_iff dom_def)
  have "reconciles (copied R) always Namespace (creatable SecretKind) filtered (ManagedClusters mb)
      (\<lambda>_. wantedCopies src mb) (\<lambda>w. typed asSecret (fam w SecretKind)) (\<lambda>w. others SecretKind (fam w))
      (copyAll R mb cs filtered)"
    by (rule secret_store.copies_reconcile [OF secret_store_restrict [OF st] fair fcov], erule sub, rule src)
  note iffD1 [OF reconciles_cong [OF eq] this]
  then show "reconciles (copied R) always Namespace (creatable SecretKind) conns (ManagedClusters mb)
      (\<lambda>_. wantedCopies src mb) (\<lambda>w. typed asSecret (fam w SecretKind)) (\<lambda>w. others SecretKind (fam w))
      (case r of (filteredConnections, err) \<Rightarrow> (case err of Some e \<Rightarrow> gret (Some e)
        | None \<Rightarrow> copyAll R mb cs filteredConnections))"
    unfolding r prod.case option.case .
qed

end
