(* ===== verification/Deployment_Order.thy ===== *)
theory Deployment_Order
  imports Secret_Copies Controller Controller_Lemmas
begin

text \<open>
  The reconcilers of one pair together, in the order of \<^verbatim>\<open>createManagedClusterResourcesForBinding\<close>: each
  establishes what is wanted of its kind, keeps what the ones before it have established and changes
  nothing but what is wanted, and the namespaces, which come first, are where the later ones create.
  \<open>establishes\<close> is the triple the steps are composed by, with a relation for the change a step makes; a
  quiet one sends nothing.
\<close>

section \<open>Composition\<close>

definition establishes ::
  "('w \<Rightarrow> clusterState) \<Rightarrow> bool \<Rightarrow> (clusterState \<Rightarrow> clusterState \<Rightarrow> bool) \<Rightarrow>
   (clusterState \<Rightarrow> bool) \<Rightarrow> ('w, 'a) prog \<Rightarrow> (clusterState \<Rightarrow> bool) \<Rightarrow> bool" where
  "establishes fam quiet T I m J \<longleftrightarrow>
     (\<forall>s. I (fam (world s)) \<longrightarrow> wpt m (\<lambda>_ s'. J (fam (world s')) \<and> T (fam (world s)) (fam (world s')) \<and>
        (quiet \<longrightarrow> sent s' = sent s)) s)"

lemma establishes_logged:
  fixes fam :: "'w \<Rightarrow> clusterState"
  assumes "establishes fam q T I m J" "establishes fam q T J k L" and "transp T"
  shows "establishes fam q T I (logged m k) L"
  unfolding establishes_def
proof (intro allI impI)
  fix s :: "'w state" assume "I (fam (world s))"
  let ?P = "\<lambda>J s'. J (fam (world s')) \<and> T (fam (world s)) (fam (world s')) \<and> (q \<longrightarrow> sent s' = sent s)"
  from assms(1) \<open>I (fam (world s))\<close> have "wpt m (\<lambda>_. ?P J) s" unfolding establishes_def by blast
  then have "wpt m (\<lambda>_. wpt k (\<lambda>_. ?P L)) s"
  proof (rule wpt_mono)
    fix s1 :: "'w state" assume "?P J s1"
    with assms(2,3) show "wpt k (\<lambda>_. ?P L) s1"
      unfolding establishes_def by (auto elim!: wpt_mono dest: transpD)
  qed
  then show "wpt (logged m k) (\<lambda>_. ?P L) s"
    by (simp add: logged_def wpt_gbind)
qed

lemma establishes_gret: "reflp T \<Longrightarrow> establishes fam q T I (gret a) I"
  by (simp add: establishes_def wpt_gret reflpD)

text \<open>A reconciler that has run, in a place where it can create what it wants.\<close>

lemma establishes_reconcile:
  fixes fam :: "'w \<Rightarrow> clusterState"
  assumes "reconciles good may nsOf (creatable K) conns mcs wanted (\<lambda>w. typed un (fam w K)) (\<lambda>w. others K (fam w)) m"
    and "\<And>f. I f \<Longrightarrow> allowed (creatable K f) nsOf conns mcs wanted"
    and "\<And>f f'. I f \<Longrightarrow> \<forall>K'. K' \<noteq> K \<longrightarrow> f' K' = f K' \<Longrightarrow> I f'"
    and "\<And>f f'. \<forall>K'. K' \<noteq> K \<longrightarrow> f' K' = f K' \<Longrightarrow>
      changes may nsOf conns mcs wanted (typed un (f K)) (typed un (f' K)) \<Longrightarrow> T f f'"
  shows "establishes fam False T I m (\<lambda>f. I f \<and> goodAll good nsOf conns mcs wanted (typed un (f K)))"
  unfolding establishes_def
proof (intro allI impI)
  fix s :: "'w state" assume I: "I (fam (world s))"
  from assms(1) assms(2) [OF I] obtain s' where s': "m s = (Ret None, s')"
    "others K (fam (world s')) = others K (fam (world s))"
    "converged good may nsOf conns mcs wanted (typed un (fam (world s) K)) (typed un (fam (world s') K))"
    unfolding reconciles_def by force
  have same: "\<forall>K'. K' \<noteq> K \<longrightarrow> fam (world s') K' = fam (world s) K'" using others_same [OF s'(2)] by blast
  from assms(3) [OF I same] assms(4) [OF same] s' show "wpt m (\<lambda>_ s'. (I (fam (world s')) \<and>
      goodAll good nsOf conns mcs wanted (typed un (fam (world s') K))) \<and> T (fam (world s)) (fam (world s')) \<and>
      (False \<longrightarrow> sent s' = sent s)) s"
    by (auto simp: wpt_def converged_def)
qed

text \<open>One that finds everything in place.\<close>

lemma establishes_idle:
  fixes fam :: "'w \<Rightarrow> clusterState"
  assumes "reconciles good may nsOf (creatable K) conns mcs wanted (\<lambda>w. typed un (fam w K)) (\<lambda>w. others K (fam w)) m"
    and "\<And>f. I f \<Longrightarrow> goodAll good nsOf conns mcs wanted (typed un (f K))"
    and "\<And>f f'. I f \<Longrightarrow> \<forall>K'. K' \<noteq> K \<longrightarrow> f' K' = f K' \<Longrightarrow> typed un (f' K) = typed un (f K) \<Longrightarrow> I f'"
    and "\<And>f f'. \<forall>K'. K' \<noteq> K \<longrightarrow> f' K' = f K' \<Longrightarrow> typed un (f' K) = typed un (f K) \<Longrightarrow> T f f'"
  shows "establishes fam True T I m I"
  unfolding establishes_def
proof (intro allI impI)
  fix s :: "'w state" assume I: "I (fam (world s))"
  from assms(1) assms(2) [OF I] obtain s' where s': "m s = (Ret None, s')" "sent s' = sent s"
    "others K (fam (world s')) = others K (fam (world s))"
    "typed un (fam (world s') K) = typed un (fam (world s) K)"
    unfolding reconciles_def by force
  have same: "\<forall>K'. K' \<noteq> K \<longrightarrow> fam (world s') K' = fam (world s) K'" using others_same [OF s'(3)] by blast
  from assms(3) [OF I same s'(4)] assms(4) [OF same s'(4)] s'(1,2)
  show "wpt m (\<lambda>_ s'. I (fam (world s')) \<and> T (fam (world s)) (fam (world s')) \<and> (True \<longrightarrow> sent s' = sent s)) s"
    by (auto simp: wpt_def)
qed

lemma goodAll_cong:
  assumes "\<forall>k \<in> dom (mlookup mcs). mlookup conns' k = mlookup conns k"
  shows "goodAll good nsOf conns' mcs wanted v \<longleftrightarrow> goodAll good nsOf conns mcs wanted v"
  unfolding goodAll_def using assms by (metis domI)

lemma changes_cong:
  assumes "\<forall>k \<in> dom (mlookup mcs). mlookup conns' k = mlookup conns k"
  shows "changes may nsOf conns' mcs wanted v v' \<longleftrightarrow> changes may nsOf conns mcs wanted v v'"
proof -
  have "mlookup mcs k = Some mc \<Longrightarrow> mlookup conns' k = mlookup conns k" for k mc using assms by blast
  then show ?thesis by (simp add: changes_def cong: conj_cong)
qed

section \<open>Everything a pair wants\<close>

text \<open>What the pair wants of each kind is in place, on every cluster it has.\<close>

abbreviation "namespacesDone mb conns f \<equiv>
  goodAll present clusterScoped conns (ManagedClusters mb) (\<lambda>_. newNamespaces (SynBinding mb))
    (typed asNamespace (f NamespaceKind))"

abbreviation "secretsDone R src mb conns f \<equiv>
  goodAll (copied R) Namespace conns (ManagedClusters mb) (\<lambda>_. wantedCopies src mb) (typed asSecret (f SecretKind))"

abbreviation "accountsDone R mb conns f \<equiv>
  goodAll (settled R KServiceAccount) Namespace conns (ManagedClusters mb)
    (wantedServiceAccounts (Name (SynBinding mb)) (mbImagePullSecrets mb)) (typed asServiceAccount (f ServiceAccountKind))"

abbreviation "configMapsDone R mb conns f \<equiv>
  goodAll (settled R KConfigMap) Namespace conns (ManagedClusters mb) (\<lambda>_. wantedConfigMaps mb)
    (typed asConfigMap (f ConfigMapKind))"

abbreviation "rolesDone R mb conns f \<equiv>
  goodAll (settled R KClusterRole) clusterScoped conns (ManagedClusters mb)
    (\<lambda>k _. newClusterRoles (SynBinding mb) k) (typed asClusterRole (f ClusterRoleKind))"

abbreviation "roleBindingsDone R mb conns f \<equiv>
  goodAll (settled R KClusterRoleBinding) clusterScoped conns (ManagedClusters mb)
    (\<lambda>k _. newClusterRoleBindings (SynBinding mb) k) (typed asClusterRoleBinding (f ClusterRoleBindingKind))"

abbreviation "deploymentsDone R mb conns f \<equiv>
  goodAll (settled R KDeployment) Namespace conns (ManagedClusters mb) (\<lambda>_. mcDeployments)
    (typed asDeployment (f DeploymentKind))"

abbreviation "servicesDone R mb conns f \<equiv>
  goodAll (settled R KService) Namespace conns (ManagedClusters mb) (wantedServices mb) (typed asService (f ServiceKind))"

abbreviation "daemonSetsDone R uri ci mb conns f \<equiv>
  goodAll (settled R KDaemonSet) Namespace conns (ManagedClusters mb) (\<lambda>k _. wantedDaemonSets R mb uri ci k)
    (typed asDaemonSet (f DaemonSetKind))"

definition deployed ::
  "'w runtime \<Rightarrow> (string \<Rightarrow> string \<Rightarrow> Secret option) \<Rightarrow> string \<Rightarrow> ClusterInfo \<Rightarrow> SyntheticModelBinding \<Rightarrow>
   'w connections \<Rightarrow> clusterState \<Rightarrow> bool" where
  "deployed R src uri ci mb conns f \<longleftrightarrow> namespacesDone mb conns f \<and> secretsDone R src mb conns f \<and>
     accountsDone R mb conns f \<and> configMapsDone R mb conns f \<and> rolesDone R mb conns f \<and>
     roleBindingsDone R mb conns f \<and> deploymentsDone R mb conns f \<and> servicesDone R mb conns f \<and>
     daemonSetsDone R uri ci mb conns f"

text \<open>Nothing is changed but what the pair wants on its clusters, and of the namespaces only those that were
  not there.\<close>

definition onlyWanted ::
  "'w runtime \<Rightarrow> (string \<Rightarrow> string \<Rightarrow> Secret option) \<Rightarrow> string \<Rightarrow> ClusterInfo \<Rightarrow> SyntheticModelBinding \<Rightarrow>
   'w connections \<Rightarrow> clusterState \<Rightarrow> clusterState \<Rightarrow> bool" where
  "onlyWanted R src uri ci mb conns f f' \<longleftrightarrow>
     changes absent clusterScoped conns (ManagedClusters mb) (\<lambda>_. newNamespaces (SynBinding mb))
       (typed asNamespace (f NamespaceKind)) (typed asNamespace (f' NamespaceKind)) \<and>
     changes always Namespace conns (ManagedClusters mb) (\<lambda>_. wantedCopies src mb)
       (typed asSecret (f SecretKind)) (typed asSecret (f' SecretKind)) \<and>
     changes always Namespace conns (ManagedClusters mb)
       (wantedServiceAccounts (Name (SynBinding mb)) (mbImagePullSecrets mb))
       (typed asServiceAccount (f ServiceAccountKind)) (typed asServiceAccount (f' ServiceAccountKind)) \<and>
     changes always Namespace conns (ManagedClusters mb) (\<lambda>_. wantedConfigMaps mb)
       (typed asConfigMap (f ConfigMapKind)) (typed asConfigMap (f' ConfigMapKind)) \<and>
     changes always clusterScoped conns (ManagedClusters mb) (\<lambda>k _. newClusterRoles (SynBinding mb) k)
       (typed asClusterRole (f ClusterRoleKind)) (typed asClusterRole (f' ClusterRoleKind)) \<and>
     changes always clusterScoped conns (ManagedClusters mb) (\<lambda>k _. newClusterRoleBindings (SynBinding mb) k)
       (typed asClusterRoleBinding (f ClusterRoleBindingKind)) (typed asClusterRoleBinding (f' ClusterRoleBindingKind)) \<and>
     changes always Namespace conns (ManagedClusters mb) (\<lambda>_. mcDeployments)
       (typed asDeployment (f DeploymentKind)) (typed asDeployment (f' DeploymentKind)) \<and>
     changes always Namespace conns (ManagedClusters mb) (wantedServices mb)
       (typed asService (f ServiceKind)) (typed asService (f' ServiceKind)) \<and>
     changes always Namespace conns (ManagedClusters mb) (\<lambda>k _. wantedDaemonSets R mb uri ci k)
       (typed asDaemonSet (f DaemonSetKind)) (typed asDaemonSet (f' DaemonSetKind)) \<and>
     f' VMIKind = f VMIKind"

lemma onlyWanted_refl: "reflp (onlyWanted R src uri ci mb conns)"
  by (simp add: reflp_def onlyWanted_def)

lemma onlyWanted_trans: "transp (onlyWanted R src uri ci mb conns)"
  unfolding onlyWanted_def
  by (rule transpI, elim conjE, intro conjI; (rule changes_trans, assumption, assumption | simp))

text \<open>The contracts of all kinds.\<close>

definition clusterStores :: "'w runtime \<Rightarrow> 'w connections \<Rightarrow> ('w \<Rightarrow> clusterState) \<Rightarrow> bool" where
  "clusterStores R conns fam \<longleftrightarrow> namespaceStore R conns fam \<and> secretStore R conns fam \<and>
     serviceAccountStore R conns fam \<and> configMapStore R conns fam \<and> clusterRoleStore R conns fam \<and>
     clusterRoleBindingStore R conns fam \<and> deploymentStore R conns fam \<and> serviceStore R conns fam \<and>
     daemonSetStore R conns fam"

lemma clusterStores_restrict:
  assumes "clusterStores R conns fam" and "\<And>k c. mlookup conns' k = Some c \<Longrightarrow> mlookup conns k = Some c"
  shows "clusterStores R conns' fam"
  using assms(1) unfolding clusterStores_def
  by (simp add: kind_store_restrict [OF _ assms(2)] secret_store_restrict [OF _ assms(2)])

text \<open>
  A pair that can be deployed: on every cluster its namespaces have names, no two objects it wants there
  have one key, and they are wanted in namespaces it wants; for the system binding, whose objects the
  operator makes itself, the monitoring namespace is one of them.
\<close>

definition within :: "'a ObjectMeta_scheme list \<Rightarrow> ManagedCluster \<Rightarrow> bool" where
  "within xs mc \<longleftrightarrow> keyed Namespace xs \<and> Namespace ` set xs \<subseteq> set (mcNamespaces mc)"

definition placeable :: "SyntheticModelBinding \<Rightarrow> bool" where
  "placeable mb \<longleftrightarrow> wf_pair mb \<and>
     (\<forall>k mc. mlookup (ManagedClusters mb) k = Some mc \<longrightarrow>
        [] \<notin> set (mcNamespaces mc) \<and> within (mcDeployments mc) mc \<and>
        (if Name (SynBinding mb) = VmiSystemBindingName then MonitoringNamespace \<in> set (mcNamespaces mc)
         else within (mcConfigMaps mc) mc \<and> within (mcServices mc) mc \<and>
           dom (mlookup (mcSecrets mc)) \<subseteq> set (mcNamespaces mc)))"

lemma newNamespaces_set: "Name ` set (newNamespaces b mc) = set (mcNamespaces mc)"
  by (metis newNamespaces_names set_map)

text \<open>What is wanted in a namespace of the pair can be created once its namespaces are there.\<close>

lemma allowed_in:
  assumes "goodAll present clusterScoped conns mcs (\<lambda>_. newNamespaces b) (typed asNamespace (f NamespaceKind))"
    and "\<And>k mc x. mlookup mcs k = Some mc \<Longrightarrow> x \<in> set (wanted k mc) \<Longrightarrow>
      Namespace x \<in> set (mcNamespaces mc) \<and> Namespace x \<noteq> []"
    and "K \<notin> {NamespaceKind, ClusterRoleKind, ClusterRoleBindingKind}"
  shows "allowed (creatable K f) Namespace conns mcs wanted"
  unfolding allowed_def
proof (intro allI impI ballI)
  fix k mc c x assume mc: "mlookup mcs k = Some mc" and c: "mlookup conns k = Some c" and x: "x \<in> set (wanted k mc)"
  from assms(2) [OF mc x] have ns: "Namespace x \<in> Name ` set (newNamespaces b mc)" "Namespace x \<noteq> []"
    by (simp_all add: newNamespaces_set)
  then obtain n where "n \<in> set (newNamespaces b mc)" "Name n = Namespace x" by auto
  with assms(1) mc c have "typed asNamespace (f NamespaceKind) (connName c) [] (Namespace x) \<noteq> None"
    unfolding goodAll_def clusterScoped_def by metis
  then have "f NamespaceKind (connName c) [] (Namespace x) \<noteq> None" by (auto simp: typed_def bind_eq_Some_conv)
  with ns(2) assms(3) show "creatable K f (connName c) (Namespace x) (Name x)"
    by (cases K) (simp_all add: creatable_def)
qed

lemma allowed_namespaces:
  assumes "\<And>k mc. mlookup mcs k = Some mc \<Longrightarrow> [] \<notin> set (mcNamespaces mc)"
  shows "allowed (creatable NamespaceKind f) clusterScoped conns mcs (\<lambda>_. newNamespaces b)"
  unfolding allowed_def creatable_def clusterScoped_def
  using assms by (force simp flip: newNamespaces_set [of b])

lemma allowed_roles:
  "allowed (creatable ClusterRoleKind f) clusterScoped conns mcs wanted"
  "allowed (creatable ClusterRoleBindingKind f) clusterScoped conns mcs wanted"
  by (simp_all add: allowed_def creatable_def clusterScoped_def)

text \<open>What a pair wants is in namespaces it wants, and keyed.\<close>

lemma system_wanted:
  assumes "Name (SynBinding mb) = VmiSystemBindingName"
  shows "x \<in> set (wantedServiceAccounts (Name (SynBinding mb)) secs k mc) \<Longrightarrow> Namespace x = MonitoringNamespace"
    and "y \<in> set (wantedServices mb k mc) \<Longrightarrow> Namespace y = MonitoringNamespace"
    and "z \<in> set (newDaemonSet R k uri ci) \<Longrightarrow> Namespace z = MonitoringNamespace"
    and "keyed Namespace (wantedServices mb k mc)" "wantedConfigMaps mb mc = []"
  using assms wantedServiceAccounts_system
  by (auto simp: wantedServices_def newServices_def newDaemonSet_def SystemDaemonSets_def wantedConfigMaps_def
      ObjectMeta.defs Service.defs noMeta_def Let_def wantedServiceAccounts_def newServiceAccounts_def
      newServiceAccountsLoop_eq GetMonitoringComponents_def GetMonitoringNamespace_def split: if_splits)

lemma placeable_wanted:
  assumes "placeable mb" "mlookup (ManagedClusters mb) k = Some mc"
  shows "[] \<notin> set (mcNamespaces mc)"
    and "x1 \<in> set (wantedCopies src mb mc) \<Longrightarrow> Namespace x1 \<in> set (mcNamespaces mc)"
    and "x2 \<in> set (wantedServiceAccounts (Name (SynBinding mb)) secs k mc) \<Longrightarrow> Namespace x2 \<in> set (mcNamespaces mc)"
    and "x3 \<in> set (wantedConfigMaps mb mc) \<Longrightarrow> Namespace x3 \<in> set (mcNamespaces mc)"
    and "x4 \<in> set (mcDeployments mc) \<Longrightarrow> Namespace x4 \<in> set (mcNamespaces mc)"
    and "x5 \<in> set (wantedServices mb k mc) \<Longrightarrow> Namespace x5 \<in> set (mcNamespaces mc)"
    and "x6 \<in> set (wantedDaemonSets R mb uri ci k) \<Longrightarrow> Namespace x6 \<in> set (mcNamespaces mc)"
    and "keyed Namespace (wantedConfigMaps mb mc)" "keyed Namespace (mcDeployments mc)"
    and "keyed Namespace (wantedServices mb k mc)"
proof -
  note pl = assms(1) [unfolded placeable_def, THEN conjunct2, rule_format, OF assms(2)]
  show "[] \<notin> set (mcNamespaces mc)" "keyed Namespace (mcDeployments mc)"
    "x4 \<in> set (mcDeployments mc) \<Longrightarrow> Namespace x4 \<in> set (mcNamespaces mc)"
    using pl by (auto simp: within_def)
  show "x1 \<in> set (wantedCopies src mb mc) \<Longrightarrow> Namespace x1 \<in> set (mcNamespaces mc)"
    using pl copyOf_key by (fastforce simp: wantedCopies_def set_copies split: if_splits)
  show "x2 \<in> set (wantedServiceAccounts (Name (SynBinding mb)) secs k mc) \<Longrightarrow> Namespace x2 \<in> set (mcNamespaces mc)"
    using pl system_wanted(1) [of mb x2] by (auto simp: wantedServiceAccounts_binding split: if_splits)
  show "x3 \<in> set (wantedConfigMaps mb mc) \<Longrightarrow> Namespace x3 \<in> set (mcNamespaces mc)"
    "keyed Namespace (wantedConfigMaps mb mc)"
    using pl by (auto simp: wantedConfigMaps_def within_def split: if_splits)
  show "x5 \<in> set (wantedServices mb k mc) \<Longrightarrow> Namespace x5 \<in> set (mcNamespaces mc)"
    "keyed Namespace (wantedServices mb k mc)"
    using pl system_wanted(2,4) [of mb] by (auto simp: wantedServices_def within_def split: if_splits)
  show "x6 \<in> set (wantedDaemonSets R mb uri ci k) \<Longrightarrow> Namespace x6 \<in> set (mcNamespaces mc)"
    using pl system_wanted(3) [of mb x6 R] by (auto simp: wantedDaemonSets_def split: if_splits)
qed

lemma establishes_post: "establishes fam q T I m J \<Longrightarrow> (\<And>f. J f \<Longrightarrow> J' f) \<Longrightarrow> establishes fam q T I m J'"
  unfolding establishes_def by (blast intro: wpt_mono)

text \<open>The reconcilers, once the clusters are chosen.\<close>

abbreviation "pairReconcilers R uri secs ci mb conns filtered cs \<equiv>
  logged (CreateNamespaces R mb filtered)
 (logged (CreateSecrets R mb conns cs)
 (logged (CreateServiceAccounts R (Name (SynBinding mb)) secs (ManagedClusters mb) filtered)
 (logged (CreateConfigMaps R mb filtered ci)
 (logged (CreateClusterRoles R mb filtered)
 (logged (CreateClusterRoleBindings R mb filtered)
 (logged (CreateDeployments R mb filtered uri)
 (logged (CreateServices R mb filtered)
 (logged (CreateDaemonSets R mb filtered uri ci) (gret ())))))))))"

text \<open>Each as a reconciler, on the connections chosen; the copies go through all of them.\<close>

lemma pair_reconciles:
  fixes fam :: "'w \<Rightarrow> clusterState"
  assumes fair: "fairOrder R" and pl: "placeable mb"
    and src: "Name (SynBinding mb) \<noteq> VmiSystemBindingName \<Longrightarrow> secretSource (csSecrets cs) src"
    and cov: "covers conns (ManagedClusters mb)" and st: "clusterStores R conns fam"
    and fcov: "covers filtered (ManagedClusters mb)" and fst: "clusterStores R filtered fam"
    and eq: "\<forall>k \<in> dom (mlookup (ManagedClusters mb)). mlookup filtered k = mlookup conns k"
  shows "reconciles present absent clusterScoped (creatable NamespaceKind) filtered (ManagedClusters mb)
      (\<lambda>_. newNamespaces (SynBinding mb)) (\<lambda>w. typed asNamespace (fam w NamespaceKind))
      (\<lambda>w. others NamespaceKind (fam w)) (CreateNamespaces R mb filtered)"
    and "reconciles (copied R) always Namespace (creatable SecretKind) filtered (ManagedClusters mb)
      (\<lambda>_. wantedCopies src mb) (\<lambda>w. typed asSecret (fam w SecretKind)) (\<lambda>w. others SecretKind (fam w))
      (CreateSecrets R mb conns cs)"
    and "reconcilesKind R fam ServiceAccountKind KServiceAccount asServiceAccount Namespace filtered
      (ManagedClusters mb) (wantedServiceAccounts (Name (SynBinding mb)) secs)
      (CreateServiceAccounts R (Name (SynBinding mb)) secs (ManagedClusters mb) filtered)"
    and "reconcilesKind R fam ConfigMapKind KConfigMap asConfigMap Namespace filtered (ManagedClusters mb)
      (\<lambda>_. wantedConfigMaps mb) (CreateConfigMaps R mb filtered ci)"
    and "reconcilesKind R fam ClusterRoleKind KClusterRole asClusterRole clusterScoped filtered (ManagedClusters mb)
      (\<lambda>k _. newClusterRoles (SynBinding mb) k) (CreateClusterRoles R mb filtered)"
    and "reconcilesKind R fam ClusterRoleBindingKind KClusterRoleBinding asClusterRoleBinding clusterScoped filtered
      (ManagedClusters mb) (\<lambda>k _. newClusterRoleBindings (SynBinding mb) k) (CreateClusterRoleBindings R mb filtered)"
    and "reconcilesKind R fam DeploymentKind KDeployment asDeployment Namespace filtered (ManagedClusters mb)
      (\<lambda>_. mcDeployments) (CreateDeployments R mb filtered uri)"
    and "reconcilesKind R fam ServiceKind KService asService Namespace filtered (ManagedClusters mb)
      (wantedServices mb) (CreateServices R mb filtered)"
    and "reconcilesKind R fam DaemonSetKind KDaemonSet asDaemonSet Namespace filtered (ManagedClusters mb)
      (\<lambda>k _. wantedDaemonSets R mb uri ci k) (CreateDaemonSets R mb filtered uri ci)"
proof -
  note stores = fst [unfolded clusterStores_def]
  have wf: "wf_pair mb" using pl unfolding placeable_def by blast
  have "secretStore R conns fam" using st unfolding clusterStores_def by blast
  note iffD2 [OF reconciles_cong [OF eq] secrets_reconcile [OF fair wf cov this]]
  then show "reconciles (copied R) always Namespace (creatable SecretKind) filtered (ManagedClusters mb)
      (\<lambda>_. wantedCopies src mb) (\<lambda>w. typed asSecret (fam w SecretKind)) (\<lambda>w. others SecretKind (fam w))
      (CreateSecrets R mb conns cs)"
    using src by blast
qed (use fst [unfolded clusterStores_def] placeable_wanted(8-10) [OF pl] in \<open>
    blast intro: namespaces_reconcile [OF fair fcov] serviceAccounts_reconcile [OF fair fcov]
      configMaps_reconcile [OF fair fcov] clusterRoles_reconcile [OF fair fcov]
      clusterRoleBindings_reconcile [OF fair fcov] deployments_reconcile [OF fair fcov]
      services_reconcile [OF fair fcov] daemonSets_reconcile [OF fair fcov]\<close>)+

text \<open>A first run creates the namespaces, then what goes into them.\<close>

lemma pair_first:
  fixes fam :: "'w \<Rightarrow> clusterState"
  assumes fair: "fairOrder R" and pl: "placeable mb"
    and src: "Name (SynBinding mb) \<noteq> VmiSystemBindingName \<Longrightarrow> secretSource (csSecrets cs) src"
    and cov: "covers conns (ManagedClusters mb)" and st: "clusterStores R conns fam"
    and fcov: "covers filtered (ManagedClusters mb)" and fst: "clusterStores R filtered fam"
    and eq: "\<forall>k \<in> dom (mlookup (ManagedClusters mb)). mlookup filtered k = mlookup conns k"
  shows "establishes fam False (onlyWanted R src uri ci mb filtered) (\<lambda>_. True)
    (pairReconcilers R uri (mbImagePullSecrets mb) ci mb conns filtered cs) (deployed R src uri ci mb filtered)"
proof -
  note r = pair_reconciles [OF fair pl src cov st fcov fst eq]
  note named = placeable_wanted(1) [OF pl] and wanted = placeable_wanted(2-7) [OF pl]
  have place: "allowed (creatable K f) Namespace filtered (ManagedClusters mb) W"
    if "namespacesDone mb filtered f" and K: "K \<notin> {NamespaceKind, ClusterRoleKind, ClusterRoleBindingKind}"
      and W: "\<And>k mc x. mlookup (ManagedClusters mb) k = Some mc \<Longrightarrow> x \<in> set (W k mc) \<Longrightarrow> Namespace x \<in> set (mcNamespaces mc)"
    for K f and W :: "string \<Rightarrow> ManagedCluster \<Rightarrow> 'b ObjectMeta_scheme list"
    by (rule allowed_in [where b = "SynBinding mb"]) (use that(1) K W named in metis)+
  let ?T = "onlyWanted R src uri ci mb filtered"
  let ?N = "namespacesDone mb filtered" and ?X = "secretsDone R src mb filtered" and ?A = "accountsDone R mb filtered"
    and ?M = "configMapsDone R mb filtered" and ?R = "rolesDone R mb filtered" and ?B = "roleBindingsDone R mb filtered"
    and ?D = "deploymentsDone R mb filtered" and ?S = "servicesDone R mb filtered"
  have 1: "establishes fam False ?T (\<lambda>_. True) (CreateNamespaces R mb filtered) (\<lambda>f. True \<and> ?N f)"
    by (rule establishes_reconcile [OF r(1)]) (use named in \<open>auto simp: onlyWanted_def intro: allowed_namespaces\<close>)
  have 2: "establishes fam False ?T (\<lambda>f. True \<and> ?N f) (CreateSecrets R mb conns cs) (\<lambda>f. (True \<and> ?N f) \<and> ?X f)"
    by (rule establishes_reconcile [OF r(2)]) (use wanted(1) in \<open>auto simp: onlyWanted_def intro!: place\<close>)
  have 3: "establishes fam False ?T (\<lambda>f. (True \<and> ?N f) \<and> ?X f)
      (CreateServiceAccounts R (Name (SynBinding mb)) (mbImagePullSecrets mb) (ManagedClusters mb) filtered)
      (\<lambda>f. ((True \<and> ?N f) \<and> ?X f) \<and> ?A f)"
    by (rule establishes_reconcile [OF r(3)]) (use wanted(2) in \<open>auto simp: onlyWanted_def intro!: place\<close>)
  have 4: "establishes fam False ?T (\<lambda>f. ((True \<and> ?N f) \<and> ?X f) \<and> ?A f) (CreateConfigMaps R mb filtered ci)
      (\<lambda>f. (((True \<and> ?N f) \<and> ?X f) \<and> ?A f) \<and> ?M f)"
    by (rule establishes_reconcile [OF r(4)]) (use wanted(3) in \<open>auto simp: onlyWanted_def intro!: place\<close>)
  have 5: "establishes fam False ?T (\<lambda>f. (((True \<and> ?N f) \<and> ?X f) \<and> ?A f) \<and> ?M f) (CreateClusterRoles R mb filtered)
      (\<lambda>f. ((((True \<and> ?N f) \<and> ?X f) \<and> ?A f) \<and> ?M f) \<and> ?R f)"
    by (rule establishes_reconcile [OF r(5)]) (auto simp: allowed_roles onlyWanted_def)
  have 6: "establishes fam False ?T (\<lambda>f. ((((True \<and> ?N f) \<and> ?X f) \<and> ?A f) \<and> ?M f) \<and> ?R f)
      (CreateClusterRoleBindings R mb filtered) (\<lambda>f. (((((True \<and> ?N f) \<and> ?X f) \<and> ?A f) \<and> ?M f) \<and> ?R f) \<and> ?B f)"
    by (rule establishes_reconcile [OF r(6)]) (auto simp: allowed_roles onlyWanted_def)
  have 7: "establishes fam False ?T (\<lambda>f. (((((True \<and> ?N f) \<and> ?X f) \<and> ?A f) \<and> ?M f) \<and> ?R f) \<and> ?B f)
      (CreateDeployments R mb filtered uri)
      (\<lambda>f. ((((((True \<and> ?N f) \<and> ?X f) \<and> ?A f) \<and> ?M f) \<and> ?R f) \<and> ?B f) \<and> ?D f)"
    by (rule establishes_reconcile [OF r(7)]) (use wanted(4) in \<open>auto simp: onlyWanted_def intro!: place\<close>)
  have 8: "establishes fam False ?T (\<lambda>f. ((((((True \<and> ?N f) \<and> ?X f) \<and> ?A f) \<and> ?M f) \<and> ?R f) \<and> ?B f) \<and> ?D f)
      (CreateServices R mb filtered)
      (\<lambda>f. (((((((True \<and> ?N f) \<and> ?X f) \<and> ?A f) \<and> ?M f) \<and> ?R f) \<and> ?B f) \<and> ?D f) \<and> ?S f)"
    by (rule establishes_reconcile [OF r(8)]) (use wanted(5) in \<open>auto simp: onlyWanted_def intro!: place\<close>)
  have 9: "establishes fam False ?T (\<lambda>f. (((((((True \<and> ?N f) \<and> ?X f) \<and> ?A f) \<and> ?M f) \<and> ?R f) \<and> ?B f) \<and> ?D f) \<and> ?S f)
      (CreateDaemonSets R mb filtered uri ci) (deployed R src uri ci mb filtered)"
    by (rule establishes_post [OF establishes_reconcile [OF r(9)]])
      (use wanted(6) in \<open>auto intro!: place simp: deployed_def onlyWanted_def\<close>)
  show ?thesis
    by (intro establishes_logged [OF 1] establishes_logged [OF 2] establishes_logged [OF 3] establishes_logged [OF 4]
        establishes_logged [OF 5] establishes_logged [OF 6] establishes_logged [OF 7] establishes_logged [OF 8]
        establishes_logged [OF 9] establishes_gret onlyWanted_trans onlyWanted_refl)
qed

text \<open>A second run finds everything in place.\<close>

lemma pair_second:
  fixes fam :: "'w \<Rightarrow> clusterState"
  assumes fair: "fairOrder R" and pl: "placeable mb"
    and src: "Name (SynBinding mb) \<noteq> VmiSystemBindingName \<Longrightarrow> secretSource (csSecrets cs) src"
    and cov: "covers conns (ManagedClusters mb)" and st: "clusterStores R conns fam"
    and fcov: "covers filtered (ManagedClusters mb)" and fst: "clusterStores R filtered fam"
    and eq: "\<forall>k \<in> dom (mlookup (ManagedClusters mb)). mlookup filtered k = mlookup conns k"
    and D_def: "D = deployed R src uri ci mb filtered"
  shows "establishes fam True (\<lambda>_ _. True) D (pairReconcilers R uri (mbImagePullSecrets mb) ci mb conns filtered cs) D"
proof -
  note r = pair_reconciles [OF fair pl src cov st fcov fst eq]
  have "establishes fam True (\<lambda>_ _. True) D (CreateNamespaces R mb filtered) D"
    "establishes fam True (\<lambda>_ _. True) D (CreateSecrets R mb conns cs) D"
    "establishes fam True (\<lambda>_ _. True) D
      (CreateServiceAccounts R (Name (SynBinding mb)) (mbImagePullSecrets mb) (ManagedClusters mb) filtered) D"
    "establishes fam True (\<lambda>_ _. True) D (CreateConfigMaps R mb filtered ci) D"
    "establishes fam True (\<lambda>_ _. True) D (CreateClusterRoles R mb filtered) D"
    "establishes fam True (\<lambda>_ _. True) D (CreateClusterRoleBindings R mb filtered) D"
    "establishes fam True (\<lambda>_ _. True) D (CreateDeployments R mb filtered uri) D"
    "establishes fam True (\<lambda>_ _. True) D (CreateServices R mb filtered) D"
    "establishes fam True (\<lambda>_ _. True) D (CreateDaemonSets R mb filtered uri ci) D"
    by (rule establishes_idle [OF r(1)] establishes_idle [OF r(2)] establishes_idle [OF r(3)]
        establishes_idle [OF r(4)] establishes_idle [OF r(5)] establishes_idle [OF r(6)]
        establishes_idle [OF r(7)] establishes_idle [OF r(8)] establishes_idle [OF r(9)];
        auto simp: D_def deployed_def)+
  then show ?thesis
    by - ((rule establishes_logged, assumption)+, rule establishes_gret, simp_all add: reflp_def transp_def)
qed

text \<open>The whole handler, which first chooses the clusters of the pair.\<close>

lemma resources_establish:
  fixes fam :: "'w \<Rightarrow> clusterState"
  assumes "managed c = managedPackage R L" "util c = utilPackage R" and fair: "fairOrder R"
    and pl: "placeable mb" and cov: "covers (managedClusterConnections c) (ManagedClusters mb)"
    and st: "clusterStores R (managedClusterConnections c) fam"
    and I: "\<And>f f'. I f \<Longrightarrow> \<forall>K'. K' \<noteq> NamespaceKind \<longrightarrow> f' K' = f K' \<Longrightarrow>
      typed asNamespace (f' NamespaceKind) = typed asNamespace (f NamespaceKind) \<Longrightarrow> I f'"
    and T: "\<And>f f'. \<forall>K'. K' \<noteq> NamespaceKind \<longrightarrow> f' K' = f K' \<Longrightarrow>
      typed asNamespace (f' NamespaceKind) = typed asNamespace (f NamespaceKind) \<Longrightarrow> T f f'" "transp T"
    and run: "\<And>filtered. covers filtered (ManagedClusters mb) \<Longrightarrow> clusterStores R filtered fam \<Longrightarrow>
      (\<forall>k \<in> dom (mlookup (ManagedClusters mb)). mlookup filtered k = mlookup (managedClusterConnections c) k) \<Longrightarrow>
      establishes fam q T I (pairReconcilers R (verrazzanoURI c) (mbImagePullSecrets mb) ci mb
        (managedClusterConnections c) filtered (kubeClientSet c)) J"
  shows "establishes fam q T I (createManagedClusterResourcesForBinding c mb ci) J"
  unfolding establishes_def
proof (intro allI impI)
  fix s :: "'w state" assume "I (fam (world s))"
  let ?conns = "managedClusterConnections c"
  have wf: "wf_pair mb" using pl unfolding placeable_def by blast
  note A = kind_store_api [OF st [unfolded clusterStores_def, THEN conjunct1]]
  have "wpt (pairReconcilers R (verrazzanoURI c) (mbImagePullSecrets mb) ci mb ?conns (fst r) (kubeClientSet c))
      (\<lambda>_ s'. J (fam (world s')) \<and> T (fam (world s)) (fam (world s')) \<and> (q \<longrightarrow> sent s' = sent s)) (s\<lparr>world := snd (rangeOrder R ks (world s))\<rparr>)"
    if fs: "forSpec mb ?conns r" for r ks
  proof -
    let ?w = "snd (rangeOrder R ks (world s))"
    from forSpec_ok [OF fs wf cov] obtain filtered where r: "r = (filtered, None)"
      and fcov: "covers filtered (ManagedClusters mb)"
      and sub: "\<And>k c. mlookup filtered k = Some c \<Longrightarrow> mlookup ?conns k = Some c" by blast
    have "\<forall>k \<in> dom (mlookup (ManagedClusters mb)). mlookup filtered k = mlookup ?conns k"
      using fcov sub unfolding covers_def by (auto simp: subset_iff dom_def)
    note est = run [OF fcov clusterStores_restrict [OF st sub] this]
    have "\<forall>K'. K' \<noteq> NamespaceKind \<longrightarrow> fam ?w K' = fam (world s) K'"
      using others_same [OF api_store.order_rest [OF A]] by blast
    then have "I (fam ?w)" and t: "T (fam (world s)) (fam ?w)"
      by (rule I [OF \<open>I (fam (world s))\<close>] T(1); simp add: api_store.order_view [OF A])+
    with est [unfolded establishes_def, rule_format, of "s\<lparr>world := ?w\<rparr>"] show ?thesis
      by (auto simp: r elim!: wpt_mono intro: transpD [OF T(2), OF t])
  qed
  then show "wpt (createManagedClusterResourcesForBinding c mb ci)
      (\<lambda>_ s'. J (fam (world s')) \<and> T (fam (world s)) (fam (world s')) \<and> (q \<longrightarrow> sent s' = sent s)) s"
    unfolding createManagedClusterResourcesForBinding_def wpt_gbind assms(1,2) utilPackage_def utilInterface.simps
    by (intro wpt_For [OF fair]) (simp add: managedPackage_def split_beta)
qed

lemma pair_resources:
  fixes fam :: "'w \<Rightarrow> clusterState"
  assumes "managed c = managedPackage R L" "util c = utilPackage R" "fairOrder R" "placeable mb"
    and "covers (managedClusterConnections c) (ManagedClusters mb)"
    and "clusterStores R (managedClusterConnections c) fam"
    and src: "Name (SynBinding mb) \<noteq> VmiSystemBindingName \<Longrightarrow> secretSource (csSecrets (kubeClientSet c)) src"
  shows "\<exists>s1 s2. createManagedClusterResourcesForBinding c mb ci s = (Ret (), s1) \<and>
    deployed R src (verrazzanoURI c) ci mb (managedClusterConnections c) (fam (world s1)) \<and>
    onlyWanted R src (verrazzanoURI c) ci mb (managedClusterConnections c) (fam (world s)) (fam (world s1)) \<and>
    createManagedClusterResourcesForBinding c mb ci s1 = (Ret (), s2) \<and> sent s2 = sent s1 \<and>
    deployed R src (verrazzanoURI c) ci mb (managedClusterConnections c) (fam (world s2))"
proof -
  let ?D = "deployed R src (verrazzanoURI c) ci mb (managedClusterConnections c)"
  let ?m = "createManagedClusterResourcesForBinding c mb ci"
  have same: "deployed R src (verrazzanoURI c) ci mb filtered = ?D"
    if "\<forall>k \<in> dom (mlookup (ManagedClusters mb)). mlookup filtered k = mlookup (managedClusterConnections c) k"
    for filtered
    by (rule ext) (simp only: deployed_def goodAll_cong [OF that])
  let ?T = "onlyWanted R src (verrazzanoURI c) ci mb (managedClusterConnections c)"
  have sameT: "onlyWanted R src (verrazzanoURI c) ci mb filtered = ?T"
    if "\<forall>k \<in> dom (mlookup (ManagedClusters mb)). mlookup filtered k = mlookup (managedClusterConnections c) k"
    for filtered
    by (intro ext) (simp only: onlyWanted_def changes_cong [OF that])
  have "establishes fam False ?T (\<lambda>_. True) ?m ?D"
  proof (rule resources_establish [OF assms(1-6)])
    fix filtered assume cov: "covers filtered (ManagedClusters mb)" and st: "clusterStores R filtered fam"
      and eq: "\<forall>k \<in> dom (mlookup (ManagedClusters mb)). mlookup filtered k = mlookup (managedClusterConnections c) k"
    show "establishes fam False ?T (\<lambda>_. True) (pairReconcilers R (verrazzanoURI c) (mbImagePullSecrets mb) ci mb
        (managedClusterConnections c) filtered (kubeClientSet c)) ?D"
      unfolding same [OF eq, symmetric] sameT [OF eq, symmetric]
      by (rule pair_first [OF assms(3,4) src assms(5,6) cov st eq])
  qed (simp_all add: onlyWanted_trans, simp add: onlyWanted_def)
  moreover have "establishes fam True (\<lambda>_ _. True) ?D ?m ?D"
  proof (rule resources_establish [OF assms(1-6)])
    fix filtered assume cov: "covers filtered (ManagedClusters mb)" and st: "clusterStores R filtered fam"
      and eq: "\<forall>k \<in> dom (mlookup (ManagedClusters mb)). mlookup filtered k = mlookup (managedClusterConnections c) k"
    show "establishes fam True (\<lambda>_ _. True) ?D (pairReconcilers R (verrazzanoURI c) (mbImagePullSecrets mb) ci mb
        (managedClusterConnections c) filtered (kubeClientSet c)) ?D"
      by (rule pair_second [OF assms(3,4) src assms(5,6) cov st eq same [OF eq, symmetric]])
  qed (simp_all add: deployed_def transp_def)
  ultimately show ?thesis
    unfolding establishes_def by (force dest!: wptD)
qed

lemma wpt_pair_resources:
  fixes fam :: "'w \<Rightarrow> clusterState"
  assumes "managed c = managedPackage R L" "util c = utilPackage R" "fairOrder R" "placeable mb"
    and "covers (managedClusterConnections c) (ManagedClusters mb)"
    and "clusterStores R (managedClusterConnections c) fam"
    and src: "Name (SynBinding mb) \<noteq> VmiSystemBindingName \<Longrightarrow> secretSource (csSecrets (kubeClientSet c)) src"
  shows "wpt (createManagedClusterResourcesForBinding c mb ci) (\<lambda>_ s'.
    deployed R src (verrazzanoURI c) ci mb (managedClusterConnections c) (fam (world s'))) s"
proof -
  from pair_resources [OF assms(1-6), of src ci s] src obtain s1 where
    "createManagedClusterResourcesForBinding c mb ci s = (Ret (), s1)"
    "deployed R src (verrazzanoURI c) ci mb (managedClusterConnections c) (fam (world s1))" by blast
  then show ?thesis by (simp add: wpt_def)
qed

end
