(* ===== verification/Startup.thy ===== *)
theory Startup
  imports Deployment_Order
begin

text \<open>
  The start of the operator: what the handler of its own cluster achieves when the cluster can be
  connected and its API server and listers agree.
\<close>

text \<open>The pair the handler of a cluster makes for the system binding.\<close>

definition startPair :: "string \<Rightarrow> string \<Rightarrow> string list \<Rightarrow> SyntheticModelBinding" where
  "startPair name uri secs = (CreateSyntheticModelBinding systemModel systemBinding uri secs)
     \<lparr>ManagedClusters := [(name, (newManagedCluster name)\<lparr>mcNamespaces := [MonitoringNamespace]\<rparr>)]\<rparr>"

lemma CreateSyntheticModelBinding_system:
  "CreateSyntheticModelBinding systemModel systemBinding uri secs =
     \<lparr>SynBinding = systemBinding, SynModel = systemModel, ManagedClusters = [], mbVerrazzanoURI = uri,
      mbImagePullSecrets = secs\<rparr>"
  by (simp add: CreateSyntheticModelBinding_def buildSyntheticModelBinding_def getPlacements_def systemBinding_def
      ObjectMeta.defs SyntheticBinding.defs)

lemma startPair_system: "Name (SynBinding (startPair name uri secs)) = VmiSystemBindingName"
  by (simp add: startPair_def CreateSyntheticModelBinding_system systemBinding_def ObjectMeta.defs SyntheticBinding.defs)

lemma startPair_placeable: "placeable (startPair name uri secs)"
  by (simp add: placeable_def within_def startPair_def CreateSyntheticModelBinding_system wf_pair_def wf_map_def keys_def
      newManagedCluster_def systemBinding_def ObjectMeta.defs SyntheticBinding.defs noMeta_def const_defs)

lemma startPair_simps [simp]: "mbImagePullSecrets (startPair name uri secs) = secs"
  "ManagedClusters (startPair name uri secs) = [(name, (newManagedCluster name)\<lparr>mcNamespaces := [MonitoringNamespace]\<rparr>)]"
  by (simp_all add: startPair_def CreateSyntheticModelBinding_system)

lemma wpt_getClusterInfo:
  assumes nodes: "nodesAnswer R (kubeClientSet c)"
    and sec: "secrets c = KubeSecrets ns cs ls" and total: "listerTotal ls"
  shows "wpt (getClusterInfo R c) (\<lambda>_ _. True) s"
proof -
  have rt: "wpt (getContainerRuntime R c) (\<lambda>_ _. True) s"
    using nodes [unfolded nodesAnswer_def, rule_format, of "world s"]
    by (auto simp: getContainerRuntime_def wp_simps deref_def index_def split: prod.splits option.splits)
  have "fst (lsGet ls ns MCRegistrationSecret w) \<noteq> (None, None)" for w
    using total unfolding listerTotal_def by blast
  then have "wpt (secGet (secrets c) MCRegistrationSecret)
      (\<lambda>(clusterSecret, err). wpt (case err of Some _ \<Rightarrow> gret (g rt)
         | None \<Rightarrow> deref clusterSecret (\<lambda>s. gret (f rt s))) (\<lambda>_ _. True)) s1"
    for s1 :: "'a state" and f :: "string \<Rightarrow> Secret \<Rightarrow> ClusterInfo" and g and rt
    by (auto simp: sec KubeSecrets_def listerGet_def wp_simps deref_def split: prod.splits option.splits) (metis fst_conv)
  then show ?thesis
    unfolding getClusterInfo_def wpt_gbind Let_def
    by (intro wpt_mono [OF rt]) (simp add: case_prod_unfold)
qed

lemma startup_system:
  fixes fam :: "'w \<Rightarrow> clusterState"
  assumes "managed c = managedPackage R L" "util c = utilPackage R" "cache c = cachePackage f"
    and "secrets c = KubeSecrets ns cs ls" "listerTotal ls" "nodesAnswer R (kubeClientSet c)" "fairOrder R"
    and acc: "fst (rcGet (csServiceAccounts (kubeClientSet c)) VerrazzanoSystem
      VerrazzanoOperatorServiceAccount (world s)) = (Some sa, None)"
    and new: "mlookup (managedClusterConnections c) name = None"
    and conn: "\<And>s. wpt (BuildManagedClusterConnection L path)
      (\<lambda>r _. \<exists>conn. r = Inr conn \<and> P conn \<and> clusterStores R (mset_key name conn (managedClusterConnections c)) fam) s"
  shows "wpt (processManagedCluster R c name path) (\<lambda>c' s'.
    (\<exists>conn. P conn \<and> managedClusterConnections c' = mset_key name conn (managedClusterConnections c)) \<and>
    (\<exists>ci. deployed R src (verrazzanoURI c) ci (startPair name (verrazzanoURI c) (saImagePullSecrets sa))
      (managedClusterConnections c') (fam (world s')))) s"
    (is "wpt _ ?Q s")
proof -
  let ?c = "\<lambda>conn. c\<lparr>imagePullSecrets := saImagePullSecrets sa,
    managedClusterConnections := mset_key name conn (managedClusterConnections c)\<rparr>"
  let ?pair = "startPair name (verrazzanoURI c) (saImagePullSecrets sa)"
  have run: "wpt (gbind (getClusterInfo R (?c conn)) (\<lambda>ci. gbind (createManagedClusterResourcesForBinding
      (?c conn) ?pair ci) (\<lambda>_. gret (?c conn)))) ?Q s1"
    if st: "clusterStores R (mset_key name conn (managedClusterConnections c)) fam" and P: "P conn" for conn s1
  proof -
    have info: "wpt (getClusterInfo R (?c conn)) (\<lambda>_ _. True) s1"
      by (rule wpt_getClusterInfo) (use assms in simp_all)
    have "covers (mset_key name conn (managedClusterConnections c)) (ManagedClusters ?pair)"
      by (auto simp: covers_def)
    then have res: "wpt (createManagedClusterResourcesForBinding (?c conn) ?pair ci)
        (\<lambda>_ s'. deployed R src (verrazzanoURI c) ci ?pair
          (mset_key name conn (managedClusterConnections c)) (fam (world s'))) s2" for ci s2
      using wpt_pair_resources [where c = "?c conn" and R = R and L = L and fam = fam and ci = ci and s = s2
        and mb = ?pair and src = src] st assms(1,2,7) startPair_placeable startPair_system by simp
    show ?thesis
      unfolding wpt_gbind wpt_gret by (rule wpt_mono [OF info], rule wpt_mono [OF res]) (use P in auto)
  qed
  have pair: "(CreateSyntheticModelBinding systemModel systemBinding u secs)
      \<lparr>ManagedClusters := mset_key name ((newManagedCluster name)\<lparr>mcNamespaces := mcNamespaces (newManagedCluster name) @
        [MonitoringNamespace]\<rparr>) (ManagedClusters (CreateSyntheticModelBinding systemModel systemBinding u secs))\<rparr> =
      startPair name u secs" for u secs
    by (simp add: startPair_def CreateSyntheticModelBinding_system newManagedCluster_def)
  obtain w' where sa: "rcGet (csServiceAccounts (kubeClientSet c)) VerrazzanoSystem
      VerrazzanoOperatorServiceAccount (world s) = ((Some sa, None), w')" using acc by (metis prod.collapse)
  show ?thesis
    unfolding processManagedCluster_def Let_def wpt_gbind clientGet_def wpt_glift
    by (simp add: sa new wp_simps assms(1,3) managedPackage_def cachePackage_def, rule wpt_mono [OF conn])
      (use run in \<open>auto simp: pair wp_simps split: prod.split\<close>)
qed

text \<open>What is wanted is there, by name.\<close>

lemma goodAll_there:
  "goodAll (settled R wrap) nsOf conns mcs wanted v \<Longrightarrow> mlookup mcs k = Some mc \<Longrightarrow> mlookup conns k = Some c \<Longrightarrow>
   x \<in> set (wanted k mc) \<Longrightarrow> v (connName c) (nsOf x) (Name x) \<noteq> None"
  unfolding goodAll_def settled_def by (fastforce split: option.splits)

lemma deployed_there:
  assumes D: "deployed R src uri ci (startPair name u secs) conns f" and c: "mlookup conns name = Some c"
  shows "typed asNamespace (f NamespaceKind) (connName c) [] MonitoringNamespace \<noteq> None"
    and "typed asServiceAccount (f ServiceAccountKind) (connName c) MonitoringNamespace NodeExporterName \<noteq> None"
    and "typed asClusterRole (f ClusterRoleKind) (connName c) [] NodeExporterName \<noteq> None"
    and "typed asClusterRoleBinding (f ClusterRoleBindingKind) (connName c) [] NodeExporterName \<noteq> None"
    and "typed asService (f ServiceKind) (connName c) MonitoringNamespace NodeExporterName \<noteq> None"
    and "typed asDaemonSet (f DaemonSetKind) (connName c) MonitoringNamespace NodeExporterName \<noteq> None"
proof -
  let ?pair = "startPair name u secs" and ?mc = "(newManagedCluster name)\<lparr>mcNamespaces := [MonitoringNamespace]\<rparr>"
  have mc: "mlookup (ManagedClusters ?pair) name = Some ?mc" by simp
  note name = startPair_system [of name u secs]
  have D: "namespacesDone ?pair conns f" "accountsDone R ?pair conns f" "rolesDone R ?pair conns f"
    "roleBindingsDone R ?pair conns f" "servicesDone R ?pair conns f" "daemonSetsDone R uri ci ?pair conns f"
    using D unfolding deployed_def by blast+
  have "MonitoringNamespace \<in> set (mcNamespaces ?mc)" by simp
  then have "MonitoringNamespace \<in> Name ` set (newNamespaces (SynBinding ?pair) ?mc)"
    unfolding newNamespaces_set .
  then obtain n where n: "MonitoringNamespace = Name n" "n \<in> set (newNamespaces (SynBinding ?pair) ?mc)"
    by (rule imageE)
  show "typed asNamespace (f NamespaceKind) (connName c) [] MonitoringNamespace \<noteq> None"
    using D(1) [unfolded goodAll_def, rule_format, OF mc c n(2)] by (simp add: n(1) clusterScoped_def)
  show "typed asServiceAccount (f ServiceAccountKind) (connName c) MonitoringNamespace NodeExporterName \<noteq> None"
    using goodAll_there [OF D(2) mc c] by (simp add: name wantedServiceAccounts_system)
  show "typed asClusterRole (f ClusterRoleKind) (connName c) [] NodeExporterName \<noteq> None"
    using goodAll_there [OF D(3) mc c]
    by (simp add: newClusterRoles_def name GetSystemClusterRoles_def clusterScoped_def Let_def)
  show "typed asClusterRoleBinding (f ClusterRoleBindingKind) (connName c) [] NodeExporterName \<noteq> None"
    using goodAll_there [OF D(4) mc c]
    by (simp add: newClusterRoleBindings_def name GetSystemClusterRoleBindings_def clusterScoped_def Let_def)
  show "typed asService (f ServiceKind) (connName c) MonitoringNamespace NodeExporterName \<noteq> None"
    using goodAll_there [OF D(5) mc c]
    by (simp add: wantedServices_def name newServices_def ObjectMeta.defs Service.defs noMeta_def Let_def)
  show "typed asDaemonSet (f DaemonSetKind) (connName c) MonitoringNamespace NodeExporterName \<noteq> None"
    using goodAll_there [OF D(6) mc c]
    by (simp add: wantedDaemonSets_def name newDaemonSet_def SystemDaemonSets_def Let_def)
qed

end
