(* ===== verification/Integ_Util.thy ===== *)
theory Integ_Util
  imports Types
begin

text \<open>
  test/integ/util: what the tests' helpers read, write and run. \<^verbatim>\<open>ginkgo.Fail\<close> ends the test by a panic with
  its message. The file system, the YAML library and \<^verbatim>\<open>os/exec\<close> are parameters.
\<close>

definition ginkgoFail :: "string \<Rightarrow> ('w, 'a) prog" where
  "ginkgoFail msg = gpanic (FatalExit msg)"

section \<open>YAML files\<close>

text \<open>
  \<open>flAbs\<close> is \<^verbatim>\<open>filepath.Abs\<close>, whose error the code drops. \<open>flUnmarshal\<close> decodes into the zero value: it
  yields what it has decoded, complete or not, and its error.
\<close>

record fileLib =
  flAbs :: "string \<Rightarrow> string"
  flReadFile :: "string \<Rightarrow> err + string"
  flUnmarshal :: "string \<Rightarrow> ManagedCluster \<times> err option"

definition ReadManagedCluster :: "fileLib \<Rightarrow> string \<Rightarrow> ManagedCluster result" where
  "ReadManagedCluster L path =
     (let filename = flAbs L path
      in case flReadFile L filename of
           Inl err \<Rightarrow> (None, Some err)
         | Inr yamlFile \<Rightarrow> (let (vmc, err) = flUnmarshal L yamlFile in (Some vmc, err)))"

text \<open>An object goes out through the YAML library and \<^verbatim>\<open>ioutil.WriteFile\<close>.\<close>

record ('o, 'w) writeLib =
  wlAbs :: "string \<Rightarrow> string"
  wlMarshal :: "'o \<Rightarrow> string \<times> err option"
  wlWriteFile :: "string \<Rightarrow> string \<Rightarrow> 'w \<Rightarrow> err option \<times> 'w"

definition ToYmal :: "('o, 'w) writeLib \<Rightarrow> 'o \<Rightarrow> string \<times> err option" where
  "ToYmal L obj = wlMarshal L obj"

definition WriteYmal :: "('o, 'w) writeLib \<Rightarrow> string \<Rightarrow> 'o \<Rightarrow> ('w, string \<times> err option) prog" where
  "WriteYmal L path obj =
     (let fileout = wlAbs L path; (bytes, err) = ToYmal L obj
      in if err \<noteq> None then gret ([], err)
         else gbind (glift (wlWriteFile L fileout bytes)) (\<lambda>err. gret (fileout, err)))"

text \<open>A file that does not parse is not told from one that does by the cluster that is returned.\<close>

lemma ReadManagedCluster_nil:
  "fst (ReadManagedCluster L path) = None \<longleftrightarrow> (\<exists>err. flReadFile L (flAbs L path) = Inl err)"
  by (simp add: ReadManagedCluster_def Let_def split: sum.split prod.split)

section \<open>Commands\<close>

text \<open>\<^verbatim>\<open>strings.Split\<close> at single spaces.\<close>

fun splitSpaces :: "string \<Rightarrow> string list" where
  "splitSpaces [] = [[]]"
| "splitSpaces (c # s) =
     (if c = CHR '' '' then [] # splitSpaces s
      else case splitSpaces s of [] \<Rightarrow> [[c]] | p # ps \<Rightarrow> (c # p) # ps)"

text \<open>
  A process that was started. The two copies of its output run at the same time and both are waited
  for: \<open>elCopy\<close> yields what each has read, with its error.
\<close>

record ('p, 'w) execLib =
  elStart :: "string \<Rightarrow> string list \<Rightarrow> 'w \<Rightarrow> (err + 'p) \<times> 'w"
  elCopy :: "'p \<Rightarrow> 'w \<Rightarrow> ((string \<times> err option) \<times> (string \<times> err option)) \<times> 'w"
  elWait :: "'p \<Rightarrow> 'w \<Rightarrow> err option \<times> 'w"

definition RunCommand ::
  "(err \<Rightarrow> string) \<Rightarrow> ('p, 'w) execLib \<Rightarrow> string \<Rightarrow> ('w, string \<times> string) prog" where
  "RunCommand Error L commandLine =
     (let parts = splitSpaces commandLine
      in gbind (if length parts < 1 then ginkgoFail ''No command provided''
                else if length parts = 1 then gret (hd parts, [[]])
                else gret (hd parts, tl parts)) (\<lambda>(name, args).
         gbind (glift (elStart L name args)) (\<lambda>cmd.
           case cmd of
             Inl err \<Rightarrow> ginkgoFail (''cmd.Start() failed with '' @ Error err)
           | Inr p \<Rightarrow>
         gbind (glift (elCopy L p)) (\<lambda>((outStr, errStdout), (errStr, errStderr)).
         gbind (glift (elWait L p)) (\<lambda>_.
           if errStdout \<noteq> None \<or> errStderr \<noteq> None then ginkgoFail ''failed to capture stdout or stderr''
           else gret (outStr, errStr))))))"

lemma splitSpaces_words:
  "\<forall>v \<in> set (w # ws). CHR '' '' \<notin> set v \<Longrightarrow>
   splitSpaces (w @ concat (map (\<lambda>v. CHR '' '' # v) ws)) = w # ws"
proof (induction ws arbitrary: w)
  case Nil
  then show ?case by (induction w) auto
next
  case (Cons v ws)
  then have "splitSpaces (v @ concat (map (\<lambda>v. CHR '' '' # v) ws)) = v # ws" by simp
  with Cons.prems show ?case by (induction w) auto
qed

lemma splitSpaces_nonempty [simp]: "splitSpaces s \<noteq> []"
  by (induction s) (auto split: list.splits)

text \<open>The pieces make up the line again.\<close>

lemma splitSpaces_joins: "concat (map (\<lambda>p. p @ '' '') (splitSpaces s)) = s @ '' ''"
  by (induction s) (auto split: list.splits)

text \<open>
  A line of words is run as the first with the others as its arguments, but a line of one word gets an
  empty argument. The branch for an empty line is never taken.
\<close>

lemma RunCommand_words:
  assumes "\<forall>v \<in> set (w # ws). CHR '' '' \<notin> set v"
    and "elStart L w (if ws = [] then [[]] else ws) (world s) = (Inr p, w1)"
    and "elCopy L p w1 = (((out, None), (err, None)), w2)" and "elWait L p w2 = (r, w3)"
  shows "RunCommand Error L (w @ concat (map (\<lambda>v. CHR '' '' # v) ws)) s = (Ret (out, err), s\<lparr>world := w3\<rparr>)"
  using assms(2-) unfolding RunCommand_def splitSpaces_words [OF assms(1)]
  by (cases ws) (auto simp: gbind_def glift_def gret_def Let_def)

lemma RunCommand_line:
  "RunCommand Error L line =
     gbind (glift (elStart L (hd (splitSpaces line))
       (if CHR '' '' \<in> set line then tl (splitSpaces line) else [[]]))) (\<lambda>cmd.
     case cmd of
       Inl err \<Rightarrow> ginkgoFail (''cmd.Start() failed with '' @ Error err)
     | Inr p \<Rightarrow>
     gbind (glift (elCopy L p)) (\<lambda>((outStr, errStdout), (errStr, errStderr)).
     gbind (glift (elWait L p)) (\<lambda>_.
       if errStdout \<noteq> None \<or> errStderr \<noteq> None then ginkgoFail ''failed to capture stdout or stderr''
       else gret (outStr, errStr))))"
proof -
  have "length (splitSpaces line) = 1 \<longleftrightarrow> CHR '' '' \<notin> set line"
    by (induction line) (auto split: list.splits simp: length_Suc_conv)
  moreover have "\<not> length (splitSpaces line) < 1" by simp
  ultimately show ?thesis by (simp only: RunCommand_def Let_def if_False if_True simp_thms gbind_gret prod.case split: if_split) simp
qed

end
