(* ===== verification/Fakes.thy ===== *)
theory Fakes
  imports Object_Store Integ_Util
begin

text \<open>
  The test doubles of pkg/testutil/fakes.go that stand for listers: they answer from a client set
  instead of a cache. A lister of a namespaced kind lists one namespace, or every namespace the
  client knows one after the other; the listers of namespaces, cluster roles and cluster role
  bindings ask the client once. The client set (a fake of client-go in the tests) is a parameter. The
  operator assigns through a pointer that \<^verbatim>\<open>Get\<close> returned for secrets only; what that does to the client
  set is the parameter \<open>pw\<close>, and for the other kinds \<open>lsWrite\<close> is not used. In a \<open>lister\<close>, \<open>lsList\<close> with an
  empty namespace is the code's \<^verbatim>\<open>List\<close> on the lister itself, and with another its \<^verbatim>\<open>List\<close> on the
  namespace lister; \<open>lsGet\<close> is \<^verbatim>\<open>Get\<close> of the latter.

  Also the connections of pkg/testutil/testdata.go, which are made of these listers.
\<close>

section \<open>Lists\<close>

text \<open>
  \<^verbatim>\<open>
  list, err := client.List(...)
  if err != nil { return nil, err }
  for i := range list.Items { if selector.Matches(list.Items[i].Labels) { append } }
  \<close>
\<close>

definition listMatching ::
  "('a ObjectMeta_scheme, 'w) rclient \<Rightarrow> string \<Rightarrow> selector \<Rightarrow> 'w \<Rightarrow>
   ('a ObjectMeta_scheme list \<times> err option) \<times> 'w" where
  "listMatching rc ns sel w =
     (case rcList rc ns w of
        ((_, Some e), w') \<Rightarrow> (([], Some e), w')
      | ((items, None), w') \<Rightarrow> ((filter (\<lambda>x. matches sel (Labels x)) items, None), w'))"

text \<open>The loop over the namespaces, which appends what each of them lists.\<close>

fun appendLists ::
  "(string \<Rightarrow> 'w \<Rightarrow> ('o list \<times> err option) \<times> 'w) \<Rightarrow> NamespaceObj list \<Rightarrow> 'o list \<Rightarrow> 'w \<Rightarrow>
   ('o list \<times> err option) \<times> 'w" where
  "appendLists f [] acc w = ((acc, None), w)"
| "appendLists f (namespace # rest) acc w =
     (case f (Name namespace) w of
        ((_, Some e), w') \<Rightarrow> (([], Some e), w')
      | ((list, None), w') \<Rightarrow> appendLists f rest (acc @ list) w')"

definition listAllNamespaces ::
  "(NamespaceObj, 'w) rclient \<Rightarrow> (string \<Rightarrow> 'w \<Rightarrow> ('o list \<times> err option) \<times> 'w) \<Rightarrow> 'w \<Rightarrow>
   ('o list \<times> err option) \<times> 'w" where
  "listAllNamespaces nsc f w =
     (case rcList nsc [] w of
        ((_, Some e), w') \<Rightarrow> (([], Some e), w')
      | ((namespaces, None), w') \<Rightarrow> appendLists f namespaces [] w')"

definition simpleLister ::
  "(NamespaceObj, 'w) rclient \<Rightarrow> ('a ObjectMeta_scheme, 'w) rclient \<Rightarrow> ('a ObjectMeta_scheme, 'w) lister" where
  "simpleLister nsc rc =
     \<lparr>lsGet = rcGet rc,
      lsList = (\<lambda>ns sel. if ns = [] then listAllNamespaces nsc (\<lambda>ns. listMatching rc ns sel)
                         else listMatching rc ns sel),
      lsWrite = (\<lambda>_ _ _ w. ((), w))\<rparr>"

definition simpleClusterLister ::
  "('a ObjectMeta_scheme, 'w) rclient \<Rightarrow> ('a ObjectMeta_scheme, 'w) lister" where
  "simpleClusterLister rc = \<lparr>lsGet = rcGet rc, lsList = listMatching rc, lsWrite = (\<lambda>_ _ _ w. ((), w))\<rparr>"

section \<open>Listers\<close>

text \<open>Pods are listed by nothing but the test double, so their client is not part of \<open>Clientset\<close>.\<close>

record Pod = ObjectMeta +
  podIP :: string

definition simplePodLister where
  "simplePodLister kubeClient pods = simpleLister (csNamespaces kubeClient) (pods :: (Pod, 'w) rclient)"

definition simpleConfigMapLister where
  "simpleConfigMapLister kubeClient = simpleLister (csNamespaces kubeClient) (csConfigMaps kubeClient)"

definition simpleServiceLister where
  "simpleServiceLister kubeClient = simpleLister (csNamespaces kubeClient) (csServices kubeClient)"

definition simpleServiceAccountLister where
  "simpleServiceAccountLister kubeClient =
     simpleLister (csNamespaces kubeClient) (csServiceAccounts kubeClient)"

definition simpleDaemonSetLister where
  "simpleDaemonSetLister kubeClient = simpleLister (csNamespaces kubeClient) (csDaemonSets kubeClient)"

text \<open>Its two methods that no test needs, for a pod and for a revision.\<close>

definition GetPodDaemonSets :: "Pod \<Rightarrow> ('w, DaemonSet list result) prog" where
  "GetPodDaemonSets pod = gpanic (FatalExit ''not currently supported'')"

definition GetHistoryDaemonSets :: "'r \<Rightarrow> ('w, DaemonSet list result) prog" where
  "GetHistoryDaemonSets revision = gpanic (FatalExit ''not currently supported'')"

definition simpleDeploymentLister where
  "simpleDeploymentLister kubeClient = simpleLister (csNamespaces kubeClient) (csDeployments kubeClient)"

definition simpleNamespaceLister where
  "simpleNamespaceLister kubeClient = simpleClusterLister (csNamespaces kubeClient)"

definition simpleClusterRoleLister where
  "simpleClusterRoleLister kubeClient = simpleClusterLister (csClusterRoles kubeClient)"

definition simpleClusterRoleBindingLister where
  "simpleClusterRoleBindingLister kubeClient = simpleClusterLister (csClusterRoleBindings kubeClient)"

text \<open>The secret lister disregards the selector.\<close>

definition listSecrets ::
  "(Secret, 'w) rclient \<Rightarrow> string \<Rightarrow> selector \<Rightarrow> 'w \<Rightarrow> (Secret list \<times> err option) \<times> 'w" where
  "listSecrets rc ns sel w =
     (case rcList rc ns w of
        ((_, Some e), w') \<Rightarrow> (([], Some e), w')
      | ((items, None), w') \<Rightarrow> ((items, None), w'))"

definition SimpleSecretLister ::
  "(string \<Rightarrow> string \<Rightarrow> Secret \<Rightarrow> 'w \<Rightarrow> unit \<times> 'w) \<Rightarrow> 'w Clientset \<Rightarrow> (Secret, 'w) lister" where
  "SimpleSecretLister pw kubeClient =
     \<lparr>lsGet = rcGet (csSecrets kubeClient),
      lsList = (\<lambda>ns sel. if ns = []
        then listAllNamespaces (csNamespaces kubeClient) (\<lambda>ns. listSecrets (csSecrets kubeClient) ns sel)
        else listSecrets (csSecrets kubeClient) ns sel),
      lsWrite = pw\<rparr>"

definition NewConfigMapLister where
  "NewConfigMapLister kubeClient = simpleConfigMapLister kubeClient"

definition NewSecretLister where
  "NewSecretLister pw kubeClient = SimpleSecretLister pw kubeClient"

section \<open>Test connections\<close>

definition IstioSystemNamespace :: string where
  "IstioSystemNamespace = ''istio-system''"

definition getNamespace :: "string \<Rightarrow> string \<Rightarrow> NamespaceObj" where
  "getNamespace name clusterName =
     (if clusterName = [] then ObjectMeta.extend (noMeta\<lparr>Name := name\<rparr>) (NamespaceObj.fields [])
      else ObjectMeta.extend
        (noMeta\<lparr>Name := name, Labels := [(''verrazzano.binding'', ''testBinding''),
           (''verrazzano.cluster'', clusterName)]\<rparr>) (NamespaceObj.fields []))"

lemma Name_getNamespace [simp]: "Name (getNamespace n c) = n"
  by (simp add: getNamespace_def ObjectMeta.defs NamespaceObj.defs noMeta_def)

definition getPod :: "string \<Rightarrow> string \<Rightarrow> string \<Rightarrow> Pod" where
  "getPod name ns ip = ObjectMeta.extend (noMeta\<lparr>Name := name, Namespace := ns\<rparr>) (Pod.fields ip)"

definition getPods :: "Pod list" where
  "getPods = [getPod ''test-pod'' ''test'' ''123.99.0.2'', getPod ''test2-pod'' ''test2'' ''123.99.0.3'',
     getPod ''test3-pod'' ''test3'' ''123.99.0.4'']"

definition testSecret :: "string \<Rightarrow> string \<Rightarrow> bytes gomap \<Rightarrow> Secret" where
  "testSecret ns name content =
     ObjectMeta.extend (noMeta\<lparr>Name := name, Namespace := ns\<rparr>) (Secret.fields content [])"

definition testSecrets :: "Secret list" where
  "testSecrets =
     [testSecret ''default'' ''testSecret1'' [], testSecret ''default'' ''testMysqlSecret'' [],
      testSecret ''test'' ''testSecret1'' [(''dummy'', Some ''abc'')],
      testSecret ''verrazzano-system'' ''testSecret2'' [], testSecret ''default'' ''test2Secret1'' [],
      testSecret ''default'' ''test2Secret2'' [], testSecret ''default'' ''arbitrary-secret-1'' [],
      testSecret ''default'' ''arbitrary-secret-2'' []]"

text \<open>The status of the service, a load balancer's address, is not part of \<open>Service\<close>.\<close>

definition istioIngressgateway :: Service where
  "istioIngressgateway = ObjectMeta.extend
     (noMeta\<lparr>Namespace := IstioSystemNamespace, Name := ''istio-ingressgateway''\<rparr>) (Service.fields [] [] [])"

text \<open>
  A call of \<^verbatim>\<open>Create\<close> whose results are dropped. These requests go to the fake the function has just
  made (\<open>NewSimpleClientset\<close>, with its pods), so they are not in the log. The fixtures have no
  informers: \<open>noInformers\<close> is what asking whether they have synced does.
\<close>

fun createAll ::
  "(string \<Rightarrow> 'a ObjectMeta_scheme \<Rightarrow> 'w \<Rightarrow> 'a ObjectMeta_scheme result \<times> 'w) \<Rightarrow>
   ('a ObjectMeta_scheme \<Rightarrow> string) \<Rightarrow> 'a ObjectMeta_scheme list \<Rightarrow> 'w \<Rightarrow> 'w" where
  "createAll create nsOf [] w = w"
| "createAll create nsOf (x # xs) w = createAll create nsOf xs (snd (create (nsOf x) x w))"

fun createPods ::
  "'w Clientset \<Rightarrow> (Pod, 'w) rclient \<Rightarrow> string \<Rightarrow> Pod list \<Rightarrow> 'w \<Rightarrow> 'w" where
  "createPods kubeClient pods clusterName [] w = w"
| "createPods kubeClient pods clusterName (pod # rest) w =
     createPods kubeClient pods clusterName rest
       (snd (rcCreate pods (Namespace pod) pod
         (snd (rcCreate (csNamespaces kubeClient) [] (getNamespace (Namespace pod) clusterName) w))))"

definition GetManagedClusterConnection ::
  "('w \<Rightarrow> ('w Clientset \<times> (Pod, 'w) rclient) \<times> 'w) \<Rightarrow> ('w \<Rightarrow> bool \<times> 'w) \<Rightarrow>
   (string \<Rightarrow> string \<Rightarrow> Secret \<Rightarrow> 'w \<Rightarrow> unit \<times> 'w) \<Rightarrow> string \<Rightarrow> 'w \<Rightarrow>
   'w ManagedClusterConnection \<times> 'w" where
  "GetManagedClusterConnection NewSimpleClientset noInformers pw clusterName w =
     (case NewSimpleClientset w of ((kubeClient, pods), w) \<Rightarrow>
        let w = createPods kubeClient pods clusterName getPods w;
            w = createAll (rcCreate (csNamespaces kubeClient)) clusterScoped
                  [getNamespace ''logging'' [], getNamespace ''monitoring'' [],
                   getNamespace ''istio-system'' []] w;
            w = createAll (rcCreate pods) (\<lambda>_. ''istio-system'')
                  [getPod ''prometheus-pod'' ''istio-system'' ''123.99.0.1''] w;
            w = createAll (rcCreate (csSecrets kubeClient)) Namespace testSecrets w;
            w = createAll (rcCreate (csServices kubeClient)) (\<lambda>_. IstioSystemNamespace)
                  [istioIngressgateway] w
        in (\<lparr>KubeClient = kubeClient, DeploymentLister = simpleDeploymentLister kubeClient,
             ServiceAccountLister = simpleServiceAccountLister kubeClient,
             NamespaceLister = simpleNamespaceLister kubeClient,
             SecretLister = SimpleSecretLister pw kubeClient,
             ClusterRoleLister = simpleClusterRoleLister kubeClient,
             ClusterRoleBindingLister = simpleClusterRoleBindingLister kubeClient,
             ConfigMapLister = simpleConfigMapLister kubeClient,
             DaemonSetLister = simpleDaemonSetLister kubeClient,
             ServiceLister = simpleServiceLister kubeClient, hasSynced = noInformers\<rparr>, w))"

definition GetManagedClusterConnections ::
  "('w \<Rightarrow> ('w Clientset \<times> (Pod, 'w) rclient) \<times> 'w) \<Rightarrow> ('w \<Rightarrow> bool \<times> 'w) \<Rightarrow>
   (string \<Rightarrow> string \<Rightarrow> Secret \<Rightarrow> 'w \<Rightarrow> unit \<times> 'w) \<Rightarrow> 'w \<Rightarrow> 'w connections \<times> 'w" where
  "GetManagedClusterConnections NewSimpleClientset noInformers pw w =
     (let (c1, w) = GetManagedClusterConnection NewSimpleClientset noInformers pw ''cluster1'' w;
          (c2, w) = GetManagedClusterConnection NewSimpleClientset noInformers pw ''cluster2'' w;
          (c3, w) = GetManagedClusterConnection NewSimpleClientset noInformers pw ''cluster3'' w
      in ([(''cluster1'', c1), (''cluster2'', c2), (''cluster3'', c3)], w))"

text \<open>The error of \<open>ReadManagedCluster\<close> is dropped; where a file cannot be read its nil result is dereferenced.\<close>

fun readClusters ::
  "fileLib \<Rightarrow> string list \<Rightarrow> ManagedCluster gomap \<Rightarrow>
   ManagedCluster gomap outcome" where
  "readClusters L [] managedClusters = Ret managedClusters"
| "readClusters L (path # rest) managedClusters =
     (case fst (ReadManagedCluster L path) of
        None \<Rightarrow> Panic NilDeref
      | Some mc \<Rightarrow> readClusters L rest (mset_key (mcName mc) mc managedClusters))"

definition emptyBinding :: SyntheticBinding where
  "emptyBinding = ObjectMeta.extend noMeta
     (SyntheticBinding.fields \<lparr>specDescription = [], specModelName = [], specPlacement = []\<rparr>)"

definition ReadSyntheticModelBinding ::
  "fileLib \<Rightarrow> string list \<Rightarrow> SyntheticModelBinding outcome" where
  "ReadSyntheticModelBinding L paths =
     (case readClusters L paths [] of
        Ret managedClusters \<Rightarrow>
          Ret \<lparr>SynBinding = emptyBinding, SynModel = noMeta, ManagedClusters = managedClusters,
               mbVerrazzanoURI = [], mbImagePullSecrets = [''test-imagePullSecret'']\<rparr>
      | Panic p \<Rightarrow> Panic p
      | Hang \<Rightarrow> Hang)"

definition GetSyntheticModelBinding ::
  "fileLib \<Rightarrow> SyntheticModelBinding outcome" where
  "GetSyntheticModelBinding L =
     ReadSyntheticModelBinding L
       [''../testutil/testdata/test_managed_cluster_1.yaml'',
        ''../testutil/testdata/test_managed_cluster_2.yaml'']"

text \<open>A pair that was read is well formed, so the development's properties apply to it.\<close>

definition keyedByName :: "ManagedCluster gomap \<Rightarrow> bool" where
  "keyedByName m \<longleftrightarrow> wf_map m \<and> (\<forall>k mc. mlookup m k = Some mc \<longrightarrow> mcName mc = k)"

lemma keyedByName_update: "keyedByName m \<Longrightarrow> keyedByName (mset_key (mcName mc) mc m)"
  unfolding keyedByName_def by (metis fun_upd_apply mlookup_update option.inject wf_map_update)

lemma readClusters_wf: "readClusters L paths m = Ret m' \<Longrightarrow> keyedByName m \<Longrightarrow> keyedByName m'"
  by (induction paths arbitrary: m) (auto intro: keyedByName_update split: option.splits)

lemma ReadSyntheticModelBinding_wf:
  assumes "ReadSyntheticModelBinding L paths = Ret mb"
  shows "wf_pair mb"
proof -
  from assms have "readClusters L paths [] = Ret (ManagedClusters mb)"
    by (auto simp: ReadSyntheticModelBinding_def split: outcome.splits)
  from readClusters_wf [OF this] show ?thesis by (simp add: wf_pair_def keyedByName_def)
qed

section \<open>The listers meet the contract of a lister\<close>

lemma simpleLister_simps [simp]:
  "lsGet (simpleLister nsc rc) = rcGet rc"
  "lsList (simpleLister nsc rc) ns sel =
     (if ns = [] then listAllNamespaces nsc (\<lambda>ns. listMatching rc ns sel) else listMatching rc ns sel)"
  by (simp_all add: simpleLister_def)

lemma simpleClusterLister_simps [simp]:
  "lsGet (simpleClusterLister rc) = rcGet rc" "lsList (simpleClusterLister rc) = listMatching rc"
  by (simp_all add: simpleClusterLister_def)

text \<open>A loop whose bodies succeed and leave the world alone collects the lists in order.\<close>

lemma appendLists_pure:
  "(\<And>n. n \<in> set nss \<Longrightarrow> f (Name n) w = ((g (Name n), None), w)) \<Longrightarrow>
   appendLists f nss acc w = ((acc @ concat (map (g \<circ> Name) nss), None), w)"
  by (induction nss arbitrary: acc) auto

lemma distinct_concat_map:
  "distinct ms \<Longrightarrow> (\<And>m. distinct (g m)) \<Longrightarrow>
   (\<And>m m' x. m \<in> set ms \<Longrightarrow> m' \<in> set ms \<Longrightarrow> x \<in> set (g m) \<Longrightarrow> x \<in> set (g m') \<Longrightarrow> m = m') \<Longrightarrow>
   distinct (concat (map g ms))"
proof (induction ms)
  case (Cons m ms)
  have "set (g m) \<inter> set (concat (map g ms)) = {}"
  proof (rule ccontr)
    assume "\<not> ?thesis"
    then obtain m' x where "m' \<in> set ms" "x \<in> set (g m)" "x \<in> set (g m')" by auto
    with Cons.prems(3) [of m m' x] have "m = m'" by simp
    with \<open>m' \<in> set ms\<close> Cons.prems(1) show False by simp
  qed
  with Cons show ?case by simp
qed simp

context api_store
begin

lemma listMatching_view:
  assumes "mlookup conns k = Some c"
  shows "\<exists>xs. listMatching (rc c) ns sel w = ((xs, None), w) \<and> distinct xs \<and>
    set xs = {x \<in> stored (view w) (connName c) ns. matches sel (Labels x)}"
proof -
  from list_view [OF assms, of ns w] obtain xs where
    "rcList (rc c) ns w = ((xs, None), w)" "distinct xs" "set xs = stored (view w) (connName c) ns" by blast
  then show ?thesis by (auto simp: listMatching_def intro!: exI [where x = "filter (\<lambda>x. matches sel (Labels x)) xs"])
qed

end

text \<open>A fake client set, which answers nil beside the error. A cluster-scoped kind: one list is enough.\<close>

locale nil_store = api_store R conns wrap nsOf ok rc view rest
  for R :: "'w runtime" and conns and wrap :: "'a ObjectMeta_scheme \<Rightarrow> kobj" and nsOf and ok and rc and view and rest +
  assumes get_nil: "mlookup conns k = Some c \<Longrightarrow> view w (connName c) ns n = None \<Longrightarrow> fst (fst (rcGet (rc c) ns n w)) = None"
begin

lemma get_exact:
  "mlookup conns k = Some c \<Longrightarrow> rcGet (rc c) ns n w =
     ((view w (connName c) ns n, if view w (connName c) ns n = None then Some (ErrNotFound n) else None), w)"
  using get_view [of k c ns n w] get_nil [of k c w ns n]
  by (cases "rcGet (rc c) ns n w") (auto simp: answers_def split: option.splits)

end

sublocale nil_store \<subseteq> clusterwide: kind_store R conns wrap nsOf ok rc view rest "\<lambda>c. simpleClusterLister (rc c)"
proof unfold_locales
  fix k c ns n w assume c: "mlookup conns k = Some c"
  show "lsGet (simpleClusterLister (rc c)) ns n w =
      ((view w (connName c) ns n, if view w (connName c) ns n = None then Some (ErrNotFound n) else None), w)"
    by (simp add: get_exact [OF c])
next
  fix k c ns sel w assume c: "mlookup conns k = Some c"
  show "\<exists>xs. lsList (simpleClusterLister (rc c)) ns sel w = ((xs, None), w) \<and> distinct xs \<and>
      set xs = {x \<in> stored (view w) (connName c) ns. matches sel (Labels x)}"
    using listMatching_view [OF c, of ns sel w] by simp
qed

text \<open>A namespaced kind: the client knows every namespace that holds an object, once.\<close>

locale namespaced_store =
  nil_store R conns wrap Namespace ok rc view rest
  for R :: "'w runtime" and conns and wrap :: "'a ObjectMeta_scheme \<Rightarrow> kobj" and ok and rc and view and rest +
  fixes nsc :: "'w ManagedClusterConnection \<Rightarrow> (NamespaceObj, 'w) rclient"
  assumes namespaces: "mlookup conns k = Some c \<Longrightarrow> \<exists>nss. rcList (nsc c) [] w = ((nss, None), w) \<and>
    distinct (map Name nss) \<and> [] \<notin> Name ` set nss \<and>
    (\<forall>ns n. view w (connName c) ns n \<noteq> None \<longrightarrow> ns \<in> Name ` set nss)"
begin

lemma listAllNamespaces_view:
  assumes c: "mlookup conns k = Some c"
  shows "\<exists>xs. listAllNamespaces (nsc c) (\<lambda>ns. listMatching (rc c) ns sel) w = ((xs, None), w) \<and>
    distinct xs \<and> set xs = {x \<in> stored (view w) (connName c) []. matches sel (Labels x)}"
proof -
  from namespaces [OF c, of w] obtain nss where nss: "rcList (nsc c) [] w = ((nss, None), w)"
    "distinct (map Name nss)" "[] \<notin> Name ` set nss"
    "\<forall>ns n. view w (connName c) ns n \<noteq> None \<longrightarrow> ns \<in> Name ` set nss" by blast
  have "\<forall>ns. \<exists>xs. listMatching (rc c) ns sel w = ((xs, None), w) \<and> distinct xs \<and>
      set xs = {x \<in> stored (view w) (connName c) ns. matches sel (Labels x)}"
    using listMatching_view [OF c] by blast
  then obtain g where g: "\<And>ns. listMatching (rc c) ns sel w = ((g ns, None), w)" "\<And>ns. distinct (g ns)"
    "\<And>ns. set (g ns) = {x \<in> stored (view w) (connName c) ns. matches sel (Labels x)}"
    unfolding choice_iff by blast
  have in_ns: "Namespace x = ns" if "x \<in> set (g ns)" "ns \<noteq> []" for x ns
    using that view_placed [of w] unfolding g(3) stored_def placed_def by auto
  have "distinct (concat (map g (map Name nss)))"
  proof (rule distinct_concat_map [OF nss(2)])
    fix m m' x assume m: "m \<in> set (map Name nss)" "m' \<in> set (map Name nss)" "x \<in> set (g m)" "x \<in> set (g m')"
    then have "m \<noteq> []" "m' \<noteq> []" using nss(3) by (metis set_map)+
    with m in_ns [of x m] in_ns [of x m'] show "m = m'" by simp
  qed (rule g(2))
  moreover have "set (concat (map g (map Name nss))) = {x \<in> stored (view w) (connName c) []. matches sel (Labels x)}"
    using nss(3,4) by (auto simp: g(3) stored_def) blast
  ultimately show ?thesis
    by (simp add: listAllNamespaces_def nss(1) appendLists_pure [of nss _ w g] g(1) comp_def)
qed

end

sublocale namespaced_store \<subseteq> bynamespace: kind_store R conns wrap Namespace ok rc view rest
  "\<lambda>c. simpleLister (nsc c) (rc c)"
proof unfold_locales
  fix k c ns n w assume c: "mlookup conns k = Some c"
  show "lsGet (simpleLister (nsc c) (rc c)) ns n w =
      ((view w (connName c) ns n, if view w (connName c) ns n = None then Some (ErrNotFound n) else None), w)"
    by (simp add: get_exact [OF c])
next
  fix k c ns sel w assume c: "mlookup conns k = Some c"
  show "\<exists>xs. lsList (simpleLister (nsc c) (rc c)) ns sel w = ((xs, None), w) \<and> distinct xs \<and>
      set xs = {x \<in> stored (view w) (connName c) ns. matches sel (Labels x)}"
    using listAllNamespaces_view [OF c, of sel w] listMatching_view [OF c, of ns sel w] by simp
qed

text \<open>Connections whose listers are the simple ones.\<close>

lemma kind_store_lister:
  assumes "kind_store R conns wrap nsOf ok rc view rest ls"
    and "\<And>k c. mlookup conns k = Some c \<Longrightarrow> ls' c = ls c"
  shows "kind_store R conns wrap nsOf ok rc view rest ls'"
  using assms unfolding kind_store_def kind_store_axioms_def read_store_def read_store_axioms_def by simp

context nil_store
begin

lemma clusterwide_lister:
  "(\<And>k c. mlookup conns k = Some c \<Longrightarrow> ls c = simpleClusterLister (rc c)) \<Longrightarrow>
   kind_store R conns wrap nsOf ok rc view rest ls"
  by (rule kind_store_lister [OF clusterwide.kind_store_axioms])

end

context namespaced_store
begin

lemma namespaced_lister:
  "(\<And>k c. mlookup conns k = Some c \<Longrightarrow> ls c = simpleLister (nsc c) (rc c)) \<Longrightarrow>
   kind_store R conns wrap Namespace ok rc view rest ls"
  by (rule kind_store_lister [OF bynamespace.kind_store_axioms])

end

end
