(* ===== verification/Memory_Server.thy ===== *)
theory Memory_Server
  imports Environment Fakes Secret_Copies
begin

text \<open>
  A server that keeps the objects of every cluster in memory, on which the contracts of
  \<open>Object_Store\<close> are interpreted with the test listers of \<open>Fakes\<close> and the properties that assume them
  are instantiated. A table holds the objects of all kinds; of two with one kind and key the first
  counts, and one of a namespaced kind only while its namespace is there. Creating a namespace purges
  what an earlier one of the name has left behind.
\<close>

type_synonym tables = "string \<Rightarrow> kobj list"

section \<open>The server\<close>

definition inTable :: "kobj list \<Rightarrow> kind \<Rightarrow> string \<Rightarrow> string \<Rightarrow> kobj option" where
  "inTable ys K ns n = find (\<lambda>y. kindOf y = K \<and> namespaceOf y = ns \<and> nameOf y = n) ys"

text \<open>What there is to see of one cluster's table.\<close>

definition seen :: "kobj list \<Rightarrow> kind \<Rightarrow> string \<Rightarrow> string \<Rightarrow> kobj option" where
  "seen ys K ns n =
     (if creatable K (\<lambda>K' _. inTable ys K') [] ns n then inTable ys K ns n else None)"

definition memory :: "tables \<Rightarrow> clusterState" where
  "memory w K cl = seen (w cl) K"

definition objects :: "(kobj \<Rightarrow> 'o option) \<Rightarrow> tables \<Rightarrow> string \<Rightarrow> 'o list" where
  "objects un w cl = List.map_filter un (w cl)"

definition added :: "kobj \<Rightarrow> kobj list \<Rightarrow> kobj list" where
  "added y ys = y # (if kindOf y = NamespaceKind then filter (\<lambda>z. namespaceOf z \<noteq> nameOf y) ys else ys)"

definition deleted :: "kind \<Rightarrow> string \<Rightarrow> string \<Rightarrow> kobj list \<Rightarrow> kobj list" where
  "deleted K ns n = filter (\<lambda>y. \<not> (kindOf y = K \<and> namespaceOf y = ns \<and> nameOf y = n))"

definition tableClient ::
  "kind \<Rightarrow> ('a ObjectMeta_scheme \<Rightarrow> kobj) \<Rightarrow> (kobj \<Rightarrow> 'a ObjectMeta_scheme option) \<Rightarrow>
   ('a ObjectMeta_scheme \<Rightarrow> string) \<Rightarrow> string \<Rightarrow> ('a ObjectMeta_scheme, tables) rclient" where
  "tableClient K wrap un nsOf cl =
     \<lparr>rcGet = (\<lambda>ns n w. let x = typed un (memory w K) cl ns n
        in ((x, if x = None then Some (ErrNotFound n) else None), w)),
      rcList = (\<lambda>ns w. ((filter (\<lambda>x. (ns = [] \<or> nsOf x = ns) \<and>
        typed un (memory w K) cl (nsOf x) (Name x) = Some x) (remdups (objects un w cl)), None), w)),
      rcCreate = (\<lambda>ns x w.
        if creatable K (memory w) cl (nsOf x) (Name x)
        then ((Some x, None), w(cl := added (wrap x) (w cl)))
        else ((None, Some (ErrNotFound (nsOf x))), w)),
      rcUpdate = (\<lambda>ns x w.
        if memory w K cl (nsOf x) (Name x) = None then ((None, Some (ErrNotFound (Name x))), w)
        else ((Some x, None), w(cl := wrap x # w cl))),
      rcDelete = (\<lambda>ns n w. (None, w(cl := deleted K ns n (w cl))))\<rparr>"

definition memoryClientset :: "string \<Rightarrow> tables Clientset" where
  "memoryClientset name =
     \<lparr>clientName = name, csNamespaces = tableClient NamespaceKind KNamespace asNamespace clusterScoped name,
      csServiceAccounts = tableClient ServiceAccountKind KServiceAccount asServiceAccount Namespace name,
      csSecrets = tableClient SecretKind KSecret asSecret Namespace name,
      csConfigMaps = tableClient ConfigMapKind KConfigMap asConfigMap Namespace name,
      csClusterRoles = tableClient ClusterRoleKind KClusterRole asClusterRole clusterScoped name,
      csClusterRoleBindings =
        tableClient ClusterRoleBindingKind KClusterRoleBinding asClusterRoleBinding clusterScoped name,
      csDeployments = tableClient DeploymentKind KDeployment asDeployment Namespace name,
      csServices = tableClient ServiceKind KService asService Namespace name,
      csDaemonSets = tableClient DaemonSetKind KDaemonSet asDaemonSet Namespace name,
      csVMIs = tableClient VMIKind KVMI asVMI Namespace name,
      csNodes = (\<lambda>w. ((Some [''runtime''], None), w))\<rparr>"

text \<open>The connections of the repository's tests on such client sets, without pods.\<close>

definition memoryConnection :: "string \<Rightarrow> tables ManagedClusterConnection" where
  "memoryConnection name =
     (let kubeClient = memoryClientset name
      in \<lparr>KubeClient = kubeClient, DeploymentLister = simpleDeploymentLister kubeClient,
          ServiceAccountLister = simpleServiceAccountLister kubeClient,
          NamespaceLister = simpleNamespaceLister kubeClient,
          SecretLister = SimpleSecretLister (\<lambda>_ _ _ w. ((), w)) kubeClient,
          ClusterRoleLister = simpleClusterRoleLister kubeClient,
          ClusterRoleBindingLister = simpleClusterRoleBindingLister kubeClient,
          ConfigMapLister = simpleConfigMapLister kubeClient,
          DaemonSetLister = simpleDaemonSetLister kubeClient,
          ServiceLister = simpleServiceLister kubeClient, hasSynced = (\<lambda>w. (True, w))\<rparr>)"

definition memoryConnections :: "tables connections" where
  "memoryConnections = [(''local'', memoryConnection ''local''), (''other'', memoryConnection ''other'')]"

text \<open>There is a difference between any two objects but for the resource version of an instance.\<close>

fun unversioned :: "kobj \<Rightarrow> kobj" where
  "unversioned (KVMI v) = KVMI (v\<lparr>ResourceVersion := []\<rparr>)"
| "unversioned x = x"

definition memoryRuntime :: "tables runtime" where
  "memoryRuntime = plainRuntime\<lparr>Diff := (\<lambda>x y. if unversioned x = unversioned y then [] else ''differs'')\<rparr>"

lemma memory_fair [simp]: "fairOrder memoryRuntime"
  by (simp add: fairOrder_def memoryRuntime_def plainRuntime_def)

lemma memory_covers [simp]: "covers memoryConnections (ManagedClusters plainPair)"
  by (auto simp: covers_def plainPair_def memoryConnections_def)

section \<open>The tables\<close>

lemma inTable_Cons: "inTable (y # ys) K ns n =
    (if kindOf y = K \<and> namespaceOf y = ns \<and> nameOf y = n then Some y else inTable ys K ns n)"
  by (simp add: inTable_def)

lemma inTable_Some: "inTable ys K ns n = Some y \<Longrightarrow> kindOf y = K \<and> namespaceOf y = ns \<and> nameOf y = n \<and> y \<in> set ys"
  by (induction ys) (auto simp: inTable_def split: if_splits)

lemma inTable_filter: "inTable (filter P ys) K ns n = inTable ys K ns n"
  if "\<And>y. kindOf y = K \<Longrightarrow> namespaceOf y = ns \<Longrightarrow> nameOf y = n \<Longrightarrow> P y"
  using that by (induction ys) (auto simp: inTable_def)

lemma inTable_filtered: "inTable (filter P ys) K ns n = None"
  if "\<And>y. kindOf y = K \<Longrightarrow> namespaceOf y = ns \<Longrightarrow> nameOf y = n \<Longrightarrow> \<not> P y"
  using that by (induction ys) (auto simp: inTable_def)

lemma inTable_deleted: "inTable (deleted K ns n ys) K' ns' n' =
    (if K' = K \<and> ns' = ns \<and> n' = n then None else inTable ys K' ns' n')"
  unfolding deleted_def by (auto intro!: inTable_filter inTable_filtered)

lemma inTable_added: "inTable (added y ys) K ns n =
    (if kindOf y = K \<and> namespaceOf y = ns \<and> nameOf y = n then Some y
     else if kindOf y = NamespaceKind \<and> ns = nameOf y then None else inTable ys K ns n)"
  by (auto simp: added_def inTable_Cons intro!: inTable_filter inTable_filtered)

lemma seen_Namespace: "seen ys NamespaceKind ns n = (if ns = [] \<and> n \<noteq> [] then inTable ys NamespaceKind [] n else None)"
  by (simp add: seen_def creatable_def)

lemma creatable_memory: "creatable K (memory w) cl = creatable K (\<lambda>K' _. inTable (w cl) K') []"
  by (auto simp: creatable_def memory_def seen_Namespace fun_eq_iff split: kind.split)

lemma seen_eq: "seen ys K ns n = (if creatable K (\<lambda>K' _. seen ys K') cl ns n then inTable ys K ns n else None)"
  by (auto simp: seen_def creatable_def split: kind.split)

lemma creatable_seen: "creatable K (memory w) cl = creatable K (\<lambda>K' _. seen (w cl) K') c"
  by (auto simp: creatable_def memory_def fun_eq_iff split: kind.split)

lemma seen_added:
  assumes "creatable (kindOf y) (\<lambda>K' _. seen ys K') c (namespaceOf y) (nameOf y)"
    and "seen ys (kindOf y) (namespaceOf y) (nameOf y) = None"
  shows "seen (added y ys) K ns n =
    (if kindOf y = K \<and> namespaceOf y = ns \<and> nameOf y = n then Some y else seen ys K ns n)"
proof (cases "kindOf y = NamespaceKind")
  case True
  with assms have "namespaceOf y = []" "nameOf y \<noteq> []" "inTable ys NamespaceKind [] (nameOf y) = None"
    by (auto simp: creatable_def seen_Namespace)
  with True show ?thesis
    by (cases K) (auto simp: seen_def creatable_def inTable_added)
next
  case False
  then have a: "inTable (added y ys) NamespaceKind = inTable ys NamespaceKind" by (simp add: fun_eq_iff inTable_added)
  then have "creatable K (\<lambda>K' _. inTable (added y ys) K') [] = creatable K (\<lambda>K' _. inTable ys K') []"
    by (simp add: creatable_def fun_eq_iff split: kind.split)
  moreover have "creatable (kindOf y) (\<lambda>K' _. inTable ys K') [] (namespaceOf y) (nameOf y)"
    using assms(1) by (auto simp: creatable_def seen_Namespace split: kind.splits)
  ultimately show ?thesis
    using False by (auto simp: seen_def inTable_added)
qed

lemma seen_updated:
  assumes "seen ys (kindOf y) (namespaceOf y) (nameOf y) \<noteq> None"
  shows "seen (y # ys) K ns n =
    (if kindOf y = K \<and> namespaceOf y = ns \<and> nameOf y = n then Some y else seen ys K ns n)"
proof -
  have e: "inTable (y # ys) NamespaceKind ns n = None \<longleftrightarrow> inTable ys NamespaceKind ns n = None" for ns n
    using assms by (auto simp: inTable_Cons seen_def split: if_splits)
  then have "creatable K (\<lambda>K' _. inTable (y # ys) K') [] = creatable K (\<lambda>K' _. inTable ys K') []"
    by (simp add: creatable_def fun_eq_iff split: kind.split)
  moreover have "creatable (kindOf y) (\<lambda>K' _. inTable ys K') [] (namespaceOf y) (nameOf y)"
    using assms by (simp add: seen_def split: if_splits)
  ultimately show ?thesis by (auto simp: seen_def inTable_Cons)
qed

lemma seen_deleted: "seen (deleted K ns n ys) K ns' n' = (if ns' = ns \<and> n' = n then None else seen ys K ns' n')"
proof (cases "K = NamespaceKind")
  case False
  then have "creatable K (\<lambda>K' _. inTable (deleted K ns n ys) K') [] = creatable K (\<lambda>K' _. inTable ys K') []"
    by (simp add: creatable_def fun_eq_iff inTable_deleted split: kind.split)
  then show ?thesis by (simp add: seen_def inTable_deleted)
qed (simp add: seen_Namespace inTable_deleted)

lemma memory_put:
  assumes "\<And>K' ns' n'. seen ys K' ns' n' = (if K = K' \<and> ns = ns' \<and> n = n' then Some y else seen (w cl) K' ns' n')"
  shows "memory (w(cl := ys)) = (memory w)(K := put cl ns n (Some y) (memory w K))"
  by (auto simp: fun_eq_iff memory_def put_apply assms)

section \<open>A table is a store\<close>

lemma shapeD:
  assumes "shape K wrap un nsOf"
  shows "un (wrap x) = Some x" "kindOf (wrap x) = K" "namespaceOf (wrap x) = nsOf x" "nameOf (wrap x) = Name x"
    and "un y = Some x \<Longrightarrow> y = wrap x" "kindOf y = K \<Longrightarrow> \<exists>x. y = wrap x \<and> un y = Some x"
proof -
  have y: "case un y of None \<Rightarrow> kindOf y \<noteq> K | Some x \<Rightarrow> kindOf y = K \<and> y = wrap x" for y
    using assms by (simp add: shape_def)
  show "un (wrap x) = Some x" "namespaceOf (wrap x) = nsOf x" "nameOf (wrap x) = Name x"
    using assms by (simp_all add: shape_def)
  with y [of "wrap x"] show "kindOf (wrap x) = K" by simp
  show "un y = Some x \<Longrightarrow> y = wrap x" "kindOf y = K \<Longrightarrow> \<exists>x. y = wrap x \<and> un y = Some x"
    using y [of y] by (auto split: option.splits)
qed

lemma typed_put: "typed un (put cl ns n y v) = put cl ns n (Option.bind y un) (typed un v)"
  by (auto simp: typed_def put_apply fun_eq_iff)

lemma seen_Some: "seen ys K ns n = Some y \<Longrightarrow>
    kindOf y = K \<and> namespaceOf y = ns \<and> nameOf y = n \<and> y \<in> set ys \<and> creatable K (\<lambda>K' _. seen ys K') cl ns n"
  using seen_eq [of ys K ns n cl] by (auto dest: inTable_Some split: if_splits)

text \<open>One kind of a table.\<close>

locale kind_table =
  fixes K :: kind and wrap :: "'a ObjectMeta_scheme \<Rightarrow> kobj" and un nsOf
  assumes shape: "shape K wrap un nsOf"
begin

lemma typed_memory:
  assumes "typed un (memory w K) cl ns n = Some x"
  shows "memory w K cl ns n = Some (wrap x) \<and> nsOf x = ns \<and> Name x = n \<and> x \<in> set (objects un w cl) \<and>
    creatable K (memory w) cl ns n"
proof -
  from assms have m: "memory w K cl ns n = Some (wrap x)"
    by (auto simp: typed_def bind_eq_Some_conv dest: shapeD(5) [OF shape])
  then have "seen (w cl) K ns n = Some (wrap x)" by (simp add: memory_def)
  from seen_Some [OF this] m show ?thesis
    by (auto simp: shapeD(1-4) [OF shape] objects_def List.map_filter_def creatable_seen [of K w cl cl] intro!: rev_image_eqI)
qed

lemma typed_memory_None: "typed un (memory w K) cl ns n = None \<longleftrightarrow> memory w K cl ns n = None"
proof
  assume t: "typed un (memory w K) cl ns n = None"
  show "memory w K cl ns n = None"
  proof (rule ccontr)
    assume "memory w K cl ns n \<noteq> None"
    then obtain y where y: "memory w K cl ns n = Some y" by blast
    then have "kindOf y = K" by (auto simp: memory_def dest: seen_Some)
    with shapeD(6) [OF shape this] y t show False by (auto simp: typed_def)
  qed
qed (simp add: typed_def)

lemma table_placed: "placed nsOf (typed un (memory w K))"
  by (auto simp: placed_def dest: typed_memory)

lemma table_stored: "x \<in> stored (typed un (memory w K)) cl ns \<longleftrightarrow>
    (ns = [] \<or> nsOf x = ns) \<and> typed un (memory w K) cl (nsOf x) (Name x) = Some x"
  using table_placed [of w] unfolding stored_def placed_def by blast

lemma table_create:
  assumes "creatable K (memory w) cl (nsOf x) (Name x)" "typed un (memory w K) cl (nsOf x) (Name x) = None"
  shows "memory (w(cl := added (wrap x) (w cl))) = (memory w)(K := put cl (nsOf x) (Name x) (Some (wrap x)) (memory w K))"
proof (rule memory_put)
  have "seen (w cl) K (nsOf x) (Name x) = None"
    using assms(2) by (simp add: typed_memory_None memory_def)
  then show "seen (added (wrap x) (w cl)) K' ns' n' =
      (if K = K' \<and> nsOf x = ns' \<and> Name x = n' then Some (wrap x) else seen (w cl) K' ns' n')" for K' ns' n'
    using assms(1) by (subst seen_added [where c = cl]) (auto simp: shapeD(1-4) [OF shape] creatable_seen [of K w cl cl])
qed

lemma table_update:
  assumes "memory w K cl (nsOf x) (Name x) \<noteq> None"
  shows "memory (w(cl := wrap x # w cl)) = (memory w)(K := put cl (nsOf x) (Name x) (Some (wrap x)) (memory w K))"
proof (rule memory_put)
  show "seen (wrap x # w cl) K' ns' n' =
      (if K = K' \<and> nsOf x = ns' \<and> Name x = n' then Some (wrap x) else seen (w cl) K' ns' n')" for K' ns' n'
    using assms by (subst seen_updated) (auto simp: shapeD(1-4) [OF shape] memory_def)
qed

lemma table_delete: "memory (w(cl := deleted K ns n (w cl))) K = put cl ns n None (memory w K)"
  by (auto simp: memory_def seen_deleted put_apply fun_eq_iff)

lemma table_store:
  assumes conns: "\<And>k c. mlookup conns k = Some c \<Longrightarrow> connName c = k \<and> cs (KubeClient c) = tableClient K wrap un nsOf k"
  shows "nil_store memoryRuntime conns wrap nsOf (creatable K) (\<lambda>c. cs (KubeClient c))
    (\<lambda>w. typed un (memory w K)) (\<lambda>w. others K (memory w))"
proof unfold_locales
  fix k c assume "mlookup conns k = Some c"
  then have [simp]: "connName c = k" "cs (KubeClient c) = tableClient K wrap un nsOf k" using conns by auto
  fix x n ns w and old :: "'a ObjectMeta_scheme"
  have others: "others K ((memory w)(K := v)) = others K (memory w)" for v
    by (simp add: others_def)
  show "\<exists>xs. rcList (cs (KubeClient c)) ns w = ((xs, None), w) \<and> distinct xs \<and>
      set xs = stored (typed un (memory w K)) (connName c) ns"
    by (auto simp: tableClient_def table_stored dest: typed_memory)
  show "answers (rcGet (cs (KubeClient c)) ns n w) (typed un (memory w K) (connName c) ns n) n w"
    by (simp add: tableClient_def Let_def answers_def split: option.split)
  show "typed un (memory w K) (connName c) ns n = None \<Longrightarrow> fst (fst (rcGet (cs (KubeClient c)) ns n w)) = None"
    by (simp add: tableClient_def Let_def)
  show "creatable K (others K (memory w)) (connName c) (nsOf x) (Name x) \<Longrightarrow>
      typed un (memory w K) (connName c) (nsOf x) (Name x) = None \<Longrightarrow>
      \<exists>r y w'. rcCreate (cs (KubeClient c)) (nsOf x) x w = ((r, None), w') \<and>
        Diff memoryRuntime (wrap y) (wrap x) = [] \<and>
        typed un (memory w' K) = put (connName c) (nsOf x) (Name x) (Some y) (typed un (memory w K)) \<and>
        others K (memory w') = others K (memory w)"
    by (auto simp: tableClient_def memoryRuntime_def table_create typed_put others shapeD(1) [OF shape])
  show "typed un (memory w K) (connName c) (nsOf x) (Name x) = Some old \<Longrightarrow>
      \<exists>r y w'. rcUpdate (cs (KubeClient c)) (nsOf x) x w = ((r, None), w') \<and>
        Diff memoryRuntime (wrap y) (wrap x) = [] \<and>
        typed un (memory w' K) = put (connName c) (nsOf x) (Name x) (Some y) (typed un (memory w K)) \<and>
        others K (memory w') = others K (memory w)"
    using typed_memory [of w k "nsOf x" "Name x" old]
    by (auto simp: tableClient_def memoryRuntime_def table_update typed_put others shapeD(1) [OF shape])
  show "\<exists>w'. rcDelete (cs (KubeClient c)) ns n w = (None, w') \<and>
      typed un (memory w' K) = put (connName c) ns n None (typed un (memory w K))"
    by (simp add: tableClient_def table_delete typed_put)
qed (use conns table_placed in \<open>auto simp: memoryRuntime_def plainRuntime_def\<close>)

end

section \<open>The contracts on the memory connections\<close>

lemma memory_connection: "mlookup memoryConnections k = Some c \<Longrightarrow> c = memoryConnection k"
  by (auto simp: memoryConnections_def split: if_splits)

lemmas memory_defs = memoryConnection_def memoryClientset_def Let_def simpleDeploymentLister_def
  simpleServiceAccountLister_def simpleClusterRoleLister_def simpleClusterRoleBindingLister_def
  simpleConfigMapLister_def simpleDaemonSetLister_def simpleServiceLister_def simpleNamespaceLister_def

interpretation nst: kind_table NamespaceKind KNamespace asNamespace clusterScoped
  by unfold_locales simp

interpretation nsa: nil_store memoryRuntime memoryConnections KNamespace clusterScoped "creatable NamespaceKind"
    "\<lambda>c. csNamespaces (KubeClient c)" "\<lambda>w. typed asNamespace (memory w NamespaceKind)" "\<lambda>w. others NamespaceKind (memory w)"
  by (rule nst.table_store) (auto simp: memory_defs dest!: memory_connection)

text \<open>The namespaces that are listed are all there are, each once.\<close>

lemma memory_namespaces:
  assumes c: "mlookup memoryConnections k = Some c"
  shows "\<exists>nss. rcList (csNamespaces (KubeClient c)) [] w = ((nss, None), w) \<and>
    distinct (map Name nss) \<and> [] \<notin> Name ` set nss \<and>
    (\<forall>ns. memory w NamespaceKind (connName c) [] ns \<noteq> None \<longrightarrow> ns \<in> Name ` set nss)"
proof -
  let ?v = "typed asNamespace (memory w NamespaceKind) (connName c) []"
  from nsa.list_view [OF c, of "[]" w] obtain nss where l: "rcList (csNamespaces (KubeClient c)) [] w = ((nss, None), w)"
    "distinct nss" and nss: "\<And>x. x \<in> set nss \<longleftrightarrow> ?v (Name x) = Some x"
    by (auto simp: nst.table_stored clusterScoped_def)
  have "inj_on Name (set nss)" by (rule inj_onI) (auto simp: nss)
  moreover have "[] \<notin> Name ` set nss"
    by (auto simp: nss dest!: nst.typed_memory) (simp add: creatable_def)
  moreover have "ns \<in> Name ` set nss" if "memory w NamespaceKind (connName c) [] ns \<noteq> None" for ns
  proof -
    from that obtain x where x: "?v ns = Some x" using nst.typed_memory_None by (metis option.exhaust)
    with nst.typed_memory [OF x] nss show ?thesis by (auto intro!: rev_image_eqI)
  qed
  ultimately show ?thesis using l by (auto simp: distinct_map)
qed

lemma table_namespaced:
  assumes shape: "shape K wrap un Namespace"
    and K: "K \<notin> {NamespaceKind, ClusterRoleKind, ClusterRoleBindingKind}"
    and cs: "\<And>k. cs (memoryClientset k) = tableClient K wrap un Namespace k"
  shows "namespaced_store memoryRuntime memoryConnections wrap (creatable K) (\<lambda>c. cs (KubeClient c))
    (\<lambda>w. typed un (memory w K)) (\<lambda>w. others K (memory w)) (\<lambda>c. csNamespaces (KubeClient c))"
proof (intro namespaced_store.intro kind_table.table_store kind_table.intro namespaced_store_axioms.intro)
  fix k c and w :: tables assume c: "mlookup memoryConnections k = Some c"
  have "memory w NamespaceKind (connName c) [] ns \<noteq> None" if "typed un (memory w K) (connName c) ns n \<noteq> None" for ns n
  proof -
    from that obtain x where "typed un (memory w K) (connName c) ns n = Some x" by blast
    from kind_table.typed_memory [OF kind_table.intro [OF shape] this]
    have "creatable K (memory w) (connName c) ns n" by simp
    with K show ?thesis by (cases K) (simp_all add: creatable_def)
  qed
  with memory_namespaces [OF c, of w]
  show "\<exists>nss. rcList (csNamespaces (KubeClient c)) [] w = ((nss, None), w) \<and> distinct (map Name nss) \<and>
      [] \<notin> Name ` set nss \<and>
      (\<forall>ns n. typed un (memory w K) (connName c) ns n \<noteq> None \<longrightarrow> ns \<in> Name ` set nss)"
    by blast
qed (use shape cs in \<open>auto simp: memory_defs dest!: memory_connection\<close>)

interpretation sas: namespaced_store memoryRuntime memoryConnections KServiceAccount "creatable ServiceAccountKind"
    "\<lambda>c. csServiceAccounts (KubeClient c)" "\<lambda>w. typed asServiceAccount (memory w ServiceAccountKind)"
    "\<lambda>w. others ServiceAccountKind (memory w)" "\<lambda>c. csNamespaces (KubeClient c)"
  by (rule table_namespaced) (simp_all add: memoryClientset_def)

interpretation cms: namespaced_store memoryRuntime memoryConnections KConfigMap "creatable ConfigMapKind"
    "\<lambda>c. csConfigMaps (KubeClient c)" "\<lambda>w. typed asConfigMap (memory w ConfigMapKind)"
    "\<lambda>w. others ConfigMapKind (memory w)" "\<lambda>c. csNamespaces (KubeClient c)"
  by (rule table_namespaced) (simp_all add: memoryClientset_def)

interpretation deps: namespaced_store memoryRuntime memoryConnections KDeployment "creatable DeploymentKind"
    "\<lambda>c. csDeployments (KubeClient c)" "\<lambda>w. typed asDeployment (memory w DeploymentKind)"
    "\<lambda>w. others DeploymentKind (memory w)" "\<lambda>c. csNamespaces (KubeClient c)"
  by (rule table_namespaced) (simp_all add: memoryClientset_def)

interpretation svcs: namespaced_store memoryRuntime memoryConnections KService "creatable ServiceKind"
    "\<lambda>c. csServices (KubeClient c)" "\<lambda>w. typed asService (memory w ServiceKind)"
    "\<lambda>w. others ServiceKind (memory w)" "\<lambda>c. csNamespaces (KubeClient c)"
  by (rule table_namespaced) (simp_all add: memoryClientset_def)

interpretation dss: namespaced_store memoryRuntime memoryConnections KDaemonSet "creatable DaemonSetKind"
    "\<lambda>c. csDaemonSets (KubeClient c)" "\<lambda>w. typed asDaemonSet (memory w DaemonSetKind)"
    "\<lambda>w. others DaemonSetKind (memory w)" "\<lambda>c. csNamespaces (KubeClient c)"
  by (rule table_namespaced) (simp_all add: memoryClientset_def)

interpretation crt: kind_table ClusterRoleKind KClusterRole asClusterRole clusterScoped
  by unfold_locales simp

interpretation crs: nil_store memoryRuntime memoryConnections KClusterRole clusterScoped "creatable ClusterRoleKind"
    "\<lambda>c. csClusterRoles (KubeClient c)" "\<lambda>w. typed asClusterRole (memory w ClusterRoleKind)"
    "\<lambda>w. others ClusterRoleKind (memory w)"
  by (rule crt.table_store) (auto simp: memory_defs dest!: memory_connection)

interpretation crbt: kind_table ClusterRoleBindingKind KClusterRoleBinding asClusterRoleBinding clusterScoped
  by unfold_locales simp

interpretation crbs: nil_store memoryRuntime memoryConnections KClusterRoleBinding clusterScoped
    "creatable ClusterRoleBindingKind" "\<lambda>c. csClusterRoleBindings (KubeClient c)"
    "\<lambda>w. typed asClusterRoleBinding (memory w ClusterRoleBindingKind)" "\<lambda>w. others ClusterRoleBindingKind (memory w)"
  by (rule crbt.table_store) (auto simp: memory_defs dest!: memory_connection)

lemma memory_listers:
  "mlookup memoryConnections k = Some c \<Longrightarrow>
     DeploymentLister c = simpleLister (csNamespaces (KubeClient c)) (csDeployments (KubeClient c))"
  "mlookup memoryConnections k = Some c \<Longrightarrow>
     ServiceLister c = simpleLister (csNamespaces (KubeClient c)) (csServices (KubeClient c))"
  "mlookup memoryConnections k = Some c \<Longrightarrow>
     DaemonSetLister c = simpleLister (csNamespaces (KubeClient c)) (csDaemonSets (KubeClient c))"
  "mlookup memoryConnections k = Some c \<Longrightarrow>
     ServiceAccountLister c = simpleLister (csNamespaces (KubeClient c)) (csServiceAccounts (KubeClient c))"
  "mlookup memoryConnections k = Some c \<Longrightarrow>
     ConfigMapLister c = simpleLister (csNamespaces (KubeClient c)) (csConfigMaps (KubeClient c))"
  "mlookup memoryConnections k = Some c \<Longrightarrow>
     ClusterRoleLister c = simpleClusterLister (csClusterRoles (KubeClient c))"
  "mlookup memoryConnections k = Some c \<Longrightarrow>
     ClusterRoleBindingLister c = simpleClusterLister (csClusterRoleBindings (KubeClient c))"
  "mlookup memoryConnections k = Some c \<Longrightarrow>
     NamespaceLister c = simpleClusterLister (csNamespaces (KubeClient c))"
  by (auto simp: memory_defs dest!: memory_connection)

lemma memory_stores [simp]:
  "deploymentStore memoryRuntime memoryConnections memory"
  "serviceStore memoryRuntime memoryConnections memory"
  "daemonSetStore memoryRuntime memoryConnections memory"
  "serviceAccountStore memoryRuntime memoryConnections memory"
  "configMapStore memoryRuntime memoryConnections memory"
  "clusterRoleStore memoryRuntime memoryConnections memory"
  "clusterRoleBindingStore memoryRuntime memoryConnections memory"
  "namespaceStore memoryRuntime memoryConnections memory"
  by (rule deps.namespaced_lister svcs.namespaced_lister dss.namespaced_lister sas.namespaced_lister
    cms.namespaced_lister crs.clusterwide_lister crbs.clusterwide_lister nsa.clusterwide_lister,
    erule memory_listers)+

interpretation vmis: namespaced_store memoryRuntime memoryConnections KVMI "creatable VMIKind"
    "\<lambda>c. csVMIs (KubeClient c)" "\<lambda>w. typed asVMI (memory w VMIKind)"
    "\<lambda>w. others VMIKind (memory w)" "\<lambda>c. csNamespaces (KubeClient c)"
  by (rule table_namespaced) (simp_all add: memoryClientset_def)

text \<open>Secrets, whose lister finds them by name.\<close>

interpretation scts: namespaced_store memoryRuntime memoryConnections KSecret "creatable SecretKind"
    "\<lambda>c. csSecrets (KubeClient c)" "\<lambda>w. typed asSecret (memory w SecretKind)"
    "\<lambda>w. others SecretKind (memory w)" "\<lambda>c. csNamespaces (KubeClient c)"
  by (rule table_namespaced) (simp_all add: memoryClientset_def)

interpretation copier: secret_store memoryRuntime memoryConnections "creatable SecretKind"
    "\<lambda>w. typed asSecret (memory w SecretKind)" "\<lambda>w. others SecretKind (memory w)"
proof
  fix k c ns n w assume c: "mlookup memoryConnections k = Some c"
  then have "SecretLister c = SimpleSecretLister (\<lambda>_ _ _ w. ((), w)) (KubeClient c)"
    by (auto simp: memory_defs dest!: memory_connection)
  then show "lsGet (SecretLister c) ns n w = ((typed asSecret (memory w SecretKind) (connName c) ns n,
      if typed asSecret (memory w SecretKind) (connName c) ns n = None then Some (ErrNotFound n) else None), w)"
    using scts.get_exact [OF c, of ns n w] by (simp add: SimpleSecretLister_def)
qed

lemma memory_secrets [simp]: "secretStore memoryRuntime memoryConnections memory"
  by (rule copier.secret_store_axioms)

end
