(* ===== verification/Integ_Client.thy ===== *)
theory Integ_Client
  imports Fakes
begin

text \<open>
  test/integ/k8s and test/integ/util/environ.go: the client with which the integration tests look for
  what the operator has deployed. Pods and custom
  resource definitions are no part of \<open>Clientset\<close>, so their clients are fields of their own.
\<close>

record 'w Client =
  clientset :: "'w Clientset"
  clientPods :: "(Pod, 'w) rclient" \<comment> \<open>\<^verbatim>\<open>clientset.CoreV1().Pods\<close>\<close>
  apixClient :: "(ObjectMeta, 'w) rclient" \<comment> \<open>its definitions\<close>
  vmiClient :: "(VMI, 'w) rclient"

definition procExistsStatus :: "err option \<Rightarrow> string \<Rightarrow> ('w, bool) prog" where
  "procExistsStatus err msg =
     (case err of
        None \<Rightarrow> gret True
      | Some e \<Rightarrow> if \<not> isNotFound e then ginkgoFail (''ginkgo.Failed calling API to get '' @ msg)
                  else gret False)"

fun anyItem :: "('o \<Rightarrow> bool) \<Rightarrow> 'o list \<Rightarrow> bool" where
  "anyItem P [] = False"
| "anyItem P (x # xs) = (if P x then True else anyItem P xs)"

definition DoesCRDExist :: "'w Client \<Rightarrow> string \<Rightarrow> ('w, bool) prog" where
  "DoesCRDExist c crdName =
     gbind (glift (rcList (apixClient c) [])) (\<lambda>(crds, err).
       case err of
         Some _ \<Rightarrow> ginkgoFail ''ginkgo.Failed to get list of CustomResourceDefinitions''
       | None \<Rightarrow> gret (anyItem (\<lambda>x. Name x = crdName) crds))"

definition DoesClusterRoleExist :: "'w Client \<Rightarrow> string \<Rightarrow> ('w, bool) prog" where
  "DoesClusterRoleExist c name =
     gbind (clientGet (csClusterRoles (clientset c)) [] name) (\<lambda>(_, err).
       procExistsStatus err ''ClusterRole'')"

definition DoesClusterRoleBindingExist :: "'w Client \<Rightarrow> string \<Rightarrow> ('w, bool) prog" where
  "DoesClusterRoleBindingExist c name =
     gbind (clientGet (csClusterRoleBindings (clientset c)) [] name) (\<lambda>(_, err).
       procExistsStatus err ''ClusterRoleBinding'')"

definition DoesNamespaceExist :: "'w Client \<Rightarrow> string \<Rightarrow> ('w, bool) prog" where
  "DoesNamespaceExist c name =
     gbind (clientGet (csNamespaces (clientset c)) [] name) (\<lambda>(_, err).
       procExistsStatus err ''Namespace'')"

definition DoesSecretExist :: "'w Client \<Rightarrow> string \<Rightarrow> string \<Rightarrow> ('w, bool) prog" where
  "DoesSecretExist c name namespace =
     gbind (clientGet (csSecrets (clientset c)) namespace name) (\<lambda>(_, err).
       procExistsStatus err ''Secret'')"

definition DoesDaemonsetExist :: "'w Client \<Rightarrow> string \<Rightarrow> string \<Rightarrow> ('w, bool) prog" where
  "DoesDaemonsetExist c name namespace =
     gbind (clientGet (csDaemonSets (clientset c)) namespace name) (\<lambda>(_, err).
       procExistsStatus err ''DaemonSet'')"

definition DoesDeploymentExist :: "'w Client \<Rightarrow> string \<Rightarrow> string \<Rightarrow> ('w, bool) prog" where
  "DoesDeploymentExist c name namespace =
     gbind (clientGet (csDeployments (clientset c)) namespace name) (\<lambda>(_, err).
       procExistsStatus err ''Deployment'')"

text \<open>\<^verbatim>\<open>strings.HasPrefix\<close>, and the text of an error is its own.\<close>

definition hasPrefix :: "string \<Rightarrow> string \<Rightarrow> bool" where
  "hasPrefix s p = (take (length p) s = p)"

definition DoesPodExist :: "(err \<Rightarrow> string) \<Rightarrow> 'w Client \<Rightarrow> string \<Rightarrow> string \<Rightarrow> ('w, bool) prog" where
  "DoesPodExist Error c name namespace =
     gbind (glift (rcList (clientPods c) namespace)) (\<lambda>(pods, err).
       case err of
         Some e \<Rightarrow> ginkgoFail (''Could not get list of pods'' @ Error e)
       | None \<Rightarrow> gret (anyItem (\<lambda>x. hasPrefix (Name x) name) pods))"

definition DoesServiceExist :: "'w Client \<Rightarrow> string \<Rightarrow> string \<Rightarrow> ('w, bool) prog" where
  "DoesServiceExist c name namespace =
     gbind (clientGet (csServices (clientset c)) namespace name) (\<lambda>(_, err).
       procExistsStatus err ''Service'')"

definition DoesServiceAccountExist :: "'w Client \<Rightarrow> string \<Rightarrow> string \<Rightarrow> ('w, bool) prog" where
  "DoesServiceAccountExist c name namespace =
     gbind (clientGet (csServiceAccounts (clientset c)) namespace name) (\<lambda>(_, err).
       procExistsStatus err ''ServiceAccount'')"

definition DoesVmiExist :: "'w Client \<Rightarrow> string \<Rightarrow> ('w, bool) prog" where
  "DoesVmiExist c name =
     gbind (clientGet (vmiClient c) ''verrazzano-system'' name) (\<lambda>(_, err).
       procExistsStatus err ''VerrazzanoMonitoringInstance'')"

section \<open>The client\<close>

definition homeDir :: "'w runtime \<Rightarrow> string" where
  "homeDir R = (let h = GetEnvFunc R ''HOME'' in if h \<noteq> [] then h else [])"

text \<open>\<^verbatim>\<open>filepath.Join\<close>, of the standard library, is the argument \<open>Join\<close>.\<close>

definition GetKubeconfig :: "(string list \<Rightarrow> string) \<Rightarrow> 'w runtime \<Rightarrow> ('w, string) prog" where
  "GetKubeconfig Join R =
     (let home = homeDir R
      in if home \<noteq> [] then gret (Join [home, ''.kube'', ''config'']) else ginkgoFail ''Could not get kubeconfig'')"

text \<open>The client libraries.\<close>

record ('cfg, 'w) integLib =
  ilBuildConfigFromFlags :: "string \<Rightarrow> string \<Rightarrow> 'w \<Rightarrow> (err + 'cfg) \<times> 'w"
  ilKubernetes :: "'cfg \<Rightarrow> 'w \<Rightarrow> (err + ('w Clientset \<times> (Pod, 'w) rclient)) \<times> 'w"
  ilApix :: "'cfg \<Rightarrow> 'w \<Rightarrow> (err + (ObjectMeta, 'w) rclient) \<times> 'w"
  ilVmi :: "'cfg \<Rightarrow> 'w \<Rightarrow> (err + (VMI, 'w) rclient) \<times> 'w"

definition NewClient ::
  "('cfg, 'w) integLib \<Rightarrow> (string list \<Rightarrow> string) \<Rightarrow> 'w runtime \<Rightarrow> ('w, err + 'w Client) prog" where
  "NewClient L Join R =
     gbind (GetKubeconfig Join R) (\<lambda>kubeconfig.
     gbind (glift (ilBuildConfigFromFlags L [] kubeconfig)) (\<lambda>config.
       case config of Inl err \<Rightarrow> gret (Inl err) | Inr config \<Rightarrow>
     gbind (glift (ilKubernetes L config)) (\<lambda>cs.
       case cs of Inl err \<Rightarrow> gret (Inl err) | Inr (cs, pods) \<Rightarrow>
     gbind (glift (ilApix L config)) (\<lambda>apixcli.
       case apixcli of Inl err \<Rightarrow> gret (Inl err) | Inr apixcli \<Rightarrow>
     gbind (glift (ilVmi L config)) (\<lambda>vmicli.
       case vmicli of Inl err \<Rightarrow> gret (Inl err) | Inr vmicli \<Rightarrow>
         gret (Inr \<lparr>clientset = cs, clientPods = pods, apixClient = apixcli, vmiClient = vmicli\<rparr>))))))"

section \<open>What the checks find\<close>

lemma procExistsStatus_simps [simp]:
  "procExistsStatus None msg = gret True"
  "procExistsStatus (Some (ErrNotFound n)) msg = gret False"
  by (simp_all add: procExistsStatus_def)

lemma anyItem_iff: "anyItem P xs \<longleftrightarrow> (\<exists>x \<in> set xs. P x)"
  by (induction xs) auto

text \<open>A check by name on a client of a store.\<close>

context api_store
begin

lemma check_exact:
  assumes "mlookup conns k = Some c"
  shows "gbind (clientGet (rc c) ns n) (\<lambda>(_, err). procExistsStatus err msg) s =
    (Ret (view (world s) (connName c) ns n \<noteq> None), s)"
  using get_view [OF assms, of ns n "world s"]
  by (cases "rcGet (rc c) ns n (world s)")
    (auto simp: gbind_def clientGet_def glift_def gret_def answers_def split: option.splits)

end

end
