(* ===== verification/Props_Deployment.thy ===== *)
theory Props_Deployment
  imports Startup Memory_Server Integ_Client Props_Controller
begin

text \<open>
  The composition of the reconcilers: what the handler of a pair achieves on clusters whose API servers
  and listers agree, and what the start of the operator achieves on its own cluster. Both are
  instantiated with the server in memory.
\<close>

section \<open>The resources of a pair\<close>

text \<open>C2: for a pair that can be deployed (\<open>placeable\<close>), with connections to all its clusters, on clusters
  whose API servers and listers agree, and, unless the binding is the system's, with a management cluster
  whose secrets stay as they are, \<^verbatim>\<open>createManagedClusterResourcesForBinding\<close> returns, whatever the clusters
  hold, and leaves on each what the pair wants of every kind as wanted: its namespaces, the copies of the
  secrets it names, service accounts, config maps, cluster roles and role bindings, deployments, services
  and daemon sets. It changes nothing else, and of the namespaces none that was there. A second call
  sends nothing. Objects can be created only in namespaces that exist, so the order of the reconcilers
  matters.\<close>

theorem resources_deployed:
  fixes fam :: "'w \<Rightarrow> clusterState"
  assumes "managed c = managedPackage R L" "util c = utilPackage R" "fairOrder R" "placeable mb"
    and "covers (managedClusterConnections c) (ManagedClusters mb)"
    and "clusterStores R (managedClusterConnections c) fam"
    and "Name (SynBinding mb) \<noteq> VmiSystemBindingName \<Longrightarrow> secretSource (csSecrets (kubeClientSet c)) src"
  shows "\<exists>s1 s2. createManagedClusterResourcesForBinding c mb ci s = (Ret (), s1) \<and>
    deployed R src (verrazzanoURI c) ci mb (managedClusterConnections c) (fam (world s1)) \<and>
    onlyWanted R src (verrazzanoURI c) ci mb (managedClusterConnections c) (fam (world s)) (fam (world s1)) \<and>
    createManagedClusterResourcesForBinding c mb ci s1 = (Ret (), s2) \<and> sent s2 = sent s1 \<and>
    deployed R src (verrazzanoURI c) ci mb (managedClusterConnections c) (fam (world s2))"
  by (rule pair_resources [OF assms])

text \<open>A controller with the packages of the repository on the clusters in memory, and a pair with a secret of
  the management cluster, a deployment, a service and a config map.\<close>

definition mgmtSecrets :: "string \<Rightarrow> string \<Rightarrow> Secret option" where
  "mgmtSecrets ns n = (if ns = ''default'' \<and> n = ''s'' then Some (testSecret ''default'' ''s'' [(''k'', Some ''v'')]) else None)"

definition memoryController :: "tables connections \<Rightarrow> tables Controller" where
  "memoryController conns = (plainController conns)
     \<lparr>managed := managedPackage memoryRuntime plainConnectionLib, util := utilPackage memoryRuntime,
      kubeClientSet := (plainClientset ''mgmt'')\<lparr>csSecrets := plainClient\<lparr>rcGet := (\<lambda>ns n w.
        ((mgmtSecrets ns n, if mgmtSecrets ns n = None then Some (ErrNotFound n) else None), w))\<rparr>\<rparr>\<rparr>"

definition fullPair :: SyntheticModelBinding where
  "fullPair = plainPair\<lparr>ManagedClusters := [(''local'', plainCluster\<lparr>mcSecrets := [(''app'', [''s'', ''t''])],
     mcDeployments := [ObjectMeta.extend (noMeta\<lparr>Name := ''d'', Namespace := ''app''\<rparr>) (Deployment.fields ''spec'')],
     mcServices := [ObjectMeta.extend (noMeta\<lparr>Name := ''s'', Namespace := ''app''\<rparr>)
       (Service.fields [] [] ''ClusterIP'')],
     mcConfigMaps := [ObjectMeta.extend (noMeta\<lparr>Name := ''m'', Namespace := ''app''\<rparr>)
       (ConfigMap.fields (Some [(''k'', ''v'')]))]\<rparr>)]\<rparr>"

lemma memory_clusters [simp]: "clusterStores memoryRuntime memoryConnections memory"
  by (simp add: clusterStores_def)

lemma fullPair_placeable: "placeable fullPair"
  by (simp add: placeable_def within_def fullPair_def plainPair_def plainBinding_def wf_pair_def wf_map_def plainCluster_def
      ObjectMeta.defs Deployment.defs Service.defs ConfigMap.defs SyntheticBinding.defs noMeta_def const_defs)

lemma fullPair_covered: "covers memoryConnections (ManagedClusters fullPair)"
  by (auto simp: covers_def fullPair_def memoryConnections_def)

lemma memoryController_simps [simp]:
  "managed (memoryController conns) = managedPackage memoryRuntime plainConnectionLib"
  "util (memoryController conns) = utilPackage memoryRuntime"
  "managedClusterConnections (memoryController conns) = conns"
  "verrazzanoURI (memoryController conns) = ''uri''"
  "secretSource (csSecrets (kubeClientSet (memoryController conns))) mgmtSecrets"
  by (simp_all add: memoryController_def plainController_def secretSource_def plainClientset_def plainClient_def answers_def split: option.split)

text \<open>On empty clusters the deployment and the copy of the secret are there after the first call, which passes
  over the secret the management cluster does not have.\<close>

lemma resources_deployed_witness:
  "\<exists>s1. createManagedClusterResourcesForBinding (memoryController memoryConnections) fullPair plainInfo
       \<lparr>sent = [], world = (\<lambda>_. [])\<rparr> = (Ret (), s1) \<and>
     typed asDeployment (memory (world s1) DeploymentKind) ''local'' ''app'' ''d'' \<noteq> None \<and>
     typed asSecret (memory (world s1) SecretKind) ''local'' ''app'' ''s'' \<noteq> None"
proof -
  let ?c = "memoryController memoryConnections"
  from resources_deployed [where c = ?c and R = memoryRuntime and L = plainConnectionLib and fam = memory
      and mb = fullPair and ci = plainInfo and src = mgmtSecrets and s = "\<lparr>sent = [], world = (\<lambda>_. [])\<rparr>"]
    fullPair_placeable fullPair_covered
  obtain s1 where s1: "createManagedClusterResourcesForBinding ?c fullPair plainInfo \<lparr>sent = [], world = (\<lambda>_. [])\<rparr> = (Ret (), s1)"
    "deployed memoryRuntime mgmtSecrets ''uri'' plainInfo fullPair memoryConnections (memory (world s1))" by auto
  have mc: "mlookup (ManagedClusters fullPair) ''local'' = Some (snd (hd (ManagedClusters fullPair)))"
    by (simp add: fullPair_def)
  have c: "mlookup memoryConnections ''local'' = Some (memoryConnection ''local'')" "connName (memoryConnection ''local'') = ''local''"
    by (simp_all add: memoryConnections_def memory_defs)
  from s1(2) have D: "deploymentsDone memoryRuntime fullPair memoryConnections (memory (world s1))"
    "secretsDone memoryRuntime mgmtSecrets fullPair memoryConnections (memory (world s1))"
    unfolding deployed_def by blast+
  have "typed asDeployment (memory (world s1) DeploymentKind) ''local'' ''app'' ''d'' \<noteq> None"
    using goodAll_there [OF D(1) mc c(1)] c(2)
    by (simp add: fullPair_def ObjectMeta.defs Deployment.defs noMeta_def)
  moreover have "\<exists>x \<in> set (wantedCopies mgmtSecrets fullPair (snd (hd (ManagedClusters fullPair)))).
      Namespace x = ''app'' \<and> Name x = ''s''"
    by (simp add: wantedCopies_def copies_def fullPair_def plainPair_def plainBinding_def copyOf_def mgmtSecrets_def
        List.map_filter_simps const_defs ObjectMeta.defs Secret.defs SyntheticBinding.defs noMeta_def)
  then have "typed asSecret (memory (world s1) SecretKind) ''local'' ''app'' ''s'' \<noteq> None"
    using D(2) [unfolded goodAll_def, rule_format, OF mc c(1)] c(2) by (fastforce simp: copied_def split: option.splits)
  ultimately show ?thesis using s1(1) by blast
qed

text \<open>The pair of the system binding: a monitoring namespace on every cluster and no deployments.\<close>

definition systemPair :: "SyntheticModelBinding \<Rightarrow> bool" where
  "systemPair mb \<longleftrightarrow> wf_pair mb \<and> Name (SynBinding mb) = VmiSystemBindingName \<and>
     (\<forall>k mc. mlookup (ManagedClusters mb) k = Some mc \<longrightarrow>
        MonitoringNamespace \<in> set (mcNamespaces mc) \<and> [] \<notin> set (mcNamespaces mc) \<and> mcDeployments mc = [])"

corollary system_resources_deployed:
  fixes fam :: "'w \<Rightarrow> clusterState"
  assumes "managed c = managedPackage R L" "util c = utilPackage R" "fairOrder R" "systemPair mb"
    and "covers (managedClusterConnections c) (ManagedClusters mb)"
    and "clusterStores R (managedClusterConnections c) fam"
  shows "\<exists>s1 s2. createManagedClusterResourcesForBinding c mb ci s = (Ret (), s1) \<and>
    deployed R src (verrazzanoURI c) ci mb (managedClusterConnections c) (fam (world s1)) \<and>
    onlyWanted R src (verrazzanoURI c) ci mb (managedClusterConnections c) (fam (world s)) (fam (world s1)) \<and>
    createManagedClusterResourcesForBinding c mb ci s1 = (Ret (), s2) \<and> sent s2 = sent s1 \<and>
    deployed R src (verrazzanoURI c) ci mb (managedClusterConnections c) (fam (world s2))"
  by (rule pair_resources [OF assms(1-3) _ assms(5,6)])
    (use assms(4) in \<open>auto simp: systemPair_def placeable_def within_def\<close>)

section \<open>The start of the operator\<close>

text \<open>C4: at startup, when the operator's service account can be read, its own cluster is not yet connected
  and can be, and the cluster's API server and listers agree, the handler of the cluster returns a
  controller with the connection, and on the cluster are the monitoring namespace and everything the node
  exporter needs, as wanted.\<close>

theorem startup_deploys:
  fixes fam :: "'w \<Rightarrow> clusterState"
  assumes "managed c = managedPackage R L" "util c = utilPackage R" "cache c = cachePackage f"
    and "secrets c = KubeSecrets ns cs ls" "listerTotal ls" "nodesAnswer R (kubeClientSet c)" "fairOrder R"
    and acc: "fst (rcGet (csServiceAccounts (kubeClientSet c)) VerrazzanoSystem
      VerrazzanoOperatorServiceAccount (world s)) = (Some sa, None)"
    and new: "mlookup (managedClusterConnections c) name = None"
    and conn: "\<And>s. wpt (BuildManagedClusterConnection L path)
      (\<lambda>r _. \<exists>conn. r = Inr conn \<and> clusterStores R (mset_key name conn (managedClusterConnections c)) fam) s"
  shows "wpt (processManagedCluster R c name path) (\<lambda>c' s'.
    mlookup (managedClusterConnections c') name \<noteq> None \<and>
    (\<exists>ci. deployed R src (verrazzanoURI c) ci (startPair name (verrazzanoURI c) (saImagePullSecrets sa))
      (managedClusterConnections c') (fam (world s')))) s"
  by (rule wpt_mono [OF startup_system [OF assms(1-9), where P = "\<lambda>_. True"]]) (use assms(10) in auto)

text \<open>The client libraries of the cluster in memory, and an operator that has not started.\<close>

definition memoryLib :: "(unit, tables) connectionLib" where
  "memoryLib =
     \<lparr>buildConfigFromFlags = (\<lambda>_ _ w. (Inr (), w)),
      newKubernetesClientSet = (\<lambda>_ w. (Inr (memoryClientset ''local''), w)),
      newExtClientSet = (\<lambda>_ w. (Inr (), w)),
      NewSharedInformerFactory = (\<lambda>cs _.
        \<lparr>ifDeployments = simpleDeploymentLister cs, ifServiceAccounts = simpleServiceAccountLister cs,
         ifNamespaces = simpleNamespaceLister cs, ifSecrets = SimpleSecretLister (\<lambda>_ _ _ w. ((), w)) cs,
         ifClusterRoles = simpleClusterRoleLister cs, ifClusterRoleBindings = simpleClusterRoleBindingLister cs,
         ifConfigMaps = simpleConfigMapLister cs, ifDaemonSets = simpleDaemonSetLister cs,
         ifServices = simpleServiceLister cs, ifHasSynced = (\<lambda>w. (True, w)), ifStart = (\<lambda>w. ((), w))\<rparr>)\<rparr>"

definition freshController :: "tables Controller" where
  "freshController = (plainController [])
     \<lparr>managed := managedPackage memoryRuntime memoryLib, util := utilPackage memoryRuntime,
      kubeClientSet := (plainClientset ''mgmt'')\<lparr>csServiceAccounts := plainClient
        \<lparr>rcGet := (\<lambda>ns n w. ((Some (newServiceAccount n ns [] [''pull'']), None), w))\<rparr>\<rparr>\<rparr>"

lemma memoryLib_connects:
  "wpt (BuildManagedClusterConnection memoryLib path) (\<lambda>r _. r = Inr (memoryConnection ''local'')) s"
  by (simp add: BuildManagedClusterConnection_def memoryLib_def wp_simps memoryConnection_def Let_def)

lemma memory_local: "clusterStores memoryRuntime [(''local'', memoryConnection ''local'')] memory"
  by (rule clusterStores_restrict [OF memory_clusters]) (simp add: memoryConnections_def split: if_splits)

lemma fresh_simps [simp]:
  "managed freshController = managedPackage memoryRuntime memoryLib" "util freshController = utilPackage memoryRuntime"
  "cache freshController = cachePackage (\<lambda>_ w. (True, w))"
  "secrets freshController = KubeSecrets VerrazzanoNamespace (plainClientset ''mgmt'') (plainLister [])"
  "nodesAnswer memoryRuntime (kubeClientSet freshController)" "managedClusterConnections freshController = []"
  "fst (rcGet (csServiceAccounts (kubeClientSet freshController)) ns n w) =
     (Some (newServiceAccount n ns [] [''pull'']), None)"
  by (simp_all add: freshController_def plainController_def plainPackages_def nodesAnswer_def memoryRuntime_def
      plainRuntime_def plainClientset_def)

lemma startup_deploys_witness:
  "\<exists>c' s'. processManagedCluster memoryRuntime freshController ''local'' [] \<lparr>sent = [], world = (\<lambda>_. [])\<rparr> = (Ret c', s') \<and>
     mlookup (managedClusterConnections c') ''local'' \<noteq> None"
proof -
  have "wpt (processManagedCluster memoryRuntime freshController ''local'' []) (\<lambda>c' s'.
      mlookup (managedClusterConnections c') ''local'' \<noteq> None \<and>
      (\<exists>ci. deployed memoryRuntime src (verrazzanoURI freshController) ci
        (startPair ''local'' (verrazzanoURI freshController)
          (saImagePullSecrets (newServiceAccount VerrazzanoOperatorServiceAccount VerrazzanoSystem [] [''pull''])))
        (managedClusterConnections c') (memory (world s')))) \<lparr>sent = [], world = (\<lambda>_. [])\<rparr>"
    by (rule startup_deploys [where L = memoryLib and f = "\<lambda>_ w. (True, w)" and ns = VerrazzanoNamespace
        and cs = "plainClientset ''mgmt''" and ls = "plainLister []"])
      (simp_all, rule wpt_mono [OF memoryLib_connects], simp add: memory_local)
  from wptD [OF this] show ?thesis by blast
qed

section \<open>The integration tests\<close>

text \<open>C11: after such a start the checks that the integration tests make of the monitoring namespace pass, for
  a test client on the operator's cluster: the namespace, the node exporter's service and its daemon set
  exist, and so do its service account, role and role binding.\<close>

theorem integration_checks_pass:
  fixes fam :: "'w \<Rightarrow> clusterState"
  assumes "managed c = managedPackage R L" "util c = utilPackage R" "cache c = cachePackage f"
    and "secrets c = KubeSecrets ns cs ls" "listerTotal ls" "nodesAnswer R (kubeClientSet c)" "fairOrder R"
    and "fst (rcGet (csServiceAccounts (kubeClientSet c)) VerrazzanoSystem
      VerrazzanoOperatorServiceAccount (world s)) = (Some sa, None)"
    and "mlookup (managedClusterConnections c) name = None"
    and conn: "\<And>s. wpt (BuildManagedClusterConnection L path) (\<lambda>r _. r = Inr conn) s"
    and st: "clusterStores R (mset_key name conn (managedClusterConnections c)) fam"
    and t: "clientset t = KubeClient conn"
  shows "wpt (processManagedCluster R c name path) (\<lambda>_ s'.
    DoesNamespaceExist t ''monitoring'' s' = (Ret True, s') \<and>
    DoesServiceExist t NodeExporterName ''monitoring'' s' = (Ret True, s') \<and>
    DoesDaemonsetExist t NodeExporterName ''monitoring'' s' = (Ret True, s') \<and>
    DoesServiceAccountExist t NodeExporterName ''monitoring'' s' = (Ret True, s') \<and>
    DoesClusterRoleExist t NodeExporterName s' = (Ret True, s') \<and>
    DoesClusterRoleBindingExist t NodeExporterName s' = (Ret True, s')) s"
proof -
  let ?conns = "mset_key name conn (managedClusterConnections c)"
  let ?pair = "startPair name (verrazzanoURI c) (saImagePullSecrets sa)"
  have m: "MonitoringNamespace = ''monitoring''" by (simp add: MonitoringNamespace_def)
  have k: "mlookup ?conns name = Some conn" by simp
  have stores: "namespaceStore R ?conns fam" "serviceStore R ?conns fam" "daemonSetStore R ?conns fam"
    "serviceAccountStore R ?conns fam" "clusterRoleStore R ?conns fam" "clusterRoleBindingStore R ?conns fam"
    using st by (simp_all add: clusterStores_def)
  note checks = stores [THEN kind_store_api, THEN api_store.check_exact, OF k]
  show ?thesis
  proof (rule wpt_mono [OF startup_system [OF assms(1-9), where P = "\<lambda>x. x = conn"]])
    show "wpt (BuildManagedClusterConnection L path) (\<lambda>r _. \<exists>x. r = Inr x \<and> x = conn \<and>
        clusterStores R (mset_key name x (managedClusterConnections c)) fam) s1" for s1
      using conn [of s1] by (rule wpt_mono) (use st in blast)
    fix c' and s' :: "'w state"
    assume "(\<exists>x. x = conn \<and> managedClusterConnections c' = mset_key name x (managedClusterConnections c)) \<and>
      (\<exists>ci. deployed R src (verrazzanoURI c) ci ?pair (managedClusterConnections c') (fam (world s')))"
    then obtain ci where "deployed R src (verrazzanoURI c) ci ?pair ?conns (fam (world s'))" by auto
    from deployed_there [OF this k]
    show "DoesNamespaceExist t ''monitoring'' s' = (Ret True, s') \<and>
      DoesServiceExist t NodeExporterName ''monitoring'' s' = (Ret True, s') \<and>
      DoesDaemonsetExist t NodeExporterName ''monitoring'' s' = (Ret True, s') \<and>
      DoesServiceAccountExist t NodeExporterName ''monitoring'' s' = (Ret True, s') \<and>
      DoesClusterRoleExist t NodeExporterName s' = (Ret True, s') \<and>
      DoesClusterRoleBindingExist t NodeExporterName s' = (Ret True, s')"
      by (simp add: DoesNamespaceExist_def DoesServiceExist_def DoesDaemonsetExist_def DoesServiceAccountExist_def
          DoesClusterRoleExist_def DoesClusterRoleBindingExist_def assms(12) checks m)
  qed
qed

definition memoryClient :: "tables Client" where
  "memoryClient = \<lparr>clientset = memoryClientset ''local'', clientPods = plainClient, apixClient = plainClient,
     vmiClient = plainClient\<rparr>"

lemma integration_checks_pass_witness:
  "\<exists>c' s'. processManagedCluster memoryRuntime freshController ''local'' [] \<lparr>sent = [], world = (\<lambda>_. [])\<rparr> = (Ret c', s') \<and>
     DoesDaemonsetExist memoryClient NodeExporterName ''monitoring'' s' = (Ret True, s')"
proof -
  have "clientset memoryClient = KubeClient (memoryConnection ''local'')"
    by (simp add: memoryClient_def memoryConnection_def Let_def)
  then have "wpt (processManagedCluster memoryRuntime freshController ''local'' []) (\<lambda>_ s'.
      DoesNamespaceExist memoryClient ''monitoring'' s' = (Ret True, s') \<and>
      DoesServiceExist memoryClient NodeExporterName ''monitoring'' s' = (Ret True, s') \<and>
      DoesDaemonsetExist memoryClient NodeExporterName ''monitoring'' s' = (Ret True, s') \<and>
      DoesServiceAccountExist memoryClient NodeExporterName ''monitoring'' s' = (Ret True, s') \<and>
      DoesClusterRoleExist memoryClient NodeExporterName s' = (Ret True, s') \<and>
      DoesClusterRoleBindingExist memoryClient NodeExporterName s' = (Ret True, s')) \<lparr>sent = [], world = (\<lambda>_. [])\<rparr>"
    by (intro integration_checks_pass [where L = memoryLib and f = "\<lambda>_ w. (True, w)" and ns = VerrazzanoNamespace
        and cs = "plainClientset ''mgmt''" and ls = "plainLister []" and fam = memory])
      (simp_all add: memory_local memoryLib_connects)
  from wptD [OF this] show ?thesis by blast
qed

end
