(* ===== verification/Namespace_Deletion.thy ===== *)
theory Namespace_Deletion
  imports Convergence
begin

text \<open>
  The deletion of namespaces on API servers that take their time over it. A namespace whose deletion has
  been asked for is still there while it is finalized, so the code waits for each to go, with a timeout.
  The contract of such a server is the locale \<open>finalizing_store\<close>.
\<close>

text \<open>
  \<open>vanishes tick view u v k w\<close>: from the world \<open>w\<close>, after at most \<open>k\<close> ticks none of which is the timeout,
  the view has turned from \<open>u\<close> into \<open>v\<close>.
\<close>

inductive vanishes :: "('w \<Rightarrow> bool \<times> 'w) \<Rightarrow> ('w \<Rightarrow> 'v) \<Rightarrow> 'v \<Rightarrow> 'v \<Rightarrow> nat \<Rightarrow> 'w \<Rightarrow> bool"
  for tick view u v where
  gone: "tick w = (False, w') \<Longrightarrow> view w' = v \<Longrightarrow> vanishes tick view u v (Suc k) w"
| still: "tick w = (False, w') \<Longrightarrow> view w' = u \<Longrightarrow> vanishes tick view u v k w' \<Longrightarrow> vanishes tick view u v (Suc k) w"

locale finalizing_store =
  fixes R :: "'w runtime" and conns :: "'w connections" and view :: "'w \<Rightarrow> NamespaceObj store"
  assumes order_view: "view (snd (rangeOrder R ks w)) = view w"
    and view_placed: "placed clusterScoped (view w)"
    and get_view: "mlookup conns k = Some c \<Longrightarrow> answers (rcGet (csNamespaces (KubeClient c)) [] n w)
      (view w (connName c) [] n) n w"
    and lister_list: "mlookup conns k = Some c \<Longrightarrow> \<exists>xs. lsList (NamespaceLister c) [] sel w = ((xs, None), w) \<and>
      distinct xs \<and> set xs = {x \<in> stored (view w) (connName c) []. matches sel (Labels x)}"
    and delete_view: "mlookup conns k = Some c \<Longrightarrow> view w (connName c) [] n = Some old \<Longrightarrow>
      \<exists>w'. rcDelete (csNamespaces (KubeClient c)) [] n w = (None, w') \<and>
        vanishes (selectTimeout R nsDeletionTimeout nsDeletionTick) view (view w) (put (connName c) [] n None (view w))
          (waitFuel R) w'"
begin

text \<open>The wait ends with the namespace gone.\<close>

lemma waitNSLoop_vanishes:
  assumes c: "mlookup conns k = Some c"
    and u: "u (connName c) [] n \<noteq> None" and v: "v (connName c) [] n = None"
  shows "vanishes (selectTimeout R T D) view u v fuel w \<Longrightarrow> world s = w \<Longrightarrow>
    wpt (waitNSLoop fuel R c n cl T D) (\<lambda>e s'. e = None \<and> view (world s') = v) s"
proof (induction arbitrary: s rule: vanishes.induct)
  case (gone w w' fuel)
  with v get_view [OF c, of n w'] show ?case
    by (auto simp: wpt_gbind wpt_glift wpt_gret clientGet_def answers_def split: prod.split)
next
  case (still w w' fuel)
  with u get_view [OF c, of n w'] show ?case 
    by (auto simp: wpt_gbind wpt_glift clientGet_def answers_def split: prod.split option.splits)
qed

lemma deleteNamespacesAndWait_view:
  assumes c: "mlookup conns k = Some c"
  shows "wpt (deleteNamespacesAndWait R cl c sel skip) (\<lambda>e s'. e = None \<and> view (world s') = erase (connName c)
    {x \<in> stored (view (world s)) (connName c) []. matches sel (Labels x) \<and> \<not> skip (Name x)} (view (world s))) s"
proof -
  let ?m = "\<lambda>ns :: NamespaceObj. gbind (clientDelete (connName c) NamespaceKind (csNamespaces (KubeClient c)) [] (Name ns))
    (\<lambda>err. case err of Some e \<Rightarrow> gret (Some e)
       | None \<Rightarrow> waitForNSDeletion R c (Name ns) cl nsDeletionTimeout nsDeletionTick)"
  have step: "wpt (?m x) (\<lambda>e s'. e = None \<and>
      view (world s') = put (connName c) (clusterScoped x) (Name x) None (view (world s1))) s1"
    if at: "view (world s1) (connName c) (clusterScoped x) (Name x) = Some x" for x and s1 :: "'w state"
  proof -
    from delete_view [OF c] at obtain w' where d: "rcDelete (csNamespaces (KubeClient c)) [] (Name x) (world s1) = (None, w')"
      and van: "vanishes (selectTimeout R nsDeletionTimeout nsDeletionTick) view (view (world s1))
        (put (connName c) [] (Name x) None (view (world s1))) (waitFuel R) w'"
      unfolding clusterScoped_def by blast
    from waitNSLoop_vanishes [OF c _ _ van] at d show ?thesis
      by (simp add: wpt_gbind clientDelete_def wpt_gsend waitForNSDeletion_def put_apply clusterScoped_def)
  qed
  from lister_list [OF c, of sel "world s"] obtain xs where l: "lsList (NamespaceLister c) [] sel (world s) = ((xs, None), world s)"
    and xs: "distinct xs" "set xs = {x \<in> stored (view (world s)) (connName c) []. matches sel (Labels x)}" by blast
  have "\<forall>x \<in> set xs. view (world s) (connName c) (clusterScoped x) (Name x) = Some x"
    using view_placed [of "world s"] unfolding xs placed_def stored_def by fastforce
  from wpt_rangeE_erases [where view = view and nsOf = clusterScoped and m = ?m and pick = "\<lambda>x. \<not> skip (Name x)",
      OF view_placed step xs(1) this]
  show ?thesis
    by (simp add: deleteNamespacesAndWait_def wpt_gbind wpt_glift listerList_def l xs(2) conj_assoc)
qed

lemma DeleteNamespaces_purges:
  assumes "fairOrder R"
  shows "wpt (DeleteNamespaces R mb conns b) (\<lambda>e s'. e = None \<and> view (world s') =
    (if clusterNames mb \<subseteq> dom (mlookup conns)
     then purgeOn (clusterNames mb) conns (\<lambda>k _ x.
       matches (if b then [(VerrazzanoBinding, Name (SynBinding mb))] else GetManagedLabelsNoBinding k) (Labels x) \<and>
       \<not> (Name x = MonitoringNamespace \<or> Name x = VerrazzanoNamespace)) (view (world s))
     else view (world s))) s"
  unfolding DeleteNamespaces_def Let_def
  by (rule wpt_matched_purges [OF assms order_view view_placed]) (rule deleteNamespacesAndWait_view)

end

end
