(* ===== verification/Lingering_Server.thy ===== *)
theory Lingering_Server
  imports Memory_Server Namespace_Deletion
begin

text \<open>
  A server that takes three ticks to remove a namespace, as one does that runs finalizers: the contract
  \<open>finalizing_store\<close> is interpreted on it. The world is the tables of \<open>Memory_Server\<close> and the
  namespace that is being removed, with the ticks to go.
\<close>

type_synonym lingering = "tables \<times> (string \<times> string \<times> nat) option"

definition lingeringView :: "lingering \<Rightarrow> NamespaceObj store" where
  "lingeringView w = typed asNamespace (memory (fst w) NamespaceKind)"

fun lingeringTick :: "lingering \<Rightarrow> bool \<times> lingering" where
  "lingeringTick (w, None) = (False, (w, None))"
| "lingeringTick (w, Some (cl, n, 0)) = (False, (w(cl := deleted NamespaceKind [] n (w cl)), None))"
| "lingeringTick (w, Some (cl, n, Suc k)) = (False, (w, Some (cl, n, k)))"

definition lingeringRuntime :: "lingering runtime" where
  "lingeringRuntime = plainRuntime\<lparr>selectTimeout := (\<lambda>_ _. lingeringTick), waitFuel := 3\<rparr>"

abbreviation namespaceTable :: "string \<Rightarrow> (NamespaceObj, tables) rclient" where
  "namespaceTable \<equiv> tableClient NamespaceKind KNamespace asNamespace clusterScoped"

definition lingeringConnection :: "string \<Rightarrow> lingering ManagedClusterConnection" where
  "lingeringConnection cl = (plainConnection cl)
     \<lparr>KubeClient := (plainClientset cl)\<lparr>csNamespaces := plainClient
        \<lparr>rcGet := (\<lambda>ns n w. (fst (rcGet (namespaceTable cl) ns n (fst w)), w)),
         rcDelete := (\<lambda>ns n w. (None, (fst w, Some (cl, n, 2))))\<rparr>\<rparr>,
      NamespaceLister := (plainLister [])
        \<lparr>lsList := (\<lambda>_ sel w. ((filter (\<lambda>x. matches sel (Labels x)) (fst (fst (rcList (namespaceTable cl) [] (fst w)))), None), w))\<rparr>\<rparr>"

definition lingeringConnections :: "lingering connections" where
  "lingeringConnections = [(''local'', lingeringConnection ''local'')]"

lemma lingering_local: "mlookup lingeringConnections k = Some c \<Longrightarrow> c = lingeringConnection ''local''"
  by (simp add: lingeringConnections_def split: if_splits)

lemma lingering_name [simp]: "connName (lingeringConnection cl) = cl"
  by (simp add: lingeringConnection_def plainClientset_def)

lemma lingering_vanishes:
  "vanishes lingeringTick lingeringView (lingeringView (w, p)) (put cl [] n None (lingeringView (w, p))) 3 (w, Some (cl, n, 2))"
proof -
  let ?w = "(w(cl := deleted NamespaceKind [] n (w cl)), None)"
  have "lingeringView ?w = put cl [] n None (lingeringView (w, p))"
    by (simp add: lingeringView_def nst.table_delete typed_put)
  then show ?thesis
    by (simp add: numeral_3_eq_3 numeral_2_eq_2)
      (intro vanishes.still [where tick = lingeringTick and view = lingeringView, OF lingeringTick.simps(3)]
        vanishes.gone [where tick = lingeringTick and view = lingeringView, OF lingeringTick.simps(2)]; simp add: lingeringView_def)
qed

interpretation lin: finalizing_store lingeringRuntime lingeringConnections lingeringView
proof (unfold_locales, goal_cases)
  case (4 k c sel w)
  obtain xs where "rcList (namespaceTable ''local'') [] (fst w) = ((xs, None), fst w)" "distinct xs"
    "set xs = stored (lingeringView w) ''local'' []"
    using nsa.list_view [of "''local''" "memoryConnection ''local''" "[]" "fst w"]
    by (auto simp: memoryConnections_def memory_defs lingeringView_def)
  with 4 show ?case by (auto dest!: lingering_local simp: lingeringConnection_def plainClientset_def)
next
  case (5 k c w n old)
  then show ?case
    using lingering_vanishes [of "fst w" "snd w" "''local''" n]
    by (auto dest!: lingering_local simp: lingeringConnection_def lingeringRuntime_def plainClientset_def)
qed (use nst.table_placed in \<open>auto dest!: lingering_local simp: lingeringRuntime_def plainRuntime_def lingeringView_def
    lingeringConnection_def tableClient_def Let_def plainClientset_def answers_def split: option.split\<close>)

end
