(* ===== verification/Props_Convergence.thy ===== *)
theory Props_Convergence
  imports Convergence Memory_Server Lingering_Server
begin

text \<open>
  What the reconcilers of managed clusters achieve on clusters whose API server and lister agree
  (\<open>kind_store\<close>, \<open>secret_store\<close>): creations converge and are idempotent, deletions and cleanups remove exactly what
  they are for. The hypotheses are instantiated with the listers of pkg/testutil on a server in memory.
\<close>

section \<open>Creations\<close>

text \<open>C17: on clusters whose API server and lister agree, \<^verbatim>\<open>CreateNamespaces\<close>, for namespaces with a name,
  succeeds and leaves every namespace the pair wants in place; it loses or changes none that was there
  and creates no other, and running it again sends nothing.\<close>

theorem create_namespaces_converges:
  assumes "fairOrder R" "covers conns (ManagedClusters mb)" "namespaceStore R conns fam"
  shows "reconciles present absent clusterScoped (creatable NamespaceKind) conns (ManagedClusters mb)
    (\<lambda>_. newNamespaces (SynBinding mb)) (\<lambda>w. typed asNamespace (fam w NamespaceKind))
    (\<lambda>w. others NamespaceKind (fam w)) (CreateNamespaces R mb conns)"
  by (rule namespaces_reconcile [OF assms])

lemma create_namespaces_converges_witness:
  "\<exists>s1 s2. CreateNamespaces memoryRuntime plainPair memoryConnections \<lparr>sent = [], world = (\<lambda>_. [])\<rparr> = (Ret None, s1) \<and>
     typed asNamespace (memory (world s1) NamespaceKind) ''local'' [] ''app'' \<noteq> None \<and>
     CreateNamespaces memoryRuntime plainPair memoryConnections s1 = (Ret None, s2) \<and> sent s2 = sent s1"
proof -
  note T = create_namespaces_converges [OF memory_fair memory_covers memory_stores(8), unfolded reconciles_def]
  have "allowed (creatable NamespaceKind r) clusterScoped memoryConnections (ManagedClusters plainPair)
      (\<lambda>_. newNamespaces (SynBinding plainPair))" for r
    by (auto simp: allowed_def creatable_def clusterScoped_def plainPair_def plainCluster_def newNamespaces_def
        ObjectMeta.defs NamespaceObj.defs noMeta_def const_defs split: if_splits)
  from conjunct1 [OF T, rule_format, OF this, of "\<lparr>sent = [], world = (\<lambda>_. [])\<rparr>"] obtain s1
    where s1: "CreateNamespaces memoryRuntime plainPair memoryConnections \<lparr>sent = [], world = (\<lambda>_. [])\<rparr> = (Ret None, s1)"
      and good: "goodAll present clusterScoped memoryConnections (ManagedClusters plainPair)
        (\<lambda>_. newNamespaces (SynBinding plainPair)) (typed asNamespace (memory (world s1) NamespaceKind))"
    by (auto simp: converged_def)
  from conjunct2 [OF T, rule_format, OF good] obtain s2
    where "CreateNamespaces memoryRuntime plainPair memoryConnections s1 = (Ret None, s2)" "sent s2 = sent s1" by blast
  moreover have "typed asNamespace (memory (world s1) NamespaceKind) ''local'' [] ''app'' \<noteq> None"
    using good [unfolded goodAll_def, rule_format, of "''local''" plainCluster "memoryConnection ''local''"
        "newNamespaces plainBinding plainCluster ! 1"]
    by (simp add: plainPair_def plainCluster_def newNamespaces_def memoryConnections_def memory_defs clusterScoped_def
        ObjectMeta.defs NamespaceObj.defs noMeta_def)
  ultimately show ?thesis using s1 by blast
qed

text \<open>C5: on such clusters every other reconciler that creates does the same for its kind, for pairs whose
  objects have keys of their own: cluster roles and bindings, service accounts, deployments, services,
  config maps (for the system binding none), daemon sets (for the system binding only) and the copies of
  the management cluster's secrets (for the system binding none). Where the namespaces of the wanted
  objects exist it succeeds, leaves every wanted object as wanted and changes nothing else, and where
  everything is as wanted it sends nothing.\<close>

theorem objects_converge:
  fixes fam :: "'w \<Rightarrow> clusterState"
  assumes "fairOrder R" "covers conns (ManagedClusters mb)"
    and "clusterRoleStore R conns fam" "clusterRoleBindingStore R conns fam"
    and "serviceAccountStore R conns fam" "configMapStore R conns fam"
    and "deploymentStore R conns fam" "serviceStore R conns fam" "daemonSetStore R conns fam"
    and "\<And>k mc. mlookup (ManagedClusters mb) k = Some mc \<Longrightarrow> keyed Namespace (wantedConfigMaps mb mc)"
    and "\<And>k mc. mlookup (ManagedClusters mb) k = Some mc \<Longrightarrow> keyed Namespace (mcDeployments mc)"
    and "\<And>k mc. mlookup (ManagedClusters mb) k = Some mc \<Longrightarrow> keyed Namespace (mcServices mc)"
    and "wf_pair mb" "secretStore R conns fam"
    and "Name (SynBinding mb) \<noteq> VmiSystemBindingName \<Longrightarrow> secretSource (csSecrets cs) src"
  shows "reconcilesKind R fam ClusterRoleKind KClusterRole asClusterRole clusterScoped conns (ManagedClusters mb)
      (\<lambda>k _. newClusterRoles (SynBinding mb) k) (CreateClusterRoles R mb conns) \<and>
    reconcilesKind R fam ClusterRoleBindingKind KClusterRoleBinding asClusterRoleBinding clusterScoped conns
      (ManagedClusters mb) (\<lambda>k _. newClusterRoleBindings (SynBinding mb) k) (CreateClusterRoleBindings R mb conns) \<and>
    reconcilesKind R fam ServiceAccountKind KServiceAccount asServiceAccount Namespace conns
      (ManagedClusters mb) (wantedServiceAccounts b secs) (CreateServiceAccounts R b secs (ManagedClusters mb) conns) \<and>
    reconcilesKind R fam ConfigMapKind KConfigMap asConfigMap Namespace conns (ManagedClusters mb)
      (\<lambda>_. wantedConfigMaps mb) (CreateConfigMaps R mb conns ci) \<and>
    reconcilesKind R fam DeploymentKind KDeployment asDeployment Namespace conns (ManagedClusters mb)
      (\<lambda>_. mcDeployments) (CreateDeployments R mb conns uri) \<and>
    reconcilesKind R fam ServiceKind KService asService Namespace conns (ManagedClusters mb)
      (wantedServices mb) (CreateServices R mb conns) \<and>
    reconcilesKind R fam DaemonSetKind KDaemonSet asDaemonSet Namespace conns (ManagedClusters mb)
      (\<lambda>k _. wantedDaemonSets R mb uri ci k) (CreateDaemonSets R mb conns uri ci) \<and>
    reconciles (copied R) always Namespace (creatable SecretKind) conns (ManagedClusters mb)
      (\<lambda>_. wantedCopies src mb) (\<lambda>w. typed asSecret (fam w SecretKind)) (\<lambda>w. others SecretKind (fam w))
      (CreateSecrets R mb conns cs)"
proof -
  have "keyed Namespace (wantedServices mb k mc)" if "mlookup (ManagedClusters mb) k = Some mc" for k mc
    using assms(12) [OF that] by (simp add: wantedServices_def newServices_def Let_def)
  then show ?thesis
    by (intro conjI clusterRoles_reconcile [OF assms(1-3)] clusterRoleBindings_reconcile [OF assms(1,2,4)]
        serviceAccounts_reconcile [OF assms(1,2,5)] configMaps_reconcile [OF assms(1,2,6)]
        deployments_reconcile [OF assms(1,2,7)] services_reconcile [OF assms(1,2,8)]
        daemonSets_reconcile [OF assms(1,2,9)] secrets_reconcile [OF assms(1,13,2,14)])
      (simp_all add: assms(10,11,15))
qed

text \<open>A pair with a deployment and a service on one of the two clusters in memory.\<close>

definition workloadPair :: SyntheticModelBinding where
  "workloadPair = plainPair\<lparr>ManagedClusters := [(''local'', plainCluster
     \<lparr>mcDeployments := [ObjectMeta.extend (noMeta\<lparr>Name := ''d'', Namespace := ''app''\<rparr>) (Deployment.fields ''spec'')],
      mcServices := [ObjectMeta.extend (noMeta\<lparr>Name := ''s'', Namespace := ''app''\<rparr>)
        (Service.fields [] [] ''ClusterIP'')]\<rparr>)]\<rparr>"

lemma workload_covers: "covers memoryConnections (ManagedClusters workloadPair)"
  by (auto simp: covers_def workloadPair_def memoryConnections_def)

lemma workload_wf: "wf_pair workloadPair"
  by (simp add: wf_pair_def workloadPair_def plainCluster_def wf_map_def keys_def)

text \<open>A management cluster without secrets.\<close>

lemma plain_source: "secretSource (csSecrets (plainClientset k)) (\<lambda>_ _. None)"
  by (simp add: secretSource_def plainClientset_def plainClient_def answers_def)

text \<open>Two runs from the empty table, the second of which changes nothing.\<close>

lemma objects_converge_witness:
  "\<exists>s1 s2. CreateClusterRoles memoryRuntime workloadPair memoryConnections \<lparr>sent = [], world = (\<lambda>_. [])\<rparr> = (Ret None, s1) \<and>
     CreateClusterRoles memoryRuntime workloadPair memoryConnections s1 = (Ret None, s2) \<and> sent s2 = sent s1"
proof -
  have keyed: "keyed Namespace (wantedConfigMaps workloadPair mc) \<and> keyed Namespace (mcDeployments mc) \<and>
      keyed Namespace (mcServices mc)" if "mlookup (ManagedClusters workloadPair) k = Some mc" for k mc
    using that by (auto simp: workloadPair_def plainCluster_def wantedConfigMaps_def split: if_splits)
  note T = conjunct1 [OF objects_converge [OF memory_fair workload_covers memory_stores(6,7,4,5,1,2,3) _ _ _
      workload_wf memory_secrets plain_source], unfolded reconciles_def]
  have "allowed (creatable ClusterRoleKind r) clusterScoped memoryConnections (ManagedClusters workloadPair)
      (\<lambda>k _. newClusterRoles (SynBinding workloadPair) k)" for r
    by (simp add: allowed_def creatable_def clusterScoped_def)
  from conjunct1 [OF T, rule_format, OF _ _ _ this, of "\<lparr>sent = [], world = (\<lambda>_. [])\<rparr>"] keyed obtain s1
    where s1: "CreateClusterRoles memoryRuntime workloadPair memoryConnections \<lparr>sent = [], world = (\<lambda>_. [])\<rparr> = (Ret None, s1)"
      and good: "goodAll (settled memoryRuntime KClusterRole) clusterScoped memoryConnections (ManagedClusters workloadPair)
        (\<lambda>k _. newClusterRoles (SynBinding workloadPair) k) (typed asClusterRole (memory (world s1) ClusterRoleKind))"
    by (auto simp: converged_def)
  from conjunct2 [OF T, rule_format, OF _ _ _ good] keyed s1 show ?thesis by blast
qed

section \<open>Deletions\<close>

text \<open>A program that succeeds and removes the objects \<open>gone\<close> from clusters of some connections.\<close>

abbreviation purges ::
  "string set \<Rightarrow> 'w connections \<Rightarrow> (string \<Rightarrow> string \<Rightarrow> 'o \<Rightarrow> bool) \<Rightarrow> ('w \<Rightarrow> 'o store) \<Rightarrow>
   ('w, err option) prog \<Rightarrow> 'w state \<Rightarrow> bool" where
  "purges ks conns gone view m s \<equiv>
     \<exists>s'. m s = (Ret None, s') \<and> view (world s') = purgeOn ks conns gone (view (world s))"

lemma wpt_purges:
  "wpt m (\<lambda>e s'. e = None \<and> view (world s') = purgeOn ks conns gone (view (world s))) s \<Longrightarrow>
   purges ks conns gone view m s"
  by (drule wptD) blast

abbreviation labelled :: "(string \<Rightarrow> selector) \<Rightarrow> string \<Rightarrow> string \<Rightarrow> 'a ObjectMeta_scheme \<Rightarrow> bool" where
  "labelled sel k ns x \<equiv> matches (sel k) (Labels x)"

lemma picked_labelled: "picked [] sel (\<lambda>_ _. True) = labelled sel"
  by (simp add: picked_def fun_eq_iff)

text \<open>What a deletion of roles asks for, and the roles it is to remove.\<close>

abbreviation roleSelector :: "SyntheticModelBinding \<Rightarrow> bool \<Rightarrow> string \<Rightarrow> selector" where
  "roleSelector mb b k \<equiv>
     (if b then [(VerrazzanoBinding, Name (SynBinding mb))] else GetManagedLabelsNoBinding k)"

abbreviation ordinary :: "(string \<Rightarrow> selector) \<Rightarrow> string \<Rightarrow> string \<Rightarrow> 'a ObjectMeta_scheme \<Rightarrow> bool" where
  "ordinary sel k ns x \<equiv> matches (sel k) (Labels x) \<and> (Name x \<noteq> VerrazzanoSystem \<and> Name x \<noteq> VerrazzanoSystemAdmin)"

lemma if_purges:
  "wpt m (\<lambda>e s'. e = None \<and> view (world s') = (if P then purgeOn ks conns gone (view (world s)) else view (world s))) s \<Longrightarrow>
   purges (if P then ks else {}) conns gone view m s"
  by (drule wptD) (auto split: if_splits)

text \<open>C15: on such clusters \<^verbatim>\<open>DeleteDeployments\<close> and \<^verbatim>\<open>DeleteServices\<close> succeed and delete exactly the
  objects that carry the labels of the binding and of the cluster they are on; \<^verbatim>\<open>DeleteClusterRoles\<close> and
  \<^verbatim>\<open>DeleteClusterRoleBindings\<close> exactly those on the pair's clusters that carry the label asked for and not
  a name of the platform's own, or none, still reporting success, when a connection is missing.\<close>

theorem workloads_deleted:
  assumes "fairOrder R" "deploymentStore R conns fam" "serviceStore R conns fam"
    and "clusterRoleStore R conns fam" "clusterRoleBindingStore R conns fam"
  shows "purges (dom (mlookup conns)) conns (labelled (GetManagedBindingLabels (SynBinding mb)))
      (\<lambda>w. typed asDeployment (fam w DeploymentKind)) (DeleteDeployments R mb conns) s \<and>
    purges (dom (mlookup conns)) conns (labelled (GetManagedBindingLabels (SynBinding mb)))
      (\<lambda>w. typed asService (fam w ServiceKind)) (DeleteServices R mb conns) s \<and>
    purges (if clusterNames mb \<subseteq> dom (mlookup conns) then clusterNames mb else {}) conns (ordinary (roleSelector mb b))
      (\<lambda>w. typed asClusterRole (fam w ClusterRoleKind)) (DeleteClusterRoles R mb conns b) s \<and>
    purges (if clusterNames mb \<subseteq> dom (mlookup conns) then clusterNames mb else {}) conns (ordinary (roleSelector mb b))
      (\<lambda>w. typed asClusterRoleBinding (fam w ClusterRoleBindingKind)) (DeleteClusterRoleBindings R mb conns b) s"
proof (intro conjI)
  show "purges (dom (mlookup conns)) conns (labelled (GetManagedBindingLabels (SynBinding mb)))
      (\<lambda>w. typed asDeployment (fam w DeploymentKind)) (DeleteDeployments R mb conns) s"
    unfolding DeleteDeployments_def picked_labelled [symmetric]
    by (rule wpt_purges [OF kind_store.deleteListed_purges [OF assms(2,1)]])
  show "purges (dom (mlookup conns)) conns (labelled (GetManagedBindingLabels (SynBinding mb)))
      (\<lambda>w. typed asService (fam w ServiceKind)) (DeleteServices R mb conns) s"
    unfolding DeleteServices_def picked_labelled [symmetric]
    by (rule wpt_purges [OF kind_store.deleteListed_purges [OF assms(3,1)]])
  show "purges (if clusterNames mb \<subseteq> dom (mlookup conns) then clusterNames mb else {}) conns (ordinary (roleSelector mb b))
      (\<lambda>w. typed asClusterRole (fam w ClusterRoleKind)) (DeleteClusterRoles R mb conns b) s"
    unfolding DeleteClusterRoles_def Let_def
    by (rule if_purges [OF kind_store.matched_purges [OF assms(4,1)]])
  show "purges (if clusterNames mb \<subseteq> dom (mlookup conns) then clusterNames mb else {}) conns (ordinary (roleSelector mb b))
      (\<lambda>w. typed asClusterRoleBinding (fam w ClusterRoleBindingKind)) (DeleteClusterRoleBindings R mb conns b) s"
    unfolding DeleteClusterRoleBindings_def Let_def
    by (rule if_purges [OF kind_store.matched_purges [OF assms(5,1)]])
qed

text \<open>C16: on clusters whose API servers remove a namespace within the time the code waits for it,
  \<^verbatim>\<open>DeleteNamespaces\<close> succeeds, and once it returns exactly the namespaces of the pair's clusters are gone that
  carry the label asked for, the monitoring and the system namespace excepted; if a cluster of the pair is
  not connected, it reports success and removes nothing.\<close>

theorem namespaces_deleted:
  assumes "fairOrder R" "finalizing_store R conns view"
  shows "purges (if clusterNames mb \<subseteq> dom (mlookup conns) then clusterNames mb else {}) conns
    (\<lambda>k _ x. matches (roleSelector mb b k) (Labels x) \<and> \<not> (Name x = MonitoringNamespace \<or> Name x = VerrazzanoNamespace))
    view (DeleteNamespaces R mb conns b) s"
  by (rule if_purges [OF finalizing_store.DeleteNamespaces_purges [OF assms(2,1)]])

text \<open>Two labelled namespaces, one of them the monitoring namespace, and one of another binding; each takes three ticks.\<close>

definition namespaceTables :: tables where
  "namespaceTables = (\<lambda>_. [KNamespace (ObjectMeta.extend (noMeta\<lparr>Name := n, Labels := [(VerrazzanoBinding, b)]\<rparr>) (NamespaceObj.fields [])).
     (n, b) \<leftarrow> [(''app'', ''b''), (MonitoringNamespace, ''b''), (''app2'', ''b2'')]])"

lemma namespaces_deleted_witness:
  "\<exists>s'. DeleteNamespaces lingeringRuntime plainPair lingeringConnections True
      \<lparr>sent = [], world = (namespaceTables, None)\<rparr> = (Ret None, s') \<and>
    lingeringView (world s') ''local'' [] ''app'' = None \<and>
    lingeringView (world s') ''local'' [] MonitoringNamespace \<noteq> None \<and>
    lingeringView (world s') ''local'' [] ''app2'' \<noteq> None"
proof -
  have "fairOrder lingeringRuntime" by (simp add: fairOrder_def lingeringRuntime_def plainRuntime_def)
  from namespaces_deleted [OF this lin.finalizing_store_axioms, of plainPair True "\<lparr>sent = [], world = (namespaceTables, None)\<rparr>"]
  obtain s' where s': "DeleteNamespaces lingeringRuntime plainPair lingeringConnections True
      \<lparr>sent = [], world = (namespaceTables, None)\<rparr> = (Ret None, s')"
    "lingeringView (world s') = purgeOn (clusterNames plainPair) lingeringConnections (\<lambda>k _ x.
       matches [(VerrazzanoBinding, Name (SynBinding plainPair))] (Labels x) \<and>
       \<not> (Name x = MonitoringNamespace \<or> Name x = VerrazzanoNamespace)) (lingeringView (namespaceTables, None))"
    by (auto simp: plainPair_def plainCluster_def lingeringConnections_def clusterNames_def)
  show ?thesis
    by (rule exI [of _ s'], intro conjI s'(1), unfold s'(2))
      (simp_all add: purgeOn_def lingeringView_def typed_def memory_def seen_Namespace inTable_def namespaceTables_def
        getNamespace_def matches_def plainPair_def plainCluster_def plainBinding_def clusterNames_def lingeringConnections_def
        ObjectMeta.defs NamespaceObj.defs SyntheticBinding.defs noMeta_def const_defs)
qed

text \<open>C12: \<^verbatim>\<open>CleanupOrphanedDeployments\<close> and \<^verbatim>\<open>CleanupOrphanedServices\<close>, on connections that cover the
  pair, succeed and delete exactly what is labelled for the binding and the cluster it is on and is
  not wanted there, on the clusters of the pair as on all others. The cleanups of cluster roles, cluster
  role bindings and config maps delete exactly what is so labelled on the clusters that are not the pair's.\<close>

theorem orphans_removed:
  assumes "fairOrder R" "wf_pair mb" "covers conns (ManagedClusters mb)"
    and "deploymentStore R conns fam" "serviceStore R conns fam"
    and "clusterRoleStore R conns fam" "clusterRoleBindingStore R conns fam" "configMapStore R conns fam"
  shows "purges (dom (mlookup conns)) conns (orphaned mb (\<lambda>mc. map Name (mcDeployments mc)))
      (\<lambda>w. typed asDeployment (fam w DeploymentKind)) (CleanupOrphanedDeployments R mb conns) s \<and>
    purges (dom (mlookup conns)) conns (orphaned mb (\<lambda>mc. map Name (mcServices mc)))
      (\<lambda>w. typed asService (fam w ServiceKind)) (CleanupOrphanedServices R mb conns) s \<and>
    purges (- clusterNames mb) conns (labelled (bindingCluster mb))
      (\<lambda>w. typed asClusterRole (fam w ClusterRoleKind)) (CleanupOrphanedClusterRoles R mb conns) s \<and>
    purges (- clusterNames mb) conns (labelled (bindingCluster mb))
      (\<lambda>w. typed asClusterRoleBinding (fam w ClusterRoleBindingKind)) (CleanupOrphanedClusterRoleBindings R mb conns) s \<and>
    purges (- clusterNames mb) conns (labelled (bindingCluster mb))
      (\<lambda>w. typed asConfigMap (fam w ConfigMapKind)) (CleanupOrphanedConfigMaps R mb conns) s"
proof (intro conjI)
  show "purges (dom (mlookup conns)) conns (orphaned mb (\<lambda>mc. map Name (mcDeployments mc)))
      (\<lambda>w. typed asDeployment (fam w DeploymentKind)) (CleanupOrphanedDeployments R mb conns) s"
    unfolding CleanupOrphanedDeployments_def
    by (rule wpt_purges [OF kind_store.cleanup_purges [OF assms(4,1,2,3)]])
  show "purges (dom (mlookup conns)) conns (orphaned mb (\<lambda>mc. map Name (mcServices mc)))
      (\<lambda>w. typed asService (fam w ServiceKind)) (CleanupOrphanedServices R mb conns) s"
    unfolding CleanupOrphanedServices_def
    by (rule wpt_purges [OF kind_store.cleanup_purges [OF assms(5,1,2,3)]])
  show "purges (- clusterNames mb) conns (labelled (bindingCluster mb))
      (\<lambda>w. typed asClusterRole (fam w ClusterRoleKind)) (CleanupOrphanedClusterRoles R mb conns) s"
    unfolding CleanupOrphanedClusterRoles_def
    by (rule wpt_purges [OF kind_store.unmatched_purges [OF assms(6,1)]])
  show "purges (- clusterNames mb) conns (labelled (bindingCluster mb))
      (\<lambda>w. typed asClusterRoleBinding (fam w ClusterRoleBindingKind)) (CleanupOrphanedClusterRoleBindings R mb conns) s"
    unfolding CleanupOrphanedClusterRoleBindings_def
    by (rule wpt_purges [OF kind_store.unmatched_purges [OF assms(7,1)]])
  show "purges (- clusterNames mb) conns (labelled (bindingCluster mb))
      (\<lambda>w. typed asConfigMap (fam w ConfigMapKind)) (CleanupOrphanedConfigMaps R mb conns) s"
    unfolding CleanupOrphanedConfigMaps_def
    by (rule wpt_purges [OF kind_store.unmatched_purges [OF assms(8,1)]])
qed

text \<open>A table with a deployment the pair wants, one it does not, and one of another binding.\<close>

definition orphanTable :: tables where
  "orphanTable = (\<lambda>_. KNamespace (getNamespace ''app'' []) # [KDeployment (ObjectMeta.extend
       (noMeta\<lparr>Name := n, Namespace := ''app'', Labels := [(VerrazzanoBinding, b), (VerrazzanoCluster, ''local'')]\<rparr>)
       (Deployment.fields ''spec'')). (n, b) \<leftarrow> [(''d'', ''b''), (''old'', ''b''), (''other'', ''b2'')]])"

lemma workloads_deleted_witness:
  "\<exists>s'. DeleteDeployments memoryRuntime workloadPair memoryConnections \<lparr>sent = [], world = orphanTable\<rparr> = (Ret None, s')"
  using workloads_deleted [OF memory_fair memory_stores(1,2,6,7), of workloadPair "\<lparr>sent = [], world = orphanTable\<rparr>"]
  by blast

text \<open>The cleanup removes the second deployment only.\<close>

lemma orphans_removed_witness:
  "\<exists>s'. CleanupOrphanedDeployments memoryRuntime workloadPair memoryConnections \<lparr>sent = [], world = orphanTable\<rparr> =
      (Ret None, s') \<and>
    typed asDeployment (memory (world s') DeploymentKind) ''local'' ''app'' ''d'' \<noteq> None \<and>
    typed asDeployment (memory (world s') DeploymentKind) ''local'' ''app'' ''old'' = None \<and>
    typed asDeployment (memory (world s') DeploymentKind) ''local'' ''app'' ''other'' \<noteq> None"
proof -
  let ?v = "\<lambda>w. typed asDeployment (memory w DeploymentKind)"
  from orphans_removed [OF memory_fair workload_wf workload_covers memory_stores(1,2,6,7,5),
      of "\<lparr>sent = [], world = orphanTable\<rparr>"]
  obtain s' where s': "CleanupOrphanedDeployments memoryRuntime workloadPair memoryConnections
      \<lparr>sent = [], world = orphanTable\<rparr> = (Ret None, s')"
    "?v (world s') = purge memoryConnections (orphaned workloadPair (\<lambda>mc. map Name (mcDeployments mc))) (?v orphanTable)"
    by auto
  show ?thesis
    by (rule exI [of _ s'], intro conjI s'(1), unfold s'(2))
      (simp_all add: purgeOn_def typed_def memory_def seen_def creatable_def inTable_def orphanTable_def getNamespace_def orphaned_def
        matches_def workloadPair_def plainPair_def plainBinding_def memoryConnections_def memory_defs
        ObjectMeta.defs NamespaceObj.defs Deployment.defs SyntheticBinding.defs Service.defs noMeta_def const_defs)
qed

end
