(* ===== verification/Management_Store.thy ===== *)
theory Management_Store
  imports Cluster_State Secrets_Impl Local_Vmis Local_ConfigMaps
begin

text \<open>
  What the reconcilers of the management cluster achieve on an API server whose listers agree with it
  (the contracts of \<open>Object_Store\<close>): \<open>KubeSecrets\<close> is a \<open>secrets_store\<close>, so the credentials are ensured;
  \<^verbatim>\<open>CreateUpdateVmi\<close> settles the monitoring instance and \<^verbatim>\<open>UpdateConfigMaps\<close> the dashboards. Each sends
  nothing once there is nothing to do.
\<close>

section \<open>Deletions leave the other kinds alone\<close>

lemma wpt_conjI: "wpt m P s \<Longrightarrow> Q (snd (m s)) \<Longrightarrow> wpt m (\<lambda>a s'. P a s' \<and> Q s') s"
  by (auto simp: wpt_def split: prod.splits outcome.splits)

lemma wpt_eq: "m s = m' s \<Longrightarrow> wpt m Q s = wpt m' Q s"
  by (simp add: wpt_def)

lemma deletions_keep:
  assumes "\<And>ns n w. g (snd (rcDelete rc ns n w)) = g w"
  shows "g (world (snd (rangeE (\<lambda>x. if pick x then clientDelete c K rc (nsOf x) (Name x) else gret None) xs s))) =
    g (world s)"
proof (induction xs arbitrary: s)
  case (Cons x xs)
  have "g (world (snd (clientDelete c K rc (nsOf x) (Name x) s))) = g (world s)"
    using assms by (simp add: clientDelete_def gsend_def split_beta)
  with Cons show ?case
    by (auto simp: gbind_def gret_def split: prod.split outcome.split option.split)
qed (simp add: gret_def)

context kind_store
begin

text \<open>A deletion by label, where deleting leaves what else there is alone.\<close>

abbreviation unwanted :: "string \<Rightarrow> string \<Rightarrow> selector \<Rightarrow> ('a ObjectMeta_scheme \<Rightarrow> bool) \<Rightarrow> 'a ObjectMeta_scheme store \<Rightarrow>
    'a ObjectMeta_scheme set" where
  "unwanted cl ns sel pick v \<equiv> {x \<in> stored v cl ns. matches sel (Labels x) \<and> pick x}"

lemma deleteListed_keeps:
  assumes c: "mlookup conns k = Some c" and keep: "\<And>ns n w. rest (snd (rcDelete (rc c) ns n w)) = rest w"
  shows "wpt (deleteListed (connName c) K (ls c) (rc c) ns sel nsOf pick) (\<lambda>e s'. (e = None \<and>
    view (world s') = erase (connName c) (unwanted (connName c) ns sel pick (view (world s))) (view (world s))) \<and>
    rest (world s') = rest (world s)) s"
proof (rule wpt_conjI [OF deleteListed_view [OF c]])
  from lister_list [OF c, of ns sel "world s"] obtain xs where
    "lsList (ls c) ns sel (world s) = ((xs, None), world s)" by blast
  then show "rest (world (snd (deleteListed (connName c) K (ls c) (rc c) ns sel nsOf pick s))) = rest (world s)"
    using deletions_keep [of rest, OF keep, where s = s and xs = xs and pick = pick and nsOf = nsOf]
    by (simp add: deleteListed_def gbind_def listerList_def glift_def)
qed

text \<open>With nothing to delete, nothing is sent.\<close>

lemma deleteListed_idle:
  assumes c: "mlookup conns k = Some c" and none: "unwanted (connName c) ns sel pick (view (world s)) = {}"
  shows "deleteListed name K (ls c) (rc c) ns sel nsOf pick s = (Ret None, s)"
proof -
  from lister_list [OF c, of ns sel "world s"] obtain xs where
    l: "lsList (ls c) ns sel (world s) = ((xs, None), world s)"
    and xs: "set xs = {x \<in> stored (view (world s)) (connName c) ns. matches sel (Labels x)}" by blast
  have "rangeE (\<lambda>x. if pick x then clientDelete name K (rc c) (nsOf x) (Name x) else gret None) ys s = (Ret None, s)"
    if "set ys \<subseteq> set xs" for ys
    using that none xs by (induction ys) (auto simp: gret_def gbind_def)
  then show ?thesis by (simp add: deleteListed_def gbind_def listerList_def glift_def l)
qed

end

section \<open>Data is stored as it is sent\<close>

text \<open>
  A request, creation or update, that succeeds stores a field of the object as it was sent, whatever
  else the API server fills in.
\<close>

definition storesField ::
  "('a ObjectMeta_scheme \<Rightarrow> 'd) \<Rightarrow> ('w \<Rightarrow> 'a ObjectMeta_scheme store) \<Rightarrow> string \<Rightarrow>
   (string \<Rightarrow> 'a ObjectMeta_scheme \<Rightarrow> 'w \<Rightarrow> 'a ObjectMeta_scheme result \<times> 'w) \<Rightarrow> bool" where
  "storesField fld view cl request \<longleftrightarrow> (\<forall>x w r w' y. request (Namespace x) x w = ((r, None), w') \<longrightarrow>
     view w' cl (Namespace x) (Name x) = Some y \<longrightarrow> fld y = fld x)"

lemma storesFieldD:
  "storesField fld view cl request \<Longrightarrow> request (Namespace x) x w = ((r, None), w') \<Longrightarrow>
   view w' cl (Namespace x) (Name x) = Some y \<Longrightarrow> fld y = fld x"
  unfolding storesField_def by blast

section \<open>Credentials\<close>

lemma kubeSecrets_sel:
  "secList (KubeSecrets ns cs ls) = listerList ls"
  "secDelete (KubeSecrets ns cs ls) = clientDelete (clientName cs) SecretKind (csSecrets cs)"
  by (simp_all add: KubeSecrets_def fun_eq_iff)

lemma kube_secrets_store:
  assumes K: "kind_store R conns KSecret Namespace ok rc view rest ls" and c: "mlookup conns k = Some c"
    and rc: "rc c = csSecrets cs" and keep: "\<And>ns n w. rest (snd (rcDelete (rc c) ns n w)) = rest w"
    and data: "storesField secretData view (connName c) (rcCreate (rc c))" "storesField secretData view (connName c) (rcUpdate (rc c))"
    and name: "clientName cs = connName c"
  shows "secrets_store (KubeSecrets ns cs (ls c)) (connName c) ns (\<lambda>w. (view w, rest w))
    (\<lambda>v n. fst v (connName c) ns n) (\<lambda>n x v. (put (connName c) ns n (Some x) (fst v), snd v))
    (\<lambda>v n. ok (snd v) (connName c) ns n) (\<lambda>x z. secretData x = secretData z)
    (\<lambda>sel pick v v'. placed Namespace (fst v) \<and> v' = (erase (connName c)
       {x \<in> stored (fst v) (connName c) []. matches sel (Labels x) \<and> pick x} (fst v), snd v))"
proof -
  note A = kind_store_api [OF K]
  have ops: "secrets_ops (KubeSecrets ns cs (ls c)) (connName c) ns"
    using ks.secrets_ops_axioms [of ns cs "ls c"] by (simp add: name)
  show ?thesis
  proof (intro secrets_store.intro ops secrets_store_axioms.intro, goal_cases)
    case (3 n s)
    from read_store.lister_get [OF kind_store.axioms(1) [OF K] c, of ns n "world s"]
    show ?case by (simp add: KubeSecrets_def call_defs wp_simps)
  next
    case (4 x s)
    from api_store.create_view [OF A c, of "world s" x] 4 obtain r y w' where w':
      "rcCreate (rc c) ns x (world s) = ((r, None), w')"
      "view w' = put (connName c) ns (Name x) (Some y) (view (world s))" "rest w' = rest (world s)" by auto
    with storesFieldD [OF data(1), of x "world s" r w' y] 4(1) have "secretData y = secretData x"
      by (simp add: put_apply)
    with w' show ?case by (auto simp: KubeSecrets_def call_defs wp_simps rc)
  next
    case (5 x s old)
    from api_store.update_view [OF A c, of "world s" x old] 5 obtain r y w' where w':
      "rcUpdate (rc c) ns x (world s) = ((r, None), w')"
      "view w' = put (connName c) ns (Name x) (Some y) (view (world s))" "rest w' = rest (world s)" by auto
    with storesFieldD [OF data(2), of x "world s" r w' y] 5(1) have "secretData y = secretData x"
      by (simp add: put_apply)
    with w' show ?case by (auto simp: KubeSecrets_def call_defs wp_simps rc)
  next
    case (6 sel pick s)
    have "purgeSecrets (KubeSecrets ns cs (ls c)) sel pick =
        deleteListed (connName c) SecretKind (ls c) (rc c) [] sel Namespace pick"
      unfolding deleteListed_def kubeSecrets_sel rc name ..
    then show ?case
      by (simp only:) (rule wpt_mono [OF kind_store.deleteListed_keeps [OF K c keep]],
        auto simp: api_store.view_placed [OF A])
  next
    case (7 sel pick v v' n)
    then show ?case by (auto simp: erase_def placed_def split: option.split) metis
  qed (auto simp: put_apply)
qed

section \<open>The monitoring instance\<close>

text \<open>
  The instance is settled when the code finds no difference to what it wants, the claims aside. What the
  code relies on of \<^verbatim>\<open>diff.Diff\<close> is that an instance stays without a difference when it gets claims
  of the other and whatever resource version.
\<close>

definition vmiSettled :: "'w runtime \<Rightarrow> VMI \<Rightarrow> VMI \<Rightarrow> bool" where
  "vmiSettled R v new \<longleftrightarrow> Diff R (KVMI v) (KVMI (keepPvcNames v new)) = []"

definition versionless :: "'w runtime \<Rightarrow> bool" where
  "versionless R \<longleftrightarrow> (\<forall>v new version. Diff R (KVMI v) (KVMI new) = [] \<longrightarrow>
     Diff R (KVMI v) (KVMI (keepPvcNames v (new\<lparr>ResourceVersion := version\<rparr>))) = [])"

lemma stored_settled:
  assumes "versionless R"
  shows "Diff R (KVMI v) (KVMI new) = [] \<Longrightarrow> vmiSettled R v new"
    and "Diff R (KVMI v) (KVMI ((keepPvcNames old new)\<lparr>ResourceVersion := version\<rparr>)) = [] \<Longrightarrow> vmiSettled R v new"
proof -
  have s: "Diff R (KVMI v) (KVMI x) = [] \<Longrightarrow> Diff R (KVMI v) (KVMI (keepPvcNames v (x\<lparr>ResourceVersion := r\<rparr>))) = []" for x r
    using assms unfolding versionless_def by blast
  show "Diff R (KVMI v) (KVMI new) = [] \<Longrightarrow> vmiSettled R v new"
    using s [of new "ResourceVersion new"] by (simp add: vmiSettled_def)
  have "keepPvcNames v ((keepPvcNames old new)\<lparr>ResourceVersion := version, ResourceVersion := ResourceVersion new\<rparr>) =
      keepPvcNames v new" by (simp add: keepPvcNames_def)
  then show "Diff R (KVMI v) (KVMI ((keepPvcNames old new)\<lparr>ResourceVersion := version\<rparr>)) = [] \<Longrightarrow> vmiSettled R v new"
    using s [of "(keepPvcNames old new)\<lparr>ResourceVersion := version\<rparr>" "ResourceVersion new"] by (simp add: vmiSettled_def)
qed

lemma CreateUpdateVmi_idle:
  assumes V: "read_store R conns KVMI Namespace ok rc view rest ls" and c: "mlookup conns k = Some c"
    and new: "createInstance R b u f = Inr new" and mine: "\<not> SharedVMIDefault R \<or> IsSystemProfileBindingName (Name b)"
    and old: "view (world s) (connName c) VerrazzanoNamespace (Name b) = Some old" "vmiSettled R old new"
  shows "CreateUpdateVmi R b cs (ls c) u f s = (Ret None, s)"
  using createInstance_meta [OF new] read_store.lister_get [OF V c, of VerrazzanoNamespace "Name b" "world s"] mine new old
  by (auto simp: CreateUpdateVmi_def call_defs gbind_def glift_def gret_def Let_def vmiSettled_def)

lemma CreateUpdateVmi_settles:
  assumes V: "read_store R conns KVMI Namespace ok rc view rest ls" and c: "mlookup conns k = Some c"
    and rc: "rc c = csVMIs cs" and diff: "versionless R" and new: "createInstance R b u f = Inr new"
    and mine: "\<not> SharedVMIDefault R \<or> IsSystemProfileBindingName (Name b)"
    and ok: "view (world s) (connName c) VerrazzanoNamespace (Name b) = None \<Longrightarrow>
      ok (rest (world s)) (connName c) VerrazzanoNamespace (Name b)"
  shows "wpt (CreateUpdateVmi R b cs (ls c) u f) (\<lambda>e s'. e = None \<and> rest (world s') = rest (world s) \<and>
    (\<exists>v. vmiSettled R v new \<and> view (world s') = put (connName c) VerrazzanoNamespace (Name b) (Some v) (view (world s)))) s"
proof -
  note A = read_store.axioms(1) [OF V]
  note meta = createInstance_meta [OF new]
  have enter: "\<not> (SharedVMIDefault R \<and> \<not> IsSystemProfileBindingName (Name b))" using mine by blast
  let ?old = "view (world s) (connName c) VerrazzanoNamespace (Name b)"
  note get = read_store.lister_get [OF V c, of VerrazzanoNamespace "Name b" "world s"]
  show ?thesis
  proof (cases ?old)
    case None
    from api_store.create_view [OF A c, of "world s" new] meta None ok [OF None] obtain r y w' where
      w': "rcCreate (csVMIs cs) VerrazzanoNamespace new (world s) = ((r, None), w')" "Diff R (KVMI y) (KVMI new) = []"
      "view w' = put (connName c) VerrazzanoNamespace (Name b) (Some y) (view (world s))" "rest w' = rest (world s)"
      by (auto simp: rc)
    have "vmiSettled R y new" by (rule stored_settled(1) [OF diff w'(2)])
    with meta enter new None get w' show ?thesis
      by (auto simp: CreateUpdateVmi_def call_defs wp_simps)
  next
    case (Some old)
    show ?thesis
    proof (cases "vmiSettled R old new")
      case True
      have "view (world s) = put (connName c) VerrazzanoNamespace (Name b) (Some old) (view (world s))"
        by (auto simp: put_apply fun_eq_iff Some)
      with True have "\<exists>v. vmiSettled R v new \<and>
          view (world s) = put (connName c) VerrazzanoNamespace (Name b) (Some v) (view (world s))" by blast
      with CreateUpdateVmi_idle [where s = s, OF V c new mine Some True] show ?thesis by (simp add: wpt_def)
    next
      case False
      let ?new = "(keepPvcNames old new)\<lparr>ResourceVersion := ResourceVersion old\<rparr>"
      from api_store.update_view [OF A c, of "world s" ?new old] meta Some obtain r y w' where
        w': "rcUpdate (csVMIs cs) VerrazzanoNamespace ?new (world s) = ((r, None), w')" "Diff R (KVMI y) (KVMI ?new) = []"
        "view w' = put (connName c) VerrazzanoNamespace (Name b) (Some y) (view (world s))" "rest w' = rest (world s)"
        by (auto simp: rc)
      have "vmiSettled R y new" by (rule stored_settled(2) [OF diff w'(2)])
      with False meta enter new Some get w' show ?thesis
        by (auto simp: CreateUpdateVmi_def call_defs wp_simps Let_def vmiSettled_def [of R old new])
    qed
  qed
qed

section \<open>The dashboards\<close>

lemma UpdateConfigMaps_settles:
  fixes view :: "'w \<Rightarrow> ConfigMap store"
  assumes M: "kind_store R conns KConfigMap Namespace ok rc view rest ls" and c: "mlookup conns k = Some c"
    and rc: "rc c = csConfigMaps cs" and keep: "\<And>ns n w. rest (snd (rcDelete (rc c) ns n w)) = rest w"
    and data: "storesField cmData view (connName c) (rcUpdate (rc c))"
    and name: "clientName cs = connName c" and new: "newConfigMap R Asset b = Inr new"
  shows "wpt (UpdateConfigMaps R Asset b cs (ls c)) (\<lambda>e s'. e = None \<and> rest (world s') = rest (world s) \<and>
    (\<exists>v. placed Namespace v \<and> (case view (world s) (connName c) VerrazzanoNamespace (Name new) of None \<Rightarrow> v = view (world s)
        | Some old \<Rightarrow> \<exists>y. deepEqualData (cmData y) (cmData new) \<and>
            v = put (connName c) VerrazzanoNamespace (Name new) (Some y) (view (world s))) \<and>
      view (world s') = erase (connName c) {x \<in> stored v (connName c) VerrazzanoNamespace.
        matches [(VerrazzanoBinding, Name b)] (Labels x) \<and> Name x \<noteq> Name new} v)) s"
proof -
  note A = kind_store_api [OF M]
  have meta: "Name new = Name b @ ''-dashboards''" "Namespace new = VerrazzanoNamespace"
    using newConfigMap_meta [OF new] by simp_all
  let ?old = "view (world s) (connName c) VerrazzanoNamespace (Name new)"
  have reads: "gbind (listerGet (ls c) VerrazzanoNamespace (Name new)) f s =
      f (?old, if ?old = None then Some (ErrNotFound (Name new)) else None) s" for f :: "_ \<Rightarrow> ('w, err option) prog"
    by (simp add: gbind_def listerGet_def glift_def
        read_store.lister_get [OF kind_store.axioms(1) [OF M] c, of VerrazzanoNamespace "Name new" "world s"])
  have del: "wpt (deleteListed (connName c) ConfigMapKind (ls c) (csConfigMaps cs) VerrazzanoNamespace
        [(VerrazzanoBinding, Name b)] Namespace (\<lambda>x. \<not> Contains [Name new] (Name x)))
      (\<lambda>e s'. e = None \<and> rest (world s') = rest (world s1) \<and>
        view (world s') = erase (connName c) {x \<in> stored (view (world s1)) (connName c) VerrazzanoNamespace.
          matches [(VerrazzanoBinding, Name b)] (Labels x) \<and> Name x \<noteq> Name new} (view (world s1))) s1" for s1
    unfolding rc [symmetric]
    by (rule wpt_mono [OF kind_store.deleteListed_keeps [OF M c keep]]) auto
  let ?case = "case ?old of
      Some old \<Rightarrow> if \<not> deepEqualData (cmData old) (cmData new) then
          gbind (clientUpdate (connName c) KConfigMap (csConfigMaps cs) VerrazzanoNamespace
            (new\<lparr>OwnerReferences := OwnerReferences old, Labels := Labels old\<rparr>)) (\<lambda>(_, err). gret err)
        else gret None
    | None \<Rightarrow> gret None"
  have step: "wpt ?case (\<lambda>e s'. e = None \<and> rest (world s') = rest (world s) \<and>
      (case ?old of None \<Rightarrow> view (world s') = view (world s)
       | Some old \<Rightarrow> \<exists>y. deepEqualData (cmData y) (cmData new) \<and>
           view (world s') = put (connName c) VerrazzanoNamespace (Name new) (Some y) (view (world s)))) s"
  proof (cases ?old)
    case (Some old)
    show ?thesis
    proof (cases "deepEqualData (cmData old) (cmData new)")
      case True
      have "view (world s) = put (connName c) VerrazzanoNamespace (Name new) (Some old) (view (world s))"
        by (auto simp: put_apply fun_eq_iff Some)
      with True Some show ?thesis by (auto simp: wpt_gret)
    next
      case False
      let ?new = "new\<lparr>OwnerReferences := OwnerReferences old, Labels := Labels old\<rparr>"
      from api_store.update_view [OF A c, of "world s" ?new old] meta Some obtain r y w' where
        w': "rcUpdate (csConfigMaps cs) VerrazzanoNamespace ?new (world s) = ((r, None), w')"
        "view w' = put (connName c) VerrazzanoNamespace (Name new) (Some y) (view (world s))" "rest w' = rest (world s)"
        by (auto simp: rc)
      with storesFieldD [OF data, of ?new "world s" r w' y] meta rc have "cmData y = cmData new"
        by (simp add: put_apply)
      then have "deepEqualData (cmData y) (cmData new)"
        by (simp add: deepEqualData_def mapEqual_iff split: option.split)
      with False Some w' show ?thesis by (auto simp: wp_simps call_defs)
    qed
  qed (simp add: wpt_gret)
  have code: "UpdateConfigMaps R Asset b cs (ls c) s = gbind ?case (\<lambda>err. case err of Some e \<Rightarrow> gret (Some e)
      | None \<Rightarrow> deleteListed (connName c) ConfigMapKind (ls c) (csConfigMaps cs) VerrazzanoNamespace
        [(VerrazzanoBinding, Name b)] Namespace (\<lambda>x. \<not> Contains [Name new] (Name x))) s"
    unfolding UpdateConfigMaps_def new sum.case Let_def meta(2) reads prod.case name ..
  show ?thesis
    by (subst wpt_eq [where m = "UpdateConfigMaps R Asset b cs (ls c)"], rule code, unfold wpt_gbind, rule wpt_mono [OF step], elim conjE, simp only: option.case, rule wpt_mono [OF del])
      (use api_store.view_placed [OF A] in \<open>simp split: option.splits; blast\<close>)
qed

section \<open>Nothing to do\<close>

text \<open>With complete credentials and no other secret of the binding, nothing is sent for them.\<close>

lemma CreateVmiSecrets_idle:
  assumes K: "kind_store R conns KSecret Namespace ok rc view rest ls" and c: "mlookup conns k = Some c"
    and rc: "rc c = csSecrets cs" and x: "view (world s) (connName c) ns VmiSecretName = Some x" "complete x"
    and none: "{x \<in> stored (view (world s)) (connName c) [].
      matches [(VerrazzanoBinding, Name b)] (Labels x) \<and> otherSecret b x} = {}"
  shows "CreateVmiSecrets R b (KubeSecrets ns cs (ls c)) s = (Ret None, s)"
proof -
  have "ensureVmiSecret R b (KubeSecrets ns cs (ls c)) s = (Ret None, s)"
    using read_store.lister_get [OF kind_store.axioms(1) [OF K] c, of ns VmiSecretName "world s"] x
    by (auto simp: ensureVmiSecret_def KubeSecrets_def gbind_def listerGet_def glift_def gret_def complete_def)
  moreover have "purgeSecrets (KubeSecrets ns cs (ls c)) [(VerrazzanoBinding, Name b)] (otherSecret b) s = (Ret None, s)"
    using kind_store.deleteListed_idle [OF K c none, of "clientName cs" SecretKind]
    unfolding kubeSecrets_sel deleteListed_def rc .
  ultimately show ?thesis
    by (simp add: CreateVmiSecrets_def gbind_def [of "ensureVmiSecret _ _ _"] del: Contains.simps Contains_iff)
qed

text \<open>The same for the dashboards, whose config map is current or missing.\<close>

lemma UpdateConfigMaps_idle:
  assumes M: "kind_store R conns KConfigMap Namespace ok rc view rest ls" and c: "mlookup conns k = Some c"
    and rc: "rc c = csConfigMaps cs" and new: "newConfigMap R Asset b = Inr new"
    and current: "\<And>old. view (world s) (connName c) VerrazzanoNamespace (Name new) = Some old \<Longrightarrow>
      deepEqualData (cmData old) (cmData new)"
    and none: "{x \<in> stored (view (world s)) (connName c) VerrazzanoNamespace.
        matches [(VerrazzanoBinding, Name b)] (Labels x) \<and> \<not> Contains [Name new] (Name x)} = {}"
  shows "UpdateConfigMaps R Asset b cs (ls c) s = (Ret None, s)"
proof -
  have meta: "Namespace new = VerrazzanoNamespace" using newConfigMap_meta [OF new] by simp
  note get = read_store.lister_get [OF kind_store.axioms(1) [OF M] c, of VerrazzanoNamespace "Name new" "world s"]
  have del: "deleteListed (clientName cs) ConfigMapKind (ls c) (csConfigMaps cs) VerrazzanoNamespace
      [(VerrazzanoBinding, Name b)] Namespace (\<lambda>x. \<not> Contains [Name new] (Name x)) s = (Ret None, s)"
    unfolding rc [symmetric] by (rule kind_store.deleteListed_idle [OF M c none])
  show ?thesis
    using current unfolding UpdateConfigMaps_def new sum.case Let_def meta
    by (cases "view (world s) (connName c) VerrazzanoNamespace (Name new)")
      (simp_all add: gbind_def listerGet_def glift_def get gret_def del del: Contains.simps Contains_iff)
qed

end
