(* ===== verification/System_Instance.thy ===== *)
theory System_Instance
  imports Management_Store Controller_Lemmas
begin

text \<open>
  What one round of \<^verbatim>\<open>createUpdateGlobalEntities\<close> achieves on a management cluster whose API server and
  listers agree: for each of the three kinds it maintains, what is settled afterwards and what may have
  been touched; that a round finds nothing to do once everything is settled; and from both, that the
  endless loop of rounds sends nothing after its first.
\<close>

section \<open>Settled, and touched\<close>

definition onlyTouches :: "(string \<Rightarrow> string \<Rightarrow> string \<Rightarrow> 'o option \<Rightarrow> bool) \<Rightarrow> 'o store \<Rightarrow> 'o store \<Rightarrow> bool" where
  "onlyTouches T v v' \<longleftrightarrow> (\<forall>cl ns n. v' cl ns n = v cl ns n \<or> T cl ns n (v cl ns n))"

text \<open>The label of what is kept for a binding.\<close>

abbreviation ofBinding :: "SyntheticBinding \<Rightarrow> 'a ObjectMeta_scheme \<Rightarrow> bool" where
  "ofBinding b x \<equiv> matches [(VerrazzanoBinding, Name b)] (Labels x)"

text \<open>Complete credentials, and no other secret of the binding in any namespace.\<close>

definition credentialsSettled :: "SyntheticBinding \<Rightarrow> string \<Rightarrow> Secret store \<Rightarrow> bool" where
  "credentialsSettled b cl v \<longleftrightarrow>
     (\<exists>x. v cl VerrazzanoNamespace VmiSecretName = Some x \<and> complete x) \<and>
     {x \<in> stored v cl []. ofBinding b x \<and> otherSecret b x} = {}"

definition credentialsTouched :: "SyntheticBinding \<Rightarrow> string \<Rightarrow> string \<Rightarrow> string \<Rightarrow> string \<Rightarrow> Secret option \<Rightarrow> bool" where
  "credentialsTouched b cl cl' ns n y \<longleftrightarrow> cl' = cl \<and>
     (case y of
        None \<Rightarrow> ns = VerrazzanoNamespace \<and> n = VmiSecretName
      | Some x \<Rightarrow> ns = VerrazzanoNamespace \<and> n = VmiSecretName \<and> \<not> complete x \<or>
                  ofBinding b x \<and> otherSecret b x)"

text \<open>A config map with the current dashboards, if there is one, and no other of the binding.\<close>

definition dashboardsSettled :: "SyntheticBinding \<Rightarrow> ConfigMap \<Rightarrow> string \<Rightarrow> ConfigMap store \<Rightarrow> bool" where
  "dashboardsSettled b new cl v \<longleftrightarrow>
     (case v cl VerrazzanoNamespace (Name new) of None \<Rightarrow> True | Some x \<Rightarrow> deepEqualData (cmData x) (cmData new)) \<and>
     {x \<in> stored v cl VerrazzanoNamespace. ofBinding b x \<and> Name x \<noteq> Name new} = {}"

definition dashboardsTouched ::
  "SyntheticBinding \<Rightarrow> ConfigMap \<Rightarrow> string \<Rightarrow> string \<Rightarrow> string \<Rightarrow> string \<Rightarrow> ConfigMap option \<Rightarrow> bool" where
  "dashboardsTouched b new cl cl' ns n y \<longleftrightarrow> cl' = cl \<and> ns = VerrazzanoNamespace \<and>
     (case y of None \<Rightarrow> False | Some x \<Rightarrow> n = Name new \<or> ofBinding b x)"

section \<open>The three kinds\<close>

lemma placed_stored:
  assumes "placed nsOf v"
  shows "v cl ns n = Some x \<Longrightarrow> x \<in> stored v cl ns" and "v cl ns n = Some x \<Longrightarrow> x \<in> stored v cl []"
    and "x \<in> stored v cl ns \<Longrightarrow> v cl (nsOf x) (Name x) = Some x"
  using assms unfolding placed_def stored_def by blast+

lemma erase_none: "{x \<in> stored (erase cl {x \<in> stored v cl ns. P x} v) cl ns. P x} = {}"
  by (auto simp: stored_def erase_def split: option.splits if_splits)

lemma credentials_settle:
  assumes K: "kind_store R conns KSecret Namespace ok rc view rest ls" and c: "mlookup conns k = Some c"
    and rc: "rc c = csSecrets cs" and keep: "\<And>ns n w. rest (snd (rcDelete (rc c) ns n w)) = rest w"
    and data: "storesField secretData view (connName c) (rcCreate (rc c))" "storesField secretData view (connName c) (rcUpdate (rc c))"
    and name: "clientName cs = connName c" and rand: "randKeeps (\<lambda>w. (view w, rest w)) R"
    and ok: "ok (rest (world s)) (connName c) VerrazzanoNamespace VmiSecretName"
  shows "wpt (CreateVmiSecrets R b (KubeSecrets VerrazzanoNamespace cs (ls c))) (\<lambda>e s'. e = None \<and>
    rest (world s') = rest (world s) \<and> credentialsSettled b (connName c) (view (world s')) \<and>
    onlyTouches (credentialsTouched b (connName c)) (view (world s)) (view (world s'))) s"
proof -
  let ?key = "(connName c, VerrazzanoNamespace, VmiSecretName)"
  let ?old = "view (world s) (connName c) VerrazzanoNamespace VmiSecretName"
  note S = kube_secrets_store [OF K c rc keep data name, of VerrazzanoNamespace]
  show ?thesis
  proof (rule wpt_mono [OF secrets_store.CreateVmiSecrets_view [OF S rand refl]], simp add: ok, elim conjE exE)
    fix e :: "err option" and s' :: "'a state" and v :: "Secret store \<times> 'b"
    assume "e = None"
    assume v: "if \<exists>old. fst (view (world s), rest (world s)) (connName c) VerrazzanoNamespace VmiSecretName = Some old \<and> complete old
        then v = (view (world s), rest (world s))
        else \<exists>x z. vmiSecretOf b z \<and> secretData x = secretData z \<and>
          v = (put (connName c) VerrazzanoNamespace VmiSecretName (Some x) (fst (view (world s), rest (world s))),
            snd (view (world s), rest (world s)))"
      and placed: "placed Namespace (fst v)"
      and v': "(view (world s'), rest (world s')) = (erase (connName c) {x \<in> stored (fst v) (connName c) [].
        matches [(VerrazzanoBinding, Name b)] (Labels x) \<and> otherSecret b x} (fst v), snd v)"
    from secrets_store.ensured_at [OF S v] obtain x where
      x: "fst v (connName c) VerrazzanoNamespace VmiSecretName = Some x" "complete x" by auto
    have "Name x = VmiSecretName" using placed x(1) unfolding placed_def by blast
    then have spared: "\<not> otherSecret b x" by (simp add: VmiUsername_def VmiSecretName_def)
    have "credentialsSettled b (connName c) (view (world s'))"
      using v' x spared unfolding credentialsSettled_def
      by (simp add: erase_other erase_none [where P = "\<lambda>x. ofBinding b x \<and> otherSecret b x"] del: Contains.simps Contains_iff)
    moreover have "snd v = rest (world s)" and
      "onlyTouches (credentialsTouched b (connName c)) (view (world s)) (fst v)"
      using v by (auto simp: onlyTouches_def credentialsTouched_def put_apply split: if_splits option.split)
    moreover have "onlyTouches (credentialsTouched b (connName c)) (view (world s)) (view (world s'))"
      if "onlyTouches (credentialsTouched b (connName c)) (view (world s)) (fst v)"
      unfolding onlyTouches_def
    proof (intro allI)
      fix cl ns n
      show "view (world s') cl ns n = view (world s) cl ns n \<or> credentialsTouched b (connName c) cl ns n (view (world s) cl ns n)"
        using that [unfolded onlyTouches_def, rule_format, of cl ns n] v'
        by (auto simp: erase_def credentialsTouched_def simp del: Contains.simps Contains_iff split: option.splits if_splits)
    qed
    ultimately show "e = None \<and> rest (world s') = rest (world s) \<and> credentialsSettled b (connName c) (view (world s')) \<and>
      onlyTouches (credentialsTouched b (connName c)) (view (world s)) (view (world s'))"
      using \<open>e = None\<close> v' by simp
  qed
qed

lemma dashboards_settle:
  fixes view :: "'w \<Rightarrow> ConfigMap store"
  assumes M: "kind_store R conns KConfigMap Namespace ok rc view rest ls" and c: "mlookup conns k = Some c"
    and rc: "rc c = csConfigMaps cs" and keep: "\<And>ns n w. rest (snd (rcDelete (rc c) ns n w)) = rest w"
    and data: "storesField cmData view (connName c) (rcUpdate (rc c))"
    and name: "clientName cs = connName c" and new: "newConfigMap R Asset b = Inr new"
  shows "wpt (UpdateConfigMaps R Asset b cs (ls c)) (\<lambda>e s'. e = None \<and> rest (world s') = rest (world s) \<and>
    dashboardsSettled b new (connName c) (view (world s')) \<and>
    onlyTouches (dashboardsTouched b new (connName c)) (view (world s)) (view (world s'))) s"
proof (rule wpt_mono [OF UpdateConfigMaps_settles [OF assms]], elim conjE exE)
  fix e :: "err option" and s' :: "'w state" and v
  assume "e = None" and r: "rest (world s') = rest (world s)"
    and placed: "placed Namespace v" and v: "case view (world s) (connName c) VerrazzanoNamespace (Name new) of None \<Rightarrow> v = view (world s)
        | Some old \<Rightarrow> \<exists>y. deepEqualData (cmData y) (cmData new) \<and>
            v = put (connName c) VerrazzanoNamespace (Name new) (Some y) (view (world s))"
    and v': "view (world s') = erase (connName c) {x \<in> stored v (connName c) VerrazzanoNamespace.
        matches [(VerrazzanoBinding, Name b)] (Labels x) \<and> Name x \<noteq> Name new} v"
  have "case v (connName c) VerrazzanoNamespace (Name new) of None \<Rightarrow> True
      | Some x \<Rightarrow> deepEqualData (cmData x) (cmData new)"
    using v by (auto simp: put_apply split: option.splits)
  then have "dashboardsSettled b new (connName c) (view (world s'))"
    unfolding v' dashboardsSettled_def
    by (auto simp: erase_none [where P = "\<lambda>x. ofBinding b x \<and> Name x \<noteq> Name new"]) (auto simp: erase_def split: option.splits)
  moreover have "view (world s') cl ns n = view (world s) cl ns n \<or>
      dashboardsTouched b new (connName c) cl ns n (view (world s) cl ns n)" for cl ns n
  proof -
    have old: "v cl ns n = view (world s) cl ns n \<or> dashboardsTouched b new (connName c) cl ns n (view (world s) cl ns n)"
      using v by (auto simp: put_apply dashboardsTouched_def split: option.splits if_splits)
    have "ns = VerrazzanoNamespace" if "v cl ns n = Some x" "x \<in> stored v (connName c) VerrazzanoNamespace" for x
    proof -
      have "VerrazzanoNamespace \<noteq> []" by (simp add: const_defs)
      with that obtain n' where "v (connName c) VerrazzanoNamespace n' = Some x" by (auto simp: stored_def)
      with that(1) placed show ?thesis unfolding placed_def by metis
    qed
    then have "view (world s') cl ns n = v cl ns n \<or> dashboardsTouched b new (connName c) cl ns n (v cl ns n)"
      unfolding v' by (auto simp: erase_def dashboardsTouched_def split: option.splits)
    with old show ?thesis by metis
  qed
  ultimately show "e = None \<and> rest (world s') = rest (world s) \<and>
    dashboardsSettled b new (connName c) (view (world s')) \<and>
    onlyTouches (dashboardsTouched b new (connName c)) (view (world s)) (view (world s'))"
    using \<open>e = None\<close> r by (simp add: onlyTouches_def)
qed

section \<open>The management cluster\<close>

text \<open>
  A client set and a lister of secrets work on one cluster, that the connection \<open>m\<close> names: they are a
  store, where deletions leave the other kinds alone and data is stored as sent.
\<close>

definition secretsServer ::
  "'w runtime \<Rightarrow> ('w \<Rightarrow> clusterState) \<Rightarrow> 'w ManagedClusterConnection \<Rightarrow> 'w Clientset \<Rightarrow> (Secret, 'w) lister \<Rightarrow> bool" where
  "secretsServer R fam m cs ls \<longleftrightarrow> clientName cs = connName m \<and>
     kind_store R [(connName m, m)] KSecret Namespace (creatable SecretKind) (\<lambda>_. csSecrets cs)
       (\<lambda>w. typed asSecret (fam w SecretKind)) (\<lambda>w. others SecretKind (fam w)) (\<lambda>_. ls) \<and>
     (\<forall>ns n w. others SecretKind (fam (snd (rcDelete (csSecrets cs) ns n w))) = others SecretKind (fam w)) \<and>
     storesField secretData (\<lambda>w. typed asSecret (fam w SecretKind)) (connName m) (rcCreate (csSecrets cs)) \<and>
     storesField secretData (\<lambda>w. typed asSecret (fam w SecretKind)) (connName m) (rcUpdate (csSecrets cs))"

lemma secretsServerD:
  assumes "secretsServer R fam m cs ls"
  shows "clientName cs = connName m"
    and "kind_store R [(connName m, m)] KSecret Namespace (creatable SecretKind) (\<lambda>_. csSecrets cs)
       (\<lambda>w. typed asSecret (fam w SecretKind)) (\<lambda>w. others SecretKind (fam w)) (\<lambda>_. ls)"
    and "others SecretKind (fam (snd (rcDelete (csSecrets cs) ns n w))) = others SecretKind (fam w)"
    and "storesField secretData (\<lambda>w. typed asSecret (fam w SecretKind)) (connName m) (rcCreate (csSecrets cs))"
    and "storesField secretData (\<lambda>w. typed asSecret (fam w SecretKind)) (connName m) (rcUpdate (csSecrets cs))"
  using assms unfolding secretsServer_def by blast+

lemma connected [simp]: "mlookup [(connName m, m)] (connName m) = Some m"
  by simp

text \<open>The credentials in the system namespace: ensured, and left alone once they are settled.\<close>

lemma secrets_server_settles:
  assumes S: "secretsServer R fam m cs ls" and rand: "randKeeps fam R"
    and here: "fam (world s) NamespaceKind (connName m) [] VerrazzanoNamespace \<noteq> None"
  shows "wpt (CreateVmiSecrets R b (KubeSecrets VerrazzanoNamespace cs ls)) (\<lambda>e s'. e = None \<and>
    others SecretKind (fam (world s')) = others SecretKind (fam (world s)) \<and>
    credentialsSettled b (connName m) (typed asSecret (fam (world s') SecretKind)) \<and>
    onlyTouches (credentialsTouched b (connName m)) (typed asSecret (fam (world s) SecretKind))
      (typed asSecret (fam (world s') SecretKind))) s"
  by (rule credentials_settle [OF secretsServerD(2) [OF S] connected refl secretsServerD(3,4,5,1) [OF S]])
    (use rand here in \<open>simp_all add: randKeeps_def creatable_def const_defs\<close>)

lemma secrets_server_idle:
  assumes S: "secretsServer R fam m cs ls"
    and settled: "credentialsSettled b (connName m) (typed asSecret (fam (world s) SecretKind))"
  shows "CreateVmiSecrets R b (KubeSecrets VerrazzanoNamespace cs ls) s = (Ret None, s)"
proof -
  from settled obtain x where "typed asSecret (fam (world s) SecretKind) (connName m) VerrazzanoNamespace VmiSecretName = Some x"
      "complete x" "{x \<in> stored (typed asSecret (fam (world s) SecretKind)) (connName m) [].
        ofBinding b x \<and> otherSecret b x} = {}"
    unfolding credentialsSettled_def by blast
  from CreateVmiSecrets_idle [OF secretsServerD(2) [OF S] connected refl this] show ?thesis .
qed

text \<open>The clients and listers of a controller, for the three kinds it maintains there.\<close>

definition managementStores ::
  "'w runtime \<Rightarrow> ('w \<Rightarrow> clusterState) \<Rightarrow> 'w ManagedClusterConnection \<Rightarrow> 'w Controller \<Rightarrow> bool" where
  "managementStores R fam m c \<longleftrightarrow> KubeClient m = kubeClientSet c \<and>
     read_store R [(connName m, m)] KVMI Namespace (creatable VMIKind) (\<lambda>_. csVMIs (vmoClientSet c))
       (\<lambda>w. typed asVMI (fam w VMIKind)) (\<lambda>w. others VMIKind (fam w)) (\<lambda>_. vmiLister c) \<and>
     secretsServer R fam m (kubeClientSet c) (secretLister c) \<and>
     kind_store R [(connName m, m)] KConfigMap Namespace (creatable ConfigMapKind) (\<lambda>_. csConfigMaps (kubeClientSet c))
       (\<lambda>w. typed asConfigMap (fam w ConfigMapKind)) (\<lambda>w. others ConfigMapKind (fam w)) (\<lambda>_. configMapLister c) \<and>
     (\<forall>ns n w. others ConfigMapKind (fam (snd (rcDelete (csConfigMaps (kubeClientSet c)) ns n w))) = others ConfigMapKind (fam w)) \<and>
     storesField cmData (\<lambda>w. typed asConfigMap (fam w ConfigMapKind)) (connName m) (rcUpdate (csConfigMaps (kubeClientSet c)))"

lemma managementStoresD:
  assumes "managementStores R fam m c"
  shows "clientName (kubeClientSet c) = connName m"
    and "read_store R [(connName m, m)] KVMI Namespace (creatable VMIKind) (\<lambda>_. csVMIs (vmoClientSet c))
       (\<lambda>w. typed asVMI (fam w VMIKind)) (\<lambda>w. others VMIKind (fam w)) (\<lambda>_. vmiLister c)"
    and "secretsServer R fam m (kubeClientSet c) (secretLister c)"
    and "kind_store R [(connName m, m)] KConfigMap Namespace (creatable ConfigMapKind) (\<lambda>_. csConfigMaps (kubeClientSet c))
       (\<lambda>w. typed asConfigMap (fam w ConfigMapKind)) (\<lambda>w. others ConfigMapKind (fam w)) (\<lambda>_. configMapLister c)"
    and "others ConfigMapKind (fam (snd (rcDelete (csConfigMaps (kubeClientSet c)) ns n w))) = others ConfigMapKind (fam w)"
    and "storesField cmData (\<lambda>w. typed asConfigMap (fam w ConfigMapKind)) (connName m) (rcUpdate (csConfigMaps (kubeClientSet c)))"
  using assms unfolding managementStores_def secretsServer_def by blast+

text \<open>The instance, the credentials and the dashboards are settled.\<close>

definition systemSettled :: "'w runtime \<Rightarrow> VMI \<Rightarrow> ConfigMap \<Rightarrow> string \<Rightarrow> clusterState \<Rightarrow> bool" where
  "systemSettled R vmi new cl f \<longleftrightarrow>
     (\<exists>v. typed asVMI (f VMIKind) cl VerrazzanoNamespace VmiSystemBindingName = Some v \<and> vmiSettled R v vmi) \<and>
     credentialsSettled systemBinding cl (typed asSecret (f SecretKind)) \<and>
     dashboardsSettled systemBinding new cl (typed asConfigMap (f ConfigMapKind))"

text \<open>Nothing else has changed.\<close>

definition systemTouched :: "ConfigMap \<Rightarrow> string \<Rightarrow> clusterState \<Rightarrow> clusterState \<Rightarrow> bool" where
  "systemTouched new cl f f' \<longleftrightarrow>
     (\<forall>K. K \<in> {VMIKind, SecretKind, ConfigMapKind} \<or> f' K = f K) \<and>
     onlyTouches (\<lambda>cl' ns n _. cl' = cl \<and> ns = VerrazzanoNamespace \<and> n = VmiSystemBindingName)
       (typed asVMI (f VMIKind)) (typed asVMI (f' VMIKind)) \<and>
     onlyTouches (credentialsTouched systemBinding cl) (typed asSecret (f SecretKind)) (typed asSecret (f' SecretKind)) \<and>
     onlyTouches (dashboardsTouched systemBinding new cl) (typed asConfigMap (f ConfigMapKind)) (typed asConfigMap (f' ConfigMapKind))"

lemma systemBinding_name [simp]: "Name systemBinding = VmiSystemBindingName"
  by (simp add: systemBinding_def ObjectMeta.defs SyntheticBinding.defs noMeta_def)

text \<open>A round, on any state.\<close>

lemma global_entities_settle:
  fixes fam :: "'w \<Rightarrow> clusterState"
  assumes st: "managementStores R fam m c" and l: "localIface c = localPackage R Asset" and mo: "monitoring c = monitoringPackage R"
    and sec: "secrets c = KubeSecrets VerrazzanoNamespace (kubeClientSet c) (secretLister c)"
    and rand: "randKeeps fam R" and diff: "versionless R"
    and vmi: "createInstance R systemBinding (verrazzanoURI c) (enableMonitoringStorage c) = Inr vmi"
    and new: "newConfigMap R Asset systemBinding = Inr new"
    and ns: "fam (world s) NamespaceKind (connName m) [] VerrazzanoNamespace \<noteq> None"
  shows "wpt (createUpdateGlobalEntities systemBinding c) (\<lambda>_ s'.
    systemSettled R vmi new (connName m) (fam (world s')) \<and> systemTouched new (connName m) (fam (world s)) (fam (world s'))) s"
proof -
  let ?vmis = "\<lambda>w. typed asVMI (fam w VMIKind)"
  let ?secrets = "\<lambda>w. typed asSecret (fam w SecretKind)" and ?maps = "\<lambda>w. typed asConfigMap (fam w ConfigMapKind)"
  let ?here = "\<lambda>f. f NamespaceKind (connName m) [] VerrazzanoNamespace \<noteq> None"
  have 1: "wpt (CreateUpdateVmi R systemBinding (vmoClientSet c) (vmiLister c) (verrazzanoURI c) (enableMonitoringStorage c))
      (\<lambda>e s'. e = None \<and> others VMIKind (fam (world s')) = others VMIKind (fam (world s)) \<and>
        (\<exists>v. vmiSettled R v vmi \<and> ?vmis (world s') =
          put (connName m) VerrazzanoNamespace VmiSystemBindingName (Some v) (?vmis (world s)))) s"
    using CreateUpdateVmi_settles [OF managementStoresD(2) [OF st] connected refl diff vmi, of s] ns
    by (simp add: IsSystemProfileBindingName_def creatable_def const_defs)
  have 2: "wpt (CreateVmiSecrets R systemBinding (secrets c)) (\<lambda>e s'. e = None \<and>
      others SecretKind (fam (world s')) = others SecretKind (fam (world s1)) \<and>
      credentialsSettled systemBinding (connName m) (?secrets (world s')) \<and>
      onlyTouches (credentialsTouched systemBinding (connName m)) (?secrets (world s1)) (?secrets (world s'))) s1"
    if "?here (fam (world s1))" for s1
    unfolding sec by (rule secrets_server_settles [where m = m, OF managementStoresD(3) [OF st] rand that])
  have 3: "wpt (UpdateConfigMaps R Asset systemBinding (kubeClientSet c) (configMapLister c)) (\<lambda>e s'. e = None \<and>
      others ConfigMapKind (fam (world s')) = others ConfigMapKind (fam (world s1)) \<and>
      dashboardsSettled systemBinding new (connName m) (?maps (world s')) \<and>
      onlyTouches (dashboardsTouched systemBinding new (connName m)) (?maps (world s1)) (?maps (world s'))) s1" for s1
    by (rule dashboards_settle [OF managementStoresD(4) [OF st] connected refl managementStoresD(5,6,1) [OF st] new])
  show ?thesis
    unfolding createUpdateGlobalEntities_def logged_def l mo localPackage_def monitoringPackage_def
      localInterface.simps monitoringInterface.simps wpt_gbind wpt_gret
  proof (rule wpt_mono [OF 1], elim conjE exE, rule wpt_mono [OF 2])
    fix s1 :: "'w state" assume "others VMIKind (fam (world s1)) = others VMIKind (fam (world s))"
    from others_same [OF this, of NamespaceKind] ns show "?here (fam (world s1))" by simp
  next
    fix e v e2 and s1 s2 :: "'w state"
    assume o1: "others VMIKind (fam (world s1)) = others VMIKind (fam (world s))"
      and v: "vmiSettled R v vmi" "?vmis (world s1) = put (connName m) VerrazzanoNamespace VmiSystemBindingName (Some v) (?vmis (world s))"
      and 2: "e2 = None \<and> others SecretKind (fam (world s2)) = others SecretKind (fam (world s1)) \<and>
        credentialsSettled systemBinding (connName m) (?secrets (world s2)) \<and>
        onlyTouches (credentialsTouched systemBinding (connName m)) (?secrets (world s1)) (?secrets (world s2))"
    show "wpt (UpdateConfigMaps R Asset systemBinding (kubeClientSet c) (configMapLister c)) (\<lambda>_ s'.
        systemSettled R vmi new (connName m) (fam (world s')) \<and>
        systemTouched new (connName m) (fam (world s)) (fam (world s'))) s2"
    proof (rule wpt_mono [OF 3])
      fix e3 and s' :: "'w state"
      assume 3: "e3 = None \<and> others ConfigMapKind (fam (world s')) = others ConfigMapKind (fam (world s2)) \<and>
        dashboardsSettled systemBinding new (connName m) (?maps (world s')) \<and>
        onlyTouches (dashboardsTouched systemBinding new (connName m)) (?maps (world s2)) (?maps (world s'))"
      have f1: "K \<noteq> VMIKind \<Longrightarrow> fam (world s1) K = fam (world s) K" for K by (rule others_same [OF o1])
      have f2: "K \<noteq> SecretKind \<Longrightarrow> fam (world s2) K = fam (world s1) K" for K using 2 by (blast intro: others_same)
      have f3: "K \<noteq> ConfigMapKind \<Longrightarrow> fam (world s') K = fam (world s2) K" for K using 3 by (blast intro: others_same)
      show "systemSettled R vmi new (connName m) (fam (world s')) \<and>
          systemTouched new (connName m) (fam (world s)) (fam (world s'))"
        using 2 3 v by (auto simp: systemSettled_def systemTouched_def f1 f2 f3 onlyTouches_def put_apply)
    qed
  qed
qed

text \<open>A round, with everything settled, and from then on.\<close>

lemma global_entities_idle:
  fixes fam :: "'w \<Rightarrow> clusterState"
  assumes st: "managementStores R fam m c" and l: "localIface c = localPackage R Asset" and mo: "monitoring c = monitoringPackage R"
    and sec: "secrets c = KubeSecrets VerrazzanoNamespace (kubeClientSet c) (secretLister c)"
    and vmi: "createInstance R systemBinding (verrazzanoURI c) (enableMonitoringStorage c) = Inr vmi"
    and new: "newConfigMap R Asset systemBinding = Inr new"
    and settled: "systemSettled R vmi new (connName m) (fam (world s))"
  shows "createUpdateGlobalEntities systemBinding c s = (Ret (), s)"
proof -
  let ?v = "\<lambda>w. typed asVMI (fam w VMIKind)"
  from settled obtain v where v: "?v (world s) (connName m) VerrazzanoNamespace (Name systemBinding) = Some v" "vmiSettled R v vmi"
    unfolding systemSettled_def by auto
  have 1: "CreateUpdateVmi R systemBinding (vmoClientSet c) (vmiLister c) (verrazzanoURI c) (enableMonitoringStorage c) s = (Ret None, s)"
    by (rule CreateUpdateVmi_idle [OF managementStoresD(2) [OF st] connected vmi _ v]) (simp add: IsSystemProfileBindingName_def)
  have 2: "CreateVmiSecrets R systemBinding (secrets c) s = (Ret None, s)"
    unfolding sec by (rule secrets_server_idle [OF managementStoresD(3) [OF st]]) (use settled in \<open>simp add: systemSettled_def\<close>)
  have 3: "UpdateConfigMaps R Asset systemBinding (kubeClientSet c) (configMapLister c) s = (Ret None, s)"
    by (rule UpdateConfigMaps_idle [OF managementStoresD(4) [OF st] connected refl new])
      (use settled in \<open>auto simp: systemSettled_def dashboardsSettled_def split: option.splits\<close>)
  show ?thesis
    by (simp add: createUpdateGlobalEntities_def logged_def l mo localPackage_def monitoringPackage_def gbind_def 1 2 3 gret_def)
qed

lemma goroutine_idle:
  fixes fam :: "'w \<Rightarrow> clusterState"
  assumes idle: "\<And>s. systemSettled R vmi new cl (fam (world s)) \<Longrightarrow> createUpdateGlobalEntities b c s = (Ret (), s)"
    and pause: "\<And>w. fam (snd (pause w)) = fam w"
  shows "systemSettled R vmi new cl (fam (world s)) \<Longrightarrow>
    \<exists>s'. createUpdateGlobalEntitiesGoroutine n pause b c s = (Hang, s') \<and> sent s' = sent s \<and>
      fam (world s') = fam (world s)"
proof (induction n arbitrary: s)
  case (Suc n)
  let ?s = "s\<lparr>world := snd (pause (world s))\<rparr>"
  from Suc.prems Suc.IH [of ?s] obtain s' where
    "createUpdateGlobalEntitiesGoroutine n pause b c ?s = (Hang, s')" "sent s' = sent s" "fam (world s') = fam (world s)"
    by (auto simp: pause)
  then show ?case using idle [OF Suc.prems] by (simp add: gbind_def glift_def split_beta)
qed (simp add: ghang_def)

end
