(* ===== verification/Props_System.thy ===== *)
theory Props_System
  imports System_Instance Memory_Server Props_Controller
begin

text \<open>
  Properties of the credentials and of the system instance on a management cluster whose API server and
  listers agree, with the server in memory as their instance.
\<close>

section \<open>Credentials\<close>

text \<open>C10: on such a management cluster, whose system namespace exists, \<^verbatim>\<open>CreateVmiSecrets\<close> succeeds and leaves
  complete credentials and no other secret with the binding's label. It replaces credentials only if they
  are incomplete, deletes nothing but such other secrets, and does nothing when it is called again.\<close>

theorem vmi_secrets_kept:
  fixes fam :: "'w \<Rightarrow> clusterState"
  assumes "secretsServer R fam m cs ls" "randKeeps fam R"
    and "fam (world s) NamespaceKind (connName m) [] VerrazzanoNamespace \<noteq> None"
  shows "\<exists>s'. CreateVmiSecrets R b (KubeSecrets VerrazzanoNamespace cs ls) s = (Ret None, s') \<and>
    others SecretKind (fam (world s')) = others SecretKind (fam (world s)) \<and>
    credentialsSettled b (connName m) (typed asSecret (fam (world s') SecretKind)) \<and>
    onlyTouches (credentialsTouched b (connName m)) (typed asSecret (fam (world s) SecretKind))
      (typed asSecret (fam (world s') SecretKind)) \<and>
    CreateVmiSecrets R b (KubeSecrets VerrazzanoNamespace cs ls) s' = (Ret None, s')"
  using wptD [OF secrets_server_settles [OF assms, of b]] secrets_server_idle [OF assms(1)] by blast

text \<open>C20: on such a cluster without credentials, \<^verbatim>\<open>GetVmiPassword\<close> returns after a first \<^verbatim>\<open>CreateVmiSecrets\<close>
  a password of 16 letters and digits, and a later \<^verbatim>\<open>CreateVmiSecrets\<close>, for any binding, does not change it.\<close>

theorem vmi_password_stable:
  fixes fam :: "'w \<Rightarrow> clusterState"
  assumes S: "secretsServer R fam m cs ls" and rand: "randKeeps fam R"
    and none: "typed asSecret (fam (world s) SecretKind) (connName m) VerrazzanoNamespace VmiSecretName = None"
    and here: "fam (world s) NamespaceKind (connName m) [] VerrazzanoNamespace \<noteq> None"
  shows "\<exists>s1 s2 s3 s4 pw. CreateVmiSecrets R b (KubeSecrets VerrazzanoNamespace cs ls) s = (Ret None, s1) \<and>
     GetVmiPassword (KubeSecrets VerrazzanoNamespace cs ls) s1 = (Ret (pw, None), s2) \<and>
     length pw = 16 \<and> set pw \<subseteq> set passwordChars \<and>
     CreateVmiSecrets R b' (KubeSecrets VerrazzanoNamespace cs ls) s2 = (Ret None, s3) \<and>
     GetVmiPassword (KubeSecrets VerrazzanoNamespace cs ls) s3 = (Ret (pw, None), s4)"
  by (rule secrets_store.password_stable [OF kube_secrets_store [OF secretsServerD(2) [OF S] connected refl
        secretsServerD(3,4,5,1) [OF S]]])
    (use rand none here in \<open>simp_all add: randKeeps_def creatable_def const_defs\<close>)

section \<open>The management cluster in memory\<close>

lemma seen_delete_other: "K \<noteq> NamespaceKind \<Longrightarrow> K' \<noteq> K \<Longrightarrow> seen (deleted K ns n ys) K' = seen ys K'"
  by (simp add: seen_def inTable_deleted creatable_def fun_eq_iff split: kind.split)

lemma memory_delete_keeps:
  "K \<noteq> NamespaceKind \<Longrightarrow> others K (memory (snd (rcDelete (tableClient K wrap un nsOf cl) ns n w))) = others K (memory w)"
  by (auto simp: others_def memory_def fun_eq_iff tableClient_def seen_delete_other)

lemma memory_stores_field:
  assumes shape: "shape K wrap un Namespace" and K: "K \<noteq> NamespaceKind"
  shows "storesField fld (\<lambda>w. typed un (memory w K)) cl (rcCreate (tableClient K wrap un Namespace cl))"
    and "storesField fld (\<lambda>w. typed un (memory w K)) cl (rcUpdate (tableClient K wrap un Namespace cl))"
proof -
  have "y = x" if "typed un (memory (w(cl := added (wrap x) (w cl))) K) cl (Namespace x) (Name x) = Some y" for x w y
    using that shapeD(1-4) [OF shape, of x] K
    by (auto simp: typed_def memory_def seen_def inTable_added split: if_splits)
  then show "storesField fld (\<lambda>w. typed un (memory w K)) cl (rcCreate (tableClient K wrap un Namespace cl))"
    unfolding storesField_def by (auto simp: tableClient_def split: if_splits)
  have "y = x" if "typed un (memory (w(cl := wrap x # w cl)) K) cl (Namespace x) (Name x) = Some y" for x w y
    using that shapeD(1-4) [OF shape, of x]
    by (auto simp: typed_def memory_def seen_def inTable_Cons split: if_splits)
  then show "storesField fld (\<lambda>w. typed un (memory w K)) cl (rcUpdate (tableClient K wrap un Namespace cl))"
    unfolding storesField_def by (auto simp: tableClient_def split: if_splits)
qed

lemma memory_versionless: "versionless memoryRuntime"
proof -
  have "keepPvcNames v (new\<lparr>ResourceVersion := r\<rparr>)\<lparr>ResourceVersion := []\<rparr> = v\<lparr>ResourceVersion := []\<rparr>"
    if "v\<lparr>ResourceVersion := []\<rparr> = new\<lparr>ResourceVersion := []\<rparr>" for v new :: VMI and r
    using that by (cases v; cases new) (simp add: keepPvcNames_def ObjectMeta.defs VMI.defs)
  then show ?thesis by (auto simp: versionless_def memoryRuntime_def)
qed

text \<open>The listers of pkg/testutil on its client set, for secrets the one that heeds the selector.\<close>

abbreviation "localSet \<equiv> memoryClientset ''local''"
abbreviation "localSecrets \<equiv> simpleLister (csNamespaces localSet) (csSecrets localSet)"
abbreviation "localVmis \<equiv> simpleLister (csNamespaces localSet) (csVMIs localSet)"
abbreviation "localMaps \<equiv> simpleLister (csNamespaces localSet) (csConfigMaps localSet)"

definition systemController :: "tables Controller" where
  "systemController = (plainController [])
     \<lparr>localIface := localPackage memoryRuntime (\<lambda>_. Inr ''dashboard''), monitoring := monitoringPackage memoryRuntime,
      kubeClientSet := localSet, vmoClientSet := localSet, secretLister := localSecrets, configMapLister := localMaps,
      vmiLister := localVmis, secrets := KubeSecrets VerrazzanoNamespace localSet localSecrets\<rparr>"

lemma local_name: "connName (memoryConnection ''local'') = ''local''" "KubeClient (memoryConnection ''local'') = localSet"
  "clientName localSet = ''local''"
  by (simp_all add: memory_defs)

lemma local_store:
  assumes K: "kind_store memoryRuntime memoryConnections wrap Namespace (creatable K) (\<lambda>c. cs (KubeClient c)) view rest
    (\<lambda>c. simpleLister (csNamespaces (KubeClient c)) (cs (KubeClient c)))"
  shows "kind_store memoryRuntime [(connName (memoryConnection ''local''), memoryConnection ''local'')] wrap Namespace
    (creatable K) (\<lambda>_. cs localSet) view rest (\<lambda>_. simpleLister (csNamespaces localSet) (cs localSet))"
  by (rule kind_store_cong [OF kind_store_restrict [OF K]])
    (auto simp: local_name memoryConnections_def split: if_splits)

lemma memory_secretsServer: "secretsServer memoryRuntime memory (memoryConnection ''local'') localSet localSecrets"
proof -
  have c: "csSecrets localSet = tableClient SecretKind KSecret asSecret Namespace ''local''"
    by (simp add: memoryClientset_def)
  show ?thesis
    unfolding secretsServer_def
    by (intro conjI local_store [where cs = csSecrets] scts.namespaced_lister refl allI)
      (simp_all add: c memory_delete_keeps memory_stores_field local_name memoryClientset_def [of "''local''"])
qed

lemma memory_management: "managementStores memoryRuntime memory (memoryConnection ''local'') systemController"
proof -
  have c: "csConfigMaps localSet = tableClient ConfigMapKind KConfigMap asConfigMap Namespace ''local''"
    by (simp add: memoryClientset_def)
  have s: "kubeClientSet systemController = localSet" "vmoClientSet systemController = localSet"
    "secretLister systemController = localSecrets" "vmiLister systemController = localVmis"
    "configMapLister systemController = localMaps"
    by (simp_all add: systemController_def)
  show ?thesis
    unfolding managementStores_def s
    by (intro conjI local_store [where cs = csConfigMaps] cms.namespaced_lister memory_secretsServer
        kind_store.axioms(1) [OF local_store [where cs = csVMIs]] vmis.namespaced_lister refl allI)
      (simp_all add: c memory_delete_keeps memory_stores_field local_name)
qed

lemma memory_randKeeps: "randKeeps memory memoryRuntime"
  by (simp add: randKeeps_def fairRand_def memoryRuntime_def plainRuntime_def)

text \<open>It has its system namespace, and a stale secret of the system binding.\<close>

definition systemTables :: tables where
  "systemTables = (\<lambda>_. [KNamespace (plainNamespace VerrazzanoNamespace),
     KSecret (ObjectMeta.extend (noMeta\<lparr>Name := ''stale'', Namespace := VerrazzanoNamespace,
       Labels := [(VerrazzanoBinding, VmiSystemBindingName)]\<rparr>) (Secret.fields [] []))])"

lemma systemTables_namespace:
  "memory systemTables NamespaceKind (connName (memoryConnection ''local'')) [] VerrazzanoNamespace \<noteq> None"
  by (simp add: systemTables_def memory_def seen_Namespace inTable_def plainNamespace_def ObjectMeta.defs NamespaceObj.defs
      noMeta_def const_defs)

lemma system_dashboards: "\<exists>new. newConfigMap memoryRuntime (\<lambda>_. Inr ''dashboard'') systemBinding = Inr new"
  using addDashboards_Inl [of "\<lambda>_. Inr ''dashboard''" "dashboardsFor memoryRuntime (Name systemBinding)" "[]"]
  by (auto simp: newConfigMap_def split: sum.split)

lemma vmi_secrets_kept_witness:
  "\<exists>s' x. CreateVmiSecrets memoryRuntime systemBinding (KubeSecrets VerrazzanoNamespace localSet localSecrets)
       \<lparr>sent = [], world = systemTables\<rparr> = (Ret None, s') \<and>
     typed asSecret (memory (world s') SecretKind) ''local'' VerrazzanoNamespace VmiSecretName = Some x \<and> complete x"
  using vmi_secrets_kept [OF memory_secretsServer memory_randKeeps, of "\<lparr>sent = [], world = systemTables\<rparr>" systemBinding]
    systemTables_namespace
  by (auto simp: credentialsSettled_def local_name)

lemma vmi_password_stable_witness:
  "\<exists>s1 s2 pw. CreateVmiSecrets memoryRuntime plainBinding (KubeSecrets VerrazzanoNamespace localSet localSecrets)
       \<lparr>sent = [], world = systemTables\<rparr> = (Ret None, s1) \<and>
     GetVmiPassword (KubeSecrets VerrazzanoNamespace localSet localSecrets) s1 = (Ret (pw, None), s2) \<and> length pw = 16"
proof -
  have "typed asSecret (memory systemTables SecretKind) (connName (memoryConnection ''local'')) VerrazzanoNamespace
      VmiSecretName = None"
    by (simp add: typed_def memory_def seen_def inTable_def systemTables_def ObjectMeta.defs Secret.defs noMeta_def
        VmiSecretName_def)
  then show ?thesis
    using vmi_password_stable [OF memory_secretsServer memory_randKeeps, of "\<lparr>sent = [], world = systemTables\<rparr>"
        plainBinding plainBinding] systemTables_namespace
    by (auto; blast)
qed

section \<open>The system instance\<close>

text \<open>C14: on a management cluster with its system namespace, whose API server and listers agree, one round of
  \<^verbatim>\<open>createUpdateGlobalEntities\<close> establishes the system instance with its credentials and, where it has a
  config map, its dashboards, removes what else carries the binding's label among secrets and config maps,
  and touches nothing else; the endless loop of such rounds sends nothing more after its first, however
  many follow.\<close>

theorem system_instance_established:
  fixes fam :: "'w \<Rightarrow> clusterState"
  assumes "managementStores R fam m c" "localIface c = localPackage R Asset" "monitoring c = monitoringPackage R"
    and "secrets c = KubeSecrets VerrazzanoNamespace (kubeClientSet c) (secretLister c)"
    and "randKeeps fam R" "versionless R" and pause: "\<And>w. fam (snd (pause w)) = fam w"
    and "createInstance R systemBinding (verrazzanoURI c) (enableMonitoringStorage c) = Inr vmi"
    and "newConfigMap R Asset systemBinding = Inr new"
    and "fam (world s) NamespaceKind (connName m) [] VerrazzanoNamespace \<noteq> None"
  shows "\<exists>s1 s2. createUpdateGlobalEntities systemBinding c s = (Ret (), s1) \<and>
     systemSettled R vmi new (connName m) (fam (world s1)) \<and>
     systemTouched new (connName m) (fam (world s)) (fam (world s1)) \<and>
     createUpdateGlobalEntitiesGoroutine (Suc n) pause systemBinding c s = (Hang, s2) \<and>
     sent s2 = sent s1 \<and> fam (world s2) = fam (world s1)"
proof -
  from wptD [OF global_entities_settle [OF assms(1-6,8-10)]] obtain s1 where
    1: "createUpdateGlobalEntities systemBinding c s = (Ret (), s1)"
    and settled: "systemSettled R vmi new (connName m) (fam (world s1))"
    and touched: "systemTouched new (connName m) (fam (world s)) (fam (world s1))" by auto
  let ?s = "s1\<lparr>world := snd (pause (world s1))\<rparr>"
  from settled have "systemSettled R vmi new (connName m) (fam (world ?s))" by (simp add: pause)
  from goroutine_idle [OF global_entities_idle [OF assms(1-4,8,9)] pause this] obtain s2 where
    "createUpdateGlobalEntitiesGoroutine n pause systemBinding c ?s = (Hang, s2)" "sent s2 = sent s1"
    "fam (world s2) = fam (world s1)" by (auto simp: pause)
  with 1 settled touched show ?thesis by (simp add: gbind_def glift_def split_beta)
qed

lemma system_instance_established_witness:
  "\<exists>s1 s2 v. createUpdateGlobalEntities systemBinding systemController \<lparr>sent = [], world = systemTables\<rparr> = (Ret (), s1) \<and>
     typed asVMI (memory (world s1) VMIKind) ''local'' VerrazzanoNamespace VmiSystemBindingName = Some v \<and>
     createUpdateGlobalEntitiesGoroutine 3 (\<lambda>w. ((), w)) systemBinding systemController
       \<lparr>sent = [], world = systemTables\<rparr> = (Hang, s2) \<and> sent s2 = sent s1"
proof -
  have c: "localIface systemController = localPackage memoryRuntime (\<lambda>_. Inr ''dashboard'')"
    "monitoring systemController = monitoringPackage memoryRuntime"
    "secrets systemController = KubeSecrets VerrazzanoNamespace (kubeClientSet systemController) (secretLister systemController)"
    and uri: "verrazzanoURI systemController \<noteq> []"
    by (simp_all add: systemController_def) (simp add: plainController_def)
  from createInstance_Inr [OF uri] obtain vmi where vmi: "createInstance memoryRuntime systemBinding
      (verrazzanoURI systemController) (enableMonitoringStorage systemController) = Inr vmi" by blast
  from system_dashboards obtain new where new: "newConfigMap memoryRuntime (\<lambda>_. Inr ''dashboard'') systemBinding = Inr new" ..
  from system_instance_established [OF memory_management c memory_randKeeps memory_versionless _ vmi new, of "\<lambda>w. ((), w)"
      "\<lparr>sent = [], world = systemTables\<rparr>" 2] systemTables_namespace
  show ?thesis by (auto simp: systemSettled_def local_name numeral_3_eq_3 numeral_2_eq_2 simp del: createUpdateGlobalEntitiesGoroutine.simps)
qed

end
