(* ===== verification/Command.thy ===== *)
theory Command
  imports Controller
begin

text \<open>
  cmd/verrazzano-operator/main.go: the command line flags and the main function. The flags of the
  logging library are a parameter (\<open>extraFlags\<close>); setting up the logger is not modelled. Parsing is
  the standard library's package flag, with its \<^verbatim>\<open>ExitOnError\<close>: a syntax error or a request for help
  ends the process.
\<close>

section \<open>Flags\<close>

record flagVars =
  flMasterURL :: string
  flKubeconfig :: string
  flWatchNamespace :: string
  flVerrazzanoURI :: string
  flObsoleteFlag :: string
  flEnableMonitoringStorage :: string
  flApiServerRealm :: string
  flStartController :: bool

definition apiVersionPrefix :: string where
  "apiVersionPrefix = ''/20210501''"

text \<open>A registered flag: the variable it sets, its name and its default.\<close>

type_synonym stringFlag = "(string \<Rightarrow> flagVars \<Rightarrow> flagVars) \<times> string \<times> string"
type_synonym boolFlag = "(bool \<Rightarrow> flagVars \<Rightarrow> flagVars) \<times> string \<times> bool"

definition stringFlags :: "stringFlag list" where
  "stringFlags =
     [(\<lambda>v. flMasterURL_update (\<lambda>_. v), ''master'', ''''),
      (\<lambda>v. flKubeconfig_update (\<lambda>_. v), ''kubeconfig'', ''''),
      (\<lambda>v. flWatchNamespace_update (\<lambda>_. v), ''watchNamespace'', ''''),
      (\<lambda>v. flVerrazzanoURI_update (\<lambda>_. v), ''verrazzanoUri'', ''''),
      (\<lambda>v. flObsoleteFlag_update (\<lambda>_. v), ''helidonAppOperatorDeployment'', ''''),
      (\<lambda>v. flEnableMonitoringStorage_update (\<lambda>_. v), ''enableMonitoringStorage'', ''true''),
      (\<lambda>v. flApiServerRealm_update (\<lambda>_. v), ''apiServerRealm'', '''')]"

definition boolFlags :: "boolFlag list" where
  "boolFlags = [(\<lambda>v. flStartController_update (\<lambda>_. v), ''startController'', True)]"

text \<open>\<^verbatim>\<open>flag.StringVar\<close> and \<^verbatim>\<open>flag.BoolVar\<close> store the default in the variable.\<close>

definition initFlags :: "flagVars \<Rightarrow> flagVars" where
  "initFlags vars = fold (\<lambda>(assign, _, v). assign v) boolFlags (fold (\<lambda>(assign, _, v). assign v) stringFlags vars)"

definition zeroVars :: flagVars where
  "zeroVars = \<lparr>flMasterURL = [], flKubeconfig = [], flWatchNamespace = [], flVerrazzanoURI = [],
     flObsoleteFlag = [], flEnableMonitoringStorage = [], flApiServerRealm = [], flStartController = False\<rparr>"

section \<open>Parsing\<close>

text \<open>
  For the flags of the logging library: whether there is one of the name and if so whether it is a
  boolean flag, and whether it accepts a value.
\<close>

record extraFlags =
  exIsBool :: "string \<Rightarrow> bool option"
  exAccepts :: "string \<Rightarrow> string \<Rightarrow> bool"

definition findFlag :: "string \<Rightarrow> ('s \<times> string \<times> 'v) list \<Rightarrow> 's option" where
  "findFlag name fs = map_option fst (find (\<lambda>(_, n, _). n = name) fs)"

text \<open>Is there a flag of the name, and if so, is it boolean?\<close>

definition isBoolFlag :: "extraFlags \<Rightarrow> string \<Rightarrow> bool option" where
  "isBoolFlag X name =
     (case findFlag name stringFlags of Some _ \<Rightarrow> Some False
      | None \<Rightarrow> (case findFlag name boolFlags of Some _ \<Rightarrow> Some True | None \<Rightarrow> exIsBool X name))"

text \<open>\<^verbatim>\<open>flag.Value.Set\<close>; \<open>None\<close> is an error.\<close>

definition setFlag :: "extraFlags \<Rightarrow> string \<Rightarrow> string \<Rightarrow> flagVars \<Rightarrow> flagVars option" where
  "setFlag X name value vars =
     (case findFlag name stringFlags of
        Some assign \<Rightarrow> Some (assign value vars)
      | None \<Rightarrow>
          (case findFlag name boolFlags of
             Some assign \<Rightarrow> map_option (\<lambda>b. assign b vars) (parseBool value)
           | None \<Rightarrow> if exAccepts X name value then Some vars else None))"

datatype parsed = Parsed flagVars "string list" | HelpWanted | BadFlags string

text \<open>The name and, after the first equals sign, the value.\<close>

definition splitFlag :: "string \<Rightarrow> string \<times> string option" where
  "splitFlag s =
     (case dropWhile (\<lambda>c. c \<noteq> CHR ''='') s of
        [] \<Rightarrow> (s, None)
      | _ # value \<Rightarrow> (takeWhile (\<lambda>c. c \<noteq> CHR ''='') s, Some value))"

definition minuses :: "string \<Rightarrow> nat" where
  "minuses s = (if take 2 s = ''--'' then 2 else 1)"

text \<open>
  \<^verbatim>\<open>FlagSet.Parse\<close>. It stops at the first argument that is no flag, or after \<^verbatim>\<open>--\<close>; a flag that is not
  boolean takes the next argument as its value when it has none of its own.
\<close>

fun parseFlags :: "extraFlags \<Rightarrow> flagVars \<Rightarrow> string list \<Rightarrow> parsed" where
  "parseFlags X vars [] = Parsed vars []"
| "parseFlags X vars (s # args) =
     (if length s < 2 \<or> hd s \<noteq> CHR ''-'' then Parsed vars (s # args)
      else if s = ''--'' then Parsed vars args
      else
        let flag = drop (minuses s) s
        in if flag = [] \<or> hd flag = CHR ''-'' \<or> hd flag = CHR ''='' then BadFlags (''bad flag syntax: '' @ s)
        else
          (case splitFlag flag of (name, value) \<Rightarrow>
             (case isBoolFlag X name of
                None \<Rightarrow>
                  if name = ''help'' \<or> name = ''h'' then HelpWanted
                  else BadFlags (''flag provided but not defined: -'' @ name)
              | Some True \<Rightarrow>
                  (case setFlag X name (case value of None \<Rightarrow> ''true'' | Some v \<Rightarrow> v) vars of
                     None \<Rightarrow> BadFlags (''invalid boolean flag '' @ name)
                   | Some vars \<Rightarrow> parseFlags X vars args)
              | Some False \<Rightarrow>
                  (case (value, args) of
                     (Some v, _) \<Rightarrow>
                       (case setFlag X name v vars of
                          None \<Rightarrow> BadFlags (''invalid value for flag -'' @ name)
                        | Some vars \<Rightarrow> parseFlags X vars args)
                   | (None, v # rest) \<Rightarrow>
                       (case setFlag X name v vars of
                          None \<Rightarrow> BadFlags (''invalid value for flag -'' @ name)
                        | Some vars \<Rightarrow> parseFlags X vars rest)
                   | (None, []) \<Rightarrow> BadFlags (''flag needs an argument: -'' @ name)))))"

section \<open>The main function\<close>

text \<open>\<^verbatim>\<open>flag.Parse()\<close> of the command line exits on an error, with status 0 if help was asked for.\<close>

definition prepare :: "extraFlags \<Rightarrow> flagVars \<Rightarrow> string list \<Rightarrow> ('w, flagVars \<times> err option) prog" where
  "prepare X vars args =
     (case parseFlags X vars args of
        HelpWanted \<Rightarrow> gpanic (FatalExit ''exit status 0'')
      | BadFlags msg \<Rightarrow> gpanic (FatalExit ''exit status 2'')
      | Parsed vars _ \<Rightarrow> gret (vars, None))"

text \<open>\<^verbatim>\<open>init\<close> registers the flags before. Nothing ever sends on the channel \<^verbatim>\<open>apiServerExited\<close>.\<close>

definition main ::
  "'w runtime \<Rightarrow> ('cfg, 'w) controllerLib \<Rightarrow> 'w packages \<Rightarrow>
   (string \<Rightarrow> string \<Rightarrow> 'w \<Rightarrow> (err + 'cfg) \<times> 'w) \<Rightarrow> extraFlags \<Rightarrow> string list \<Rightarrow> ('w, unit) prog" where
  "main R L P BuildConfigFromFlags X args =
     gbind (prepare X (initFlags zeroVars) args) (\<lambda>(vars, err).
       case err of
         Some _ \<Rightarrow> gpanic (FatalExit ''Failed loading manifest'')
       | None \<Rightarrow>
     orFatal ''Failed creating the controller configuration''
       (BuildConfigFromFlags (flMasterURL vars) (flKubeconfig vars)) (\<lambda>config.
     gbind (NewController L P config (flWatchNamespace vars) (flVerrazzanoURI vars)
              (flEnableMonitoringStorage vars)) (\<lambda>(controller, err).
       case err of
         Some _ \<Rightarrow> gpanic (FatalExit ''Failed creating the controller'')
       | None \<Rightarrow>
           if flStartController vars then
             gbind (Run R controller (flKubeconfig vars)) (\<lambda>err.
               case err of
                 Some _ \<Rightarrow> gpanic (FatalExit ''Failed running controller'')
               | None \<Rightarrow> ghang)
           else ghang)))"

section \<open>Arguments for given settings\<close>

definition flagArg :: "string \<Rightarrow> string \<Rightarrow> string" where
  "flagArg name value = CHR ''-'' # name @ CHR ''='' # value"

definition renderFlags :: "flagVars \<Rightarrow> string list" where
  "renderFlags vars =
     [flagArg ''master'' (flMasterURL vars), flagArg ''kubeconfig'' (flKubeconfig vars),
      flagArg ''watchNamespace'' (flWatchNamespace vars), flagArg ''verrazzanoUri'' (flVerrazzanoURI vars),
      flagArg ''helidonAppOperatorDeployment'' (flObsoleteFlag vars),
      flagArg ''enableMonitoringStorage'' (flEnableMonitoringStorage vars),
      flagArg ''apiServerRealm'' (flApiServerRealm vars),
      flagArg ''startController'' (if flStartController vars then ''true'' else ''false'')]"

declare parseFlags.simps(2) [simp del]

text \<open>One argument with a value of its own.\<close>

lemma splitFlag_value: "CHR ''='' \<notin> set n \<Longrightarrow> splitFlag (n @ CHR ''='' # v) = (n, Some v)"
  by (simp add: splitFlag_def dropWhile_append takeWhile_append dropWhile_eq_Nil_conv)

lemma parseFlags_string:
  assumes "findFlag n stringFlags = Some assign" "CHR ''='' \<notin> set n" "n \<noteq> []" "hd n \<noteq> CHR ''-''"
  shows "parseFlags X vars (flagArg n v # args) = parseFlags X (assign v vars) args"
proof -
  from assms(3,4) obtain c n' where n: "n = c # n'" "c \<noteq> CHR ''-''" by (cases n) auto
  with assms(2) have "c \<noteq> CHR ''=''" by auto
  with n assms(1) show ?thesis
    using splitFlag_value [OF assms(2), of v] by (simp add: parseFlags.simps(2) flagArg_def minuses_def isBoolFlag_def setFlag_def Let_def)
qed

lemma parseFlags_bool:
  assumes "findFlag n stringFlags = None" "findFlag n boolFlags = Some assign"
    and "CHR ''='' \<notin> set n" "n \<noteq> []" "hd n \<noteq> CHR ''-''" "parseBool v = Some b"
  shows "parseFlags X vars (flagArg n v # args) = parseFlags X (assign b vars) args"
proof -
  from assms(4,5) obtain c n' where n: "n = c # n'" "c \<noteq> CHR ''-''" by (cases n) auto
  with assms(3) have "c \<noteq> CHR ''=''" by auto
  with n assms(1,2,6) show ?thesis
    using splitFlag_value [OF assms(3), of v] by (simp add: parseFlags.simps(2) flagArg_def minuses_def isBoolFlag_def setFlag_def Let_def)
qed

lemma parse_flags:
  "parseFlags X vars (flagArg ''master'' v # args) = parseFlags X (vars\<lparr>flMasterURL := v\<rparr>) args"
  "parseFlags X vars (flagArg ''kubeconfig'' v # args) = parseFlags X (vars\<lparr>flKubeconfig := v\<rparr>) args"
  "parseFlags X vars (flagArg ''watchNamespace'' v # args) = parseFlags X (vars\<lparr>flWatchNamespace := v\<rparr>) args"
  "parseFlags X vars (flagArg ''verrazzanoUri'' v # args) = parseFlags X (vars\<lparr>flVerrazzanoURI := v\<rparr>) args"
  "parseFlags X vars (flagArg ''helidonAppOperatorDeployment'' v # args) =
     parseFlags X (vars\<lparr>flObsoleteFlag := v\<rparr>) args"
  "parseFlags X vars (flagArg ''enableMonitoringStorage'' v # args) =
     parseFlags X (vars\<lparr>flEnableMonitoringStorage := v\<rparr>) args"
  "parseFlags X vars (flagArg ''apiServerRealm'' v # args) = parseFlags X (vars\<lparr>flApiServerRealm := v\<rparr>) args"
  by (rule trans [OF parseFlags_string]; simp add: findFlag_def stringFlags_def)+

lemma parse_startController:
  "parseFlags X vars (flagArg ''startController'' (if b then ''true'' else ''false'') # args) =
     parseFlags X (vars\<lparr>flStartController := b\<rparr>) args"
  by (rule trans [OF parseFlags_bool]; simp add: findFlag_def stringFlags_def boolFlags_def parseBool_def)

end
