(* ===== verification/Signals.thy ===== *)
theory Signals
  imports Main
begin

text \<open>
  pkg/signals/signal.go: the handler of the shutdown signals as a state machine. The process is the
  state: whether the handler is set up, the channel the signals are delivered through (a buffer of
  two; the runtime drops a signal that does not fit), how far the handler's goroutine is, whether the
  stop channel is closed and how the process has ended. \<open>arrived\<close> counts the shutdown signals since
  the set-up; no step reads it.
\<close>

datatype goroutine = FirstReceive | SecondReceive | Gone

datatype ending = Panicked | KilledBySignal | Exited nat

record process =
  onlyOneClosed :: bool \<comment> \<open>\<^verbatim>\<open>onlyOneSignalHandler\<close>\<close>
  buffered :: nat
  handlerAt :: goroutine
  stopClosed :: bool
  ended :: "ending option"
  arrived :: nat

definition initialProcess :: process where
  "initialProcess = \<lparr>onlyOneClosed = False, buffered = 0, handlerAt = FirstReceive, stopClosed = False,
     ended = None, arrived = 0\<rparr>"

definition channelSize :: nat where
  "channelSize = 2"

datatype sigevent = SetUp | Shutdown | Receive

text \<open>
  \<^verbatim>\<open>SetupSignalHandler\<close> closes a channel first, which panics the second time. A shutdown signal ends a
  process that has no handler for it. The goroutine receives, closes \<^verbatim>\<open>stop\<close>, receives again and
  exits.
\<close>

fun sigstep :: "sigevent \<Rightarrow> process \<Rightarrow> process option" where
  "sigstep SetUp p =
     (if ended p \<noteq> None then None
      else if onlyOneClosed p then Some (p\<lparr>ended := Some Panicked\<rparr>)
      else Some (p\<lparr>onlyOneClosed := True\<rparr>))"
| "sigstep Shutdown p =
     (if ended p \<noteq> None then None
      else if \<not> onlyOneClosed p then Some (p\<lparr>ended := Some KilledBySignal\<rparr>)
      else Some (p\<lparr>buffered := min channelSize (Suc (buffered p)), arrived := Suc (arrived p)\<rparr>))"
| "sigstep Receive p =
     (if ended p \<noteq> None \<or> \<not> onlyOneClosed p \<or> buffered p = 0 then None
      else (case handlerAt p of
          FirstReceive \<Rightarrow> Some (p\<lparr>buffered := buffered p - 1, handlerAt := SecondReceive, stopClosed := True\<rparr>)
        | SecondReceive \<Rightarrow> Some (p\<lparr>buffered := buffered p - 1, handlerAt := Gone, ended := Some (Exited 1)\<rparr>)
        | Gone \<Rightarrow> None))"

inductive sigreach :: "process \<Rightarrow> bool" where
  sig_init: "sigreach initialProcess"
| sig_step: "sigreach p \<Longrightarrow> sigstep e p = Some p' \<Longrightarrow> sigreach p'"

section \<open>Invariant\<close>

fun received :: "goroutine \<Rightarrow> nat" where
  "received FirstReceive = 0" | "received SecondReceive = 1" | "received Gone = 2"

definition sig_ok :: "process \<Rightarrow> bool" where
  "sig_ok p \<longleftrightarrow>
     (stopClosed p \<longleftrightarrow> handlerAt p \<noteq> FirstReceive) \<and>
     (handlerAt p = Gone \<longleftrightarrow> ended p = Some (Exited 1)) \<and>
     ended p \<in> {None, Some Panicked, Some KilledBySignal, Some (Exited 1)} \<and>
     buffered p \<le> channelSize \<and>
     received (handlerAt p) + buffered p \<le> arrived p \<and>
     (1 \<le> arrived p \<longrightarrow> 1 \<le> received (handlerAt p) + buffered p) \<and>
     (2 \<le> arrived p \<longrightarrow> 2 \<le> received (handlerAt p) + buffered p) \<and>
     (\<not> onlyOneClosed p \<longrightarrow> arrived p = 0 \<and> handlerAt p = FirstReceive)"

lemma sig_ok_SetUp: "sig_ok p \<Longrightarrow> sigstep SetUp p = Some p' \<Longrightarrow> sig_ok p'"
  by (cases "ended p"; cases "onlyOneClosed p") (auto simp: sig_ok_def)

lemma sig_ok_Shutdown:
  assumes "sig_ok p" "sigstep Shutdown p = Some p'"
  shows "sig_ok p'"
proof -
  have e: "ended p = None" using assms(2) by (simp split: if_splits)
  show ?thesis
  proof (cases "onlyOneClosed p")
    case True
    with assms(2) e have p': "p' = p\<lparr>buffered := min 2 (Suc (buffered p)), arrived := Suc (arrived p)\<rparr>"
      by (simp add: channelSize_def)
    with assms(1) e True show ?thesis
      by (cases "handlerAt p"; simp add: sig_ok_def channelSize_def; linarith)
  qed (use assms e in \<open>auto simp: sig_ok_def\<close>)
qed

lemma sig_ok_Receive:
  assumes "sig_ok p" "sigstep Receive p = Some p'"
  shows "sig_ok p'"
proof -
  have e: "ended p = None" "onlyOneClosed p" "buffered p \<noteq> 0" using assms(2) by (auto split: if_splits)
  with assms(2) show ?thesis
    using assms(1) by (cases "handlerAt p"; auto simp: sig_ok_def channelSize_def)
qed

lemma sig_ok_step: "sig_ok p \<Longrightarrow> sigstep e p = Some p' \<Longrightarrow> sig_ok p'"
  by (cases e) (blast intro: sig_ok_SetUp sig_ok_Shutdown sig_ok_Receive)+

lemma sigreach_ok: "sigreach p \<Longrightarrow> sig_ok p"
proof (induction rule: sigreach.induct)
  case sig_init
  show ?case by (simp add: sig_ok_def initialProcess_def)
qed (rule sig_ok_step)

lemma sig_ok_stop: "sig_ok p \<Longrightarrow> stopClosed p \<Longrightarrow> 1 \<le> arrived p"
  by (cases "handlerAt p"; simp add: sig_ok_def)

lemma sig_ok_exit:
  assumes "sig_ok p" "ended p = Some (Exited n)"
  shows "n = 1 \<and> 2 \<le> arrived p"
  using assms by (auto simp: sig_ok_def)

text \<open>The goroutine by itself.\<close>

inductive drained :: "process \<Rightarrow> process \<Rightarrow> bool" where
  drain_stop: "sigstep Receive p = None \<Longrightarrow> drained p p"
| drain_step: "sigstep Receive p = Some p' \<Longrightarrow> drained p' p'' \<Longrightarrow> drained p p''"

code_pred drained .

lemma drained_cases:
  assumes "sig_ok p" "ended p = None"
  shows "\<exists>p'. drained p p' \<and> ended p' = (if 2 \<le> arrived p then Some (Exited 1) else None) \<and>
    stopClosed p' = (1 \<le> arrived p)"
proof (cases "handlerAt p")
  case FirstReceive
  let ?p1 = "p\<lparr>buffered := buffered p - 1, handlerAt := SecondReceive, stopClosed := True\<rparr>"
  let ?p2 = "?p1\<lparr>buffered := buffered p - 2, handlerAt := Gone, ended := Some (Exited 1)\<rparr>"
  consider "buffered p = 0" | "buffered p = 1" | "buffered p \<ge> 2" by linarith
  then show ?thesis
  proof cases
    case 1
    with assms FirstReceive show ?thesis
      by (intro exI [of _ p] conjI drain_stop) (auto simp: sig_ok_def)
  next
    case 2
    with assms FirstReceive show ?thesis
      by (intro exI [of _ ?p1] conjI drain_step [of p ?p1 ?p1] drain_stop) (auto simp: sig_ok_def)
  next
    case 3
    with assms FirstReceive show ?thesis
      by (intro exI [of _ ?p2] conjI drain_step [of p ?p1 ?p2] drain_step [of ?p1 ?p2 ?p2] drain_stop)
        (auto simp: sig_ok_def)
  qed
next
  case SecondReceive
  let ?p1 = "p\<lparr>buffered := buffered p - 1, handlerAt := Gone, ended := Some (Exited 1)\<rparr>"
  show ?thesis
  proof (cases "buffered p = 0")
    case True
    with assms SecondReceive show ?thesis
      by (intro exI [of _ p] conjI drain_stop) (auto simp: sig_ok_def)
  next
    case False
    with assms SecondReceive show ?thesis
      by (intro exI [of _ ?p1] conjI drain_step [of p ?p1 ?p1] drain_stop) (auto simp: sig_ok_def)
  qed
next
  case Gone
  with assms show ?thesis by (simp add: sig_ok_def)
qed

end
