(* ===== verification/Mocks.thy ===== *)
theory Mocks
  imports Go_Prelude
begin

text \<open>
  pkg/testutil/mock.go: the mock that records the calls a test expects, then the calls that are made,
  and compares them. The failures a test is told of are the result of a verification; \<open>order\<close> is the
  order a range visits the keys of a map in. An argument is a Go value of any type: nil, a value that
  implements the marker interface \<^verbatim>\<open>Any\<close>, or another value, on which \<^verbatim>\<open>reflect.DeepEqual\<close> is equality.
  Also \<^verbatim>\<open>StringArrayContains\<close> of contains.go and the informer of pkg/controller/fakeinformer.go.
\<close>

datatype 'v arg = NilArg | AnyArg | ValArg 'v

type_synonym 'v args = "'v arg gomap"

record 'v methodRecords =
  expectedCalls :: "'v args list"
  recordedCalls :: "'v args list"

record 'v Mock =
  records :: "'v methodRecords gomap"
  isSetup :: bool

definition NewMock :: "'v Mock" where
  "NewMock = \<lparr>records = [], isSetup = False\<rparr>"

definition newMethodRecords :: "'v methodRecords" where
  "newMethodRecords = \<lparr>expectedCalls = [], recordedCalls = []\<rparr>"

definition add :: "'v args \<Rightarrow> bool \<Rightarrow> 'v methodRecords \<Rightarrow> 'v methodRecords" where
  "add args isRecordedCall m =
     (if isRecordedCall then m\<lparr>recordedCalls := recordedCalls m @ [args]\<rparr>
      else m\<lparr>expectedCalls := expectedCalls m @ [args]\<rparr>)"

definition SetupComplete :: "'v Mock \<Rightarrow> 'v Mock" where
  "SetupComplete m = m\<lparr>isSetup := True\<rparr>"

definition GetIsSetup :: "'v Mock \<Rightarrow> bool" where
  "GetIsSetup m = isSetup m"

definition Record :: "string \<Rightarrow> 'v args \<Rightarrow> 'v Mock \<Rightarrow> 'v Mock" where
  "Record funcName args m =
     (let methodRecords = (case mlookup (records m) funcName of None \<Rightarrow> newMethodRecords | Some r \<Rightarrow> r)
      in m\<lparr>records := mset_key funcName (add args (GetIsSetup m) methodRecords) (records m)\<rparr>)"

definition reset :: "'v Mock \<Rightarrow> 'v Mock" where
  "reset m = m\<lparr>records := [], isSetup := False\<rparr>"

section \<open>Verification\<close>

datatype failure = WrongCount string nat nat | WrongArgument string string

definition compareArgs ::
  "(string list \<Rightarrow> string list) \<Rightarrow> string \<Rightarrow> 'v args \<Rightarrow> 'v args \<Rightarrow> failure list" where
  "compareArgs order funcName expectedArgs recordedArgs =
     concat (map (\<lambda>argName.
       let recordedValue = (case mlookup recordedArgs argName of None \<Rightarrow> NilArg | Some v \<Rightarrow> v)
       in case mlookup expectedArgs argName of
            None \<Rightarrow> []
          | Some AnyArg \<Rightarrow> if recordedValue = NilArg then [WrongArgument funcName argName] else []
          | Some expectedValue \<Rightarrow>
              if expectedValue \<noteq> recordedValue then [WrongArgument funcName argName] else [])
       (order (keys expectedArgs)))"

text \<open>The arguments expected of the \<open>i\<close>th call: those of the last expectation when there are fewer.\<close>

definition expectedArgsAt :: "'v args list \<Rightarrow> nat \<Rightarrow> 'v args" where
  "expectedArgsAt expected i =
     (let expectationCount = length expected
      in if expectationCount \<noteq> 0 then
           (if i \<ge> expectationCount then expected ! (expectationCount - 1) else expected ! i)
         else [])"

definition verifyMethod ::
  "(string list \<Rightarrow> string list) \<Rightarrow> string \<Rightarrow> 'v methodRecords \<Rightarrow> failure list" where
  "verifyMethod order funcName mRecords =
     (let expectationCount = length (expectedCalls mRecords);
          recordedCount = length (recordedCalls mRecords)
      in if recordedCount < expectationCount then [WrongCount funcName expectationCount recordedCount]
         else concat (map (\<lambda>i. compareArgs order funcName
                (expectedArgsAt (expectedCalls mRecords) i) (recordedCalls mRecords ! i)) [0..<recordedCount]))"

definition verifyMethodStrict ::
  "(string list \<Rightarrow> string list) \<Rightarrow> string \<Rightarrow> 'v methodRecords \<Rightarrow> failure list" where
  "verifyMethodStrict order funcName mRecords =
     (if length (expectedCalls mRecords) \<noteq> length (recordedCalls mRecords)
      then [WrongCount funcName (length (expectedCalls mRecords)) (length (recordedCalls mRecords))]
      else concat (map (\<lambda>i. compareArgs order funcName
             (expectedCalls mRecords ! i) (recordedCalls mRecords ! i)) [0..<length (recordedCalls mRecords)]))"

definition rangeRecords ::
  "(string list \<Rightarrow> string list) \<Rightarrow> (string \<Rightarrow> 'v methodRecords \<Rightarrow> failure list) \<Rightarrow> 'v Mock \<Rightarrow> failure list" where
  "rangeRecords order f m =
     concat (map (\<lambda>funcName. case mlookup (records m) funcName of None \<Rightarrow> [] | Some r \<Rightarrow> f funcName r)
       (order (keys (records m))))"

definition Verify :: "(string list \<Rightarrow> string list) \<Rightarrow> 'v Mock \<Rightarrow> failure list \<times> 'v Mock" where
  "Verify order m = (rangeRecords order (verifyMethod order) m, reset m)"

definition VerifyStrict :: "(string list \<Rightarrow> string list) \<Rightarrow> 'v Mock \<Rightarrow> failure list \<times> 'v Mock" where
  "VerifyStrict order m = (rangeRecords order (verifyMethodStrict order) m, reset m)"

fun StringArrayContains :: "string list \<Rightarrow> string \<Rightarrow> bool" where
  "StringArrayContains [] e = False"
| "StringArrayContains (a # s) e = (if a = e then True else StringArrayContains s e)"

section \<open>The informer\<close>

text \<open>A handler is what it does to the world when an object is added, updated or deleted.\<close>

record ('o, 'w) eventHandler =
  OnAdd :: "'o \<Rightarrow> 'w \<Rightarrow> 'w"
  OnUpdate :: "'o \<Rightarrow> 'o \<Rightarrow> 'w \<Rightarrow> 'w"
  OnDelete :: "'o \<Rightarrow> 'w \<Rightarrow> 'w"

record ('o, 'w) FakeInformer =
  Synced :: bool
  RunCount :: int
  handlers :: "('o, 'w) eventHandler list"

definition HasSynced :: "('o, 'w) FakeInformer \<Rightarrow> bool" where
  "HasSynced f = Synced f"

definition AddEventHandler ::
  "('o, 'w) eventHandler \<Rightarrow> ('o, 'w) FakeInformer \<Rightarrow> ('o, 'w) FakeInformer" where
  "AddEventHandler handler f = f\<lparr>handlers := handlers f @ [handler]\<rparr>"

definition runInformer :: "('o, 'w) FakeInformer \<Rightarrow> ('o, 'w) FakeInformer" where
  "runInformer f = f\<lparr>RunCount := RunCount f + 1\<rparr>"

definition addObject :: "('o, 'w) FakeInformer \<Rightarrow> 'o \<Rightarrow> 'w \<Rightarrow> 'w" where
  "addObject f obj = fold (\<lambda>h. OnAdd h obj) (handlers f)"

definition updateObject :: "('o, 'w) FakeInformer \<Rightarrow> 'o \<Rightarrow> 'o \<Rightarrow> 'w \<Rightarrow> 'w" where
  "updateObject f oldObj newObj = fold (\<lambda>h. OnUpdate h oldObj newObj) (handlers f)"

definition deleteObject :: "('o, 'w) FakeInformer \<Rightarrow> 'o \<Rightarrow> 'w \<Rightarrow> 'w" where
  "deleteObject f obj = fold (\<lambda>h. OnDelete h obj) (handlers f)"

section \<open>What is recorded\<close>

text \<open>The calls of one function among those a test makes, in order.\<close>

definition callsOf :: "string \<Rightarrow> (string \<times> 'v args) list \<Rightarrow> 'v args list" where
  "callsOf f cs = map snd (filter (\<lambda>c. fst c = f) cs)"

definition recordAll :: "(string \<times> 'v args) list \<Rightarrow> 'v Mock \<Rightarrow> 'v Mock" where
  "recordAll cs m = fold (\<lambda>(f, args). Record f args) cs m"

text \<open>A test: expectations, the end of the set-up, calls.\<close>

definition runTest :: "(string \<times> 'v args) list \<Rightarrow> (string \<times> 'v args) list \<Rightarrow> 'v Mock" where
  "runTest expectations calls = recordAll calls (SetupComplete (recordAll expectations NewMock))"

definition recordsAt :: "'v Mock \<Rightarrow> string \<Rightarrow> 'v methodRecords" where
  "recordsAt m f = (case mlookup (records m) f of None \<Rightarrow> newMethodRecords | Some r \<Rightarrow> r)"

lemma recordsAt_Record:
  "recordsAt (Record f args m) g = (if g = f then add args (isSetup m) (recordsAt m f) else recordsAt m g)"
  by (simp add: recordsAt_def Record_def GetIsSetup_def Let_def)

lemma isSetup_Record [simp]: "isSetup (Record f args m) = isSetup m"
  by (simp add: Record_def Let_def)

lemma recordAll_simps [simp]:
  "recordAll [] m = m" "recordAll ((f, args) # cs) m = recordAll cs (Record f args m)"
  by (simp_all add: recordAll_def)

lemma isSetup_recordAll [simp]: "isSetup (recordAll cs m) = isSetup m"
proof (induction cs arbitrary: m)
  case (Cons c cs)
  then show ?case by (cases c) simp
qed simp

lemma callsOf_simps [simp]:
  "callsOf f [] = []" "callsOf f ((g, args) # cs) = (if g = f then args # callsOf f cs else callsOf f cs)"
  by (simp_all add: callsOf_def)

lemma calls_recordAll:
  "recordedCalls (recordsAt (recordAll cs m) f) =
     recordedCalls (recordsAt m f) @ (if isSetup m then callsOf f cs else [])"
  "expectedCalls (recordsAt (recordAll cs m) f) =
     expectedCalls (recordsAt m f) @ (if isSetup m then [] else callsOf f cs)"
  by (induction cs arbitrary: m) (auto simp: recordsAt_Record add_def)

lemma calls_NewMock [simp]:
  "recordedCalls (recordsAt NewMock f) = []" "expectedCalls (recordsAt NewMock f) = []" "isSetup NewMock = False"
  by (simp_all add: recordsAt_def NewMock_def newMethodRecords_def)

lemma SetupComplete_simps [simp]:
  "recordsAt (SetupComplete m) f = recordsAt m f" "isSetup (SetupComplete m)"
  by (simp_all add: recordsAt_def SetupComplete_def)

lemma calls_runTest [simp]:
  "recordedCalls (recordsAt (runTest es cs) f) = callsOf f cs"
  "expectedCalls (recordsAt (runTest es cs) f) = callsOf f es"
  by (simp_all add: runTest_def calls_recordAll)

lemma dom_Record: "dom (mlookup (records (Record f args m))) = insert f (dom (mlookup (records m)))"
  by (simp add: Record_def Let_def)

lemma dom_recordAll: "dom (mlookup (records (recordAll cs m))) = dom (mlookup (records m)) \<union> fst ` set cs"
proof (induction cs arbitrary: m)
  case (Cons c cs)
  then show ?case by (cases c) (simp add: dom_Record)
qed simp

lemma dom_runTest: "dom (mlookup (records (runTest es cs))) = fst ` set es \<union> fst ` set cs"
  by (simp add: runTest_def dom_recordAll SetupComplete_def NewMock_def)

section \<open>Reference\<close>

text \<open>
  The documentation's account: an expected value is met by an equal one, \<^verbatim>\<open>Any\<close> by every value but nil,
  and expected arguments by arguments that meet each of them, a missing one counting as nil.
\<close>

fun meets :: "'v arg \<Rightarrow> 'v arg \<Rightarrow> bool" where
  "meets AnyArg v \<longleftrightarrow> v \<noteq> NilArg"
| "meets e v \<longleftrightarrow> e = v"

definition argsMeet :: "'v args \<Rightarrow> 'v args \<Rightarrow> bool" where
  "argsMeet expected given \<longleftrightarrow> (\<forall>k e. mlookup expected k = Some e \<longrightarrow>
     meets e (case mlookup given k of None \<Rightarrow> NilArg | Some v \<Rightarrow> v))"

text \<open>Strictly: call for call. Nicely: no fewer calls than expected, the rest as the last one, or
  anything if nothing is expected.\<close>

definition strictlyMet :: "'v args list \<Rightarrow> 'v args list \<Rightarrow> bool" where
  "strictlyMet expected given \<longleftrightarrow> list_all2 argsMeet expected given"

definition nicelyMet :: "'v args list \<Rightarrow> 'v args list \<Rightarrow> bool" where
  "nicelyMet expected given \<longleftrightarrow> expected = [] \<or>
     (\<exists>first rest. given = first @ rest \<and> list_all2 argsMeet expected first \<and>
        list_all (argsMeet (last expected)) rest)"

lemma compareArgs_Nil:
  assumes "set (order (keys e)) = set (keys e)"
  shows "compareArgs order f e g = [] \<longleftrightarrow> argsMeet e g"
proof -
  let ?v = "\<lambda>k. case mlookup g k of None \<Rightarrow> NilArg | Some v \<Rightarrow> v"
  have arm: "(let v = ?v k in case mlookup e k of None \<Rightarrow> []
      | Some AnyArg \<Rightarrow> if v = NilArg then [WrongArgument f k] else []
      | Some x \<Rightarrow> if x \<noteq> v then [WrongArgument f k] else []) = [] \<longleftrightarrow>
      (\<forall>x. mlookup e k = Some x \<longrightarrow> meets x (?v k))" for k
  proof (cases "mlookup e k")
    case (Some x)
    then show ?thesis by (cases x) (simp_all add: Let_def)
  qed simp
  show ?thesis
    unfolding compareArgs_def concat_eq_Nil_conv set_map ball_simps(9) arm argsMeet_def assms set_keys
    by (auto simp: dom_def)
qed

lemma verifyMethodStrict_Nil:
  assumes "\<And>e :: 'v args. set (order (keys e)) = set (keys e)"
  shows "verifyMethodStrict order f r = [] \<longleftrightarrow> strictlyMet (expectedCalls r) (recordedCalls (r :: 'v methodRecords))"
  using assms by (auto simp: verifyMethodStrict_def strictlyMet_def list_all2_conv_all_nth compareArgs_Nil)

lemma verifyMethod_Nil:
  assumes "\<And>e :: 'v args. set (order (keys e)) = set (keys e)"
  shows "verifyMethod order f r = [] \<longleftrightarrow> nicelyMet (expectedCalls r) (recordedCalls (r :: 'v methodRecords))"
proof -
  let ?e = "expectedCalls r" and ?g = "recordedCalls r"
  have "verifyMethod order f r = [] \<longleftrightarrow>
      length ?e \<le> length ?g \<and> (\<forall>i < length ?g. argsMeet (expectedArgsAt ?e i) (?g ! i))"
    using assms by (auto simp: verifyMethod_def Let_def compareArgs_Nil)
  also have "\<dots> \<longleftrightarrow> nicelyMet ?e ?g"
  proof (cases "?e = []")
    case True
    then show ?thesis by (simp add: nicelyMet_def expectedArgsAt_def argsMeet_def Let_def)
  next
    case False
    have at: "expectedArgsAt ?e i = (if i < length ?e then ?e ! i else last ?e)" for i
      using False by (simp add: expectedArgsAt_def Let_def last_conv_nth)
    show ?thesis
    proof
      assume l: "length ?e \<le> length ?g \<and> (\<forall>i < length ?g. argsMeet (expectedArgsAt ?e i) (?g ! i))"
      then have a: "argsMeet (if i < length ?e then ?e ! i else last ?e) (?g ! i)" if "i < length ?g" for i
        using that by (simp only: at)
      have "argsMeet (?e ! i) (?g ! i)" if "i < length ?e" for i using a [of i] l that by simp
      then have "list_all2 argsMeet ?e (take (length ?e) ?g)" using l by (simp add: list_all2_conv_all_nth)
      moreover have "argsMeet (last ?e) (?g ! (length ?e + n))" if "n < length ?g - length ?e" for n
        using a [of "length ?e + n"] that by simp
      then have "list_all (argsMeet (last ?e)) (drop (length ?e) ?g)" by (simp add: list_all_length)
      ultimately show "nicelyMet ?e ?g" unfolding nicelyMet_def by (metis append_take_drop_id)
    next
      assume "nicelyMet ?e ?g"
      with False obtain first rest where g: "?g = first @ rest" "list_all2 argsMeet ?e first"
        "list_all (argsMeet (last ?e)) rest" by (auto simp: nicelyMet_def)
      then have "length ?e = length first" by (simp add: list_all2_lengthD)
      with g show "length ?e \<le> length ?g \<and> (\<forall>i < length ?g. argsMeet (expectedArgsAt ?e i) (?g ! i))"
        by (auto simp: at nth_append list_all2_conv_all_nth list_all_length)
    qed
  qed
  finally show ?thesis .
qed

text \<open>The verification of all methods, in any order.\<close>

lemma rangeRecords_Nil:
  assumes "set (order (keys (records m))) = set (keys (records m))"
    and "\<And>f. f \<notin> dom (mlookup (records m)) \<Longrightarrow> check f newMethodRecords = []"
  shows "rangeRecords order check m = [] \<longleftrightarrow> (\<forall>f. check f (recordsAt m f) = [])"
proof -
  have "rangeRecords order check m = [] \<longleftrightarrow> (\<forall>f \<in> dom (mlookup (records m)). check f (recordsAt m f) = [])"
    using assms(1) by (auto simp: rangeRecords_def recordsAt_def split: option.splits)
  moreover have "recordsAt m f = newMethodRecords" if "f \<notin> dom (mlookup (records m))" for f
    using that by (auto simp: recordsAt_def domIff)
  ultimately show ?thesis using assms(2) by metis
qed

end
