(* ===== verification/Props_Tests.thy ===== *)
theory Props_Tests
  imports Mocks Memory_Server Secrets_Impl
begin

text \<open>
  Properties of the test doubles of pkg/testutil: what the mock verifies, what the fake secrets keep,
  that the test listers are listers in the sense of the reconcilers' properties, and where they are
  not.
\<close>

section \<open>The mock\<close>

lemma strictly_nicely: "strictlyMet e g \<Longrightarrow> nicelyMet e g"
  unfolding strictlyMet_def nicelyMet_def by (metis append_Nil2 list.pred_inject(1))

text \<open>C30: after a test that states expectations, completes the set-up and makes calls, \<^verbatim>\<open>VerifyStrict\<close>
  reports nothing exactly if every function was called as often as expected, with arguments that meet
  those expected; \<^verbatim>\<open>Verify\<close> exactly if every function with expectations was, its further calls meeting the
  last one; whatever order the maps are visited in. The first implies the second, and either leaves a
  new mock.\<close>

theorem mock_verifies:
  assumes "\<And>ks. set (order ks) = set ks"
  shows "(fst (VerifyStrict order (runTest es cs)) = [] \<longleftrightarrow> (\<forall>f. strictlyMet (callsOf f es) (callsOf f cs))) \<and>
    (fst (Verify order (runTest es cs)) = [] \<longleftrightarrow> (\<forall>f. nicelyMet (callsOf f es) (callsOf f cs))) \<and>
    (fst (VerifyStrict order (runTest es cs)) = [] \<longrightarrow> fst (Verify order (runTest es cs)) = []) \<and>
    snd (VerifyStrict order (runTest es cs)) = NewMock \<and> snd (Verify order (runTest es cs)) = NewMock"
proof -
  have s: "fst (VerifyStrict order (runTest es cs)) = [] \<longleftrightarrow> (\<forall>f. strictlyMet (callsOf f es) (callsOf f cs))"
    unfolding VerifyStrict_def fst_conv
    by (subst rangeRecords_Nil) (simp_all add: assms verifyMethodStrict_Nil newMethodRecords_def strictlyMet_def)
  moreover have n: "fst (Verify order (runTest es cs)) = [] \<longleftrightarrow> (\<forall>f. nicelyMet (callsOf f es) (callsOf f cs))"
    unfolding Verify_def fst_conv
    by (subst rangeRecords_Nil) (simp_all add: assms verifyMethod_Nil newMethodRecords_def nicelyMet_def)
  moreover have "reset m = NewMock" for m :: "'a Mock"
    by (cases m) (simp add: reset_def NewMock_def)
  ultimately show ?thesis
    using strictly_nicely by (simp add: Verify_def VerifyStrict_def) blast
qed

text \<open>One expectation, two calls: the strict verification reports the count, the other one nothing.\<close>

lemma mock_verifies_witness:
  "fst (Verify (\<lambda>ks. ks) (runTest [(''f'', [(''n'', AnyArg)])] [(''f'', [(''n'', ValArg (1::nat))]), (''f'', [(''n'', ValArg 2)])])) = [] \<and>
   fst (VerifyStrict (\<lambda>ks. ks) (runTest [(''f'', [(''n'', AnyArg)])] [(''f'', [(''n'', ValArg (1::nat))]), (''f'', [(''n'', ValArg 2)])])) \<noteq> []"
proof -
  let ?es = "[(''f'', [(''n'', AnyArg)])] :: (string \<times> nat args) list"
    and ?cs = "[(''f'', [(''n'', ValArg 1)]), (''f'', [(''n'', ValArg 2)])]"
  have a: "argsMeet [(''n'', AnyArg)] [(''n'', ValArg k)]" for k :: nat by (simp add: argsMeet_def)
  have "nicelyMet (callsOf f ?es) (callsOf f ?cs)" for f
    unfolding nicelyMet_def
    by (cases "f = ''f''") (simp_all add: a append_eq_Cons_conv exI [of _ "[[(''n'', ValArg 1)]]"])
  moreover have "\<not> strictlyMet (callsOf ''f'' ?es) (callsOf ''f'' ?cs)"
    by (simp add: strictlyMet_def)
  ultimately show ?thesis
    using mock_verifies [where order = "\<lambda>ks. ks" and es = ?es and cs = ?cs] by blast
qed

section \<open>The fake secrets\<close>

text \<open>The fake of the secrets interface is a map by name: creating and updating store the secret under
  its name, deleting removes the name, \<^verbatim>\<open>Get\<close> reads it, with no error for a name that is not there, and
  \<^verbatim>\<open>List\<close> gives the secrets of the namespace that match; nothing is sent.\<close>

theorem fake_secrets_map:
  assumes "\<And>ks. set (order ks) = set ks"
  shows "wpt (secCreate (FakeSecrets order) x) (\<lambda>r s'. r = (Some x, None) \<and> sent s' = sent s \<and>
      mlookup (fst (world s')) = (mlookup (fst (world s)))(Name x \<mapsto> x)) s \<and>
    wpt (secUpdate (FakeSecrets order) x) (\<lambda>r s'. r = (Some x, None) \<and> sent s' = sent s \<and>
      mlookup (fst (world s')) = (mlookup (fst (world s)))(Name x \<mapsto> x)) s \<and>
    wpt (secDelete (FakeSecrets order) ns n) (\<lambda>e s'. e = None \<and> sent s' = sent s \<and>
      mlookup (fst (world s')) = (mlookup (fst (world s)))(n := None)) s \<and>
    wpt (secGet (FakeSecrets order) n) (\<lambda>r s'. r = (mlookup (fst (world s)) n, None) \<and> s' = s) s \<and>
    wpt (secList (FakeSecrets order) ns sel) (\<lambda>(l, e) s'. e = None \<and> s' = s \<and>
      set l = {x. Namespace x = ns \<and> matches sel (Labels x) \<and> x \<in> ran (mlookup (fst (world s)))}) s"
proof -
  have "set (List.map_filter (\<lambda>i. case mlookup m i of
         Some s \<Rightarrow> if Namespace s = ns \<and> matches sel (Labels s) then Some s else None
       | None \<Rightarrow> None) (order (keys m))) =
      {x. Namespace x = ns \<and> matches sel (Labels x) \<and> x \<in> ran (mlookup m)}" for m :: "Secret gomap"
  proof (intro set_eqI)
    fix x
    let ?f = "\<lambda>i. case mlookup m i of
         Some s \<Rightarrow> if Namespace s = ns \<and> matches sel (Labels s) then Some s else None
       | None \<Rightarrow> None"
    have "?f i = Some x \<longleftrightarrow> mlookup m i = Some x \<and> Namespace x = ns \<and> matches sel (Labels x)" for i
      by (auto split: option.split)
    moreover have "x \<in> set (List.map_filter ?f is) \<longleftrightarrow> (\<exists>i \<in> set is. ?f i = Some x)" for "is"
      by (induction "is") (auto simp: List.map_filter_simps split: option.splits)
    ultimately show "x \<in> set (List.map_filter ?f (order (keys m))) \<longleftrightarrow>
        x \<in> {x. Namespace x = ns \<and> matches sel (Labels x) \<and> x \<in> ran (mlookup m)}"
      using assms by (auto simp: ran_def)
  qed
  then show ?thesis
    by (auto simp: FakeSecrets_def wp_simps split: prod.split)
qed

lemma fake_secrets_map_witness:
  "wpt (secCreate (FakeSecrets (\<lambda>ks. ks)) (testSecret ''ns'' ''n'' [])) (\<lambda>r s'. r = (Some (testSecret ''ns'' ''n'' []), None) \<and>
      sent s' = [] \<and> mlookup (fst (world s')) = [''n'' \<mapsto> testSecret ''ns'' ''n'' []]) \<lparr>sent = [], world = ([], ())\<rparr>"
  using conjunct1 [OF fake_secrets_map [where order = "\<lambda>ks. ks" and x = "testSecret ''ns'' ''n'' []"
      and s = "\<lparr>sent = [], world = ([], ())\<rparr>"]]
  by (simp add: testSecret_def ObjectMeta.defs Secret.defs noMeta_def)

section \<open>The listers\<close>

text \<open>A cluster with a secret without labels.\<close>

definition secretTable :: tables where
  "secretTable = (\<lambda>_. [KNamespace (getNamespace ''app'' []), KSecret (testSecret ''app'' ''s'' [])])"

text \<open>C31: the listers of the tests are listers: on client sets that are stores, and know every namespace
  that holds an object, the listers of namespaced kinds, which go through the namespaces, and those of
  cluster-scoped kinds give and list what the stores hold. The secret lister is not one: it lists the same
  whatever the selector, so it hands secrets without a label to a reconciler that asks for the label.\<close>

theorem test_listers_refine:
  assumes "namespaced_store R conns wrap ok rc view rest (\<lambda>c. csNamespaces (KubeClient c))"
    and "nil_store R conns wrap' nsOf ok' rc' view' rest'"
  shows "kind_store R conns wrap Namespace ok rc view rest (\<lambda>c. simpleLister (csNamespaces (KubeClient c)) (rc c)) \<and>
    kind_store R conns wrap' nsOf ok' rc' view' rest' (\<lambda>c. simpleClusterLister (rc' c)) \<and>
    lsList (SimpleSecretLister pw cs) ns sel w = lsList (SimpleSecretLister pw cs) ns sel' w \<and>
    \<not> storeOf memoryRuntime memoryConnections memory SecretKind KSecret asSecret Namespace csSecrets SecretLister"
proof (intro conjI)
  show "kind_store R conns wrap Namespace ok rc view rest (\<lambda>c. simpleLister (csNamespaces (KubeClient c)) (rc c))"
    by (rule namespaced_store.namespaced_lister [OF assms(1)], rule refl)
  show "kind_store R conns wrap' nsOf ok' rc' view' rest' (\<lambda>c. simpleClusterLister (rc' c))"
    by (rule nil_store.clusterwide_lister [OF assms(2)], rule refl)
  show "lsList (SimpleSecretLister pw cs) ns sel w = lsList (SimpleSecretLister pw cs) ns sel' w"
    by (simp add: SimpleSecretLister_def listSecrets_def [abs_def])
  let ?c = "memoryConnection ''local''" and ?x = "testSecret ''app'' ''s'' []"
  show "\<not> storeOf memoryRuntime memoryConnections memory SecretKind KSecret asSecret Namespace csSecrets SecretLister"
  proof
    assume "storeOf memoryRuntime memoryConnections memory SecretKind KSecret asSecret Namespace csSecrets SecretLister"
    from kind_store.lister_list [OF this, of "''local''" ?c "''app''" "[(''a'', ''b'')]" secretTable]
    obtain xs where xs: "lsList (SecretLister ?c) ''app'' [(''a'', ''b'')] secretTable = ((xs, None), secretTable)"
      "\<And>x. x \<in> set xs \<Longrightarrow> matches [(''a'', ''b'')] (Labels x)" by (auto simp: memoryConnections_def)
    have x: "Name ?x = ''s''" "Namespace ?x = ''app''" "Labels ?x = []"
      by (simp_all add: testSecret_def ObjectMeta.defs Secret.defs noMeta_def)
    have "xs = [?x]"
      using xs(1)
      by (simp add: memory_defs SimpleSecretLister_def listSecrets_def tableClient_def objects_def secretTable_def
          typed_def memory_def seen_def creatable_def inTable_def List.map_filter_simps x)
    with xs(2) [of ?x] x(3) show False by (simp add: matches_def)
  qed
qed

lemma test_listers_refine_witness:
  "deploymentStore memoryRuntime memoryConnections memory \<and> namespaceStore memoryRuntime memoryConnections memory"
proof -
  note T = test_listers_refine [OF deps.namespaced_store_axioms nsa.nil_store_axioms]
  show ?thesis
    by (rule conjI, rule kind_store_lister [OF conjunct1 [OF T]], erule memory_listers(1),
        rule kind_store_lister [OF conjunct1 [OF conjunct2 [OF T]]], erule memory_listers(8))
qed

end
