(* ===== verification/Managed_Constants.thy ===== *)
theory Managed_Constants
  imports Types
begin

text \<open>
  src/pkg/managed/constants.go: names around Prometheus and the template of a scrape configuration with its
  placeholders. No function refers to them at this commit.
\<close>

definition IstioNamespace :: string where
  "IstioNamespace = ''istio-system''"

definition IstioPrometheusCMName :: string where
  "IstioPrometheusCMName = ''prometheus''"

definition PrometheusYml :: string where
  "PrometheusYml = ''prometheus.yml''"

definition PrometheusLabel :: string where
  "PrometheusLabel = ''app=prometheus''"

definition PrometheusScrapeConfigsLabel :: string where
  "PrometheusScrapeConfigsLabel = ''scrape_configs''"

definition PrometheusJobNameLabel :: string where
  "PrometheusJobNameLabel = ''job_name''"

definition BasicAuthLabel :: string where
  "BasicAuthLabel = ''basic_auth''"

definition UsernameLabel :: string where
  "UsernameLabel = ''username''"

definition PasswordLabel :: string where
  "PasswordLabel = ''password''"

definition JobNameHolder :: string where
  "JobNameHolder = ''##JOB_NAME##''"

definition NamespaceHolder :: string where
  "NamespaceHolder = ''##NAMESPACE##''"

definition KeepSourceLabelsHolder :: string where
  "KeepSourceLabelsHolder = ''##KEEP_SOURCE_LABELS##''"

definition KeepSourceLabelsRegexHolder :: string where
  "KeepSourceLabelsRegexHolder = ''##KEEP_SOURCE_LABELS_REGEX##''"

definition ComponentBindingNameHolder :: string where
  "ComponentBindingNameHolder = ''##COMPONENT_BINDING_NAME##''"

definition managedNodeExporterName :: string where
  "managedNodeExporterName = ''system-node-exporter''"

definition NodeExporterNamespace :: string where
  "NodeExporterNamespace = ''monitoring''"

definition NodeExporterKeepSourceLabels :: string where
  "NodeExporterKeepSourceLabels = ''__meta_kubernetes_pod_label_app''"

definition NodeExporterKeepSourceLabelsRegex :: string where
  "NodeExporterKeepSourceLabelsRegex = ''node-exporter''"

text \<open>The template, line by line; each line ends with a line feed, and the first is empty.\<close>

definition PrometheusScrapeConfigTemplate :: string where
  "PrometheusScrapeConfigTemplate = concat (map (\<lambda>line. line @ [CHR 0x0A])
     [[],
      ''job_name: ##JOB_NAME##'',
      ''kubernetes_sd_configs:'',
      ''- role: pod'',
      ''  namespaces:'',
      ''    names:'',
      ''      - ##NAMESPACE##'',
      ''relabel_configs:'',
      ''- action: keep'',
      ''  source_labels: [##KEEP_SOURCE_LABELS##]'',
      ''  regex: ##KEEP_SOURCE_LABELS_REGEX##'',
      ''- source_labels: [__meta_kubernetes_pod_annotation_prometheus_io_path]'',
      ''  action: replace'',
      ''  target_label: __metrics_path__'',
      ''  regex: (.+)'',
      ''- source_labels: [__address__, __meta_kubernetes_pod_annotation_prometheus_io_port]'',
      ''  action: replace'',
      ''  regex: ([^:]+)(?::'' @ [CHR 0x5C] @ ''d+)?;('' @ [CHR 0x5C] @ ''d+)'',
      ''  replacement: $1:$2'',
      ''  target_label: __address__'',
      ''- action: labelmap'',
      ''  regex: __meta_kubernetes_pod_label_(.+)'',
      ''- source_labels: [__meta_kubernetes_pod_name]'',
      ''  action: replace'',
      ''  target_label: pod_name'',
      ''- regex: '' @ [CHR 0x27] @ ''(controller_revision_hash)'' @ [CHR 0x27],
      ''  action: labeldrop'',
      ''- source_labels: [name]'',
      ''  regex: '' @ [CHR 0x27] @ ''.*/(.*)$'' @ [CHR 0x27],
      ''  replacement: $1'',
      ''  target_label: webapp''])"

end
