(* ===== verification/Spec2Isabelle.thy ===== *)
theory Spec2Isabelle
  imports Props_Clusters Props_Managed Props_Resources Props_Local Props_Registry Props_Deployment
    Props_Convergence Props_System Props_Command Props_Tests Managed_Constants
begin

text \<open>
  \<^bold>\<open>The program.\<close> The Verrazzano operator runs in a management cluster. It keeps a controller
  (src/pkg/controller/controller.go) with models, bindings and, for each binding whose model is
  known, their pair (\<^verbatim>\<open>SyntheticModelBinding\<close>), which lists the managed clusters the binding is placed
  on and what is wanted there. Handlers bring the clusters to that state through client-go: listers
  read from informer caches, client sets send requests. At this commit the operator starts with one
  managed cluster, its own, and a system binding; the handlers of models and bindings are there, but
  only the unit tests call them.

  \<^bold>\<open>Theories.\<close> Each names the Go files it models; a definition has the name of the function, method or
  type it translates, and a loop or branch made a definition of its own says which one it is.

  \<^item> \<open>Go_Prelude\<close>: Go itself. Computations on a state, with return, panic and waiting as outcomes; loops
    with early return; maps as association lists; errors. The predicates \<open>safe\<close> (requests sent, panics
    and results, in any environment) and \<open>wp\<close>/\<open>wpt\<close> (preconditions), with their rules.
  \<^item> \<open>Kube\<close>, \<open>Types\<close>: the API objects as far as the code sets or reads them, clients, listers, requests;
    the data model of src/pkg/types/types.go, the constants, the connection to a cluster, and the loop
    over a pair's clusters that most reconcilers share (\<open>rangeClusters\<close>).
  \<^item> \<open>Util\<close>, \<open>Monitoring\<close>, \<open>Location\<close>: src/pkg/util, the node exporter objects of src/pkg/monitoring, and
    the construction of pairs (src/pkg/controller/verrazzano\_location.go).
  \<^item> \<open>Namespaces\<close>, \<open>Managed_Rbac\<close>, \<open>Managed_Accounts\<close>, \<open>Managed_Workloads\<close>, \<open>Managed_Secrets\<close>:
    src/pkg/managed, a group of creation, cleanup and deletion per kind of object.
  \<^item> \<open>Local_Secrets\<close>, \<open>Local_Vmis\<close>, \<open>Local_ConfigMaps\<close>: src/pkg/local, the objects in the management cluster.
  \<^item> \<open>Utf8\<close>, \<open>Json\<close>, \<open>Base64\<close>: what the code uses of the standard library's encodings, to the byte: runes and
    UTF-8, the escaping, the tokens and the scanner of encoding/json in the Go release of the Dockerfile,
    and encoding/base64, with their round trips. \<open>Acme_Json\<close> reads and writes the credentials of
    src/pkg/local/secrets.go by them.
  \<^item> \<open>Vmi_Secrets\<close>, \<open>Secrets_Impl\<close>: the credentials of the monitoring instances behind the interface
    \<^verbatim>\<open>Secrets\<close>, its contracts (locales \<open>secrets_ops\<close>,
    \<open>secrets_listing\<close>, \<open>secrets_store\<close>) and its two implementations, of which
    \<open>Secrets_Impl\<close> shows that the fake and \<open>Management_Store\<close> that the one on the API server meet them.
  \<^item> \<open>Interfaces\<close>: the interfaces of the controller, the packages behind them, and their contracts
    (locales \<open>managed_create\<close>, \<open>managed_delete\<close>, \<open>local_ops\<close>), interpreted on those packages.
  \<^item> \<open>Controller\<close>: the record \<open>Controller\<close> and every handler. \<open>Controller_Lemmas\<close> proves what they send from
    the contracts; \<open>Controller_Steps\<close> makes them events of a state machine and proves its invariant;
    \<open>Controller_Spec\<close> specifies the controller's records abstractly (\<open>registry\<close>, \<open>regStep\<close>) and proves
    that the handlers refine the specification. \<open>Finishing\<close> proves that the operations the startup
    handler calls always return or panic (\<open>finishes\<close>), and \<open>Operator_Start\<close> what \<^verbatim>\<open>NewController\<close> and
    \<^verbatim>\<open>Run\<close> come to (\<open>newlyMade\<close>).
  \<^item> \<open>Object_Store\<close>, \<open>Reconciling\<close>, \<open>Cluster_State\<close>: what API servers hold. The contracts of a client on a
    store of objects (locale \<open>api_store\<close>), of a lister whose lookups read the same store (\<open>read_store\<close>),
    of one whose listings do so too (\<open>kind_store\<close>), and of the step that handles one wanted object
    (\<open>reconciler\<close>, of which the two reconcilers of the repository are sublocales), the loops that create
    and delete proved once for any kind of object, and the kinds together, where an object can be
    created only in a namespace that exists.
  \<^item> \<open>Secret_Copies\<close>: what \<^verbatim>\<open>CreateSecrets\<close> wants on a cluster, the copies of the secrets of the management
    cluster, which is only read here (\<open>secretSource\<close>), and the copying as one more \<open>reconciler\<close> (locale
    \<open>secret_store\<close>).
  \<^item> \<open>Convergence\<close>, \<open>Deployment_Order\<close>, \<open>Startup\<close>: what that gives for each reconciler of pkg/managed, for
    the nine of them in the order of \<^verbatim>\<open>createManagedClusterResourcesForBinding\<close>, for any pair whose
    objects have keys of their own and lie in namespaces it wants (\<open>placeable\<close>), and for the handler
    that runs when the operator starts. \<open>Namespace_Deletion\<close>: the deletion of namespaces, for which the code
    waits, on servers that take their time over it (locale \<open>finalizing_store\<close>).
  \<^item> \<open>Management_Store\<close>, \<open>System_Instance\<close>: the same for the management cluster: what the operations of
    src/pkg/local and src/pkg/monitoring leave settled and what they may touch (\<open>credentialsSettled\<close>,
    \<open>dashboardsSettled\<close>, \<open>onlyTouches\<close>), and the rounds of \<^verbatim>\<open>createUpdateGlobalEntities\<close>.
  \<^item> \<open>Command\<close>, \<open>Signals\<close>: src/cmd/verrazzano-operator/main.go with the parsing of its flags, and
    src/pkg/signals, a state machine of signals, their channel and the goroutine that receives them.
  \<^item> \<open>Fakes\<close>, \<open>Mocks\<close>, \<open>Integ_Client\<close>, \<open>Integ_Util\<close>: the listers, connections, mock and informer of the
    unit tests (src/pkg/testutil, src/pkg/controller/fakeinformer.go), the client of the integration tests
    (src/test/integ/k8s) and the helpers of both (src/test/integ/util). \<open>Fakes\<close> proves that its listers
    meet the contract of a lister (locale \<open>namespaced_store\<close>) when their client set is one that answers nil
    beside a not-found error (locale \<open>nil_store\<close>), as the fake of client-go does.
  \<^item> \<open>Managed_Constants\<close>: src/pkg/managed/constants.go, which nothing uses.
  \<^item> \<open>Environment\<close>, \<open>Memory_Server\<close>, \<open>Lingering_Server\<close>: concrete environments for the witnesses; the third takes
    some ticks to remove a namespace, the second is a server that
    keeps every kind of object, on which the contracts of stores and listers are interpreted, with the
    listers of \<open>Fakes\<close>.
  \<^item> \<open>Props_Clusters\<close>, \<open>Props_Managed\<close>, \<open>Props_Resources\<close>, \<open>Props_Local\<close>, \<open>Props_Controller\<close>,
    \<open>Props_Registry\<close>, \<open>Props_Deployment\<close>, \<open>Props_Convergence\<close>, \<open>Props_System\<close>, \<open>Props_Command\<close>, \<open>Props_Tests\<close>: the
    properties, C1 to C40, numbered by importance, beside further theorems of the same kind.

  \<^bold>\<open>State and environment.\<close> The type \<open>'w\<close> is everything outside the program. The Kubernetes and VMO
  clients, the listers, \<^verbatim>\<open>diff.Diff\<close>, timers, random numbers, environment variables and the generated
  assets are parameters: records of functions over \<open>'w\<close>, which may answer
  anything and move the world at any call. Next to the world the state has a log of the mutating
  requests sent, which nothing reads. A range over a map visits the keys in the order \<open>rangeOrder\<close>
  gives; \<open>fairOrder\<close> says it visits each key once. Where a property needs a law of the API server
  (a lookup answers an object or an error, a lister and its server agree, random numbers are in
  range) the law is a hypothesis, met in the witness by the concrete environment.

  A nil slice and a nil map are the empty list, except where the code tells them apart (the data of a
  config map, the slice in the credentials); a nil pointer is \<open>None\<close>, and dereferencing one panics, which ends the process. Locks
  are not modelled, as one goroutine handles the events, but the dereference of the connection that
  holds one is. The handlers' updates through pointers are updates of the record they return.

  \<^bold>\<open>Loops and bounds.\<close> Loops over slices and maps are structural recursions. The two loops that wait on
  timers (\<open>waitNSLoop\<close>, \<open>waitClustersLoop\<close>) have a fuel, the parameter \<open>waitFuel\<close>, and yield \<open>Hang\<close>
  without it; C28 and C39 prove that a fuel above the number of ticks before the timeout suffices, so
  no property is about a wait cut short. The endless loop of the system instance is modelled up to any
  number of rounds, and a receive from a nil channel as \<open>Hang\<close>. Numbers that could overflow are
  read from the environment with the bounds of \<^verbatim>\<open>strconv\<close> written out (C40); the counters of
  \<^verbatim>\<open>bindingSyncThreshold\<close> stay between 0 and 4 (C8).

  \<^bold>\<open>What the properties show.\<close> The reconcilers, for any answers of the environment, send only what they
  should, where they should, and panic only where stated (C1, C3, C7, C18, C19, C21, C24, C25, C33, C38).
  On clusters whose API servers do as they are told and whose listers agree with them, they achieve what
  they are for: each kind of object, any well-formed pair and the cluster the operator starts on
  reach the wanted state and stay there (C2, C4, C5, C17), deletions and cleanups remove exactly what they are to
  (C12, C15, C16), credentials are made and kept (C10, C20), the system instance is set up
  by one round and left alone by all others (C14),
  those of the DNS extended (C22), and the checks of the integration tests pass
  (C11). The controller's records satisfy an invariant and refine a specification (C8, C9, C32).
  The selection of connections, the pairs, the flags, the settings and the contents of the objects are
  exactly characterized (C6, C13, C35, C40), the waits end (C28, C39), a second signal ends the
  process (C29), and the mock and the fakes of the unit tests do what they stand for (C30, C31).
  Others record defects of the code as it is: a failed update of the DNS credentials is lost (C23), the
  methods \<^verbatim>\<open>managedPackage\<close> does not define end every synchronization and deletion of a binding in a
  panic (C26, C27), an error that is only logged leads to a nil dereference (C34), \<^verbatim>\<open>Run\<close> and the
  main function can only wait forever once they have started (C36, C37), and the secret lister of the tests disregards its
  selector (C31).

  \<^bold>\<open>Not modelled.\<close> Where the text of an error ends with its cause, the cause is left out.
  \<^verbatim>\<open>NewController\<close> also starts the goroutine of \<^verbatim>\<open>createUpdateGlobalEntities\<close>, which is modelled by itself and
  is not a step of \<^verbatim>\<open>NewController\<close>. Left out are logging and its set-up (src/pkg/util/logs, src/pkg/util/flags); the event recorder; the
  goroutines that fill the informer caches, whose effect is that listers may answer differently at every
  call; in the controller the empty method \<^verbatim>\<open>updateIstioPolicies\<close> and \<^verbatim>\<open>ListerSet\<close>, which hands out pointers to
  two fields and which only a test calls; \<^verbatim>\<open>NewVal\<close> and \<^verbatim>\<open>New64Val\<close>, which take the address of a value. Of the
  tests' helpers, the error hook of the fake client set (\<^verbatim>\<open>MockError\<close>, a registration in a third-party
  library), the web handler \<^verbatim>\<open>InvokeHTTPHandler\<close> and the methods of the informer that return a constant.
\<close>

end
